(* ===== verification/Go_Prelude.thy ===== *)
theory Go_Prelude
  imports Main "HOL-Library.AList" "HOL-Library.Sublist"
begin

text \<open>
  The vocabulary the components share: what a Go program can do besides returning a value
  (panics, errors), Go maps, and the functions of the packages \<open>strings\<close>, \<open>strconv\<close>
  and \<open>fmt\<close> that the sources call.

  A Go map is an association list with distinct keys (\<open>gm_wf\<close>). The order of the list is
  the order in which a \<open>range\<close> over the map visits it; Go leaves that order open, and so do
  the lemmas, which hold for every list that represents the map. A nil map is \<open>None\<close>: it is
  read like an empty map, but \<open>reflect.DeepEqual\<close> tells the two apart.
\<close>

named_theorems gomap_simps \<open>what the loops over Go maps compute, as functions on lookups\<close>
named_theorems gomap_wf \<open>the operations keep the keys of a Go map distinct\<close>

section \<open>Panics and errors\<close>

datatype panic = NilPointer | IndexRange | DivideByZero | Panicked string

datatype go_error = NotFound | AlreadyExists | Errorf string

type_synonym 'a go = "panic + 'a"
type_synonym 'a result = "go_error + 'a"

definition go_bind :: "'a go \<Rightarrow> ('a \<Rightarrow> 'b go) \<Rightarrow> 'b go" where
  "go_bind x f = (case x of Inl p \<Rightarrow> Inl p | Inr a \<Rightarrow> f a)"

lemma go_bind_simps [simp]:
  "go_bind (Inl p) f = Inl p"
  "go_bind (Inr a) f = f a"
  by (simp_all add: go_bind_def)

lemma go_bind_Inr_iff: "go_bind x f = Inr b \<longleftrightarrow> (\<exists>a. x = Inr a \<and> f a = Inr b)"
  by (cases x) simp_all

section \<open>Go maps\<close>

type_synonym ('k, 'v) gomap = "('k \<times> 'v) list"

abbreviation gget :: "('k, 'v) gomap \<Rightarrow> 'k \<Rightarrow> 'v option" where
  "gget m k \<equiv> map_of m k"

abbreviation gput :: "'k \<Rightarrow> 'v \<Rightarrow> ('k, 'v) gomap \<Rightarrow> ('k, 'v) gomap" where
  "gput k v m \<equiv> AList.update k v m"

abbreviation gdel :: "'k \<Rightarrow> ('k, 'v) gomap \<Rightarrow> ('k, 'v) gomap" where
  "gdel k m \<equiv> AList.delete k m"

definition gm_wf :: "('k, 'v) gomap \<Rightarrow> bool" where
  "gm_wf m \<longleftrightarrow> distinct (map fst m)"

text \<open>Reading a map that may be nil.\<close>

definition gm_entries :: "('k, 'v) gomap option \<Rightarrow> ('k, 'v) gomap" where
  "gm_entries o' = (case o' of None \<Rightarrow> [] | Some m \<Rightarrow> m)"

definition gm_look :: "('k, 'v) gomap option \<Rightarrow> 'k \<Rightarrow> 'v option" where
  "gm_look o' k = gget (gm_entries o') k"

definition gm_wf_opt :: "('k, 'v) gomap option \<Rightarrow> bool" where
  "gm_wf_opt o' \<longleftrightarrow> gm_wf (gm_entries o')"

text \<open>\<open>m[k]\<close> on a map of strings: the zero value when the key is absent.\<close>

definition gstr :: "('k, string) gomap \<Rightarrow> 'k \<Rightarrow> string" where
  "gstr m k = (case gget m k of None \<Rightarrow> [] | Some v \<Rightarrow> v)"

text \<open>\<open>reflect.DeepEqual\<close> on two maps, nil or not.\<close>

fun gm_deep_equal :: "('k, 'v) gomap option \<Rightarrow> ('k, 'v) gomap option \<Rightarrow> bool" where
  "gm_deep_equal None None = True"
| "gm_deep_equal (Some a) (Some b) = (set a = set b)"
| "gm_deep_equal _ _ = False"

lemma gm_entries_simps [simp]:
  "gm_entries None = []"
  "gm_entries (Some m) = m"
  by (simp_all add: gm_entries_def)

lemma gm_look_simps [simp]:
  "gm_look None k = None"
  "gm_look (Some m) k = gget m k"
  by (simp_all add: gm_look_def)

lemma gm_wf_Nil [simp, gomap_wf]: "gm_wf []"
  by (simp add: gm_wf_def)

lemma gm_wf_opt_simps [simp]:
  "gm_wf_opt None"
  "gm_wf_opt (Some m) \<longleftrightarrow> gm_wf m"
  by (simp_all add: gm_wf_opt_def)

lemma gm_wf_gput [gomap_wf]: "gm_wf m \<Longrightarrow> gm_wf (gput k v m)"
  unfolding gm_wf_def by (rule distinct_update)

lemma gm_wf_gdel [gomap_wf]: "gm_wf m \<Longrightarrow> gm_wf (gdel k m)"
  unfolding gm_wf_def by (rule distinct_delete)

lemma gget_gput [simp]: "gget (gput k v m) k' = (if k' = k then Some v else gget m k')"
  by (simp add: update_conv')

lemma gget_gdel [simp]: "gget (gdel k m) k' = (if k' = k then None else gget m k')"
  by (simp add: delete_conv')

lemma gget_set_iff: "gm_wf m \<Longrightarrow> gget m k = Some v \<longleftrightarrow> (k, v) \<in> set m"
  by (simp add: gm_wf_def)

lemma gm_wf_same_set:
  assumes "gm_wf a" and "gm_wf b"
  shows "set a = set b \<longleftrightarrow> gget a = gget b"
proof
  assume "set a = set b"
  then have "gget a k = Some v \<longleftrightarrow> gget b k = Some v" for k v
    using assms by (simp add: gget_set_iff)
  then show "gget a = gget b"
    by (intro ext) (metis not_None_eq)
next
  assume same: "gget a = gget b"
  have "(k, v) \<in> set a \<longleftrightarrow> (k, v) \<in> set b" for k v
    using assms same by (simp flip: gget_set_iff)
  then show "set a = set b" by auto
qed

lemma gm_deep_equal_look:
  assumes "gm_wf_opt a" and "gm_wf_opt b" and "gm_deep_equal a b"
  shows "gm_look a = gm_look b"
  using assms by (cases a; cases b) (auto simp: gm_wf_same_set fun_eq_iff)

lemma gm_deep_equal_refl [simp]: "gm_deep_equal a a"
  by (cases a) simp_all

text \<open>
  The three loops the caches run over maps: copy every entry of another map, delete the keys of
  another map, and delete from a map, while ranging over it, the keys another map has.
\<close>

definition range_put :: "('k, 'v) gomap \<Rightarrow> ('k, 'v) gomap \<Rightarrow> ('k, 'v) gomap" where
  "range_put m other = fold (\<lambda>(k, v). gput k v) other m"

definition range_del :: "('k, 'v) gomap \<Rightarrow> ('k, 'w) gomap \<Rightarrow> ('k, 'v) gomap" where
  "range_del m other = fold (\<lambda>(k, _). gdel k) other m"

definition range_del_self :: "('k, 'v) gomap \<Rightarrow> ('k, 'w) gomap \<Rightarrow> ('k, 'v) gomap" where
  "range_del_self m other =
     fold (\<lambda>(k, _) acc. if gget other k \<noteq> None then gdel k acc else acc) m m"

lemma gget_fold_gput_notin:
  "k \<notin> fst ` set xs \<Longrightarrow> gget (fold (\<lambda>(k, v). gput k v) xs m) k = gget m k"
  by (induction xs arbitrary: m) auto

lemma gget_range_put [gomap_simps]:
  assumes "gm_wf other"
  shows "gget (range_put m other) k = (case gget other k of None \<Rightarrow> gget m k | Some v \<Rightarrow> Some v)"
  unfolding range_put_def using assms
proof (induction other arbitrary: m)
  case Nil
  then show ?case by simp
next
  case (Cons kv xs)
  then have wf: "gm_wf xs" and notin: "fst kv \<notin> fst ` set xs"
    by (auto simp: gm_wf_def)
  show ?case
  proof (cases "k = fst kv")
    case True
    with notin show ?thesis
      by (cases kv) (simp add: gget_fold_gput_notin)
  next
    case False
    with Cons.IH [OF wf, of "gput (fst kv) (snd kv) m"] show ?thesis
      by (cases kv) (simp split: option.split)
  qed
qed

lemma gget_range_del [gomap_simps]:
  "gget (range_del m other) k = (if gget other k = None then gget m k else None)"
  unfolding range_del_def
proof (induction other arbitrary: m)
  case Nil
  then show ?case by simp
next
  case (Cons kv xs)
  then show ?case by (cases kv) auto
qed

lemma gget_fold_del_self:
  "gget (fold (\<lambda>(k, _) acc. if gget other k \<noteq> None then gdel k acc else acc) xs m) k =
     (if k \<in> fst ` set xs \<and> gget other k \<noteq> None then None else gget m k)"
  by (induction xs arbitrary: m) (auto split: prod.splits)

lemma gget_range_del_self [gomap_simps]:
  "gget (range_del_self m other) k = (if gget other k = None then gget m k else None)"
  unfolding range_del_self_def gget_fold_del_self
  by (auto simp: map_of_eq_None_iff)

lemma gm_wf_fold:
  assumes "\<And>x acc. gm_wf acc \<Longrightarrow> gm_wf (f x acc)" and "gm_wf m"
  shows "gm_wf (fold f xs m)"
  using assms(2) by (induction xs arbitrary: m) (auto intro: assms(1))

lemma gm_wf_range_put [gomap_wf]: "gm_wf m \<Longrightarrow> gm_wf (range_put m other)"
  unfolding range_put_def by (rule gm_wf_fold) (auto intro: gomap_wf split: prod.splits)

lemma gm_wf_range_del [gomap_wf]: "gm_wf m \<Longrightarrow> gm_wf (range_del m other)"
  unfolding range_del_def by (rule gm_wf_fold) (auto intro: gomap_wf split: prod.splits)

lemma gm_wf_range_del_self [gomap_wf]: "gm_wf m \<Longrightarrow> gm_wf (range_del_self m other)"
  unfolding range_del_self_def by (rule gm_wf_fold) (auto intro: gomap_wf split: prod.splits)

text \<open>\<open>m[k] = append(m[k], v)\<close>, the map read as a map to slices.\<close>

definition gappend :: "'k \<Rightarrow> 'v list \<Rightarrow> ('k, 'v list) gomap \<Rightarrow> ('k, 'v list) gomap" where
  "gappend k vs m = gput k ((case gget m k of None \<Rightarrow> [] | Some old \<Rightarrow> old) @ vs) m"

lemma gget_gappend [simp]:
  "gget (gappend k vs m) k' =
     (if k' = k then Some ((case gget m k of None \<Rightarrow> [] | Some old \<Rightarrow> old) @ vs) else gget m k')"
  by (simp add: gappend_def)

lemma gm_wf_gappend [gomap_wf]: "gm_wf m \<Longrightarrow> gm_wf (gappend k vs m)"
  by (simp add: gappend_def gm_wf_gput)

text \<open>The element a search loop returns.\<close>

lemma find_SomeD: "find P xs = Some x \<Longrightarrow> x \<in> set xs \<and> P x"
  by (auto simp: find_Some_iff)

lemma find_append: "find P (xs @ ys) = (case find P xs of None \<Rightarrow> find P ys | Some x \<Rightarrow> Some x)"
  by (induction xs) simp_all

section \<open>Strings\<close>

text \<open>\<open>strings.HasSuffix\<close> and \<open>strings.HasPrefix\<close> are \<open>suffix\<close> and \<open>prefix\<close> of
  the list library, with the arguments the other way round.\<close>

definition trim_suffix :: "string \<Rightarrow> string \<Rightarrow> string" where
  "trim_suffix s suf = (if suffix suf s then take (length s - length suf) s else s)"

definition trim_prefix :: "string \<Rightarrow> string \<Rightarrow> string" where
  "trim_prefix s pre = (if prefix pre s then drop (length pre) s else s)"

text \<open>\<open>strings.ToLower\<close> on the ASCII letters; other bytes are left as they are.\<close>

definition lower_char :: "char \<Rightarrow> char" where
  "lower_char c = (let n = (of_char c :: nat) in if 65 \<le> n \<and> n \<le> 90 then char_of (n + 32) else c)"

definition to_lower :: "string \<Rightarrow> string" where
  "to_lower s = map lower_char s"

fun str_join :: "string list \<Rightarrow> string \<Rightarrow> string" where
  "str_join [] sep = []"
| "str_join [s] sep = s"
| "str_join (s # t # ss) sep = s @ sep @ str_join (t # ss) sep"

lemma trim_suffix_append [simp]: "trim_suffix (s @ suf) suf = s"
  by (simp add: trim_suffix_def suffix_def)

lemma trim_prefix_append [simp]: "trim_prefix (pre @ s) pre = s"
  by (simp add: trim_prefix_def)

section \<open>Decimal numbers\<close>

text \<open>\<open>strconv.Itoa\<close> and the verb \<open>%d\<close>.\<close>

definition digit_char :: "nat \<Rightarrow> char" where
  "digit_char d = char_of (48 + d)"

definition char_digit :: "char \<Rightarrow> nat option" where
  "char_digit c = (let n = (of_char c :: nat) in if 48 \<le> n \<and> n \<le> 57 then Some (n - 48) else None)"

fun nat_str :: "nat \<Rightarrow> string" where
  "nat_str n = (if n < 10 then [digit_char n] else nat_str (n div 10) @ [digit_char (n mod 10)])"

declare nat_str.simps [simp del]

definition itoa :: "int \<Rightarrow> string" where
  "itoa i = (if i < 0 then CHR ''-'' # nat_str (nat (- i)) else nat_str (nat i))"

text \<open>\<open>strconv.Atoi\<close>: an optional sign, then at least one decimal digit and nothing else; a
  number outside the 64-bit range is an error.\<close>

definition digits_val :: "string \<Rightarrow> nat option" where
  "digits_val s =
     (if s = [] then None
      else fold (\<lambda>c acc. case acc of None \<Rightarrow> None
                          | Some n \<Rightarrow> (case char_digit c of None \<Rightarrow> None | Some d \<Rightarrow> Some (10 * n + d)))
             s (Some 0))"

definition in_int64 :: "int \<Rightarrow> bool" where
  "in_int64 i \<longleftrightarrow> - (2 ^ 63) \<le> i \<and> i < 2 ^ 63"

definition atoi :: "string \<Rightarrow> int option" where
  "atoi s =
     (let (neg, body) = (case s of [] \<Rightarrow> (False, [])
                         | c # cs \<Rightarrow> if c = CHR ''-'' then (True, cs)
                                    else if c = CHR ''+'' then (False, cs) else (False, s))
      in case digits_val body of
           None \<Rightarrow> None
         | Some n \<Rightarrow> (let i = (if neg then - int n else int n) in if in_int64 i then Some i else None))"

lemma of_char_digit_char: "d < 10 \<Longrightarrow> (of_char (digit_char d) :: nat) = 48 + d"
  by (simp add: digit_char_def of_char_of)

lemma char_digit_digit_char [simp]: "d < 10 \<Longrightarrow> char_digit (digit_char d) = Some d"
  by (simp add: char_digit_def of_char_digit_char Let_def)

lemma digit_char_simps [simp]:
  "digit_char 0 = CHR ''0''" "digit_char (Suc 0) = CHR ''1''" "digit_char 1 = CHR ''1''" "digit_char 2 = CHR ''2''"
  "digit_char 3 = CHR ''3''" "digit_char 4 = CHR ''4''" "digit_char 5 = CHR ''5''" "digit_char 6 = CHR ''6''"
  "digit_char 7 = CHR ''7''" "digit_char 8 = CHR ''8''" "digit_char 9 = CHR ''9''"
  by (simp_all add: digit_char_def char_of_def bit_0)

lemma nat_str_not_Nil [simp]: "nat_str n \<noteq> []"
  by (subst nat_str.simps) simp

lemma digits_val_snoc:
  assumes "digits_val s = Some n" and "d < 10"
  shows "digits_val (s @ [digit_char d]) = Some (10 * n + d)"
proof -
  have "s \<noteq> []" using assms(1) by (auto simp: digits_val_def)
  with assms show ?thesis by (simp add: digits_val_def)
qed

lemma digits_val_nat_str: "digits_val (nat_str n) = Some n"
proof (induction n rule: nat_str.induct)
  case (1 n)
  show ?case
  proof (cases "n < 10")
    case True
    then show ?thesis by (subst nat_str.simps) (simp add: digits_val_def)
  next
    case False
    have "digits_val (nat_str (n div 10) @ [digit_char (n mod 10)]) =
            Some (10 * (n div 10) + n mod 10)"
      by (rule digits_val_snoc [OF "1.IH" [OF False]]) simp
    with False show ?thesis by (subst nat_str.simps) simp
  qed
qed

lemma hd_nat_str: "\<exists>d < 10. hd (nat_str n) = digit_char d"
proof (induction n rule: nat_str.induct)
  case (1 n)
  show ?case
  proof (cases "n < 10")
    case True
    then show ?thesis by (subst nat_str.simps) auto
  next
    case False
    with "1.IH" [OF False] show ?thesis by (subst nat_str.simps) simp
  qed
qed

lemma digit_char_not_sign: "d < 10 \<Longrightarrow> digit_char d \<noteq> CHR ''-'' \<and> digit_char d \<noteq> CHR ''+''"
  using of_char_digit_char [of d] by auto

lemma atoi_itoa: "in_int64 i \<Longrightarrow> atoi (itoa i) = Some i"
proof (cases "i < 0")
  case True
  assume "in_int64 i"
  with True show ?thesis
    by (simp add: atoi_def itoa_def digits_val_nat_str Let_def)
next
  case False
  assume int64: "in_int64 i"
  obtain c cs where ccs: "nat_str (nat i) = c # cs" by (cases "nat_str (nat i)") auto
  obtain d where "d < 10" and "c = digit_char d" using hd_nat_str [of "nat i"] ccs by auto
  then have "c \<noteq> CHR ''-''" and "c \<noteq> CHR ''+''" using digit_char_not_sign by auto
  with False int64 ccs show ?thesis
    using digits_val_nat_str [of "nat i"] by (simp add: atoi_def itoa_def Let_def)
qed

end
