(* ===== verification/K8s_Types.thy ===== *)
theory K8s_Types
  imports Go_Prelude
begin

text \<open>
  The Kubernetes objects the sources read, restricted to the fields they use, and the functions of
  the Kubernetes libraries they call. The object types belong to the packages
  \<open>k8s.io/api\<close> and \<open>k8s.io/apimachinery\<close>; their fields keep the Go names behind a short
  prefix. The library functions are not part of the repository: they are the fields of the record
  \<open>k8s_lib\<close>, which every definition that calls one of them takes as an argument.

  A pointer that may be nil is an option. The numbers of ports are Go's \<open>int32\<close> and only
  copied, compared and printed, so they are integers here.
\<close>

section \<open>Metadata\<close>

record ObjectMeta =
  meta_Namespace :: string
  meta_Name :: string
  meta_UID :: string
  meta_ResourceVersion :: string
  meta_Labels :: "(string, string) gomap option"
  meta_Annotations :: "(string, string) gomap option"
  meta_Finalizers :: "string list"
  meta_DeletionTimestamp :: "int option"
  meta_Controller :: "string option"

text \<open>An object that has a name and nothing else.\<close>

definition named_meta :: "string \<Rightarrow> string \<Rightarrow> ObjectMeta" where
  "named_meta ns nm =
     \<lparr>meta_Namespace = ns, meta_Name = nm, meta_UID = [], meta_ResourceVersion = [], meta_Labels = None,
      meta_Annotations = None, meta_Finalizers = [], meta_DeletionTimestamp = None, meta_Controller = None\<rparr>"

lemma named_meta_simps [simp]:
  "meta_Namespace (named_meta ns nm) = ns"
  "meta_Name (named_meta ns nm) = nm"
  "meta_Annotations (named_meta ns nm) = None"
  "meta_Labels (named_meta ns nm) = None"
  "meta_Finalizers (named_meta ns nm) = []"
  "meta_DeletionTimestamp (named_meta ns nm) = None"
  by (simp_all add: named_meta_def)

record NamespacedName =
  nn_Namespace :: string
  nn_Name :: string

abbreviation nn :: "string \<Rightarrow> string \<Rightarrow> NamespacedName" where
  "nn ns nm \<equiv> \<lparr>nn_Namespace = ns, nn_Name = nm\<rparr>"

definition nn_of_meta :: "ObjectMeta \<Rightarrow> NamespacedName" where
  "nn_of_meta m = nn (meta_Namespace m) (meta_Name m)"

text \<open>\<open>types.NamespacedName.String\<close>: the two parts with a slash between them.\<close>

definition nn_String :: "NamespacedName \<Rightarrow> string" where
  "nn_String n = nn_Namespace n @ ''/'' @ nn_Name n"

record Condition =
  cond_Type :: string
  cond_Status :: string
  cond_Reason :: string
  cond_Message :: string
  cond_ObservedGeneration :: int

section \<open>Services and endpoints\<close>

datatype IntOrString = IntPort int | StrPort string

record ServicePort =
  sp_Name :: string
  sp_Protocol :: string
  sp_Port :: int
  sp_TargetPort :: IntOrString
  sp_NodePort :: int
  sp_AppProtocol :: "string option"

record ServiceSpec =
  ssp_Type :: string
  ssp_ClusterIP :: string
  ssp_ClusterIPs :: "string list"
  ssp_IPFamilies :: "string list"
  ssp_ExternalName :: string
  ssp_Ports :: "ServicePort list"
  ssp_LoadBalancerClass :: "string option"
  ssp_IPFamilyPolicy :: "string option"

record Service =
  svc_Meta :: ObjectMeta
  svc_Spec :: ServiceSpec
  svc_LoadBalancerIngressIPs :: "string list"

abbreviation ServiceTypeClusterIP :: string where "ServiceTypeClusterIP \<equiv> ''ClusterIP''"
abbreviation ServiceTypeNodePort :: string where "ServiceTypeNodePort \<equiv> ''NodePort''"
abbreviation ServiceTypeLoadBalancer :: string where "ServiceTypeLoadBalancer \<equiv> ''LoadBalancer''"
abbreviation ServiceTypeExternalName :: string where "ServiceTypeExternalName \<equiv> ''ExternalName''"
abbreviation ProtocolTCP :: string where "ProtocolTCP \<equiv> ''TCP''"
abbreviation IPv4Protocol :: string where "IPv4Protocol \<equiv> ''IPv4''"
abbreviation IPv6Protocol :: string where "IPv6Protocol \<equiv> ''IPv6''"

definition svc_nn :: "Service \<Rightarrow> NamespacedName" where
  "svc_nn s = nn_of_meta (svc_Meta s)"

record EndpointAddress =
  ea_IP :: string
  ea_Hostname :: string
  ea_NodeName :: "string option"

record EndpointPort =
  ep_Name :: string
  ep_Port :: int
  ep_Protocol :: string

record EndpointSubset =
  es_Addresses :: "EndpointAddress list"
  es_Ports :: "EndpointPort list"

record Endpoints =
  eps_Meta :: ObjectMeta
  eps_Subsets :: "EndpointSubset list"

definition eps_nn :: "Endpoints \<Rightarrow> NamespacedName" where
  "eps_nn e = nn_of_meta (eps_Meta e)"

section \<open>Ingresses and secrets\<close>

record ServiceBackendPort =
  sbp_Name :: string
  sbp_Number :: int

record IngressServiceBackend =
  isb_Name :: string
  isb_Port :: ServiceBackendPort

record HTTPIngressPath =
  hip_Path :: string
  hip_PathType :: "string option"
  hip_Backend_Service :: "IngressServiceBackend option"

record IngressRule =
  ir_Host :: string
  ir_HTTP :: "HTTPIngressPath list option"

record IngressTLS =
  tls_Hosts :: "string list"
  tls_SecretName :: string

record Ingress =
  ing_Meta :: ObjectMeta
  ing_IngressClassName :: "string option"
  ing_TLS :: "IngressTLS list"
  ing_Rules :: "IngressRule list"

abbreviation PathTypeExact :: string where "PathTypeExact \<equiv> ''Exact''"
abbreviation PathTypePrefix :: string where "PathTypePrefix \<equiv> ''Prefix''"
abbreviation PathTypeImplementationSpecific :: string where
  "PathTypeImplementationSpecific \<equiv> ''ImplementationSpecific''"

definition ing_nn :: "Ingress \<Rightarrow> NamespacedName" where
  "ing_nn i = nn_of_meta (ing_Meta i)"

record Secret =
  secret_Meta :: ObjectMeta
  secret_Data :: "(string, string) gomap"

record IngressClass =
  ic_Meta :: ObjectMeta
  ic_Controller :: string

section \<open>Functions of the Kubernetes libraries\<close>

record k8s_lib =
  GetClusterIPByFamily :: "string \<Rightarrow> Service \<Rightarrow> string"
  IntValue :: "IntOrString \<Rightarrow> int"
  IsDNS1123Subdomain :: "string \<Rightarrow> string list"
  IsWildcardDNS1123Subdomain :: "string \<Rightarrow> string list"
  IsIPv4String :: "string \<Rightarrow> bool"
  IPPart :: "string \<Rightarrow> string"
  PortPart :: "string \<Rightarrow> int result"
  SplitMetaNamespaceKey :: "string \<Rightarrow> string \<times> string \<times> go_error option"

end
