(* ===== verification/Cache_Types.thy ===== *)
theory Cache_Types
  imports K8s_Types
begin

text \<open>
  The types of \<open>pkg/cache/types.go\<close> and the structs behind its interfaces. The interface
  \<open>ServicePort\<close> has three implementations that the caches store: the constructor says which
  one a value is, as the type assertions of \<open>buildServiceRoutes\<close> ask. The interface
  \<open>Endpoint\<close> has one, \<open>BaseEndpointInfo\<close>.
\<close>

record ServicePortName =
  spn_NamespacedName :: NamespacedName
  spn_Port :: string
  spn_Protocol :: string

definition fmtPortName :: "string \<Rightarrow> string" where
  "fmtPortName s = (if s = [] then [] else '':'' @ s)"

definition ServicePortName_String :: "ServicePortName \<Rightarrow> string" where
  "ServicePortName_String spn = nn_String (spn_NamespacedName spn) @ fmtPortName (spn_Port spn)"

section \<open>Service ports\<close>

record BaseServiceInfo =
  bsi_address :: string
  bsi_port :: int
  bsi_portName :: string
  bsi_protocol :: string

definition BaseServiceInfo_String :: "BaseServiceInfo \<Rightarrow> string" where
  "BaseServiceInfo_String info =
     bsi_address info @ '':'' @ itoa (bsi_port info) @ ''/'' @ bsi_protocol info"

record serviceInfo =
  si_BaseServiceInfo :: BaseServiceInfo
  si_svcName :: NamespacedName
  si_Type :: string

record serviceImportInfo =
  sii_BaseServiceInfo :: BaseServiceInfo
  sii_svcName :: NamespacedName

datatype PortInfo =
    PortBase BaseServiceInfo
  | PortService serviceInfo
  | PortImport serviceImportInfo

fun PortInfo_base :: "PortInfo \<Rightarrow> BaseServiceInfo" where
  "PortInfo_base (PortBase b) = b"
| "PortInfo_base (PortService s) = si_BaseServiceInfo s"
| "PortInfo_base (PortImport s) = sii_BaseServiceInfo s"

definition PortInfo_String :: "PortInfo \<Rightarrow> string" where
  "PortInfo_String p = BaseServiceInfo_String (PortInfo_base p)"

definition PortInfo_Address :: "PortInfo \<Rightarrow> string" where
  "PortInfo_Address p = bsi_address (PortInfo_base p)"

section \<open>Endpoints\<close>

record BaseEndpointInfo =
  bei_Endpoint :: string
  bei_Nodename :: string
  bei_Hostname :: string
  bei_Cluster :: string

definition BaseEndpointInfo_IP :: "k8s_lib \<Rightarrow> BaseEndpointInfo \<Rightarrow> string" where
  "BaseEndpointInfo_IP lib info = IPPart lib (bei_Endpoint info)"

definition BaseEndpointInfo_Port :: "k8s_lib \<Rightarrow> BaseEndpointInfo \<Rightarrow> int result" where
  "BaseEndpointInfo_Port lib info = PortPart lib (bei_Endpoint info)"

definition BaseEndpointInfo_Equal :: "BaseEndpointInfo \<Rightarrow> BaseEndpointInfo \<Rightarrow> bool" where
  "BaseEndpointInfo_Equal info other \<longleftrightarrow> bei_Endpoint info = bei_Endpoint other"

section \<open>Names of service ports as strings\<close>

text \<open>
  \<open>ServicePortName.String\<close> is the key under which routes and registry entries are written.
  Kubernetes names have neither a slash nor a colon, and on such names the string determines
  namespace, name and port.
\<close>

definition plain_name :: "string \<Rightarrow> bool" where
  "plain_name s \<longleftrightarrow> CHR ''/'' \<notin> set s \<and> CHR '':'' \<notin> set s"

definition plain_spn :: "ServicePortName \<Rightarrow> bool" where
  "plain_spn spn \<longleftrightarrow>
     plain_name (nn_Namespace (spn_NamespacedName spn)) \<and>
     plain_name (nn_Name (spn_NamespacedName spn)) \<and> plain_name (spn_Port spn)"

lemma split_at_sep:
  "a @ c # b = a' @ c # b' \<Longrightarrow> c \<notin> set a \<Longrightarrow> c \<notin> set a' \<Longrightarrow> a = a' \<and> b = b'"
proof (induction a arbitrary: a')
  case Nil
  then show ?case by (cases a') auto
next
  case (Cons x a)
  then show ?case by (cases a') auto
qed

lemma name_port_inj:
  assumes "n @ fmtPortName p = n' @ fmtPortName p'"
    and "CHR '':'' \<notin> set n" and "CHR '':'' \<notin> set n'"
  shows "n = n' \<and> p = p'"
proof (cases "p = [] \<or> p' = []")
  case True
  with assms show ?thesis
    by (cases "p = []"; cases "p' = []") (auto simp: fmtPortName_def)
next
  case False
  with assms split_at_sep [of n "CHR '':''" p n' p'] show ?thesis
    by (simp add: fmtPortName_def)
qed

lemma ServicePortName_String_inj:
  assumes "plain_spn a" and "plain_spn b" and "ServicePortName_String a = ServicePortName_String b"
  shows "spn_NamespacedName a = spn_NamespacedName b \<and> spn_Port a = spn_Port b"
proof -
  let ?n = spn_NamespacedName
  have "nn_Namespace (?n a) @ CHR ''/'' # (nn_Name (?n a) @ fmtPortName (spn_Port a)) =
        nn_Namespace (?n b) @ CHR ''/'' # (nn_Name (?n b) @ fmtPortName (spn_Port b))"
    using assms(3) by (simp add: ServicePortName_String_def nn_String_def)
  then have ns: "nn_Namespace (?n a) = nn_Namespace (?n b)"
    and rest: "nn_Name (?n a) @ fmtPortName (spn_Port a) = nn_Name (?n b) @ fmtPortName (spn_Port b)"
    using split_at_sep assms(1,2) unfolding plain_spn_def plain_name_def by metis+
  with name_port_inj [OF rest] assms(1,2) show ?thesis
    by (simp add: plain_spn_def plain_name_def)
qed

end
