(* ===== verification/Change_Tracking.thy ===== *)
theory Change_Tracking
  imports Go_Prelude
begin

text \<open>
  The contract of the change trackers of \<open>pkg/cache\<close>, stated once. A tracker collects, per
  object name, the entries the object had when it was last synchronised and the entries it has
  now; a synchronisation moves these changes into a map. The four trackers of the program have
  the same shape and are written out separately; each of them interprets the locale
  \<open>synced_map\<close> below, and what the locale proves holds for each.

  The events are those an informer delivers, and \<open>valid_events\<close> says that they agree with the
  informer's store: an added object is new, an updated or deleted one is passed as it was stored.
\<close>

section \<open>Informer events\<close>

datatype 'o informer_event = Added 'o | Updated 'o 'o | Deleted 'o | Synced

fun store_step :: "('o \<Rightarrow> 'n) \<Rightarrow> 'o informer_event \<Rightarrow> ('n \<Rightarrow> 'o option) \<Rightarrow> 'n \<Rightarrow> 'o option" where
  "store_step nm (Added o1) st = st(nm o1 := Some o1)"
| "store_step nm (Updated o1 o2) st = st(nm o2 := Some o2)"
| "store_step nm (Deleted o1) st = st(nm o1 := None)"
| "store_step nm Synced st = st"

text \<open>An event agrees with the store; \<open>skip\<close> is the test by which a tracker ignores an object.\<close>

fun valid_event :: "('o \<Rightarrow> 'n) \<Rightarrow> ('o \<Rightarrow> bool) \<Rightarrow> 'o informer_event \<Rightarrow> ('n \<Rightarrow> 'o option) \<Rightarrow> bool" where
  "valid_event nm skip (Added o1) st \<longleftrightarrow> st (nm o1) = None"
| "valid_event nm skip (Updated o1 o2) st \<longleftrightarrow>
     st (nm o2) = Some o1 \<and> nm o1 = nm o2 \<and> skip o1 = skip o2"
| "valid_event nm skip (Deleted o1) st \<longleftrightarrow> st (nm o1) = Some o1"
| "valid_event nm skip Synced st \<longleftrightarrow> True"

fun run_store :: "('o \<Rightarrow> 'n) \<Rightarrow> 'o informer_event list \<Rightarrow> ('n \<Rightarrow> 'o option) \<Rightarrow> 'n \<Rightarrow> 'o option" where
  "run_store nm [] st = st"
| "run_store nm (e # es) st = run_store nm es (store_step nm e st)"

fun valid_events :: "('o \<Rightarrow> 'n) \<Rightarrow> ('o \<Rightarrow> bool) \<Rightarrow> 'o informer_event list \<Rightarrow> ('n \<Rightarrow> 'o option) \<Rightarrow> bool" where
  "valid_events nm skip [] st \<longleftrightarrow> True"
| "valid_events nm skip (e # es) st \<longleftrightarrow>
     valid_event nm skip e st \<and> valid_events nm skip es (store_step nm e st)"

text \<open>The same events, seen by a tracker and the map it feeds.\<close>

fun tracker_step ::
  "('o option \<Rightarrow> 'o option \<Rightarrow> 't \<Rightarrow> 't) \<Rightarrow> ('t \<Rightarrow> 'm \<Rightarrow> 'm \<times> 't) \<Rightarrow>
   'o informer_event \<Rightarrow> 't \<times> 'm \<Rightarrow> 't \<times> 'm"
where
  "tracker_step upd app (Added o1) (t, M) = (upd None (Some o1) t, M)"
| "tracker_step upd app (Updated o1 o2) (t, M) = (upd (Some o1) (Some o2) t, M)"
| "tracker_step upd app (Deleted o1) (t, M) = (upd (Some o1) None t, M)"
| "tracker_step upd app Synced (t, M) = (let (M', t') = app t M in (t', M'))"

fun run_tracker ::
  "('o option \<Rightarrow> 'o option \<Rightarrow> 't \<Rightarrow> 't) \<Rightarrow> ('t \<Rightarrow> 'm \<Rightarrow> 'm \<times> 't) \<Rightarrow>
   'o informer_event list \<Rightarrow> 't \<times> 'm \<Rightarrow> 't \<times> 'm"
where
  "run_tracker upd app [] s = s"
| "run_tracker upd app (e # es) s = run_tracker upd app es (tracker_step upd app e s)"

text \<open>What a synchronised map should hold: the entries of the stored object that owns the key.\<close>

definition flatten ::
  "('o \<Rightarrow> ('k, 'v) gomap option) \<Rightarrow> ('o \<Rightarrow> bool) \<Rightarrow> ('k \<Rightarrow> 'n) \<Rightarrow> ('n \<Rightarrow> 'o option) \<Rightarrow> 'k \<Rightarrow> 'v option"
where
  "flatten toMap skip owner st k =
     (case st (owner k) of
        None \<Rightarrow> None
      | Some obj \<Rightarrow> if skip obj then None else gm_look (toMap obj) k)"

lemma run_store_append: "run_store nm (es @ fs) st = run_store nm fs (run_store nm es st)"
  by (induction es arbitrary: st) simp_all

lemma run_tracker_append:
  "run_tracker upd app (es @ fs) s = run_tracker upd app fs (run_tracker upd app es s)"
  by (induction es arbitrary: s) simp_all

section \<open>Recording a change\<close>

text \<open>The struct the trackers keep per name; its four Go versions differ in the type of the maps.\<close>

record ('k, 'v) change =
  previous :: "('k, 'v) gomap option"
  current :: "('k, 'v) gomap option"

type_synonym ('n, 'k, 'v) changes = "('n, ('k, 'v) change) gomap"

text \<open>The part of \<open>Update\<close> the trackers share: the change of a name is created from the previous
  object unless there is one, its current side is replaced, and it is dropped when both sides
  are equal.\<close>

definition track_change ::
  "'n \<Rightarrow> ('k, 'v) gomap option \<Rightarrow> ('k, 'v) gomap option \<Rightarrow> ('n, 'k, 'v) changes \<Rightarrow> ('n, 'k, 'v) changes"
where
  "track_change n prevMap curMap items =
     (let ch = (case gget items n of
                  None \<Rightarrow> \<lparr>previous = prevMap, current = None\<rparr>
                | Some ch \<Rightarrow> ch);
          ch' = ch\<lparr>current := curMap\<rparr>
      in if gm_deep_equal (previous ch') (current ch') then gdel n items else gput n ch' items)"

definition items_pend ::
  "('n, 'k, 'v) changes \<Rightarrow> 'n \<Rightarrow> (('k, 'v) gomap option \<times> ('k, 'v) gomap option) option"
where
  "items_pend items n = map_option (\<lambda>ch. (previous ch, current ch)) (gget items n)"

text \<open>What applying one change does to the entry of a key.\<close>

definition change_look ::
  "('k, 'v) gomap option \<Rightarrow> ('k, 'v) gomap option \<Rightarrow> ('k, 'v) gomap \<Rightarrow> 'k \<Rightarrow> 'v option"
where
  "change_look p c M k =
     (case gm_look c k of
        Some v \<Rightarrow> Some v
      | None \<Rightarrow> if gm_look p k \<noteq> None then None else gget M k)"

section \<open>The contract of a tracker\<close>

text \<open>The change a tracker keeps for a name, once the entries before and after are known.\<close>

definition norm_change ::
  "('k, 'v) gomap option \<Rightarrow> ('k, 'v) gomap option \<Rightarrow>
   (('k, 'v) gomap option \<times> ('k, 'v) gomap option) option"
where
  "norm_change p c = (if gm_deep_equal p c then None else Some (p, c))"

definition opt_map :: "('o \<Rightarrow> ('k, 'v) gomap option) \<Rightarrow> 'o option \<Rightarrow> ('k, 'v) gomap option" where
  "opt_map toMap x = (case x of None \<Rightarrow> None | Some obj \<Rightarrow> toMap obj)"

lemma opt_map_simps [simp]:
  "opt_map toMap None = None"
  "opt_map toMap (Some obj) = toMap obj"
  by (simp_all add: opt_map_def)

lemma items_pend_Nil [simp]: "items_pend [] n = None"
  by (simp add: items_pend_def)

lemma items_pend_track_change:
  "items_pend (track_change n p c items) =
     (items_pend items)(n :=
        norm_change (case items_pend items n of None \<Rightarrow> p | Some change \<Rightarrow> fst change) c)"
  by (rule ext) (simp add: items_pend_def track_change_def norm_change_def Let_def split: option.split)

lemma gm_wf_track_change [gomap_wf]: "gm_wf items \<Longrightarrow> gm_wf (track_change n p c items)"
  by (simp add: track_change_def Let_def gomap_wf)

text \<open>Applying the pending changes one after the other, in whatever order the map of changes is
  visited: a key is touched by the change of its owner only.\<close>

lemma apply_changes_look:
  fixes owner :: "'k \<Rightarrow> 'n" and items :: "('n, 'k, 'v) changes"
  assumes step: "\<And>ch M k. gm_wf_opt (previous ch) \<Longrightarrow> gm_wf_opt (current ch) \<Longrightarrow>
                   gget (step ch M) k = change_look (previous ch) (current ch) M k"
    and "gm_wf items"
    and "\<And>n p c. items_pend items n = Some (p, c) \<Longrightarrow> gm_wf_opt p \<and> gm_wf_opt c"
    and "\<And>n p c k. items_pend items n = Some (p, c) \<Longrightarrow>
           gm_look p k \<noteq> None \<or> gm_look c k \<noteq> None \<Longrightarrow> owner k = n"
  shows "gget (fold step (map snd items) M) k =
           (case items_pend items (owner k) of
              None \<Rightarrow> gget M k | Some (p, c) \<Rightarrow> change_look p c M k)"
  using assms(2-)
proof (induction items arbitrary: M)
  case Nil
  then show ?case by simp
next
  case (Cons nch items)
  obtain n ch where nch: "nch = (n, ch)" by (cases nch)
  have fresh: "gget items n = None" and wf: "gm_wf items"
    using Cons.prems(1) by (auto simp: nch gm_wf_def map_of_eq_None_iff)
  have head: "items_pend (nch # items) n = Some (previous ch, current ch)"
    by (simp add: nch items_pend_def)
  have tail: "items_pend (nch # items) m = items_pend items m" if "m \<noteq> n" for m
    using that by (simp add: nch items_pend_def)
  have rest: "items_pend items m = Some pc \<Longrightarrow> items_pend (nch # items) m = Some pc" for m pc
    using fresh tail [of m] by (cases "m = n") (auto simp: items_pend_def)
  have IH: "gget (fold step (map snd items) (step ch M)) k =
      (case items_pend items (owner k) of
         None \<Rightarrow> gget (step ch M) k | Some (p, c) \<Rightarrow> change_look p c (step ch M) k)"
    by (rule Cons.IH [OF wf]) (use rest Cons.prems(2,3) in blast)+
  have hd: "gget (step ch M) k = change_look (previous ch) (current ch) M k"
    using step Cons.prems(2) [OF head] by blast
  show ?case
  proof (cases "owner k = n")
    case True
    with fresh have "items_pend items (owner k) = None" by (simp add: items_pend_def)
    with IH hd head True show ?thesis by (simp add: nch)
  next
    case False
    then have "gm_look (previous ch) k = None" and "gm_look (current ch) k = None"
      using Cons.prems(3) [OF head, of k] by blast+
    with hd have "gget (step ch M) k = gget M k" by (simp add: change_look_def)
    with IH tail [OF False] show ?thesis
      by (cases "items_pend items (owner k)") (auto simp: nch change_look_def split: option.split)
  qed
qed

locale change_tracker =
  fixes toMap :: "'o \<Rightarrow> ('k, 'v) gomap option"
    and name_of :: "'o \<Rightarrow> 'n"
    and skip :: "'o \<Rightarrow> bool"
    and upd :: "'o option \<Rightarrow> 'o option \<Rightarrow> 't \<Rightarrow> 't"
    and pend :: "'t \<Rightarrow> 'n \<Rightarrow> (('k, 'v) gomap option \<times> ('k, 'v) gomap option) option"
    and wf :: "'t \<Rightarrow> bool"
  assumes toMap_wf: "gm_wf_opt (toMap obj)"
    and upd_wf: "wf t \<Longrightarrow> wf (upd p c t)"
    and upd_skip: "(case c of Some obj \<Rightarrow> Some obj | None \<Rightarrow> p) = Some obj \<Longrightarrow> skip obj \<Longrightarrow> upd p c t = t"
    and upd_pend:
      "wf t \<Longrightarrow> (case c of Some obj \<Rightarrow> Some obj | None \<Rightarrow> p) = Some obj \<Longrightarrow> \<not> skip obj \<Longrightarrow>
       pend (upd p c t) =
         (pend t) (name_of obj :=
            norm_change (case pend t (name_of obj) of
                           None \<Rightarrow> opt_map toMap p | Some change \<Rightarrow> fst change)
              (opt_map toMap c))"
begin

text \<open>\<open>target st n\<close> is what the map should hold for the object named \<open>n\<close>, and \<open>settled\<close> says
  what the tracker and the map have of it.\<close>

definition target :: "('n \<Rightarrow> 'o option) \<Rightarrow> 'n \<Rightarrow> ('k, 'v) gomap option" where
  "target st n = (case st n of None \<Rightarrow> None | Some obj \<Rightarrow> if skip obj then None else toMap obj)"

lemma target_wf: "gm_wf_opt (target st n)"
  by (auto simp: target_def toMap_wf split: option.split)

end

section \<open>The contract of a tracker together with its map\<close>

locale synced_map = change_tracker toMap name_of skip upd pend wf
  for toMap :: "'o \<Rightarrow> ('k, 'v) gomap option"
    and name_of :: "'o \<Rightarrow> 'n"
    and skip :: "'o \<Rightarrow> bool"
    and upd :: "'o option \<Rightarrow> 'o option \<Rightarrow> 't \<Rightarrow> 't"
    and pend :: "'t \<Rightarrow> 'n \<Rightarrow> (('k, 'v) gomap option \<times> ('k, 'v) gomap option) option"
    and wf :: "'t \<Rightarrow> bool" +
  fixes owner :: "'k \<Rightarrow> 'n"
    and app :: "'t \<Rightarrow> ('k, 'v) gomap \<Rightarrow> ('k, 'v) gomap \<times> 't"
  assumes toMap_owner: "gm_look (toMap obj) k \<noteq> None \<Longrightarrow> owner k = name_of obj"
    and app_wf: "wf t \<Longrightarrow> wf (snd (app t M))"
    and app_pend: "wf t \<Longrightarrow> pend (snd (app t M)) n = None"
    and app_map_wf: "gm_wf M \<Longrightarrow> gm_wf (fst (app t M))"
    and app_look:
      "wf t \<Longrightarrow>
       (\<And>n p c. pend t n = Some (p, c) \<Longrightarrow> gm_wf_opt p \<and> gm_wf_opt c) \<Longrightarrow>
       (\<And>n p c k. pend t n = Some (p, c) \<Longrightarrow> gm_look p k \<noteq> None \<or> gm_look c k \<noteq> None \<Longrightarrow> owner k = n) \<Longrightarrow>
       gget (fst (app t M)) k =
         (case pend t (owner k) of
            None \<Rightarrow> gget M k
          | Some (p, c) \<Rightarrow> change_look p c M k)"
begin

text \<open>The invariant that links store, tracker and map.\<close>

definition agrees :: "('n \<Rightarrow> 'o option) \<Rightarrow> 't \<Rightarrow> ('k, 'v) gomap \<Rightarrow> 'n \<Rightarrow> bool" where
  "agrees st t M n \<longleftrightarrow>
     (case pend t n of
        None \<Rightarrow> \<forall>k. owner k = n \<longrightarrow> gget M k = gm_look (target st n) k
      | Some (p, c) \<Rightarrow>
          gm_wf_opt p \<and> gm_wf_opt c \<and> gm_look c = gm_look (target st n) \<and>
          (\<forall>k. gm_look p k \<noteq> None \<longrightarrow> owner k = n) \<and>
          (\<forall>k. owner k = n \<longrightarrow> gget M k = gm_look p k))"

definition tinv :: "('n \<Rightarrow> 'o option) \<Rightarrow> 't \<times> ('k, 'v) gomap \<Rightarrow> bool" where
  "tinv st s \<longleftrightarrow> (case s of (t, M) \<Rightarrow>
     wf t \<and> gm_wf M \<and> (\<forall>n obj. st n = Some obj \<longrightarrow> name_of obj = n) \<and> (\<forall>n. agrees st t M n))"

lemma target_owner:
  "\<forall>n obj. st n = Some obj \<longrightarrow> name_of obj = n \<Longrightarrow> gm_look (target st n) k \<noteq> None \<Longrightarrow> owner k = n"
  using toMap_owner by (fastforce simp: target_def split: option.splits if_splits)

lemma agrees_upd:
  assumes wf: "wf t"
    and same: "agrees st t M (name_of obj)"
    and obj: "(case c of Some x \<Rightarrow> Some x | None \<Rightarrow> p) = Some obj" and not_skip: "\<not> skip obj"
    and prev: "gm_look (opt_map toMap p) = gm_look (target st (name_of obj))"
    and powner: "\<And>k. gm_look (opt_map toMap p) k \<noteq> None \<Longrightarrow> owner k = name_of obj"
    and cur: "gm_look (opt_map toMap c) = gm_look (target st' (name_of obj))"
  shows "agrees st' (upd p c t) M (name_of obj)"
proof -
  define q where "q = (case pend t (name_of obj) of None \<Rightarrow> opt_map toMap p | Some change \<Rightarrow> fst change)"
  have q_wf: "gm_wf_opt q" and c_wf: "gm_wf_opt (opt_map toMap c)"
    using same by (auto simp: q_def agrees_def opt_map_def toMap_wf split: option.splits prod.splits)
  have q_owner: "gm_look q k \<noteq> None \<Longrightarrow> owner k = name_of obj" for k
    using same powner by (auto simp: q_def agrees_def split: option.splits prod.splits)
  have q_map: "owner k = name_of obj \<Longrightarrow> gget M k = gm_look q k" for k
    using same prev by (auto simp: q_def agrees_def split: option.splits prod.splits)
  have "pend (upd p c t) (name_of obj) = norm_change q (opt_map toMap c)"
    by (simp add: upd_pend [OF wf obj not_skip] q_def)
  then show ?thesis
    using q_wf c_wf q_owner q_map cur gm_deep_equal_look [OF q_wf c_wf]
    by (auto simp: agrees_def norm_change_def)
qed

lemma agrees_cong:
  "pend t' n = pend t n \<Longrightarrow> target st' n = target st n \<Longrightarrow> agrees st' t' M n = agrees st t M n"
  by (simp only: agrees_def)

lemma agrees_frame:
  assumes "wf t" and "(case c of Some x \<Rightarrow> Some x | None \<Rightarrow> p) = Some obj"
    and "n \<noteq> name_of obj" and "st' n = st n" and "agrees st t M n"
  shows "agrees st' (upd p c t) M n"
proof -
  have "pend (upd p c t) n = pend t n"
    using assms by (cases "skip obj") (simp_all add: upd_skip upd_pend)
  moreover have "target st' n = target st n"
    using assms(4) by (simp add: target_def)
  ultimately show ?thesis using assms(5) agrees_cong by blast
qed

lemma agrees_skip:
  "(case c of Some x \<Rightarrow> Some x | None \<Rightarrow> p) = Some obj \<Longrightarrow> skip obj \<Longrightarrow>
   target st' n = target st n \<Longrightarrow> agrees st t M n \<Longrightarrow> agrees st' (upd p c t) M n"
  using agrees_cong upd_skip by metis

lemma inv_upd:
  assumes inv: "tinv st (t, M)"
    and obj: "(case c of Some x \<Rightarrow> Some x | None \<Rightarrow> p) = Some obj"
    and st': "st' = st(name_of obj := c)"
    and old: "st (name_of obj) = p"
    and names: "\<And>x. c = Some x \<Longrightarrow> name_of x = name_of obj"
    and skips: "\<And>x y. p = Some x \<Longrightarrow> c = Some y \<Longrightarrow> skip x = skip y"
  shows "tinv st' (upd p c t, M)"
proof -
  have wf: "wf t" and named: "\<forall>n x. st n = Some x \<longrightarrow> name_of x = n" and all: "\<And>n. agrees st t M n"
    using inv by (auto simp: tinv_def)
  have "agrees st' (upd p c t) M (name_of obj)"
  proof (cases "skip obj")
    case True
    have "target st' (name_of obj) = target st (name_of obj)"
      using True obj old skips by (auto simp: st' target_def split: option.splits)
    then show ?thesis by (rule agrees_skip [OF obj True _ all])
  next
    case False
    have prev: "opt_map toMap p = target st (name_of obj)"
      using False obj old skips by (auto simp: target_def opt_map_def split: option.splits)
    have cur: "opt_map toMap c = target st' (name_of obj)"
      using False obj by (auto simp: st' target_def opt_map_def split: option.splits)
    show ?thesis
      by (rule agrees_upd [OF wf all obj False])
        (simp_all add: prev cur target_owner [OF named])
  qed
  moreover have "agrees st' (upd p c t) M n" if "n \<noteq> name_of obj" for n
    using that by (intro agrees_frame [OF wf obj _ _ all]) (simp_all add: st')
  moreover have "\<forall>n x. st' n = Some x \<longrightarrow> name_of x = n"
    using named names by (auto simp: st')
  ultimately have "agrees st' (upd p c t) M n" for n
    by (cases "n = name_of obj") simp_all
  with \<open>\<forall>n x. st' n = Some x \<longrightarrow> name_of x = n\<close> show ?thesis
    using inv by (auto simp: tinv_def upd_wf)
qed

lemma inv_app:
  assumes "tinv st (t, M)"
  shows "tinv st (snd (app t M), fst (app t M))"
    and "gget (fst (app t M)) k = flatten toMap skip owner st k"
proof -
  have wf: "wf t" and map_wf: "gm_wf M" and all: "\<And>n. agrees st t M n"
    and named: "\<forall>n x. st n = Some x \<longrightarrow> name_of x = n"
    using assms by (auto simp: tinv_def)
  have change: "gm_wf_opt p \<and> gm_wf_opt c \<and> gm_look c = gm_look (target st n) \<and>
      (\<forall>k. gm_look p k \<noteq> None \<longrightarrow> owner k = n) \<and> (\<forall>k. owner k = n \<longrightarrow> gget M k = gm_look p k)"
    if "pend t n = Some (p, c)" for n p c
    using all [of n] that by (simp add: agrees_def)
  have owned: "owner k = n" if "pend t n = Some (p, c)" and "gm_look p k \<noteq> None \<or> gm_look c k \<noteq> None"
    for n p c k
    using change [OF that(1)] that(2) target_owner [OF named, of n k] by auto
  have opts: "gm_wf_opt p \<and> gm_wf_opt c" if "pend t n = Some (p, c)" for n p c
    using change [OF that] by simp
  have app_eq: "gget (fst (app t M)) k =
      (case pend t (owner k) of None \<Rightarrow> gget M k
       | Some (p, c) \<Rightarrow> change_look p c M k)" for k
    by (rule app_look [OF wf]) (use opts owned in blast)+
  have look: "gget (fst (app t M)) k = gm_look (target st (owner k)) k" for k
  proof (cases "pend t (owner k)")
    case None
    with all [of "owner k"] app_eq [of k] show ?thesis by (simp add: agrees_def)
  next
    case (Some pc)
    then obtain p c where pc: "pend t (owner k) = Some (p, c)" by (cases pc) simp
    then have "gm_look c = gm_look (target st (owner k))" and "gget M k = gm_look p k"
      using change by blast+
    with pc app_eq [of k] show ?thesis by (simp add: change_look_def split: option.splits)
  qed
  show "tinv st (snd (app t M), fst (app t M))"
    using named by (simp add: tinv_def agrees_def look app_wf wf app_map_wf map_wf app_pend)
  show "gget (fst (app t M)) k = flatten toMap skip owner st k"
    by (simp add: look flatten_def target_def split: option.split)
qed

lemma inv_step:
  assumes "tinv st (t, M)" and "valid_event name_of skip e st"
  shows "tinv (store_step name_of e st) (tracker_step upd app e (t, M))"
proof (cases e)
  case (Added x)
  with assms have "tinv (st(name_of x := Some x)) (upd None (Some x) t, M)"
    by (intro inv_upd [where obj = x and st = st]) simp_all
  with Added show ?thesis by simp
next
  case (Updated x y)
  with assms have "tinv (st(name_of y := Some y)) (upd (Some x) (Some y) t, M)"
    by (intro inv_upd [where obj = y and st = st]) simp_all
  with Updated show ?thesis by simp
next
  case (Deleted x)
  with assms have "tinv (st(name_of x := None)) (upd (Some x) None t, M)"
    by (intro inv_upd [where obj = x and st = st]) simp_all
  with Deleted show ?thesis by simp
next
  case Synced
  with inv_app(1) [OF assms(1)] show ?thesis by (simp add: case_prod_beta Let_def)
qed

lemma inv_run:
  assumes "tinv st s" and "valid_events name_of skip es st"
  shows "tinv (run_store name_of es st) (run_tracker upd app es s)"
  using assms
proof (induction es arbitrary: st s)
  case Nil
  then show ?case by simp
next
  case (Cons e es)
  then have "tinv (store_step name_of e st) (tracker_step upd app e s)"
    by (cases s) (simp add: inv_step del: tracker_step.simps)
  with Cons show ?case by simp
qed

text \<open>After any run of the informer's events, one synchronisation makes the map exactly the
  entries of the stored objects.\<close>

lemma synced_after_run:
  assumes "tinv st s" and "valid_events name_of skip es st"
  shows "gget (snd (run_tracker upd app (es @ [Synced]) s)) k =
           flatten toMap skip owner (run_store name_of es st) k"
proof -
  obtain t M where s: "run_tracker upd app es s = (t, M)" by (cases "run_tracker upd app es s")
  then show ?thesis
    using inv_app(2) [of "run_store name_of es st" t M] inv_run [OF assms]
    by (simp add: run_tracker_append case_prod_beta Let_def)
qed

lemma inv_initial:
  "wf t \<Longrightarrow> (\<And>n. pend t n = None) \<Longrightarrow> tinv Map.empty (t, [])"
  by (simp add: tinv_def agrees_def target_def)

end

end
