(* ===== verification/Net_Addr.thy ===== *)
theory Net_Addr
  imports Go_Prelude
begin

text \<open>
  The functions of Go's package \<open>net\<close> (release 1.19, the one \<open>go.mod\<close> names) that the
  sources call: \<open>ParseIP\<close>, \<open>IP.To4\<close>, \<open>IP.IsLoopback\<close>, \<open>IP.IsUnspecified\<close>,
  \<open>IP.String\<close> and \<open>JoinHostPort\<close>. An \<open>IP\<close> is its sixteen bytes, an IPv4 address in the mapped form
  Go uses.
\<close>

type_synonym ip = "nat list"

definition hex_digit :: "char \<Rightarrow> nat option" where
  "hex_digit c = (let n = (of_char c :: nat) in
     if 48 \<le> n \<and> n \<le> 57 then Some (n - 48)
     else if 97 \<le> n \<and> n \<le> 102 then Some (n - 97 + 10)
     else if 65 \<le> n \<and> n \<le> 70 then Some (n - 65 + 10)
     else None)"

text \<open>
  \<open>dtoi\<close> and \<open>xtoi\<close>: read digits as long as there are any and return the number with the
  rest of the string. Reaching \<open>0xFFFFFF\<close> or reading no digit is a failure.
\<close>

fun scan_num :: "(char \<Rightarrow> nat option) \<Rightarrow> nat \<Rightarrow> nat \<Rightarrow> string \<Rightarrow> (nat \<times> string) option" where
  "scan_num dig base acc [] = Some (acc, [])"
| "scan_num dig base acc (c # cs) =
     (case dig c of
        None \<Rightarrow> Some (acc, c # cs)
      | Some d \<Rightarrow> (let n = acc * base + d in
                  if n \<ge> 16777215 then None else scan_num dig base n cs))"

definition dtoi :: "string \<Rightarrow> (nat \<times> string) option" where
  "dtoi s = (case s of [] \<Rightarrow> None | c # _ \<Rightarrow> if char_digit c = None then None else scan_num char_digit 10 0 s)"

definition xtoi :: "string \<Rightarrow> (nat \<times> string) option" where
  "xtoi s = (case s of [] \<Rightarrow> None | c # _ \<Rightarrow> if hex_digit c = None then None else scan_num hex_digit 16 0 s)"

text \<open>\<open>parseIPv4\<close>: four numbers below 256, without leading zeros, with dots between them.\<close>

fun parse_octets :: "nat \<Rightarrow> bool \<Rightarrow> string \<Rightarrow> nat list option" where
  "parse_octets 0 first s = (if s = [] then Some [] else None)"
| "parse_octets (Suc n) first s =
     (let body = (if first then Some s
                  else case s of c # cs \<Rightarrow> if c = CHR ''.'' then Some cs else None | [] \<Rightarrow> None)
      in case body of
           None \<Rightarrow> None
         | Some b \<Rightarrow>
             (case dtoi b of
                None \<Rightarrow> None
              | Some (v, rest) \<Rightarrow>
                  if v > 255 \<or> (length b - length rest > 1 \<and> hd b = CHR ''0'') then None
                  else (case parse_octets n False rest of None \<Rightarrow> None | Some vs \<Rightarrow> Some (v # vs))))"

definition parseIPv4 :: "string \<Rightarrow> ip option" where
  "parseIPv4 s = (case parse_octets 4 True s of
                    None \<Rightarrow> None
                  | Some bs \<Rightarrow> Some (replicate 10 0 @ [255, 255] @ bs))"

text \<open>
  The loop of \<open>parseIPv6\<close>. The bytes read so far, the place of the ellipsis, and the rest of
  the string; the result is the bytes, the place of the ellipsis and what is left when the loop
  stops. The loop runs at most eight times, since each turn adds two bytes.
\<close>

fun ipv6_loop :: "nat \<Rightarrow> nat list \<Rightarrow> nat option \<Rightarrow> string \<Rightarrow> (nat list \<times> nat option \<times> string) option" where
  "ipv6_loop 0 bs el s = Some (bs, el, s)"
| "ipv6_loop (Suc n) bs el s =
     (case xtoi s of
        None \<Rightarrow> None
      | Some (v, rest) \<Rightarrow>
          if v > 65535 then None
          else if rest \<noteq> [] \<and> hd rest = CHR ''.'' then
            (if el = None \<and> length bs \<noteq> 12 then None
             else if length bs + 4 > 16 then None
             else case parseIPv4 s of
                    None \<Rightarrow> None
                  | Some ip4 \<Rightarrow> Some (bs @ drop 12 ip4, el, []))
          else
            (let bs' = bs @ [v div 256, v mod 256] in
             case rest of
               [] \<Rightarrow> Some (bs', el, [])
             | c # cs \<Rightarrow>
                 if c \<noteq> CHR '':'' \<or> cs = [] then None
                 else if hd cs = CHR '':'' then
                   (if el \<noteq> None then None
                    else if tl cs = [] then Some (bs', Some (length bs'), [])
                    else ipv6_loop n bs' (Some (length bs')) (tl cs))
                 else ipv6_loop n bs' el cs))"

definition parseIPv6 :: "string \<Rightarrow> ip option" where
  "parseIPv6 s =
     (let (el, s1) = (if prefix ''::'' s then (Some 0, drop 2 s) else (None, s)) in
      if el \<noteq> None \<and> s1 = [] then Some (replicate 16 0)
      else case ipv6_loop 8 [] el s1 of
             None \<Rightarrow> None
           | Some (bs, el', rest) \<Rightarrow>
               if rest \<noteq> [] then None
               else if length bs < 16 then
                 (case el' of
                    None \<Rightarrow> None
                  | Some e \<Rightarrow> Some (take e bs @ replicate (16 - length bs) 0 @ drop e bs))
               else if el' \<noteq> None then None
               else Some bs)"

text \<open>\<open>ParseIP\<close>: the first dot or colon decides the syntax.\<close>

definition ParseIP :: "string \<Rightarrow> ip option" where
  "ParseIP s =
     (case dropWhile (\<lambda>c. c \<noteq> CHR ''.'' \<and> c \<noteq> CHR '':'') s of
        [] \<Rightarrow> None
      | c # _ \<Rightarrow> if c = CHR ''.'' then parseIPv4 s else parseIPv6 s)"

definition To4 :: "ip \<Rightarrow> nat list option" where
  "To4 p = (if length p = 4 then Some p
            else if length p = 16 \<and> take 12 p = replicate 10 0 @ [255, 255] then Some (drop 12 p)
            else None)"

definition IsLoopback :: "ip \<Rightarrow> bool" where
  "IsLoopback p = (case To4 p of
                     Some bs \<Rightarrow> hd bs = 127
                   | None \<Rightarrow> p = replicate 15 0 @ [1])"

definition IsUnspecified :: "ip \<Rightarrow> bool" where
  "IsUnspecified p \<longleftrightarrow> To4 p = Some [0, 0, 0, 0] \<or> p = replicate 16 0"

text \<open>\<open>JoinHostPort\<close>: a host with a colon is an IPv6 literal and goes into brackets.\<close>

definition JoinHostPort :: "string \<Rightarrow> string \<Rightarrow> string" where
  "JoinHostPort host port =
     (if CHR '':'' \<in> set host then ''['' @ host @ '']:'' @ port else host @ '':'' @ port)"

text \<open>\<open>IP.String\<close>: dotted for IPv4, otherwise groups of hexadecimal digits with the first of the
  longest runs of zero groups, if it has at least two, left out.\<close>

definition hex_char :: "nat \<Rightarrow> char" where
  "hex_char d = (if d < 10 then char_of (48 + d) else char_of (87 + d))"

fun hex_str :: "nat \<Rightarrow> string" where
  "hex_str n = (if n < 16 then [hex_char n] else hex_str (n div 16) @ [hex_char (n mod 16)])"

declare hex_str.simps [simp del]

text \<open>\<open>SimpleHash\<close> of \<open>pkg/util/util.go\<close> prints the hash a library computes; an error gives the empty text.\<close>

definition SimpleHash :: "nat result \<Rightarrow> string" where
  "SimpleHash hash' = (case hash' of Inl _ \<Rightarrow> [] | Inr hash \<Rightarrow> hex_str hash)"

fun byte_groups :: "nat list \<Rightarrow> nat list" where
  "byte_groups (a # b # bs) = (a * 256 + b) # byte_groups bs"
| "byte_groups _ = []"

function longest_zeros :: "nat \<Rightarrow> nat list \<Rightarrow> nat \<times> nat \<Rightarrow> nat \<times> nat" where
  "longest_zeros i [] best = best"
| "longest_zeros i (g # gs) best =
     (let n = length (takeWhile (\<lambda>x. x = 0) (g # gs))
      in if n > snd best then longest_zeros (i + n + 1) (drop n gs) (i, n) else longest_zeros (i + 1) gs best)"
  by pat_completeness auto
termination by (relation "measure (\<lambda>(i, gs, best). length gs)") auto

definition ipv6_str :: "nat list \<Rightarrow> string" where
  "ipv6_str gs =
     (let (e0, n) = longest_zeros 0 gs (0, 0)
      in if n < 2 then str_join (map hex_str gs) '':''
         else str_join (map hex_str (take e0 gs)) '':'' @ ''::'' @ str_join (map hex_str (drop (e0 + n) gs)) '':'')"

definition IP_String :: "ip option \<Rightarrow> string" where
  "IP_String ip' =
     (case ip' of
        None \<Rightarrow> ''<nil>''
      | Some p \<Rightarrow>
          if p = [] then ''<nil>''
          else (case To4 p of
                  Some bs \<Rightarrow> str_join (map nat_str bs) ''.''
                | None \<Rightarrow>
                    if length p \<noteq> 16 then ''?'' @ concat (map (\<lambda>b. [hex_char (b div 16), hex_char (b mod 16)]) p)
                    else ipv6_str (byte_groups p)))"

section \<open>What an IP that was parsed looks like\<close>

lemma parse_octets_length: "parse_octets n first s = Some bs \<Longrightarrow> length bs = n"
proof (induction n arbitrary: first s bs)
  case 0
  then show ?case by (simp split: if_splits)
next
  case (Suc n)
  from Suc.prems obtain v rest vs where "parse_octets n False rest = Some vs" and "bs = v # vs"
    by (auto simp: Let_def split: option.splits if_splits prod.splits)
  with Suc.IH show ?case by simp
qed

lemma parseIPv4_To4: "parseIPv4 s = Some p \<Longrightarrow> length p = 16 \<and> (\<exists>bs. To4 p = Some bs \<and> length bs = 4)"
  by (auto simp: parseIPv4_def To4_def split: option.splits dest: parse_octets_length)

lemma ipv6_loop_length:
  "ipv6_loop n bs el s = Some (bs', el', rest) \<Longrightarrow> length bs + 2 * n = 16 \<Longrightarrow> length bs' \<le> 16"
proof (induction n arbitrary: bs el s)
  case 0
  then show ?case by simp
next
  case (Suc n)
  obtain v r where x: "xtoi s = Some (v, r)" using Suc.prems by (auto split: option.splits)
  have room: "length (bs @ [v div 256, v mod 256]) + 2 * n = 16" using Suc.prems(2) by simp
  have step: "ipv6_loop n (bs @ [v div 256, v mod 256]) e t = Some (bs', el', rest) \<Longrightarrow> ?case" for e t
    using Suc.IH room by blast
  show ?case
  proof (cases "r \<noteq> [] \<and> hd r = CHR ''.''")
    case True
    with Suc.prems x show ?thesis
      by (auto split: option.splits if_splits dest!: parseIPv4_To4)
  next
    case False
    have "length (bs @ [v div 256, v mod 256]) \<le> 16" using Suc.prems(2) by simp
    with False Suc.prems(1) x step show ?thesis
      by (cases r) (auto simp: Let_def split: if_splits)
  qed
qed

lemma ParseIP_length: "ParseIP s = Some p \<Longrightarrow> length p = 16"
proof -
  have "parseIPv6 s = Some p \<Longrightarrow> length p = 16"
    using ipv6_loop_length [of 8 "[]" "None" s] ipv6_loop_length [of 8 "[]" "Some 0" "drop 2 s"]
    by (auto simp: parseIPv6_def Let_def min_def split: option.splits if_splits prod.splits)
  then show "ParseIP s = Some p \<Longrightarrow> length p = 16"
    by (auto simp: ParseIP_def dest: parseIPv4_To4 split: list.splits if_splits)
qed

lemma parse_octets_4: "parse_octets 4 = parse_octets (Suc (Suc (Suc (Suc 0))))"
  by (simp add: numeral_eq_Suc)

lemma ipv6_loop_8: "ipv6_loop 8 = ipv6_loop (Suc (Suc (Suc (Suc (Suc (Suc (Suc (Suc 0))))))))"
  by (simp add: numeral_eq_Suc)

lemma replicate_numeral: "replicate (numeral k) x = x # replicate (pred_numeral k) x"
  by (simp add: numeral_eq_Suc)

lemmas net_eval =
  parse_octets_4 ipv6_loop_8 replicate_numeral
  ParseIP_def parseIPv4_def parseIPv6_def dtoi_def xtoi_def char_digit_def hex_digit_def
  IsLoopback_def To4_def Let_def

lemma ParseIP_loopback: "map_option IsLoopback (ParseIP ''127.0.0.1'') = Some True"
  by (simp add: net_eval)

lemma ParseIP_loopback6: "map_option IsLoopback (ParseIP ''::1'') = Some True"
  by (simp add: net_eval)

lemma ParseIP_leading_zero: "ParseIP ''10.0.0.01'' = None"
  by (simp add: net_eval)

lemma ParseIP_mapped: "ParseIP ''::ffff:1.2.3.4'' = ParseIP ''1.2.3.4''"
  by (simp add: net_eval)

end
