(* ===== verification/Service_Cache.thy ===== *)
theory Service_Cache
  imports Cache_Types Change_Tracking Net_Addr
begin

text \<open>
  \<open>pkg/cache/service.go\<close>: the tracker of Service changes and the map of service ports it feeds.
  \<open>serviceToServiceMap\<close> turns a Service into the entries of its ports,
  \<open>ServiceChangeTracker_Update\<close> records a change, \<open>ServiceMap_apply\<close> moves the recorded
  changes into the map. The tracker and the map interpret the locale \<open>synced_map\<close>.
\<close>

type_synonym ServiceMap = "(ServicePortName, PortInfo) gomap"
type_synonym serviceChange = "(ServicePortName, PortInfo) change"
type_synonym enrichServiceInfoFunc = "ServicePort \<Rightarrow> Service \<Rightarrow> BaseServiceInfo \<Rightarrow> PortInfo"

record ServiceChangeTracker =
  sct_items :: "(NamespacedName, serviceChange) gomap"
  sct_enrichServiceInfo :: "enrichServiceInfoFunc option"

section \<open>Operations\<close>

definition newBaseServiceInfo :: "k8s_lib \<Rightarrow> ServicePort \<Rightarrow> Service \<Rightarrow> BaseServiceInfo option" where
  "newBaseServiceInfo lib port service =
     (let spec = svc_Spec service in
      if ssp_Type spec = ServiceTypeClusterIP then
        Some \<lparr>bsi_address = GetClusterIPByFamily lib IPv4Protocol service,
              bsi_port = sp_Port port, bsi_portName = sp_Name port, bsi_protocol = sp_Protocol port\<rparr>
      else if ssp_Type spec = ServiceTypeExternalName then
        (let externalName = ssp_ExternalName spec; ip = ParseIP externalName in
         if externalName = ''localhost'' then None
         else if ip \<noteq> None \<and> IsLoopback (the ip) then None
         else if ip = None \<and> IsDNS1123Subdomain lib (trim_suffix externalName ''.'') \<noteq> [] then None
         else Some \<lparr>bsi_address = externalName @ '':'' @ itoa (IntValue lib (sp_TargetPort port)),
                    bsi_port = sp_Port port, bsi_portName = sp_Name port,
                    bsi_protocol = sp_Protocol port\<rparr>)
      else None)"

definition NewServiceChangeTracker :: "enrichServiceInfoFunc option \<Rightarrow> ServiceChangeTracker" where
  "NewServiceChangeTracker enrich = \<lparr>sct_items = [], sct_enrichServiceInfo = enrich\<rparr>"

definition svcPortName_of :: "Service \<Rightarrow> ServicePort \<Rightarrow> ServicePortName" where
  "svcPortName_of service port =
     \<lparr>spn_NamespacedName = svc_nn service, spn_Port = sp_Name port, spn_Protocol = sp_Protocol port\<rparr>"

definition serviceToServiceMap :: "k8s_lib \<Rightarrow> ServiceChangeTracker \<Rightarrow> Service option \<Rightarrow> ServiceMap option" where
  "serviceToServiceMap lib sct service' =
     (case service' of
        None \<Rightarrow> None
      | Some service \<Rightarrow>
          if GetClusterIPByFamily lib IPv4Protocol service = [] then None
          else Some (fold (\<lambda>servicePort serviceMap.
                 case newBaseServiceInfo lib servicePort service of
                   None \<Rightarrow> serviceMap
                 | Some baseSvcInfo \<Rightarrow>
                     gput (svcPortName_of service servicePort)
                       (case sct_enrichServiceInfo sct of
                          Some enrich \<Rightarrow> enrich servicePort service baseSvcInfo
                        | None \<Rightarrow> PortBase baseSvcInfo) serviceMap)
               (ssp_Ports (svc_Spec service)) []))"

definition shouldSkipService :: "Service option \<Rightarrow> bool" where
  "shouldSkipService svc' =
     (case svc' of
        None \<Rightarrow> True
      | Some svc \<Rightarrow> ssp_Type (svc_Spec svc) \<in> {ServiceTypeNodePort, ServiceTypeLoadBalancer})"

text \<open>The lookup in the lister of ServiceImports; every error, not-found included, reads as absent.\<close>

definition serviceImportExists :: "(string \<Rightarrow> string \<Rightarrow> 'imp result) \<Rightarrow> Service \<Rightarrow> bool" where
  "serviceImportExists lister svc =
     (case lister (meta_Namespace (svc_Meta svc)) (meta_Name (svc_Meta svc)) of
        Inl _ \<Rightarrow> False | Inr _ \<Rightarrow> True)"

definition ServiceChangeTracker_Update ::
  "k8s_lib \<Rightarrow> Service option \<Rightarrow> Service option \<Rightarrow> ServiceChangeTracker \<Rightarrow> bool \<times> ServiceChangeTracker"
where
  "ServiceChangeTracker_Update lib prev cur sct =
     (case (case cur of Some s \<Rightarrow> Some s | None \<Rightarrow> prev) of
        None \<Rightarrow> (False, sct)
      | Some svc \<Rightarrow>
          if shouldSkipService (Some svc) then (False, sct)
          else
            (let items = track_change (svc_nn svc) (serviceToServiceMap lib sct prev)
                           (serviceToServiceMap lib sct cur) (sct_items sct)
             in (items \<noteq> [], sct\<lparr>sct_items := items\<rparr>)))"

text \<open>\<open>merge\<close> also returns the strings of the names it visited.\<close>

definition ServiceMap_merge :: "ServiceMap \<Rightarrow> ServiceMap option \<Rightarrow> ServiceMap \<times> string set" where
  "ServiceMap_merge sm other =
     fold (\<lambda>(svcPortName, info) (sm, existingPorts).
         (gput svcPortName info sm, insert (ServicePortName_String svcPortName) existingPorts))
       (gm_entries other) (sm, {})"

definition ServiceMap_filter :: "ServiceMap option \<Rightarrow> ServiceMap option \<Rightarrow> ServiceMap option" where
  "ServiceMap_filter sm' other = map_option (\<lambda>sm. range_del_self sm (gm_entries other)) sm'"

definition ServiceMap_unmerge :: "ServiceMap \<Rightarrow> ServiceMap option \<Rightarrow> ServiceMap" where
  "ServiceMap_unmerge sm other =
     fold (\<lambda>(svcPortName, _) sm. if gget sm svcPortName \<noteq> None then gdel svcPortName sm else sm)
       (gm_entries other) sm"

definition ServiceMap_applyOne :: "serviceChange \<Rightarrow> ServiceMap \<Rightarrow> ServiceMap" where
  "ServiceMap_applyOne ch sm =
     (let sm1 = fst (ServiceMap_merge sm (current ch));
          prev = ServiceMap_filter (previous ch) (current ch)
      in ServiceMap_unmerge sm1 prev)"

definition ServiceMap_apply :: "ServiceChangeTracker \<Rightarrow> ServiceMap \<Rightarrow> ServiceMap \<times> ServiceChangeTracker" where
  "ServiceMap_apply changes sm =
     (fold ServiceMap_applyOne (map snd (sct_items changes)) sm, changes\<lparr>sct_items := []\<rparr>)"

definition enrichServiceInfo :: enrichServiceInfoFunc where
  "enrichServiceInfo port service baseInfo =
     PortService \<lparr>si_BaseServiceInfo = baseInfo, si_svcName = svc_nn service,
                  si_Type = ssp_Type (svc_Spec service)\<rparr>"

section \<open>The entries of one Service\<close>

definition svc_entry :: "k8s_lib \<Rightarrow> enrichServiceInfoFunc option \<Rightarrow> Service \<Rightarrow> ServicePort \<Rightarrow> PortInfo option" where
  "svc_entry lib e service port =
     map_option (\<lambda>b. case e of Some enrich \<Rightarrow> enrich port service b | None \<Rightarrow> PortBase b)
       (newBaseServiceInfo lib port service)"

definition add_entry :: "('p \<Rightarrow> 'k) \<Rightarrow> ('p \<Rightarrow> 'v option) \<Rightarrow> 'p \<Rightarrow> ('k, 'v) gomap \<Rightarrow> ('k, 'v) gomap" where
  "add_entry key val p m = (case val p of None \<Rightarrow> m | Some v \<Rightarrow> gput (key p) v m)"

lemma gm_wf_add_entries [gomap_wf]: "gm_wf m \<Longrightarrow> gm_wf (fold (add_entry key val) ps m)"
  by (rule gm_wf_fold) (auto simp: add_entry_def gomap_wf split: option.split)

lemma gget_add_entries:
  "gget (fold (add_entry key val) ps m) k =
     (case find (\<lambda>p. key p = k \<and> val p \<noteq> None) (rev ps) of
        Some p \<Rightarrow> val p | None \<Rightarrow> gget m k)"
  by (induction ps arbitrary: m rule: rev_induct) (auto simp: add_entry_def split: option.split)

lemma gget_add_entries_distinct:
  assumes "distinct (map key ps)" and "\<And>p. val p \<noteq> None"
  shows "gget (fold (add_entry key val) ps []) k = Some v \<longleftrightarrow> (\<exists>p \<in> set ps. k = key p \<and> val p = Some v)"
proof -
  have "gget (fold (add_entry key val) ps []) k =
      (case find (\<lambda>p. key p = k) (rev ps) of Some p \<Rightarrow> val p | None \<Rightarrow> None)"
    by (simp add: gget_add_entries assms(2) split: option.split)
  moreover have "p = p'" if "p \<in> set ps" "p' \<in> set ps" "key p = key p'" for p p'
    using assms(1) that by (auto simp: distinct_map dest: inj_onD)
  ultimately show ?thesis
    by (cases "find (\<lambda>p. key p = k) (rev ps)")
      (fastforce simp: find_None_iff dest: find_SomeD)+
qed

lemma serviceToServiceMap_Some:
  "serviceToServiceMap lib sct (Some service) =
     (if GetClusterIPByFamily lib IPv4Protocol service = [] then None
      else Some (fold (add_entry (svcPortName_of service)
                   (svc_entry lib (sct_enrichServiceInfo sct) service)) (ssp_Ports (svc_Spec service)) []))"
proof -
  have "(\<lambda>servicePort serviceMap.
          case newBaseServiceInfo lib servicePort service of
            None \<Rightarrow> serviceMap
          | Some baseSvcInfo \<Rightarrow>
              gput (svcPortName_of service servicePort)
                (case sct_enrichServiceInfo sct of
                   Some enrich \<Rightarrow> enrich servicePort service baseSvcInfo
                 | None \<Rightarrow> PortBase baseSvcInfo) serviceMap) =
        add_entry (svcPortName_of service) (svc_entry lib (sct_enrichServiceInfo sct) service)"
    by (intro ext) (simp add: add_entry_def svc_entry_def split: option.split)
  then show ?thesis by (simp add: serviceToServiceMap_def)
qed

lemma serviceToServiceMap_None [simp]: "serviceToServiceMap lib sct None = None"
  by (simp add: serviceToServiceMap_def)

lemma serviceToServiceMap_wf: "gm_wf_opt (serviceToServiceMap lib sct s)"
  by (cases s) (simp_all add: serviceToServiceMap_Some gomap_wf)

lemma serviceToServiceMap_owner:
  "gm_look (serviceToServiceMap lib sct (Some service)) k \<noteq> None \<Longrightarrow> spn_NamespacedName k = svc_nn service"
  by (auto simp: serviceToServiceMap_Some gget_add_entries svcPortName_of_def find_Some_iff
      split: option.splits if_splits)

lemma serviceToServiceMap_cong:
  "sct_enrichServiceInfo sct = sct_enrichServiceInfo sct' \<Longrightarrow>
   serviceToServiceMap lib sct s = serviceToServiceMap lib sct' s"
  by (cases s) (simp_all add: serviceToServiceMap_Some)

section \<open>Merging and removing\<close>

lemma ServiceMap_merge_fst: "fst (ServiceMap_merge sm other) = range_put sm (gm_entries other)"
proof -
  have "fst (fold (\<lambda>(k, v) (m, s). (gput k v m, insert (ServicePortName_String k) s)) xs (m, s)) =
          fold (\<lambda>(k, v). gput k v) xs m" for xs m s
    by (induction xs arbitrary: m s) auto
  then show ?thesis by (simp add: ServiceMap_merge_def range_put_def)
qed

lemma ServiceMap_unmerge_range_del: "ServiceMap_unmerge sm other = range_del sm (gm_entries other)"
proof -
  have "fold (\<lambda>(k, _) m. if gget m k \<noteq> None then gdel k m else m) xs m = fold (\<lambda>(k, _). gdel k) xs m"
    for xs :: "(ServicePortName \<times> PortInfo) list" and m :: ServiceMap
    by (induction xs arbitrary: m) (auto simp: delete_id map_of_eq_None_iff)
  then show ?thesis by (simp add: ServiceMap_unmerge_def range_del_def)
qed

lemma ServiceMap_applyOne_look:
  assumes "gm_wf_opt (previous ch)" and "gm_wf_opt (current ch)"
  shows "gget (ServiceMap_applyOne ch M) k = change_look (previous ch) (current ch) M k"
  using assms
  by (cases "previous ch"; cases "current ch")
    (simp_all add: ServiceMap_applyOne_def ServiceMap_merge_fst ServiceMap_unmerge_range_del
      ServiceMap_filter_def change_look_def gomap_simps Let_def split: option.split)

lemma gm_wf_ServiceMap_applyOne [gomap_wf]: "gm_wf M \<Longrightarrow> gm_wf (ServiceMap_applyOne ch M)"
  by (simp add: ServiceMap_applyOne_def ServiceMap_merge_fst ServiceMap_unmerge_range_del gomap_wf Let_def)

section \<open>The tracker meets its contract\<close>

definition sct_wf :: "enrichServiceInfoFunc option \<Rightarrow> ServiceChangeTracker \<Rightarrow> bool" where
  "sct_wf e sct \<longleftrightarrow> gm_wf (sct_items sct) \<and> sct_enrichServiceInfo sct = e"

lemma ServiceChangeTracker_Update_skip:
  "(case c of Some x \<Rightarrow> Some x | None \<Rightarrow> p) = Some svc \<Longrightarrow> shouldSkipService (Some svc) \<Longrightarrow>
   ServiceChangeTracker_Update lib p c sct = (False, sct)"
  by (simp add: ServiceChangeTracker_Update_def)

lemma ServiceChangeTracker_Update_items:
  "(case c of Some x \<Rightarrow> Some x | None \<Rightarrow> p) = Some svc \<Longrightarrow> \<not> shouldSkipService (Some svc) \<Longrightarrow>
   snd (ServiceChangeTracker_Update lib p c sct) =
     sct\<lparr>sct_items := track_change (svc_nn svc) (serviceToServiceMap lib sct p)
                        (serviceToServiceMap lib sct c) (sct_items sct)\<rparr>"
  by (simp add: ServiceChangeTracker_Update_def Let_def)

lemma sct_wf_Update: "sct_wf e sct \<Longrightarrow> sct_wf e (snd (ServiceChangeTracker_Update lib p c sct))"
  by (auto simp: sct_wf_def ServiceChangeTracker_Update_def Let_def gomap_wf split: option.split)

interpretation svc: synced_map
  "\<lambda>s. serviceToServiceMap lib (NewServiceChangeTracker e) (Some s)"
  svc_nn
  "\<lambda>s. shouldSkipService (Some s)"
  "\<lambda>p c t. snd (ServiceChangeTracker_Update lib p c t)"
  "\<lambda>t. items_pend (sct_items t)"
  "sct_wf e"
  spn_NamespacedName
  ServiceMap_apply
  for lib e
proof unfold_locales
  let ?toMap = "\<lambda>s. serviceToServiceMap lib (NewServiceChangeTracker e) (Some s)"
  have conv: "serviceToServiceMap lib t s = opt_map ?toMap s" if "sct_wf e t" for t s
    using that serviceToServiceMap_cong [of t "NewServiceChangeTracker e"]
    by (cases s) (simp_all add: sct_wf_def NewServiceChangeTracker_def)
  show "gm_wf_opt (?toMap s)" for s by (rule serviceToServiceMap_wf)
  show "sct_wf e t \<Longrightarrow> sct_wf e (snd (ServiceChangeTracker_Update lib p c t))" for t p c
    by (rule sct_wf_Update)
  show "(case c of Some x \<Rightarrow> Some x | None \<Rightarrow> p) = Some s \<Longrightarrow> shouldSkipService (Some s) \<Longrightarrow>
      snd (ServiceChangeTracker_Update lib p c t) = t" for c p s t
    by (simp add: ServiceChangeTracker_Update_skip)
  show "sct_wf e t \<Longrightarrow> (case c of Some x \<Rightarrow> Some x | None \<Rightarrow> p) = Some s \<Longrightarrow> \<not> shouldSkipService (Some s) \<Longrightarrow>
      items_pend (sct_items (snd (ServiceChangeTracker_Update lib p c t))) =
        (items_pend (sct_items t))(svc_nn s :=
           norm_change (case items_pend (sct_items t) (svc_nn s) of
                          None \<Rightarrow> opt_map ?toMap p | Some change \<Rightarrow> fst change) (opt_map ?toMap c))" for t c p s
    by (simp add: ServiceChangeTracker_Update_items items_pend_track_change conv)
  show "gm_look (?toMap s) k \<noteq> None \<Longrightarrow> spn_NamespacedName k = svc_nn s" for s k
    by (rule serviceToServiceMap_owner)
  show "sct_wf e t \<Longrightarrow> sct_wf e (snd (ServiceMap_apply t M))" for t M
    by (simp add: ServiceMap_apply_def sct_wf_def)
  show "items_pend (sct_items (snd (ServiceMap_apply t M))) n = None" for t M n
    by (simp add: ServiceMap_apply_def)
  show "gm_wf M \<Longrightarrow> gm_wf (fst (ServiceMap_apply t M))" for M t
    by (simp add: ServiceMap_apply_def gm_wf_fold gomap_wf)
  show "gget (fst (ServiceMap_apply t M)) k =
      (case items_pend (sct_items t) (spn_NamespacedName k) of
         None \<Rightarrow> gget M k | Some (p, c) \<Rightarrow> change_look p c M k)"
    if "sct_wf e t"
      and "\<And>n p c. items_pend (sct_items t) n = Some (p, c) \<Longrightarrow> gm_wf_opt p \<and> gm_wf_opt c"
      and "\<And>n p c k. items_pend (sct_items t) n = Some (p, c) \<Longrightarrow>
             gm_look p k \<noteq> None \<or> gm_look c k \<noteq> None \<Longrightarrow> spn_NamespacedName k = n" for t M k
    unfolding ServiceMap_apply_def fst_conv
    by (rule apply_changes_look [OF ServiceMap_applyOne_look]) (use that in \<open>auto simp: sct_wf_def\<close>)
qed

section \<open>Properties\<close>

text \<open>A library with the documented behaviour on the inputs below, for the witnesses.\<close>

definition demo_lib :: k8s_lib where
  "demo_lib = \<lparr>GetClusterIPByFamily = (\<lambda>_ s. ssp_ClusterIP (svc_Spec s)),
     IntValue = (\<lambda>p. case p of IntPort i \<Rightarrow> i | StrPort s \<Rightarrow> (case atoi s of Some i \<Rightarrow> i | None \<Rightarrow> 0)),
     IsDNS1123Subdomain = (\<lambda>s. if s = [] then [''empty''] else []),
     IsWildcardDNS1123Subdomain = (\<lambda>s. if prefix ''*.'' s then [] else [''no wildcard'']),
     IsIPv4String = (\<lambda>s. case ParseIP s of None \<Rightarrow> False | Some ip \<Rightarrow> To4 ip \<noteq> None),
     IPPart = takeWhile (\<lambda>c. c \<noteq> CHR '':''),
     PortPart = (\<lambda>s. case atoi (drop 1 (dropWhile (\<lambda>c. c \<noteq> CHR '':'') s)) of
                       None \<Rightarrow> Inl (Errorf ''invalid port'') | Some p \<Rightarrow> Inr p),
     SplitMetaNamespaceKey = (\<lambda>s. ([], s, None))\<rparr>"

definition demo_svc :: "string \<Rightarrow> ServicePort list \<Rightarrow> Service" where
  "demo_svc ty ports =
     \<lparr>svc_Meta = named_meta ''default'' ''web'',
      svc_Spec = \<lparr>ssp_Type = ty, ssp_ClusterIP = ''10.0.0.1'', ssp_ClusterIPs = [''10.0.0.1''],
                  ssp_IPFamilies = [''IPv4''], ssp_ExternalName = [], ssp_Ports = ports,
                  ssp_LoadBalancerClass = None, ssp_IPFamilyPolicy = None\<rparr>,
      svc_LoadBalancerIngressIPs = []\<rparr>"

definition demo_port :: "string \<Rightarrow> int \<Rightarrow> ServicePort" where
  "demo_port nm n = \<lparr>sp_Name = nm, sp_Protocol = ProtocolTCP, sp_Port = n, sp_TargetPort = IntPort n,
                     sp_NodePort = 0, sp_AppProtocol = None\<rparr>"

lemmas demo_defs =
  demo_lib_def demo_svc_def demo_port_def svc_nn_def nn_of_meta_def named_meta_def



text \<open>A ClusterIP Service whose ports have distinct names or protocols, and that has an IPv4
  cluster address, contributes exactly one entry per port, which carries the address, the port
  and the name of the Service.\<close>

theorem clusterIP_service_entries:
  assumes "ssp_Type (svc_Spec s) = ServiceTypeClusterIP"
    and "GetClusterIPByFamily lib IPv4Protocol s \<noteq> []"
    and "distinct (map (svcPortName_of s) (ssp_Ports (svc_Spec s)))"
  shows "gm_look (serviceToServiceMap lib (NewServiceChangeTracker (Some enrichServiceInfo)) (Some s)) k = Some v \<longleftrightarrow>
     (\<exists>port \<in> set (ssp_Ports (svc_Spec s)).
        k = svcPortName_of s port \<and>
        v = PortService
              \<lparr>si_BaseServiceInfo = \<lparr>bsi_address = GetClusterIPByFamily lib IPv4Protocol s,
                 bsi_port = sp_Port port, bsi_portName = sp_Name port, bsi_protocol = sp_Protocol port\<rparr>,
               si_svcName = svc_nn s, si_Type = ServiceTypeClusterIP\<rparr>)"
proof -
  let ?ports = "ssp_Ports (svc_Spec s)"
  let ?val = "svc_entry lib (Some enrichServiceInfo) s"
  have val: "?val port = Some (PortService
              \<lparr>si_BaseServiceInfo = \<lparr>bsi_address = GetClusterIPByFamily lib IPv4Protocol s,
                 bsi_port = sp_Port port, bsi_portName = sp_Name port, bsi_protocol = sp_Protocol port\<rparr>,
               si_svcName = svc_nn s, si_Type = ServiceTypeClusterIP\<rparr>)" for port
    using assms(1) by (simp add: svc_entry_def newBaseServiceInfo_def enrichServiceInfo_def)
  have "gget (fold (add_entry (svcPortName_of s) ?val) ?ports []) k = Some v \<longleftrightarrow>
      (\<exists>port \<in> set ?ports. k = svcPortName_of s port \<and> ?val port = Some v)"
    by (rule gget_add_entries_distinct [OF assms(3)]) (simp add: val)
  with assms(2) show ?thesis
    by (auto simp: serviceToServiceMap_Some NewServiceChangeTracker_def val)
qed

theorem clusterIP_service_entries_witness:
  "let s = demo_svc ServiceTypeClusterIP [demo_port ''http'' 80, demo_port ''https'' 443] in
   gm_look (serviceToServiceMap demo_lib (NewServiceChangeTracker (Some enrichServiceInfo)) (Some s))
     (svcPortName_of s (demo_port ''https'' 443)) =
   Some (PortService
     \<lparr>si_BaseServiceInfo = \<lparr>bsi_address = ''10.0.0.1'', bsi_port = 443, bsi_portName = ''https'',
        bsi_protocol = ''TCP''\<rparr>, si_svcName = nn ''default'' ''web'', si_Type = ''ClusterIP''\<rparr>)"
proof -
  let ?s = "demo_svc ServiceTypeClusterIP [demo_port ''http'' 80, demo_port ''https'' 443]"
  show ?thesis
    unfolding Let_def
    by (subst clusterIP_service_entries)
      (simp_all add: demo_defs svcPortName_of_def)
qed

text \<open>A Service that has been synchronised and then changes its type from one that is tracked
  to \<open>NodePort\<close> or \<open>LoadBalancer\<close> keeps all its old entries: \<open>Update\<close> looks at the new object
  only when it decides to skip, so neither this nor any later synchronisation removes them.\<close>

theorem service_type_change_keeps_entries:
  assumes "\<not> shouldSkipService (Some s1)" and "shouldSkipService (Some s2)"
    and "svc_nn s1 = svc_nn s2" and "spn_NamespacedName k = svc_nn s1"
  shows "gget (snd (run_tracker (\<lambda>p c t. snd (ServiceChangeTracker_Update lib p c t)) ServiceMap_apply
                     ([Added s1, Synced, Updated s1 s2] @ replicate n Synced) (NewServiceChangeTracker e, []))) k =
         gm_look (serviceToServiceMap lib (NewServiceChangeTracker e) (Some s1)) k"
proof -
  let ?U = "\<lambda>p c t. snd (ServiceChangeTracker_Update lib p c t)"
  let ?t0 = "NewServiceChangeTracker e"
  obtain t M where sync: "run_tracker ?U ServiceMap_apply [Added s1, Synced] (?t0, []) = (t, M)"
    by (cases "run_tracker ?U ServiceMap_apply [Added s1, Synced] (?t0, [])")
  have "gget (snd (run_tracker ?U ServiceMap_apply ([Added s1] @ [Synced]) (?t0, []))) k =
      flatten (\<lambda>s. serviceToServiceMap lib ?t0 (Some s)) (\<lambda>s. shouldSkipService (Some s))
        spn_NamespacedName (run_store svc_nn [Added s1] Map.empty) k"
    by (intro svc.synced_after_run svc.inv_initial) (simp_all add: sct_wf_def NewServiceChangeTracker_def)
  then have "gget M k = gm_look (serviceToServiceMap lib ?t0 (Some s1)) k"
    using sync assms by (simp add: flatten_def del: run_tracker.simps)
  moreover have items: "sct_items t = []"
    using sync by (auto simp: ServiceMap_apply_def)
  moreover have "run_tracker ?U ServiceMap_apply (replicate n Synced) (t, M) = (t, M)"
  proof -
    have "ServiceMap_apply t M = (M, t)" using items by (cases t) (simp add: ServiceMap_apply_def)
    then show ?thesis by (induction n) simp_all
  qed
  moreover have "?U (Some s1) (Some s2) t = t"
    using assms(2) by (simp add: ServiceChangeTracker_Update_skip)
  ultimately show ?thesis
    using sync run_tracker_append [of ?U ServiceMap_apply "[Added s1, Synced]" "Updated s1 s2 # replicate n Synced"]
    by simp
qed

theorem service_type_change_keeps_entries_witness:
  "let s1 = demo_svc ServiceTypeClusterIP [demo_port ''http'' 80];
       s2 = demo_svc ServiceTypeNodePort [demo_port ''http'' 80]
   in gget (snd (run_tracker (\<lambda>p c t. snd (ServiceChangeTracker_Update demo_lib p c t)) ServiceMap_apply
             ([Added s1, Synced, Updated s1 s2] @ replicate 5 Synced) (NewServiceChangeTracker None, [])))
        (svcPortName_of s1 (demo_port ''http'' 80)) =
      Some (PortBase \<lparr>bsi_address = ''10.0.0.1'', bsi_port = 80, bsi_portName = ''http'', bsi_protocol = ''TCP''\<rparr>)"
  unfolding Let_def
  by (subst service_type_change_keeps_entries)
    (simp_all add: demo_defs svcPortName_of_def shouldSkipService_def serviceToServiceMap_def
      newBaseServiceInfo_def NewServiceChangeTracker_def)

end
