(* ===== verification/Endpoints_Cache.thy ===== *)
theory Endpoints_Cache
  imports Service_Cache
begin

text \<open>
  \<open>pkg/cache/endpoints.go\<close>: the tracker of Endpoints changes and the map from service ports to
  the IPv4 endpoints behind them.
\<close>

type_synonym EndpointsMap = "(ServicePortName, BaseEndpointInfo list) gomap"
type_synonym endpointsChange = "(ServicePortName, BaseEndpointInfo list) change"
type_synonym enrichEndpointFunc = "BaseEndpointInfo \<Rightarrow> BaseEndpointInfo"

record EndpointChangeTracker =
  ect_items :: "(NamespacedName, endpointsChange) gomap"
  ect_enrichEndpointInfo :: "enrichEndpointFunc option"

section \<open>Operations\<close>

definition newBaseEndpointInfo :: "string \<Rightarrow> int \<Rightarrow> string \<Rightarrow> string \<Rightarrow> BaseEndpointInfo" where
  "newBaseEndpointInfo IP port nodename hostname =
     \<lparr>bei_Endpoint = JoinHostPort IP (itoa port), bei_Nodename = nodename, bei_Hostname = hostname,
      bei_Cluster = []\<rparr>"

definition NewEndpointChangeTracker :: "enrichEndpointFunc option \<Rightarrow> EndpointChangeTracker" where
  "NewEndpointChangeTracker enrich = \<lparr>ect_items = [], ect_enrichEndpointInfo = enrich\<rparr>"

definition nodename :: "EndpointAddress option \<Rightarrow> string" where
  "nodename addr' = (case addr' of None \<Rightarrow> [] | Some addr \<Rightarrow>
                       (case ea_NodeName addr of None \<Rightarrow> [] | Some n \<Rightarrow> n))"

definition formatEndpointsList :: "BaseEndpointInfo list \<Rightarrow> string list" where
  "formatEndpointsList endpoints = map bei_Endpoint endpoints"

definition enrich_endpoint :: "enrichEndpointFunc option \<Rightarrow> BaseEndpointInfo \<Rightarrow> BaseEndpointInfo" where
  "enrich_endpoint e info = (case e of Some enrich \<Rightarrow> enrich info | None \<Rightarrow> info)"

text \<open>The body of the innermost loop, over the addresses of a subset.\<close>

definition add_address ::
  "k8s_lib \<Rightarrow> enrichEndpointFunc option \<Rightarrow> ServicePortName \<Rightarrow> EndpointPort \<Rightarrow> EndpointAddress \<Rightarrow> EndpointsMap \<Rightarrow> EndpointsMap"
where
  "add_address lib e svcPortName port addr endpointsMap =
     (if ea_IP addr = [] then endpointsMap
      else if \<not> IsIPv4String lib (ea_IP addr) then endpointsMap
      else gappend svcPortName
             [enrich_endpoint e (newBaseEndpointInfo (ea_IP addr) (ep_Port port) (nodename (Some addr)) (ea_Hostname addr))]
             endpointsMap)"

definition eps_spn :: "Endpoints \<Rightarrow> EndpointPort \<Rightarrow> ServicePortName" where
  "eps_spn endpoints port =
     \<lparr>spn_NamespacedName = eps_nn endpoints, spn_Port = ep_Name port, spn_Protocol = ep_Protocol port\<rparr>"

definition add_subset_port ::
  "k8s_lib \<Rightarrow> enrichEndpointFunc option \<Rightarrow> Endpoints \<Rightarrow> EndpointSubset \<Rightarrow> EndpointPort \<Rightarrow> EndpointsMap \<Rightarrow> EndpointsMap"
where
  "add_subset_port lib e endpoints ss port endpointsMap =
     (if ep_Port port = 0 then endpointsMap
      else fold (add_address lib e (eps_spn endpoints port) port) (es_Addresses ss) endpointsMap)"

definition endpointsToEndpointsMap ::
  "k8s_lib \<Rightarrow> EndpointChangeTracker \<Rightarrow> Endpoints option \<Rightarrow> EndpointsMap option"
where
  "endpointsToEndpointsMap lib ect endpoints' =
     (case endpoints' of
        None \<Rightarrow> None
      | Some endpoints \<Rightarrow>
          Some (fold (\<lambda>ss. fold (add_subset_port lib (ect_enrichEndpointInfo ect) endpoints ss) (es_Ports ss))
                  (eps_Subsets endpoints) []))"

definition EndpointChangeTracker_Update ::
  "k8s_lib \<Rightarrow> Endpoints option \<Rightarrow> Endpoints option \<Rightarrow> EndpointChangeTracker \<Rightarrow> bool \<times> EndpointChangeTracker"
where
  "EndpointChangeTracker_Update lib prev cur ect =
     (case (case cur of Some e \<Rightarrow> Some e | None \<Rightarrow> prev) of
        None \<Rightarrow> (False, ect)
      | Some endpoints \<Rightarrow>
          (let items = track_change (eps_nn endpoints) (endpointsToEndpointsMap lib ect prev)
                         (endpointsToEndpointsMap lib ect cur) (ect_items ect)
           in (items \<noteq> [], ect\<lparr>ect_items := items\<rparr>)))"

definition EndpointChangeTracker_checkoutChanges ::
  "EndpointChangeTracker \<Rightarrow> endpointsChange list \<times> EndpointChangeTracker"
where
  "EndpointChangeTracker_checkoutChanges ect = (map snd (ect_items ect), ect\<lparr>ect_items := []\<rparr>)"

definition EndpointsMap_merge :: "EndpointsMap \<Rightarrow> EndpointsMap option \<Rightarrow> EndpointsMap" where
  "EndpointsMap_merge em other = range_put em (gm_entries other)"

definition EndpointsMap_unmerge :: "EndpointsMap \<Rightarrow> EndpointsMap option \<Rightarrow> EndpointsMap" where
  "EndpointsMap_unmerge em other = range_del em (gm_entries other)"

definition EndpointsMap_applyOne :: "endpointsChange \<Rightarrow> EndpointsMap \<Rightarrow> EndpointsMap" where
  "EndpointsMap_applyOne ch em = EndpointsMap_merge (EndpointsMap_unmerge em (previous ch)) (current ch)"

definition EndpointsMap_apply :: "EndpointChangeTracker \<Rightarrow> EndpointsMap \<Rightarrow> EndpointsMap \<times> EndpointChangeTracker" where
  "EndpointsMap_apply ect em =
     (let (changes, ect') = EndpointChangeTracker_checkoutChanges ect
      in (fold EndpointsMap_applyOne changes em, ect'))"

section \<open>The entries of one Endpoints object\<close>

text \<open>What the three nested loops compute, as a list: the endpoints of a key in the order of
  subsets, ports and addresses.\<close>

definition address_ok :: "k8s_lib \<Rightarrow> EndpointAddress \<Rightarrow> bool" where
  "address_ok lib addr \<longleftrightarrow> ea_IP addr \<noteq> [] \<and> IsIPv4String lib (ea_IP addr)"

definition eps_list :: "k8s_lib \<Rightarrow> enrichEndpointFunc option \<Rightarrow> Endpoints \<Rightarrow> ServicePortName \<Rightarrow> BaseEndpointInfo list" where
  "eps_list lib e endpoints k =
     concat (map (\<lambda>ss. concat (map (\<lambda>port.
         if ep_Port port \<noteq> 0 \<and> eps_spn endpoints port = k
         then map (\<lambda>a. enrich_endpoint e (newBaseEndpointInfo (ea_IP a) (ep_Port port) (nodename (Some a)) (ea_Hostname a)))
                (filter (address_ok lib) (es_Addresses ss))
         else []) (es_Ports ss))) (eps_Subsets endpoints))"

text \<open>A map whose slices are built by appending: absent stands for the empty slice.\<close>

definition gslice :: "('k, 'v list) gomap \<Rightarrow> 'k \<Rightarrow> 'v list" where
  "gslice m k = (case gget m k of None \<Rightarrow> [] | Some vs \<Rightarrow> vs)"

definition no_empty_slice :: "('k, 'v list) gomap \<Rightarrow> bool" where
  "no_empty_slice m \<longleftrightarrow> (\<forall>k. gget m k \<noteq> Some [])"

lemma gslice_simps [simp]:
  "gslice [] k = []"
  "gslice (gappend k' vs m) k = gslice m k @ (if k = k' then vs else [])"
  by (simp_all add: gslice_def split: option.split)

lemma no_empty_Nil [simp]: "no_empty_slice []"
  by (simp add: no_empty_slice_def)

lemma no_empty_gappend: "no_empty_slice m \<Longrightarrow> vs \<noteq> [] \<Longrightarrow> no_empty_slice (gappend k vs m)"
  by (simp add: no_empty_slice_def)

lemma gget_gslice: "no_empty_slice m \<Longrightarrow> gget m k = (if gslice m k = [] then None else Some (gslice m k))"
  by (auto simp: no_empty_slice_def gslice_def split: option.split)

lemma add_addresses:
  "gslice (fold (add_address lib e k' port) as m) k =
     gslice m k @ (if k = k' then map (\<lambda>a. enrich_endpoint e (newBaseEndpointInfo (ea_IP a) (ep_Port port)
                       (nodename (Some a)) (ea_Hostname a))) (filter (address_ok lib) as) else [])"
  "no_empty_slice m \<Longrightarrow> no_empty_slice (fold (add_address lib e k' port) as m)"
  "gm_wf m \<Longrightarrow> gm_wf (fold (add_address lib e k' port) as m)"
  by (induction as arbitrary: m)
    (auto simp: add_address_def address_ok_def no_empty_gappend gomap_wf)

lemma add_subset_ports:
  "gslice (fold (add_subset_port lib e eps ss) ports m) k =
     gslice m k @ concat (map (\<lambda>port. if ep_Port port \<noteq> 0 \<and> eps_spn eps port = k
         then map (\<lambda>a. enrich_endpoint e (newBaseEndpointInfo (ea_IP a) (ep_Port port) (nodename (Some a)) (ea_Hostname a)))
                (filter (address_ok lib) (es_Addresses ss))
         else []) ports)"
  "no_empty_slice m \<Longrightarrow> no_empty_slice (fold (add_subset_port lib e eps ss) ports m)"
  "gm_wf m \<Longrightarrow> gm_wf (fold (add_subset_port lib e eps ss) ports m)"
  by (induction ports arbitrary: m) (auto simp: add_subset_port_def add_addresses)

lemma add_subsets:
  "gslice (fold (\<lambda>ss. fold (add_subset_port lib e eps ss) (es_Ports ss)) sss m) k =
     gslice m k @ concat (map (\<lambda>ss. concat (map (\<lambda>port.
         if ep_Port port \<noteq> 0 \<and> eps_spn eps port = k
         then map (\<lambda>a. enrich_endpoint e (newBaseEndpointInfo (ea_IP a) (ep_Port port) (nodename (Some a)) (ea_Hostname a)))
                (filter (address_ok lib) (es_Addresses ss))
         else []) (es_Ports ss))) sss)"
  "no_empty_slice m \<Longrightarrow> no_empty_slice (fold (\<lambda>ss. fold (add_subset_port lib e eps ss) (es_Ports ss)) sss m)"
  "gm_wf m \<Longrightarrow> gm_wf (fold (\<lambda>ss. fold (add_subset_port lib e eps ss) (es_Ports ss)) sss m)"
  by (induction sss arbitrary: m) (auto simp: add_subset_ports)

lemma endpointsToEndpointsMap_look:
  "gm_look (endpointsToEndpointsMap lib ect (Some eps)) k =
     (if eps_list lib (ect_enrichEndpointInfo ect) eps k = [] then None
      else Some (eps_list lib (ect_enrichEndpointInfo ect) eps k))"
proof -
  from gget_gslice [OF add_subsets(2) [OF no_empty_Nil]] show ?thesis
    by (simp add: endpointsToEndpointsMap_def add_subsets(1) eps_list_def)
qed

lemma endpointsToEndpointsMap_None [simp]: "endpointsToEndpointsMap lib ect None = None"
  by (simp add: endpointsToEndpointsMap_def)

lemma endpointsToEndpointsMap_wf: "gm_wf_opt (endpointsToEndpointsMap lib ect s)"
  by (cases s) (simp_all add: endpointsToEndpointsMap_def add_subsets(3))

lemma endpointsToEndpointsMap_owner:
  assumes "gm_look (endpointsToEndpointsMap lib ect (Some eps)) k \<noteq> None"
  shows "spn_NamespacedName k = eps_nn eps"
proof (rule ccontr)
  assume "spn_NamespacedName k \<noteq> eps_nn eps"
  then have "eps_spn eps port \<noteq> k" for port by (auto simp: eps_spn_def)
  then have "eps_list lib e eps k = []" for e by (simp add: eps_list_def)
  with assms show False by (simp add: endpointsToEndpointsMap_look)
qed

lemma endpointsToEndpointsMap_cong:
  "ect_enrichEndpointInfo ect = ect_enrichEndpointInfo ect' \<Longrightarrow>
   endpointsToEndpointsMap lib ect s = endpointsToEndpointsMap lib ect' s"
  by (cases s) (simp_all add: endpointsToEndpointsMap_def)

section \<open>The tracker meets its contract\<close>

definition ect_wf :: "enrichEndpointFunc option \<Rightarrow> EndpointChangeTracker \<Rightarrow> bool" where
  "ect_wf e ect \<longleftrightarrow> gm_wf (ect_items ect) \<and> ect_enrichEndpointInfo ect = e"

lemma EndpointsMap_applyOne_look:
  assumes "gm_wf_opt (previous ch)" and "gm_wf_opt (current ch)"
  shows "gget (EndpointsMap_applyOne ch M) k = change_look (previous ch) (current ch) M k"
  using assms
  by (cases "previous ch"; cases "current ch")
    (simp_all add: EndpointsMap_applyOne_def EndpointsMap_merge_def EndpointsMap_unmerge_def
      change_look_def gomap_simps split: option.split)

lemma gm_wf_EndpointsMap_applyOne [gomap_wf]: "gm_wf M \<Longrightarrow> gm_wf (EndpointsMap_applyOne ch M)"
  by (simp add: EndpointsMap_applyOne_def EndpointsMap_merge_def EndpointsMap_unmerge_def gomap_wf)

lemma EndpointsMap_apply_simps:
  "fst (EndpointsMap_apply t M) = fold EndpointsMap_applyOne (map snd (ect_items t)) M"
  "snd (EndpointsMap_apply t M) = t\<lparr>ect_items := []\<rparr>"
  by (simp_all add: EndpointsMap_apply_def EndpointChangeTracker_checkoutChanges_def)

lemma EndpointChangeTracker_Update_items:
  "(case c of Some x \<Rightarrow> Some x | None \<Rightarrow> p) = Some eps \<Longrightarrow>
   snd (EndpointChangeTracker_Update lib p c ect) =
     ect\<lparr>ect_items := track_change (eps_nn eps) (endpointsToEndpointsMap lib ect p)
                        (endpointsToEndpointsMap lib ect c) (ect_items ect)\<rparr>"
  by (simp add: EndpointChangeTracker_Update_def Let_def)

lemma ect_wf_Update: "ect_wf e ect \<Longrightarrow> ect_wf e (snd (EndpointChangeTracker_Update lib p c ect))"
  by (auto simp: ect_wf_def EndpointChangeTracker_Update_def Let_def gomap_wf split: option.split)

interpretation eps: synced_map
  "\<lambda>s. endpointsToEndpointsMap lib (NewEndpointChangeTracker e) (Some s)"
  eps_nn
  "\<lambda>_. False"
  "\<lambda>p c t. snd (EndpointChangeTracker_Update lib p c t)"
  "\<lambda>t. items_pend (ect_items t)"
  "ect_wf e"
  spn_NamespacedName
  EndpointsMap_apply
  for lib e
proof unfold_locales
  let ?toMap = "\<lambda>s. endpointsToEndpointsMap lib (NewEndpointChangeTracker e) (Some s)"
  have conv: "endpointsToEndpointsMap lib t s = opt_map ?toMap s" if "ect_wf e t" for t s
    using that endpointsToEndpointsMap_cong [of t "NewEndpointChangeTracker e"]
    by (cases s) (simp_all add: ect_wf_def NewEndpointChangeTracker_def)
  show "ect_wf e t \<Longrightarrow> (case c of Some x \<Rightarrow> Some x | None \<Rightarrow> p) = Some s \<Longrightarrow>
      items_pend (ect_items (snd (EndpointChangeTracker_Update lib p c t))) =
        (items_pend (ect_items t))(eps_nn s :=
           norm_change (case items_pend (ect_items t) (eps_nn s) of
                          None \<Rightarrow> opt_map ?toMap p | Some change \<Rightarrow> fst change) (opt_map ?toMap c))" for t c p s
    by (simp add: EndpointChangeTracker_Update_items items_pend_track_change conv)
  show "gm_look (?toMap s) k \<noteq> None \<Longrightarrow> spn_NamespacedName k = eps_nn s" for s k
    by (rule endpointsToEndpointsMap_owner)
  show "gget (fst (EndpointsMap_apply t M)) k =
      (case items_pend (ect_items t) (spn_NamespacedName k) of
         None \<Rightarrow> gget M k | Some (p, c) \<Rightarrow> change_look p c M k)"
    if "ect_wf e t"
      and "\<And>n p c. items_pend (ect_items t) n = Some (p, c) \<Longrightarrow> gm_wf_opt p \<and> gm_wf_opt c"
      and "\<And>n p c k. items_pend (ect_items t) n = Some (p, c) \<Longrightarrow>
             gm_look p k \<noteq> None \<or> gm_look c k \<noteq> None \<Longrightarrow> spn_NamespacedName k = n" for t M k
    unfolding EndpointsMap_apply_simps
    by (rule apply_changes_look [OF EndpointsMap_applyOne_look]) (use that in \<open>auto simp: ect_wf_def\<close>)
  show "ect_wf e t \<Longrightarrow> ect_wf e (snd (EndpointChangeTracker_Update lib p c t))" for t p c
    by (rule ect_wf_Update)
qed (simp_all add: endpointsToEndpointsMap_wf EndpointsMap_apply_simps ect_wf_def gm_wf_fold gomap_wf)

section \<open>Properties\<close>

definition demo_eps :: "string list \<Rightarrow> Endpoints" where
  "demo_eps ips = \<lparr>eps_Meta = named_meta ''default'' ''web'',
     eps_Subsets = [\<lparr>es_Addresses = map (\<lambda>ip. \<lparr>ea_IP = ip, ea_Hostname = [], ea_NodeName = None\<rparr>) ips,
                     es_Ports = [\<lparr>ep_Name = ''http'', ep_Port = 8080, ep_Protocol = ProtocolTCP\<rparr>]\<rparr>]\<rparr>"

abbreviation demo_spn :: ServicePortName where
  "demo_spn \<equiv> \<lparr>spn_NamespacedName = nn ''default'' ''web'', spn_Port = ''http'', spn_Protocol = ProtocolTCP\<rparr>"

text \<open>C14. For every run of informer events that agree with the informer's store, one
  \<open>EndpointsMap.Update\<close> makes the endpoints map exactly what the Endpoints objects in the store
  give.\<close>

theorem endpoints_map_synced:
  assumes "valid_events eps_nn (\<lambda>_. False) es Map.empty"
  shows "gget (snd (run_tracker (\<lambda>p c t. snd (EndpointChangeTracker_Update lib p c t)) EndpointsMap_apply
                      (es @ [Synced]) (NewEndpointChangeTracker e, []))) k =
         flatten (\<lambda>s. endpointsToEndpointsMap lib (NewEndpointChangeTracker e) (Some s))
           (\<lambda>_. False) spn_NamespacedName (run_store eps_nn es Map.empty) k"
  using assms
  by (intro eps.synced_after_run eps.inv_initial)
    (simp_all add: ect_wf_def NewEndpointChangeTracker_def)

theorem endpoints_map_synced_witness:
  "let e1 = demo_eps [''10.1.0.1'']; e2 = demo_eps [''10.1.0.2''];
       es = [Added e1, Synced, Updated e1 e2, Deleted e2]
   in valid_events eps_nn (\<lambda>_. False) es Map.empty \<and>
      gget (snd (run_tracker (\<lambda>p c t. snd (EndpointChangeTracker_Update demo_lib p c t)) EndpointsMap_apply
                  (es @ [Synced]) (NewEndpointChangeTracker None, []))) demo_spn = None"
proof -
  let ?e1 = "demo_eps [''10.1.0.1'']"
  let ?e2 = "demo_eps [''10.1.0.2'']"
  have "valid_events eps_nn (\<lambda>_. False) [Added ?e1, Synced, Updated ?e1 ?e2, Deleted ?e2] Map.empty"
    by (simp add: demo_eps_def eps_nn_def nn_of_meta_def)
  from this endpoints_map_synced [OF this, where lib = demo_lib and e = None and k = demo_spn]
  show ?thesis
    by (simp add: flatten_def demo_eps_def eps_nn_def nn_of_meta_def del: run_tracker.simps)
qed

text \<open>The map of an Endpoints object binds a service port to the IPv4 addresses of the object's
  subsets that offer this port, in order, joined with the port number; ports with number 0,
  empty and non-IPv4 addresses are left out, and no key is bound to an empty list.\<close>

theorem endpointsToEndpointsMap_entries:
  "gm_look (endpointsToEndpointsMap lib (NewEndpointChangeTracker None) (Some eps)) k =
     (let addrs = [newBaseEndpointInfo (ea_IP a) (ep_Port port) (nodename (Some a)) (ea_Hostname a).
                     ss \<leftarrow> eps_Subsets eps, port \<leftarrow> es_Ports ss, ep_Port port \<noteq> 0, eps_spn eps port = k,
                     a \<leftarrow> es_Addresses ss, ea_IP a \<noteq> [], IsIPv4String lib (ea_IP a)]
      in if addrs = [] then None else Some addrs)"
proof -
  have filt: "concat (map (\<lambda>a. if ea_IP a \<noteq> [] then if IsIPv4String lib (ea_IP a) then [f a] else [] else []) as) =
      map f (filter (address_ok lib) as)" for f :: "EndpointAddress \<Rightarrow> BaseEndpointInfo" and as
    by (induction as) (simp_all add: address_ok_def)
  have nest: "(if a \<noteq> 0 then if b then x else [] else []) = (if a \<noteq> 0 \<and> b then x else [])"
    for a :: int and b and x :: "BaseEndpointInfo list"
    by simp
  have plain: "enrich_endpoint None = (\<lambda>info. info)"
    by (rule ext) (simp add: enrich_endpoint_def)
  have "ect_enrichEndpointInfo (NewEndpointChangeTracker None) = None"
    by (simp add: NewEndpointChangeTracker_def)
  then show ?thesis
    by (simp only: endpointsToEndpointsMap_look eps_list_def plain Let_def filt nest)
qed

end
