(* ===== verification/Api_Types.thy ===== *)
theory Api_Types
  imports K8s_Types
begin

text \<open>
  The custom resources of \<open>apis/\<close> that the components exchange: ServiceImport, ServiceExport,
  Cluster, GlobalTrafficPolicy and NamespacedIngress. Fields that no modelled code reads are left out.
\<close>

section \<open>ServiceImport\<close>

record Target =
  tgt_Host :: string
  tgt_IP :: string
  tgt_Port :: int
  tgt_Path :: string

record ImportEndpoint =
  ie_Target :: Target
  ie_ClusterKey :: string

record ImportPort =
  ip_Name :: string
  ip_Protocol :: string
  ip_AppProtocol :: "string option"
  ip_Port :: int
  ip_Endpoints :: "ImportEndpoint list"

definition ImportPort_String :: "ImportPort option \<Rightarrow> string" where
  "ImportPort_String p' =
     (case p' of
        None \<Rightarrow> ''nil''
      | Some p \<Rightarrow> str_join [''&ServicePort{'', ''Name:'' @ ip_Name p @ '','',
                   ''Protocol:'' @ ip_Protocol p @ '','', ''Port:'' @ itoa (ip_Port p) @ '','', ''}''] [])"

record ServiceImportSpec =
  sis_Ports :: "ImportPort list"
  sis_Type :: string
  sis_ServiceAccountName :: string

record ServiceImport =
  imp_Meta :: ObjectMeta
  imp_Spec :: ServiceImportSpec

abbreviation ClusterSetIP :: string where "ClusterSetIP \<equiv> ''ClusterSetIP''"

definition imp_nn :: "ServiceImport \<Rightarrow> NamespacedName" where
  "imp_nn i = nn_of_meta (imp_Meta i)"

section \<open>ServiceExport\<close>

record ServiceExportRule =
  ser_PortNumber :: int
  ser_Path :: string
  ser_PathType :: "string option"

record PathRewrite =
  pr_From :: string
  pr_To :: string

record ServiceExportSpec =
  ses_PathRewrite :: "PathRewrite option"
  ses_SessionSticky :: bool
  ses_LoadBalancer :: string
  ses_Rules :: "ServiceExportRule list"
  ses_TargetClusters :: "string list"
  ses_ServiceAccountName :: string

record ServiceExport =
  exp_Meta :: ObjectMeta
  exp_Generation :: int
  exp_Spec :: ServiceExportSpec
  exp_Conditions :: "Condition list"

abbreviation ServiceExportValid :: string where "ServiceExportValid \<equiv> ''Valid''"
abbreviation ServiceExportConflict :: string where "ServiceExportConflict \<equiv> ''Conflict''"

text \<open>The values the resource definition admits for the field \<open>LoadBalancer\<close>, from the
  validation marker above the field.\<close>

definition LoadBalancer_enum :: "string list" where
  "LoadBalancer_enum = [''RoundRobinLoadBalancer'', ''HashingLoadBalancer'', ''LeastWorkLoadBalancer'']"

section \<open>Cluster\<close>

record ClusterSpec =
  cls_IsInCluster :: bool
  cls_Region :: string
  cls_Zone :: string
  cls_Group :: string
  cls_GatewayHost :: string
  cls_GatewayPort :: int
  cls_Kubeconfig :: string

record Cluster =
  cl_Meta :: ObjectMeta
  cl_Generation :: int
  cl_Spec :: ClusterSpec
  cl_Conditions :: "Condition list"

abbreviation ClusterManaged :: string where "ClusterManaged \<equiv> ''Managed''"

text \<open>\<open>Cluster.Key\<close> fills the template \<open>{{ .Region }}/{{ .Zone }}/{{ .Group }}/{{ .Cluster }}\<close>.\<close>

definition cluster_key :: "string \<Rightarrow> string \<Rightarrow> string \<Rightarrow> string \<Rightarrow> string" where
  "cluster_key region zone grp cluster = region @ ''/'' @ zone @ ''/'' @ grp @ ''/'' @ cluster"

definition Cluster_Key :: "Cluster \<Rightarrow> string" where
  "Cluster_Key c = cluster_key (cls_Region (cl_Spec c)) (cls_Zone (cl_Spec c)) (cls_Group (cl_Spec c))
                     (meta_Name (cl_Meta c))"

section \<open>GlobalTrafficPolicy\<close>

abbreviation ActiveActiveLbType :: string where "ActiveActiveLbType \<equiv> ''ActiveActive''"
abbreviation LocalityLbType :: string where "LocalityLbType \<equiv> ''Locality''"
abbreviation FailOverLbType :: string where "FailOverLbType \<equiv> ''FailOver''"

record TrafficTarget =
  tt_ClusterKey :: string
  tt_Weight :: "int option"

record GlobalTrafficPolicy =
  gtp_Meta :: ObjectMeta
  gtp_LbType :: string
  gtp_Targets :: "TrafficTarget list"

section \<open>NamespacedIngress\<close>

record SSLPassthrough =
  sslp_Enabled :: bool
  sslp_UpstreamPort :: "int option"

record NsigTLS =
  ntls_Enabled :: bool
  ntls_SSLPassthrough :: SSLPassthrough

record PodSecurityContext =
  psc_RunAsNonRoot :: "bool option"
  psc_RunAsUser :: "int option"
  psc_RunAsGroup :: "int option"
  psc_SeccompProfileType :: "string option"

record SecurityContext =
  sc_AllowPrivilegeEscalation :: "bool option"

record NamespacedIngress =
  nsig_Meta :: ObjectMeta
  nsig_ServiceAccountName :: string
  nsig_LogLevel :: "int option"
  nsig_Replicas :: "int option"
  nsig_TLS :: NsigTLS
  nsig_PodSecurityContext :: "PodSecurityContext option"
  nsig_SecurityContext :: "SecurityContext option"

end
