(* ===== verification/ServiceImport_Cache.thy ===== *)
theory ServiceImport_Cache
  imports Endpoints_Cache Api_Types
begin

text \<open>
  \<open>pkg/cache/serviceimport.go\<close>: one tracker that records, per ServiceImport, the change of its
  service ports and the change of its endpoints in other clusters, and the two maps these feed.
  The lister of Services, which supplies the address of a Service of the same name, is a
  parameter.
\<close>

type_synonym ServiceImportMap = "(ServicePortName, PortInfo) gomap"
type_synonym MultiClusterEndpointsMap = "(ServicePortName, BaseEndpointInfo list) gomap"
type_synonym serviceImportChange = "(ServicePortName, PortInfo) change"
type_synonym multiClusterEndpointsChange = "(ServicePortName, BaseEndpointInfo list) change"
type_synonym enrichServiceImportInfoFunc = "ImportPort \<Rightarrow> ServiceImport \<Rightarrow> BaseServiceInfo \<Rightarrow> PortInfo"
type_synonym service_lister = "string \<Rightarrow> string \<Rightarrow> Service result"

record ServiceImportChangeTracker =
  sict_items :: "(NamespacedName, serviceImportChange) gomap"
  sict_endpointItems :: "(NamespacedName, multiClusterEndpointsChange) gomap"
  sict_enrichServiceImportInfo :: "enrichServiceImportInfoFunc option"
  sict_enrichEndpointInfo :: "enrichEndpointFunc option"

section \<open>Operations\<close>

definition serviceExists :: "service_lister \<Rightarrow> ServiceImport \<Rightarrow> Service option" where
  "serviceExists lister svcImp =
     (case lister (meta_Namespace (imp_Meta svcImp)) (meta_Name (imp_Meta svcImp)) of
        Inl _ \<Rightarrow> None | Inr svc \<Rightarrow> Some svc)"

definition newBaseServiceImportInfo ::
  "k8s_lib \<Rightarrow> service_lister \<Rightarrow> ImportPort \<Rightarrow> ServiceImport \<Rightarrow> BaseServiceInfo option"
where
  "newBaseServiceImportInfo lib lister port svcImp =
     (let clusterIP = (case serviceExists lister svcImp of
                         Some svc \<Rightarrow> GetClusterIPByFamily lib IPv4Protocol svc | None \<Rightarrow> [])
      in Some \<lparr>bsi_address = clusterIP, bsi_port = ip_Port port, bsi_portName = ip_Name port,
               bsi_protocol = ip_Protocol port\<rparr>)"

definition NewServiceImportChangeTracker ::
  "enrichServiceImportInfoFunc option \<Rightarrow> enrichEndpointFunc option \<Rightarrow> ServiceImportChangeTracker"
where
  "NewServiceImportChangeTracker enrichImp enrichEp =
     \<lparr>sict_items = [], sict_endpointItems = [], sict_enrichServiceImportInfo = enrichImp,
      sict_enrichEndpointInfo = enrichEp\<rparr>"

definition imp_spn :: "ServiceImport \<Rightarrow> ImportPort \<Rightarrow> ServicePortName" where
  "imp_spn svcImp port =
     \<lparr>spn_NamespacedName = imp_nn svcImp, spn_Port = ip_Name port, spn_Protocol = ip_Protocol port\<rparr>"

definition serviceImportToServiceMap ::
  "k8s_lib \<Rightarrow> service_lister \<Rightarrow> ServiceImportChangeTracker \<Rightarrow> ServiceImport option \<Rightarrow> ServiceImportMap option"
where
  "serviceImportToServiceMap lib lister sct svcImp' =
     (case svcImp' of
        None \<Rightarrow> None
      | Some svcImp \<Rightarrow>
          Some (fold (\<lambda>servicePort serviceImportMap.
                 case newBaseServiceImportInfo lib lister servicePort svcImp of
                   None \<Rightarrow> serviceImportMap
                 | Some baseSvcInfo \<Rightarrow>
                     gput (imp_spn svcImp servicePort)
                       (case sict_enrichServiceImportInfo sct of
                          Some enrich \<Rightarrow> enrich servicePort svcImp baseSvcInfo
                        | None \<Rightarrow> PortBase baseSvcInfo) serviceImportMap)
               (sis_Ports (imp_Spec svcImp)) []))"

definition shouldSkipServiceImport :: "ServiceImport option \<Rightarrow> bool" where
  "shouldSkipServiceImport svcImp = (svcImp = None)"

definition newMultiClusterEndpointInfo :: "ImportEndpoint \<Rightarrow> Target \<Rightarrow> BaseEndpointInfo" where
  "newMultiClusterEndpointInfo ep target =
     \<lparr>bei_Endpoint = tgt_Host target @ '':'' @ itoa (tgt_Port target) @ tgt_Path target,
      bei_Nodename = [], bei_Hostname = [], bei_Cluster = ie_ClusterKey ep\<rparr>"

definition importEndpointsToEndpointsMap ::
  "ServiceImportChangeTracker \<Rightarrow> ServiceImport option \<Rightarrow> MultiClusterEndpointsMap option"
where
  "importEndpointsToEndpointsMap sct svcImp' =
     (case svcImp' of
        None \<Rightarrow> None
      | Some svcImp \<Rightarrow>
          Some (fold (\<lambda>port. fold (\<lambda>ep endpointsMap.
                   gappend (imp_spn svcImp port)
                     [enrich_endpoint (sict_enrichEndpointInfo sct) (newMultiClusterEndpointInfo ep (ie_Target ep))]
                     endpointsMap) (ip_Endpoints port))
                 (sis_Ports (imp_Spec svcImp)) []))"

definition ServiceImportChangeTracker_Update ::
  "k8s_lib \<Rightarrow> service_lister \<Rightarrow> ServiceImport option \<Rightarrow> ServiceImport option \<Rightarrow> ServiceImportChangeTracker \<Rightarrow>
   bool \<times> ServiceImportChangeTracker"
where
  "ServiceImportChangeTracker_Update lib lister prev cur sct =
     (case (case cur of Some s \<Rightarrow> Some s | None \<Rightarrow> prev) of
        None \<Rightarrow> (False, sct)
      | Some svcImp \<Rightarrow>
          if shouldSkipServiceImport (Some svcImp) then (False, sct)
          else
            (let items = track_change (imp_nn svcImp) (serviceImportToServiceMap lib lister sct prev)
                           (serviceImportToServiceMap lib lister sct cur) (sict_items sct);
                 endpointItems = track_change (imp_nn svcImp) (importEndpointsToEndpointsMap sct prev)
                           (importEndpointsToEndpointsMap sct cur) (sict_endpointItems sct)
             in (items \<noteq> [] \<or> endpointItems \<noteq> [],
                 sct\<lparr>sict_items := items, sict_endpointItems := endpointItems\<rparr>)))"

definition ServiceImportMap_merge :: "ServiceImportMap \<Rightarrow> ServiceImportMap option \<Rightarrow> ServiceImportMap \<times> string set" where
  "ServiceImportMap_merge sm other =
     fold (\<lambda>(svcPortName, info) (sm, existingPorts).
         (gput svcPortName info sm, insert (ServicePortName_String svcPortName) existingPorts))
       (gm_entries other) (sm, {})"

definition ServiceImportMap_filter :: "ServiceImportMap option \<Rightarrow> ServiceImportMap option \<Rightarrow> ServiceImportMap option" where
  "ServiceImportMap_filter sm' other = map_option (\<lambda>sm. range_del_self sm (gm_entries other)) sm'"

definition ServiceImportMap_unmerge :: "ServiceImportMap \<Rightarrow> ServiceImportMap option \<Rightarrow> ServiceImportMap" where
  "ServiceImportMap_unmerge sm other =
     fold (\<lambda>(svcPortName, _) sm. if gget sm svcPortName \<noteq> None then gdel svcPortName sm else sm)
       (gm_entries other) sm"

definition ServiceImportMap_applyOne :: "serviceImportChange \<Rightarrow> ServiceImportMap \<Rightarrow> ServiceImportMap" where
  "ServiceImportMap_applyOne ch sm =
     (let sm1 = fst (ServiceImportMap_merge sm (current ch));
          prev = ServiceImportMap_filter (previous ch) (current ch)
      in ServiceImportMap_unmerge sm1 prev)"

definition ServiceImportMap_apply ::
  "ServiceImportChangeTracker \<Rightarrow> ServiceImportMap \<Rightarrow> ServiceImportMap \<times> ServiceImportChangeTracker"
where
  "ServiceImportMap_apply changes sm =
     (fold ServiceImportMap_applyOne (map snd (sict_items changes)) sm, changes\<lparr>sict_items := []\<rparr>)"

definition ServiceImport_checkoutChanges ::
  "ServiceImportChangeTracker \<Rightarrow> multiClusterEndpointsChange list \<times> ServiceImportChangeTracker"
where
  "ServiceImport_checkoutChanges sct = (map snd (sict_endpointItems sct), sct\<lparr>sict_endpointItems := []\<rparr>)"

definition MultiClusterEndpointsMap_merge ::
  "MultiClusterEndpointsMap \<Rightarrow> MultiClusterEndpointsMap option \<Rightarrow> MultiClusterEndpointsMap"
where
  "MultiClusterEndpointsMap_merge em other = range_put em (gm_entries other)"

definition MultiClusterEndpointsMap_unmerge ::
  "MultiClusterEndpointsMap \<Rightarrow> MultiClusterEndpointsMap option \<Rightarrow> MultiClusterEndpointsMap"
where
  "MultiClusterEndpointsMap_unmerge em other = range_del em (gm_entries other)"

definition MultiClusterEndpointsMap_applyOne ::
  "multiClusterEndpointsChange \<Rightarrow> MultiClusterEndpointsMap \<Rightarrow> MultiClusterEndpointsMap"
where
  "MultiClusterEndpointsMap_applyOne ch em =
     MultiClusterEndpointsMap_merge (MultiClusterEndpointsMap_unmerge em (previous ch)) (current ch)"

definition MultiClusterEndpointsMap_apply ::
  "ServiceImportChangeTracker \<Rightarrow> MultiClusterEndpointsMap \<Rightarrow> MultiClusterEndpointsMap \<times> ServiceImportChangeTracker"
where
  "MultiClusterEndpointsMap_apply sct em =
     (let (changes, sct') = ServiceImport_checkoutChanges sct
      in (fold MultiClusterEndpointsMap_applyOne changes em, sct'))"

definition enrichServiceImportInfo :: enrichServiceImportInfoFunc where
  "enrichServiceImportInfo port svcImp baseInfo =
     PortImport \<lparr>sii_BaseServiceInfo = baseInfo, sii_svcName = imp_nn svcImp\<rparr>"

section \<open>The entries of one ServiceImport\<close>

definition imp_entry ::
  "k8s_lib \<Rightarrow> service_lister \<Rightarrow> enrichServiceImportInfoFunc option \<Rightarrow> ServiceImport \<Rightarrow> ImportPort \<Rightarrow> PortInfo option"
where
  "imp_entry lib lister e svcImp port =
     map_option (\<lambda>b. case e of Some enrich \<Rightarrow> enrich port svcImp b | None \<Rightarrow> PortBase b)
       (newBaseServiceImportInfo lib lister port svcImp)"

lemma serviceImportToServiceMap_Some:
  "serviceImportToServiceMap lib lister sct (Some svcImp) =
     Some (fold (add_entry (imp_spn svcImp) (imp_entry lib lister (sict_enrichServiceImportInfo sct) svcImp))
             (sis_Ports (imp_Spec svcImp)) [])"
proof -
  have "(\<lambda>servicePort serviceImportMap.
          case newBaseServiceImportInfo lib lister servicePort svcImp of
            None \<Rightarrow> serviceImportMap
          | Some baseSvcInfo \<Rightarrow>
              gput (imp_spn svcImp servicePort)
                (case sict_enrichServiceImportInfo sct of
                   Some enrich \<Rightarrow> enrich servicePort svcImp baseSvcInfo
                 | None \<Rightarrow> PortBase baseSvcInfo) serviceImportMap) =
        add_entry (imp_spn svcImp) (imp_entry lib lister (sict_enrichServiceImportInfo sct) svcImp)"
    by (intro ext) (simp add: add_entry_def imp_entry_def split: option.split)
  then show ?thesis by (simp add: serviceImportToServiceMap_def)
qed

lemma serviceImportToServiceMap_None [simp]: "serviceImportToServiceMap lib lister sct None = None"
  by (simp add: serviceImportToServiceMap_def)

lemma serviceImportToServiceMap_wf: "gm_wf_opt (serviceImportToServiceMap lib lister sct s)"
  by (cases s) (simp_all add: serviceImportToServiceMap_Some gomap_wf)

lemma serviceImportToServiceMap_owner:
  "gm_look (serviceImportToServiceMap lib lister sct (Some imp)) k \<noteq> None \<Longrightarrow> spn_NamespacedName k = imp_nn imp"
  by (auto simp: serviceImportToServiceMap_Some gget_add_entries imp_spn_def
      split: option.splits dest!: find_SomeD)

lemma serviceImportToServiceMap_cong:
  "sict_enrichServiceImportInfo sct = sict_enrichServiceImportInfo sct' \<Longrightarrow>
   serviceImportToServiceMap lib lister sct s = serviceImportToServiceMap lib lister sct' s"
  by (cases s) (simp_all add: serviceImportToServiceMap_Some)

definition imp_eps :: "enrichEndpointFunc option \<Rightarrow> ServiceImport \<Rightarrow> ServicePortName \<Rightarrow> BaseEndpointInfo list" where
  "imp_eps e svcImp k =
     concat (map (\<lambda>port. if imp_spn svcImp port = k
        then map (\<lambda>ep. enrich_endpoint e (newMultiClusterEndpointInfo ep (ie_Target ep))) (ip_Endpoints port)
        else []) (sis_Ports (imp_Spec svcImp)))"

lemma append_all:
  "gslice (fold (\<lambda>x. gappend k' [f x]) xs m) k = gslice m k @ (if k = k' then map f xs else [])"
  "no_empty_slice m \<Longrightarrow> no_empty_slice (fold (\<lambda>x. gappend k' [f x]) xs m)"
  "gm_wf m \<Longrightarrow> gm_wf (fold (\<lambda>x. gappend k' [f x]) xs m)"
  by (induction xs arbitrary: m) (auto simp: no_empty_gappend gomap_wf)

lemma append_all_ports:
  "gslice (fold (\<lambda>p. fold (\<lambda>x. gappend (key p) [f x]) (elems p)) ps m) k =
     gslice m k @ concat (map (\<lambda>p. if key p = k then map f (elems p) else []) ps)"
  "no_empty_slice m \<Longrightarrow> no_empty_slice (fold (\<lambda>p. fold (\<lambda>x. gappend (key p) [f x]) (elems p)) ps m)"
  "gm_wf m \<Longrightarrow> gm_wf (fold (\<lambda>p. fold (\<lambda>x. gappend (key p) [f x]) (elems p)) ps m)"
  by (induction ps arbitrary: m) (auto simp: append_all)

lemma importEndpoints_look:
  "gm_look (importEndpointsToEndpointsMap sct (Some imp)) k =
     (if imp_eps (sict_enrichEndpointInfo sct) imp k = [] then None
      else Some (imp_eps (sict_enrichEndpointInfo sct) imp k))"
proof -
  obtain m where m: "importEndpointsToEndpointsMap sct (Some imp) = Some m"
    by (simp add: importEndpointsToEndpointsMap_def)
  then have "no_empty_slice m" by (auto simp: importEndpointsToEndpointsMap_def append_all_ports(2))
  moreover have "gslice m k = imp_eps (sict_enrichEndpointInfo sct) imp k"
    using m by (auto simp: importEndpointsToEndpointsMap_def append_all_ports(1) imp_eps_def)
  ultimately show ?thesis using m by (simp add: gget_gslice)
qed

lemma importEndpoints_None [simp]: "importEndpointsToEndpointsMap sct None = None"
  by (simp add: importEndpointsToEndpointsMap_def)

lemma importEndpoints_wf: "gm_wf_opt (importEndpointsToEndpointsMap sct s)"
  by (cases s) (simp_all add: importEndpointsToEndpointsMap_def append_all_ports(3))

lemma importEndpoints_owner:
  assumes "gm_look (importEndpointsToEndpointsMap sct (Some imp)) k \<noteq> None"
  shows "spn_NamespacedName k = imp_nn imp"
proof (rule ccontr)
  assume "spn_NamespacedName k \<noteq> imp_nn imp"
  then have "imp_spn imp port \<noteq> k" for port by (auto simp: imp_spn_def)
  then have "imp_eps e imp k = []" for e by (simp add: imp_eps_def)
  with assms show False by (simp add: importEndpoints_look)
qed

lemma importEndpoints_cong:
  "sict_enrichEndpointInfo sct = sict_enrichEndpointInfo sct' \<Longrightarrow>
   importEndpointsToEndpointsMap sct s = importEndpointsToEndpointsMap sct' s"
  by (cases s) (simp_all add: importEndpointsToEndpointsMap_def)

section \<open>The tracker meets its contract, for both maps\<close>

definition sict_wf ::
  "enrichServiceImportInfoFunc option \<Rightarrow> enrichEndpointFunc option \<Rightarrow> ServiceImportChangeTracker \<Rightarrow> bool"
where
  "sict_wf e e' sct \<longleftrightarrow> gm_wf (sict_items sct) \<and> gm_wf (sict_endpointItems sct) \<and>
     sict_enrichServiceImportInfo sct = e \<and> sict_enrichEndpointInfo sct = e'"

text \<open>The two versions of merge, filter and unmerge in the sources are the same code.\<close>

lemma ServiceImportMap_applyOne_eq: "ServiceImportMap_applyOne = ServiceMap_applyOne"
  by (intro ext) (simp add: ServiceImportMap_applyOne_def ServiceMap_applyOne_def ServiceImportMap_merge_def
      ServiceMap_merge_def ServiceImportMap_filter_def ServiceMap_filter_def ServiceImportMap_unmerge_def
      ServiceMap_unmerge_def)

lemma MultiClusterEndpointsMap_applyOne_eq: "MultiClusterEndpointsMap_applyOne = EndpointsMap_applyOne"
  by (intro ext) (simp add: MultiClusterEndpointsMap_applyOne_def EndpointsMap_applyOne_def
      MultiClusterEndpointsMap_merge_def EndpointsMap_merge_def MultiClusterEndpointsMap_unmerge_def
      EndpointsMap_unmerge_def)

lemma MultiClusterEndpointsMap_apply_simps:
  "fst (MultiClusterEndpointsMap_apply t M) = fold EndpointsMap_applyOne (map snd (sict_endpointItems t)) M"
  "snd (MultiClusterEndpointsMap_apply t M) = t\<lparr>sict_endpointItems := []\<rparr>"
  by (simp_all add: MultiClusterEndpointsMap_apply_def ServiceImport_checkoutChanges_def
      MultiClusterEndpointsMap_applyOne_eq)

lemma ServiceImportChangeTracker_Update_items:
  "(case c of Some x \<Rightarrow> Some x | None \<Rightarrow> p) = Some imp \<Longrightarrow>
   snd (ServiceImportChangeTracker_Update lib lister p c sct) =
     sct\<lparr>sict_items := track_change (imp_nn imp) (serviceImportToServiceMap lib lister sct p)
                         (serviceImportToServiceMap lib lister sct c) (sict_items sct),
         sict_endpointItems := track_change (imp_nn imp) (importEndpointsToEndpointsMap sct p)
                         (importEndpointsToEndpointsMap sct c) (sict_endpointItems sct)\<rparr>"
  by (simp add: ServiceImportChangeTracker_Update_def shouldSkipServiceImport_def Let_def)

lemma sict_wf_Update:
  "sict_wf e e' sct \<Longrightarrow> sict_wf e e' (snd (ServiceImportChangeTracker_Update lib lister p c sct))"
  by (auto simp: sict_wf_def ServiceImportChangeTracker_Update_def Let_def gomap_wf split: option.split)

interpretation imp: synced_map
  "\<lambda>s. serviceImportToServiceMap lib lister (NewServiceImportChangeTracker e e') (Some s)"
  imp_nn
  "\<lambda>s. shouldSkipServiceImport (Some s)"
  "\<lambda>p c t. snd (ServiceImportChangeTracker_Update lib lister p c t)"
  "\<lambda>t. items_pend (sict_items t)"
  "sict_wf e e'"
  spn_NamespacedName
  ServiceImportMap_apply
  for lib lister e e'
proof unfold_locales
  let ?toMap = "\<lambda>s. serviceImportToServiceMap lib lister (NewServiceImportChangeTracker e e') (Some s)"
  have conv: "serviceImportToServiceMap lib lister t s = opt_map ?toMap s" if "sict_wf e e' t" for t s
    using that serviceImportToServiceMap_cong [of t "NewServiceImportChangeTracker e e'"]
    by (cases s) (simp_all add: sict_wf_def NewServiceImportChangeTracker_def)
  show "sict_wf e e' t \<Longrightarrow> (case c of Some x \<Rightarrow> Some x | None \<Rightarrow> p) = Some s \<Longrightarrow> \<not> shouldSkipServiceImport (Some s) \<Longrightarrow>
      items_pend (sict_items (snd (ServiceImportChangeTracker_Update lib lister p c t))) =
        (items_pend (sict_items t))(imp_nn s :=
           norm_change (case items_pend (sict_items t) (imp_nn s) of
                          None \<Rightarrow> opt_map ?toMap p | Some change \<Rightarrow> fst change) (opt_map ?toMap c))" for t c p s
    by (simp add: ServiceImportChangeTracker_Update_items items_pend_track_change conv)
  show "sict_wf e e' t \<Longrightarrow> sict_wf e e' (snd (ServiceImportChangeTracker_Update lib lister p c t))" for t p c
    by (rule sict_wf_Update)
  show "gm_look (?toMap s) k \<noteq> None \<Longrightarrow> spn_NamespacedName k = imp_nn s" for s k
    by (rule serviceImportToServiceMap_owner)
  show "gget (fst (ServiceImportMap_apply t M)) k =
      (case items_pend (sict_items t) (spn_NamespacedName k) of
         None \<Rightarrow> gget M k | Some (p, c) \<Rightarrow> change_look p c M k)"
    if "sict_wf e e' t"
      and "\<And>n p c. items_pend (sict_items t) n = Some (p, c) \<Longrightarrow> gm_wf_opt p \<and> gm_wf_opt c"
      and "\<And>n p c k. items_pend (sict_items t) n = Some (p, c) \<Longrightarrow>
             gm_look p k \<noteq> None \<or> gm_look c k \<noteq> None \<Longrightarrow> spn_NamespacedName k = n" for t M k
    unfolding ServiceImportMap_apply_def fst_conv ServiceImportMap_applyOne_eq
    by (rule apply_changes_look [OF ServiceMap_applyOne_look]) (use that in \<open>auto simp: sict_wf_def\<close>)
qed (simp_all add: serviceImportToServiceMap_wf ServiceImportMap_apply_def ServiceImportMap_applyOne_eq
       sict_wf_def gm_wf_fold gomap_wf shouldSkipServiceImport_def)

interpretation mce: synced_map
  "\<lambda>s. importEndpointsToEndpointsMap (NewServiceImportChangeTracker e e') (Some s)"
  imp_nn
  "\<lambda>s. shouldSkipServiceImport (Some s)"
  "\<lambda>p c t. snd (ServiceImportChangeTracker_Update lib lister p c t)"
  "\<lambda>t. items_pend (sict_endpointItems t)"
  "sict_wf e e'"
  spn_NamespacedName
  MultiClusterEndpointsMap_apply
  for lib lister e e'
proof unfold_locales
  let ?toMap = "\<lambda>s. importEndpointsToEndpointsMap (NewServiceImportChangeTracker e e') (Some s)"
  have conv: "importEndpointsToEndpointsMap t s = opt_map ?toMap s" if "sict_wf e e' t" for t s
    using that importEndpoints_cong [of t "NewServiceImportChangeTracker e e'"]
    by (cases s) (simp_all add: sict_wf_def NewServiceImportChangeTracker_def)
  show "sict_wf e e' t \<Longrightarrow> (case c of Some x \<Rightarrow> Some x | None \<Rightarrow> p) = Some s \<Longrightarrow> \<not> shouldSkipServiceImport (Some s) \<Longrightarrow>
      items_pend (sict_endpointItems (snd (ServiceImportChangeTracker_Update lib lister p c t))) =
        (items_pend (sict_endpointItems t))(imp_nn s :=
           norm_change (case items_pend (sict_endpointItems t) (imp_nn s) of
                          None \<Rightarrow> opt_map ?toMap p | Some change \<Rightarrow> fst change) (opt_map ?toMap c))" for t c p s
    by (simp add: ServiceImportChangeTracker_Update_items items_pend_track_change conv)
  show "sict_wf e e' t \<Longrightarrow> sict_wf e e' (snd (ServiceImportChangeTracker_Update lib lister p c t))" for t p c
    by (rule sict_wf_Update)
  show "gm_look (?toMap s) k \<noteq> None \<Longrightarrow> spn_NamespacedName k = imp_nn s" for s k
    by (rule importEndpoints_owner)
  show "gget (fst (MultiClusterEndpointsMap_apply t M)) k =
      (case items_pend (sict_endpointItems t) (spn_NamespacedName k) of
         None \<Rightarrow> gget M k | Some (p, c) \<Rightarrow> change_look p c M k)"
    if "sict_wf e e' t"
      and "\<And>n p c. items_pend (sict_endpointItems t) n = Some (p, c) \<Longrightarrow> gm_wf_opt p \<and> gm_wf_opt c"
      and "\<And>n p c k. items_pend (sict_endpointItems t) n = Some (p, c) \<Longrightarrow>
             gm_look p k \<noteq> None \<or> gm_look c k \<noteq> None \<Longrightarrow> spn_NamespacedName k = n" for t M k
    unfolding MultiClusterEndpointsMap_apply_simps
    by (rule apply_changes_look [OF EndpointsMap_applyOne_look]) (use that in \<open>auto simp: sict_wf_def\<close>)
qed (simp_all add: importEndpoints_wf MultiClusterEndpointsMap_apply_simps sict_wf_def gm_wf_fold gomap_wf
       shouldSkipServiceImport_def)

section \<open>Properties\<close>

definition demo_imp :: "string list \<Rightarrow> ServiceImport" where
  "demo_imp clusters =
     \<lparr>imp_Meta = named_meta ''default'' ''web'',
      imp_Spec = \<lparr>sis_Ports = [\<lparr>ip_Name = ''http'', ip_Protocol = ProtocolTCP, ip_AppProtocol = None, ip_Port = 80,
                     ip_Endpoints = map (\<lambda>c. \<lparr>ie_Target = \<lparr>tgt_Host = ''gw'', tgt_IP = [], tgt_Port = 8080, tgt_Path = ''/web''\<rparr>,
                                              ie_ClusterKey = c\<rparr>) clusters\<rparr>],
                  sis_Type = ClusterSetIP, sis_ServiceAccountName = []\<rparr>\<rparr>"



text \<open>For every run of ServiceImport events that agree with the informer's store, one
  \<open>MultiClusterEndpointsMap.Update\<close> makes the map bind a service port to the endpoints that the
  stored ServiceImport of that name lists for it, in order, each with the key of its cluster.\<close>

theorem multi_cluster_endpoints_synced:
  assumes "valid_events imp_nn (\<lambda>s. shouldSkipServiceImport (Some s)) es Map.empty"
  shows "gget (snd (run_tracker (\<lambda>p c t. snd (ServiceImportChangeTracker_Update lib lister p c t))
                      MultiClusterEndpointsMap_apply (es @ [Synced]) (NewServiceImportChangeTracker e None, []))) k =
         (case run_store imp_nn es Map.empty (spn_NamespacedName k) of
            None \<Rightarrow> None
          | Some svcImp \<Rightarrow>
              (let eps = [newMultiClusterEndpointInfo ep (ie_Target ep).
                            port \<leftarrow> sis_Ports (imp_Spec svcImp), imp_spn svcImp port = k, ep \<leftarrow> ip_Endpoints port]
               in if eps = [] then None else Some eps))"
proof -
  have "gget (snd (run_tracker (\<lambda>p c t. snd (ServiceImportChangeTracker_Update lib lister p c t))
                      MultiClusterEndpointsMap_apply (es @ [Synced]) (NewServiceImportChangeTracker e None, []))) k =
         flatten (\<lambda>s. importEndpointsToEndpointsMap (NewServiceImportChangeTracker e None) (Some s))
           (\<lambda>s. shouldSkipServiceImport (Some s)) spn_NamespacedName (run_store imp_nn es Map.empty) k"
    using assms
    by (intro mce.synced_after_run mce.inv_initial)
      (simp_all add: sict_wf_def NewServiceImportChangeTracker_def)
  moreover have "imp_eps None svcImp k =
      [newMultiClusterEndpointInfo ep (ie_Target ep).
         port \<leftarrow> sis_Ports (imp_Spec svcImp), imp_spn svcImp port = k, ep \<leftarrow> ip_Endpoints port]" for svcImp
  proof -
    have "enrich_endpoint None = (\<lambda>info. info)" by (rule ext) (simp add: enrich_endpoint_def)
    then show ?thesis by (simp only: imp_eps_def)
  qed
  moreover have "sict_enrichEndpointInfo (NewServiceImportChangeTracker e None) = None"
    by (simp add: NewServiceImportChangeTracker_def)
  ultimately show ?thesis
    by (simp only: flatten_def importEndpoints_look Let_def shouldSkipServiceImport_def option.distinct if_False)
qed

theorem multi_cluster_endpoints_synced_witness:
  "let i1 = demo_imp [''a'']; i2 = demo_imp [''a'', ''b'']; es = [Added i1, Synced, Updated i1 i2]
   in valid_events imp_nn (\<lambda>s. shouldSkipServiceImport (Some s)) es Map.empty \<and>
      map_option (map bei_Cluster)
        (gget (snd (run_tracker (\<lambda>p c t. snd (ServiceImportChangeTracker_Update demo_lib (\<lambda>_ _. Inl NotFound) p c t))
                     MultiClusterEndpointsMap_apply (es @ [Synced]) (NewServiceImportChangeTracker None None, []))) demo_spn) =
      Some [''a'', ''b'']"
proof -
  let ?i1 = "demo_imp [''a'']"
  let ?i2 = "demo_imp [''a'', ''b'']"
  have "valid_events imp_nn (\<lambda>s. shouldSkipServiceImport (Some s)) [Added ?i1, Synced, Updated ?i1 ?i2] Map.empty"
    by (simp add: demo_imp_def imp_nn_def nn_of_meta_def shouldSkipServiceImport_def)
  from this multi_cluster_endpoints_synced [OF this, where lib = demo_lib and lister = "\<lambda>_ _. Inl NotFound" and
      e = None and k = demo_spn]
  show ?thesis
    by (simp add: demo_imp_def imp_nn_def nn_of_meta_def imp_spn_def newMultiClusterEndpointInfo_def
        del: run_tracker.simps)
qed

end
