(* ===== verification/Route_Types.thy ===== *)
theory Route_Types
  imports Cache_Types
begin

text \<open>
  The routes the caches build and publish, \<open>pkg/route/types.go\<close>, and the constants of
  \<open>pkg/ingress/commons.go\<close>. The struct \<open>IngressRouteSpec\<close> embeds three others; they are
  its three fields here.
\<close>

record CertificateSpec =
  crt_Cert :: string
  crt_Key :: string
  crt_CA :: string

record UpstreamEndpoint =
  ue_IP :: string
  ue_Port :: int
  ue_Protocol :: string

record UpstreamSpec =
  us_SSLName :: string
  us_SSLCert :: "CertificateSpec option"
  us_SSLVerify :: bool
  us_Endpoints :: "UpstreamEndpoint list"

definition zero_UpstreamSpec :: UpstreamSpec where
  "zero_UpstreamSpec = \<lparr>us_SSLName = [], us_SSLCert = None, us_SSLVerify = False, us_Endpoints = []\<rparr>"

record RouterSpec =
  rs_Host :: string
  rs_Path :: string
  rs_Service :: string
  rs_Rewrite :: "string list"

record BalancerSpec =
  bs_Sticky :: bool
  bs_Balancer :: string
  bs_Upstream :: "UpstreamSpec option"

record TLSSpec =
  ts_IsTLS :: bool
  ts_IsWildcardHost :: bool
  ts_VerifyClient :: bool
  ts_VerifyDepth :: int
  ts_Certificate :: "CertificateSpec option"
  ts_TrustedCA :: "CertificateSpec option"

record IngressRouteSpec =
  irs_RouterSpec :: RouterSpec
  irs_BalancerSpec :: BalancerSpec
  irs_TLSSpec :: TLSSpec

record IngressData =
  id_Hash :: string
  id_Routes :: "IngressRouteSpec list"

record RouteTarget =
  rt_Address :: string
  rt_Tags :: "(string, string) gomap"

record ServiceRouteEntry =
  sre_Name :: string
  sre_Namespace :: string
  sre_Targets :: "RouteTarget list"
  sre_PortName :: string

record ServiceRoute =
  sr_Hash :: string
  sr_Routes :: "ServiceRouteEntry list"

record IngressConfig =
  icf_TrustedCAs :: "string list"
  icf_Certificates :: "(string, TLSSpec) gomap"
  icf_Routes :: "(string, RouterSpec) gomap"
  icf_Services :: "(string, BalancerSpec) gomap"

type_synonym ServiceRegistryEntry = "(string, string list) gomap"

text \<open>What the program uploads to the repository: text, the service registry or the ingress configuration.\<close>

datatype repo_content =
    ContentText string
  | ContentRegistry ServiceRegistryEntry
  | ContentIngress IngressConfig

definition RoundRobinLoadBalancer :: string where "RoundRobinLoadBalancer = ''round-robin''"
definition HashingLoadBalancer :: string where "HashingLoadBalancer = ''hashing''"
definition LeastWorkLoadBalancer :: string where "LeastWorkLoadBalancer = ''least-work''"

abbreviation IngressPipyClass :: string where "IngressPipyClass \<equiv> ''pipy''"
abbreviation IngressAnnotationKey :: string where
  "IngressAnnotationKey \<equiv> ''kubernetes.io/ingress.class''"
abbreviation IngressClassAnnotationKey :: string where
  "IngressClassAnnotationKey \<equiv> ''ingressclass.kubernetes.io/is-default-class''"
abbreviation PipyIngressAnnotationRewriteFrom :: string where
  "PipyIngressAnnotationRewriteFrom \<equiv> ''pipy.ingress.kubernetes.io/rewrite-target-from''"
abbreviation PipyIngressAnnotationRewriteTo :: string where
  "PipyIngressAnnotationRewriteTo \<equiv> ''pipy.ingress.kubernetes.io/rewrite-target-to''"
abbreviation PipyIngressAnnotationSessionSticky :: string where
  "PipyIngressAnnotationSessionSticky \<equiv> ''pipy.ingress.kubernetes.io/session-sticky''"
abbreviation PipyIngressAnnotationLoadBalancer :: string where
  "PipyIngressAnnotationLoadBalancer \<equiv> ''pipy.ingress.kubernetes.io/lb-type''"
abbreviation PipyIngressAnnotationUpstreamSSLName :: string where
  "PipyIngressAnnotationUpstreamSSLName \<equiv> ''pipy.ingress.kubernetes.io/upstream-ssl-name''"
abbreviation PipyIngressAnnotationUpstreamSSLSecret :: string where
  "PipyIngressAnnotationUpstreamSSLSecret \<equiv> ''pipy.ingress.kubernetes.io/upstream-ssl-secret''"
abbreviation PipyIngressAnnotationUpstreamSSLVerify :: string where
  "PipyIngressAnnotationUpstreamSSLVerify \<equiv> ''pipy.ingress.kubernetes.io/upstream-ssl-verify''"
abbreviation PipyIngressAnnotationTLSVerifyClient :: string where
  "PipyIngressAnnotationTLSVerifyClient \<equiv> ''pipy.ingress.kubernetes.io/tls-verify-client''"
abbreviation PipyIngressAnnotationTLSVerifyDepth :: string where
  "PipyIngressAnnotationTLSVerifyDepth \<equiv> ''pipy.ingress.kubernetes.io/tls-verify-depth''"
abbreviation PipyIngressAnnotationTLSTrustedCASecret :: string where
  "PipyIngressAnnotationTLSTrustedCASecret \<equiv> ''pipy.ingress.kubernetes.io/tls-trusted-ca-secret''"
abbreviation TLSCertName :: string where "TLSCertName \<equiv> ''tls.crt''"
abbreviation TLSPrivateKeyName :: string where "TLSPrivateKeyName \<equiv> ''tls.key''"
abbreviation RootCACertName :: string where "RootCACertName \<equiv> ''ca.crt''"

end
