(* ===== verification/Ingress_Cache.thy ===== *)
theory Ingress_Cache
  imports Endpoints_Cache Route_Types
begin

text \<open>
  \<open>pkg/cache/ingress.go\<close>, \<open>pkg/ingress/utils.go\<close> and \<open>pkg/util/ingress.go\<close>: from Ingress
  objects to routes. What the code reads from elsewhere is in the record \<open>ingress_env\<close>: the
  local store of Services and the API server behind it, the lister of Secrets, the functions of
  \<open>encoding/pem\<close> and \<open>crypto/x509\<close> (a parsed certificate stands for its bytes), and the global
  variable \<open>DefaultIngressClass\<close>.

  \<open>newBaseIngressInfo\<close> dereferences the pointer \<open>PathType\<close>, so the conversion may panic and its
  result is a sum.
\<close>

record ingress_env =
  env_lib :: k8s_lib
  env_serviceStore :: "string \<Rightarrow> Service option result"
  env_getService :: "string \<Rightarrow> string \<Rightarrow> Service result"
  env_secretLister :: "string \<Rightarrow> string \<Rightarrow> Secret result"
  env_pemDecode :: "string \<Rightarrow> string option"
  env_parseCertificate :: "string \<Rightarrow> string result"
  env_verifyHostname :: "string \<Rightarrow> string \<Rightarrow> go_error option"
  env_DefaultIngressClass :: string

record BaseIngressInfo =
  bii_headers :: "(string, string) gomap"
  bii_host :: string
  bii_path :: string
  bii_backend :: ServicePortName
  bii_rewrite :: "string list"
  bii_sessionSticky :: bool
  bii_lbType :: string
  bii_upstream :: "UpstreamSpec option"
  bii_certificate :: "CertificateSpec option"
  bii_isTLS :: bool
  bii_isWildcardHost :: bool
  bii_verifyClient :: bool
  bii_verifyDepth :: int
  bii_trustedCA :: "CertificateSpec option"

text \<open>The getters of \<open>Route\<close> that dereference the pointer to the upstream.\<close>

definition deref :: "'a option \<Rightarrow> 'a go" where
  "deref p = (case p of None \<Rightarrow> Inl NilPointer | Some a \<Rightarrow> Inr a)"

definition UpstreamSSLName :: "BaseIngressInfo \<Rightarrow> string go" where
  "UpstreamSSLName info = go_bind (deref (bii_upstream info)) (\<lambda>u. Inr (us_SSLName u))"

definition UpstreamSSLCert :: "BaseIngressInfo \<Rightarrow> CertificateSpec option go" where
  "UpstreamSSLCert info = go_bind (deref (bii_upstream info)) (\<lambda>u. Inr (us_SSLCert u))"

definition UpstreamSSLVerify :: "BaseIngressInfo \<Rightarrow> bool go" where
  "UpstreamSSLVerify info = go_bind (deref (bii_upstream info)) (\<lambda>u. Inr (us_SSLVerify u))"

record RouteKey =
  rk_ServicePortName :: ServicePortName
  rk_Host :: string
  rk_Path :: string

definition RouteKey_String :: "RouteKey \<Rightarrow> string" where
  "RouteKey_String irk = rk_Host irk @ ''#'' @ rk_Path irk @ ''#'' @ ServicePortName_String (rk_ServicePortName irk)"

type_synonym IngressMap = "(RouteKey, BaseIngressInfo) gomap"
type_synonym ingressChange = "(RouteKey, BaseIngressInfo) change"

record IngressChangeTracker =
  ict_items :: "(NamespacedName, ingressChange) gomap"

definition NewIngressChangeTracker :: IngressChangeTracker where
  "NewIngressChangeTracker = \<lparr>ict_items = []\<rparr>"

section \<open>Which Ingresses belong to this controller\<close>

definition IsValidPipyIngress :: "string \<Rightarrow> Ingress \<Rightarrow> bool" where
  "IsValidPipyIngress defaultClass ing =
     (let (ingressClass, ok) = (case gm_look (meta_Annotations (ing_Meta ing)) IngressAnnotationKey of
                                  Some c \<Rightarrow> (c, True) | None \<Rightarrow> ([], False));
          ingressClass = (if \<not> ok \<and> ing_IngressClassName ing \<noteq> None then the (ing_IngressClassName ing)
                          else ingressClass)
      in if ingressClass = [] \<and> (defaultClass = IngressPipyClass \<or> defaultClass = []) then True
         else ingressClass = IngressPipyClass)"

definition SecretNamespaceAndName :: "k8s_lib \<Rightarrow> string \<Rightarrow> Ingress \<Rightarrow> string \<times> string \<times> go_error option" where
  "SecretNamespaceAndName lib secretName ing =
     (let (secrNs, secrName, err) = SplitMetaNamespaceKey lib secretName in
      if secrName = [] then ([], [], err)
      else if secrNs = [] then (meta_Namespace (ing_Meta ing), secrName, None)
      else (secrNs, secrName, None))"

section \<open>Base information of a path\<close>

definition isWildcardHost :: "k8s_lib \<Rightarrow> string \<Rightarrow> bool" where
  "isWildcardHost lib host = (if host \<noteq> [] then IsWildcardDNS1123Subdomain lib host = [] else False)"

text \<open>The path of a prefix rule always ends in \<open>/*\<close>.\<close>

definition prefix_path :: "string \<Rightarrow> string" where
  "prefix_path p =
     (if suffix ''/*'' p then p
      else if suffix ''/'' p then p @ ''*''
      else p @ ''/*'')"

definition base_info :: "k8s_lib \<Rightarrow> IngressRule \<Rightarrow> string \<Rightarrow> ServicePortName \<Rightarrow> BaseIngressInfo" where
  "base_info lib rule path spn =
     \<lparr>bii_headers = [], bii_host = ir_Host rule, bii_path = path, bii_backend = spn, bii_rewrite = [],
      bii_sessionSticky = False, bii_lbType = [], bii_upstream = None, bii_certificate = None,
      bii_isTLS = False, bii_isWildcardHost = isWildcardHost lib (ir_Host rule), bii_verifyClient = False,
      bii_verifyDepth = 0, bii_trustedCA = None\<rparr>"

definition newBaseIngressInfo ::
  "k8s_lib \<Rightarrow> IngressRule \<Rightarrow> HTTPIngressPath \<Rightarrow> ServicePortName \<Rightarrow> BaseIngressInfo option go"
where
  "newBaseIngressInfo lib rule path svcPortName =
     go_bind (deref (hip_PathType path)) (\<lambda>pathType.
       Inr (if pathType = PathTypeExact then Some (base_info lib rule (hip_Path path) svcPortName)
            else if pathType = PathTypePrefix then
              Some (base_info lib rule (prefix_path (hip_Path path)) svcPortName)
            else None))"

section \<open>Backends\<close>

definition createSvcPortNameInstance :: "string \<Rightarrow> string \<Rightarrow> string \<Rightarrow> ServicePortName" where
  "createSvcPortNameInstance namespace serviceName portName =
     \<lparr>spn_NamespacedName = nn namespace serviceName, spn_Port = portName, spn_Protocol = ProtocolTCP\<rparr>"

definition findService :: "ingress_env \<Rightarrow> string \<Rightarrow> IngressServiceBackend \<Rightarrow> Service result" where
  "findService env namespace service =
     (case env_serviceStore env (namespace @ ''/'' @ isb_Name service) of
        Inl err \<Rightarrow> Inl err
      | Inr (Some svc) \<Rightarrow> Inr svc
      | Inr None \<Rightarrow> env_getService env namespace (isb_Name service))"

definition ict_servicePortName ::
  "ingress_env \<Rightarrow> string \<Rightarrow> IngressServiceBackend option \<Rightarrow> ServicePortName option"
where
  "ict_servicePortName env namespace service' =
     (case service' of
        None \<Rightarrow> None
      | Some service \<Rightarrow>
          if sbp_Name (isb_Port service) \<noteq> [] then
            Some (createSvcPortNameInstance namespace (isb_Name service) (sbp_Name (isb_Port service)))
          else if sbp_Number (isb_Port service) > 0 then
            (case findService env namespace service of
               Inl _ \<Rightarrow> None
             | Inr svc \<Rightarrow>
                 (case find (\<lambda>port. sp_Port port = sbp_Number (isb_Port service)) (ssp_Ports (svc_Spec svc)) of
                    None \<Rightarrow> None
                  | Some port \<Rightarrow> Some (createSvcPortNameInstance namespace (isb_Name service) (sp_Name port))))
          else None)"

section \<open>Certificates\<close>

definition ConvertPEMCertToX509 :: "ingress_env \<Rightarrow> string \<Rightarrow> string result" where
  "ConvertPEMCertToX509 env pemCrt =
     (case env_pemDecode env pemCrt of
        None \<Rightarrow> Inl (Errorf ''no valid certificate in PEM'')
      | Some bytes \<Rightarrow> env_parseCertificate env bytes)"

definition fetchSSLCert :: "ingress_env \<Rightarrow> Ingress \<Rightarrow> string \<Rightarrow> string \<Rightarrow> CertificateSpec option" where
  "fetchSSLCert env ing ns' nm =
     (let ns = (if ns' = [] then meta_Namespace (ing_Meta ing) else ns') in
      if nm = [] then None
      else case env_secretLister env ns nm of
             Inl _ \<Rightarrow> None
           | Inr secret \<Rightarrow>
               Some \<lparr>crt_Cert = gstr (secret_Data secret) TLSCertName,
                     crt_Key = gstr (secret_Data secret) TLSPrivateKeyName,
                     crt_CA = gstr (secret_Data secret) RootCACertName\<rparr>)"

text \<open>The test of the second loop of \<open>getTLSSecretName\<close>: the secret holds a certificate for the host.\<close>

definition tls_cert_matches :: "ingress_env \<Rightarrow> Ingress \<Rightarrow> string \<Rightarrow> IngressTLS \<Rightarrow> bool" where
  "tls_cert_matches env ing host tls =
     (if tls_SecretName tls = [] then False
      else case fetchSSLCert env ing (meta_Namespace (ing_Meta ing)) (tls_SecretName tls) of
             None \<Rightarrow> False
           | Some cert \<Rightarrow>
               if crt_Cert cert = [] \<or> crt_Key cert = [] then False
               else case ConvertPEMCertToX509 env (crt_Cert cert) of
                      Inl _ \<Rightarrow> False
                    | Inr x509Cert \<Rightarrow> env_verifyHostname env x509Cert host = None)"

definition getTLSSecretName :: "ingress_env \<Rightarrow> IngressRule \<Rightarrow> Ingress \<Rightarrow> string" where
  "getTLSSecretName env rule ing =
     (let host = ir_Host rule; lowercaseHost = to_lower host in
      case find (\<lambda>tls. \<exists>tlsHost \<in> set (tls_Hosts tls). lowercaseHost = to_lower tlsHost) (ing_TLS ing) of
        Some tls \<Rightarrow> tls_SecretName tls
      | None \<Rightarrow>
          (case find (tls_cert_matches env ing host) (ing_TLS ing) of
             Some tls \<Rightarrow> tls_SecretName tls
           | None \<Rightarrow> []))"

section \<open>Annotations\<close>

text \<open>The three switches accept the same words; any other value is a warning and reads as off.\<close>

definition switch_on :: "string \<Rightarrow> bool" where
  "switch_on s \<longleftrightarrow> to_lower s \<in> {''yes'', ''true'', ''1'', ''on''}"

definition enrichTLS :: "ingress_env \<Rightarrow> IngressRule \<Rightarrow> Ingress \<Rightarrow> BaseIngressInfo \<Rightarrow> BaseIngressInfo" where
  "enrichTLS env rule ing info =
     (if ing_TLS ing = [] then info
      else
        (let info = info\<lparr>bii_isTLS := True\<rparr>;
             secretName = getTLSSecretName env rule ing
         in if secretName = [] then info
            else case fetchSSLCert env ing (meta_Namespace (ing_Meta ing)) secretName of
                   Some cert \<Rightarrow> if crt_Cert cert \<noteq> [] \<and> crt_Key cert \<noteq> []
                                then info\<lparr>bii_certificate := Some cert\<rparr> else info
                 | None \<Rightarrow> info))"

definition enrichBalancer :: "(string, string) gomap \<Rightarrow> BaseIngressInfo \<Rightarrow> BaseIngressInfo" where
  "enrichBalancer annotations info =
     (let rewriteFrom = gstr annotations PipyIngressAnnotationRewriteFrom;
          rewriteTo = gstr annotations PipyIngressAnnotationRewriteTo;
          info = (if rewriteFrom \<noteq> [] \<and> rewriteTo \<noteq> [] then info\<lparr>bii_rewrite := [rewriteFrom, rewriteTo]\<rparr> else info);
          info = info\<lparr>bii_sessionSticky := switch_on (gstr annotations PipyIngressAnnotationSessionSticky)\<rparr>;
          lbValue = gstr annotations PipyIngressAnnotationLoadBalancer;
          balancer = (if lbValue = [] then RoundRobinLoadBalancer else lbValue)
      in info\<lparr>bii_lbType :=
                (if balancer \<in> {RoundRobinLoadBalancer, LeastWorkLoadBalancer, HashingLoadBalancer}
                 then balancer else RoundRobinLoadBalancer)\<rparr>)"

definition upstream_or_new :: "BaseIngressInfo \<Rightarrow> UpstreamSpec" where
  "upstream_or_new info = (case bii_upstream info of None \<Rightarrow> zero_UpstreamSpec | Some u \<Rightarrow> u)"

definition enrichUpstream ::
  "ingress_env \<Rightarrow> Ingress \<Rightarrow> (string, string) gomap \<Rightarrow> BaseIngressInfo \<Rightarrow> BaseIngressInfo"
where
  "enrichUpstream env ing annotations info =
     (let sslName = gstr annotations PipyIngressAnnotationUpstreamSSLName;
          info = (if sslName = [] then info
                  else info\<lparr>bii_upstream := Some ((upstream_or_new info)\<lparr>us_SSLName := sslName\<rparr>)\<rparr>);
          secret = gstr annotations PipyIngressAnnotationUpstreamSSLSecret;
          info = (if secret = [] then info
                  else case SecretNamespaceAndName (env_lib env) secret ing of
                         (ns, nm, None) \<Rightarrow>
                           info\<lparr>bii_upstream := Some ((upstream_or_new info)\<lparr>us_SSLCert := fetchSSLCert env ing ns nm\<rparr>)\<rparr>
                       | (_, _, Some _) \<Rightarrow> info)
      in info\<lparr>bii_upstream := Some ((upstream_or_new info)
                \<lparr>us_SSLVerify := switch_on (gstr annotations PipyIngressAnnotationUpstreamSSLVerify)\<rparr>)\<rparr>)"

definition enrichVerify :: "(string, string) gomap \<Rightarrow> BaseIngressInfo \<Rightarrow> BaseIngressInfo" where
  "enrichVerify annotations info =
     (let info = info\<lparr>bii_verifyClient := switch_on (gstr annotations PipyIngressAnnotationTLSVerifyClient)\<rparr>;
          depth = gstr annotations PipyIngressAnnotationTLSVerifyDepth;
          depth = (if depth = [] then ''1'' else depth)
      in info\<lparr>bii_verifyDepth := (case atoi depth of Some d \<Rightarrow> d | None \<Rightarrow> 1)\<rparr>)"

definition enrichTrustedCA ::
  "ingress_env \<Rightarrow> Ingress \<Rightarrow> (string, string) gomap \<Rightarrow> BaseIngressInfo \<Rightarrow> BaseIngressInfo"
where
  "enrichTrustedCA env ing annotations info =
     (let info = (case bii_certificate info of
                    Some cert \<Rightarrow> if crt_CA cert \<noteq> [] then info\<lparr>bii_trustedCA := Some cert\<rparr> else info
                  | None \<Rightarrow> info);
          secret = gstr annotations PipyIngressAnnotationTLSTrustedCASecret
      in if secret = [] then info
         else case SecretNamespaceAndName (env_lib env) secret ing of
                (ns, nm, None) \<Rightarrow> info\<lparr>bii_trustedCA := fetchSSLCert env ing ns nm\<rparr>
              | (_, _, Some _) \<Rightarrow> info)"

definition enrichIngressInfo :: "ingress_env \<Rightarrow> IngressRule \<Rightarrow> Ingress \<Rightarrow> BaseIngressInfo \<Rightarrow> BaseIngressInfo" where
  "enrichIngressInfo env rule ing info =
     (let info = enrichTLS env rule ing info in
      case meta_Annotations (ing_Meta ing) of
        None \<Rightarrow> info
      | Some annotations \<Rightarrow>
          enrichTrustedCA env ing annotations
            (enrichVerify annotations (enrichUpstream env ing annotations (enrichBalancer annotations info))))"

section \<open>From an Ingress to its routes\<close>

fun go_fold :: "('x \<Rightarrow> 'acc \<Rightarrow> 'acc go) \<Rightarrow> 'x list \<Rightarrow> 'acc \<Rightarrow> 'acc go" where
  "go_fold f [] acc = Inr acc"
| "go_fold f (x # xs) acc = go_bind (f x acc) (go_fold f xs)"

definition route_key :: "ServicePortName \<Rightarrow> BaseIngressInfo \<Rightarrow> RouteKey" where
  "route_key spn info = \<lparr>rk_ServicePortName = spn, rk_Host = bii_host info, rk_Path = bii_path info\<rparr>"

definition add_path :: "ingress_env \<Rightarrow> Ingress \<Rightarrow> IngressRule \<Rightarrow> HTTPIngressPath \<Rightarrow> IngressMap \<Rightarrow> IngressMap go" where
  "add_path env ing rule path ingressMap =
     (case hip_Backend_Service path of
        None \<Rightarrow> Inr ingressMap
      | Some service \<Rightarrow>
          (case ict_servicePortName env (meta_Namespace (ing_Meta ing)) (Some service) of
             None \<Rightarrow> Inr ingressMap
           | Some svcPortName \<Rightarrow>
               go_bind (newBaseIngressInfo (env_lib env) rule path svcPortName) (\<lambda>info'.
                 case info' of
                   None \<Rightarrow> Inr ingressMap
                 | Some baseIngInfo \<Rightarrow>
                     (let routeKey = route_key svcPortName baseIngInfo in
                      if gget ingressMap routeKey \<noteq> None then Inr ingressMap
                      else Inr (gput routeKey (enrichIngressInfo env rule ing baseIngInfo) ingressMap)))))"

definition add_rule :: "ingress_env \<Rightarrow> Ingress \<Rightarrow> IngressRule \<Rightarrow> IngressMap \<Rightarrow> IngressMap go" where
  "add_rule env ing rule ingressMap =
     (case ir_HTTP rule of
        None \<Rightarrow> Inr ingressMap
      | Some paths \<Rightarrow> go_fold (add_path env ing rule) paths ingressMap)"

definition ingressToIngressMap :: "ingress_env \<Rightarrow> Ingress option \<Rightarrow> IngressMap option go" where
  "ingressToIngressMap env ing' =
     (case ing' of
        None \<Rightarrow> Inr None
      | Some ing \<Rightarrow> go_bind (go_fold (add_rule env ing) (ing_Rules ing) []) (\<lambda>m. Inr (Some m)))"

section \<open>Recording and applying changes\<close>

text \<open>The previous object is converted only when there is no change for the name yet.\<close>

definition IngressChangeTracker_Update ::
  "ingress_env \<Rightarrow> Ingress option \<Rightarrow> Ingress option \<Rightarrow> IngressChangeTracker \<Rightarrow> (bool \<times> IngressChangeTracker) go"
where
  "IngressChangeTracker_Update env prev cur ict =
     (case (case cur of Some i \<Rightarrow> Some i | None \<Rightarrow> prev) of
        None \<Rightarrow> Inr (False, ict)
      | Some ing \<Rightarrow>
          if \<not> IsValidPipyIngress (env_DefaultIngressClass env) ing then Inr (False, ict)
          else
            go_bind (if gget (ict_items ict) (ing_nn ing) = None then ingressToIngressMap env prev else Inr None)
              (\<lambda>prevMap. go_bind (ingressToIngressMap env cur) (\<lambda>curMap.
                 let items = track_change (ing_nn ing) prevMap curMap (ict_items ict)
                 in Inr (items \<noteq> [], ict\<lparr>ict_items := items\<rparr>))))"

definition IngressChangeTracker_checkoutChanges :: "IngressChangeTracker \<Rightarrow> ingressChange list \<times> IngressChangeTracker" where
  "IngressChangeTracker_checkoutChanges ict = (map snd (ict_items ict), ict\<lparr>ict_items := []\<rparr>)"

definition IngressMap_merge :: "IngressMap \<Rightarrow> IngressMap option \<Rightarrow> IngressMap" where
  "IngressMap_merge im other = range_put im (gm_entries other)"

definition IngressMap_unmerge :: "IngressMap \<Rightarrow> IngressMap option \<Rightarrow> IngressMap" where
  "IngressMap_unmerge im other = range_del im (gm_entries other)"

definition IngressMap_applyOne :: "ingressChange \<Rightarrow> IngressMap \<Rightarrow> IngressMap" where
  "IngressMap_applyOne ch im = IngressMap_merge (IngressMap_unmerge im (previous ch)) (current ch)"

definition IngressMap_apply :: "IngressChangeTracker \<Rightarrow> IngressMap \<Rightarrow> IngressMap \<times> IngressChangeTracker" where
  "IngressMap_apply ict im =
     (let (changes, ict') = IngressChangeTracker_checkoutChanges ict
      in (fold IngressMap_applyOne changes im, ict'))"

section \<open>What the conversion computes\<close>

lemma ingressToIngressMap_None [simp]: "ingressToIngressMap env None = Inr None"
  by (simp add: ingressToIngressMap_def)

lemma go_fold_inv:
  assumes "go_fold f xs acc = Inr acc'" and "P acc"
    and "\<And>x a a'. x \<in> set xs \<Longrightarrow> P a \<Longrightarrow> f x a = Inr a' \<Longrightarrow> P a'"
  shows "P acc'"
  using assms by (induction xs arbitrary: acc) (auto simp: go_bind_Inr_iff)

lemma go_fold_append: "go_fold f (xs @ ys) acc = go_bind (go_fold f xs acc) (go_fold f ys)"
proof (induction xs arbitrary: acc)
  case (Cons x xs)
  then show ?case by (cases "f x acc") simp_all
qed simp

text \<open>A loop whose body panics on an element whatever the accumulator is.\<close>

lemma go_fold_panics:
  assumes "\<And>x acc. x \<in> set xs \<Longrightarrow> (\<exists>p. f x acc = Inl p) = bad x"
  shows "(\<exists>p. go_fold f xs acc = Inl p) \<longleftrightarrow> (\<exists>x \<in> set xs. bad x)"
  using assms
proof (induction xs arbitrary: acc)
  case (Cons x xs)
  have "(\<exists>p. f x acc = Inl p) = bad x" using Cons.prems by simp
  with Cons show ?case by (cases "f x acc") auto
qed simp

lemma enrichTLS_keeps [simp]:
  "bii_host (enrichTLS env rule ing info) = bii_host info"
  "bii_path (enrichTLS env rule ing info) = bii_path info"
  "bii_backend (enrichTLS env rule ing info) = bii_backend info"
  "bii_upstream (enrichTLS env rule ing info) = bii_upstream info"
  by (simp_all add: enrichTLS_def Let_def split: option.split)

lemma enrichBalancer_keeps [simp]:
  "bii_host (enrichBalancer an info) = bii_host info"
  "bii_path (enrichBalancer an info) = bii_path info"
  "bii_backend (enrichBalancer an info) = bii_backend info"
  by (simp_all add: enrichBalancer_def Let_def)

lemma enrichUpstream_keeps [simp]:
  "bii_host (enrichUpstream env ing an info) = bii_host info"
  "bii_path (enrichUpstream env ing an info) = bii_path info"
  "bii_backend (enrichUpstream env ing an info) = bii_backend info"
  "bii_lbType (enrichUpstream env ing an info) = bii_lbType info"
  "bii_upstream (enrichUpstream env ing an info) \<noteq> None"
  by (simp_all add: enrichUpstream_def Let_def split: option.split prod.split)

lemma enrichVerify_keeps [simp]:
  "bii_host (enrichVerify an info) = bii_host info"
  "bii_path (enrichVerify an info) = bii_path info"
  "bii_backend (enrichVerify an info) = bii_backend info"
  "bii_lbType (enrichVerify an info) = bii_lbType info"
  "bii_upstream (enrichVerify an info) = bii_upstream info"
  by (simp_all add: enrichVerify_def Let_def)

lemma enrichTrustedCA_keeps [simp]:
  "bii_host (enrichTrustedCA env ing an info) = bii_host info"
  "bii_path (enrichTrustedCA env ing an info) = bii_path info"
  "bii_backend (enrichTrustedCA env ing an info) = bii_backend info"
  "bii_lbType (enrichTrustedCA env ing an info) = bii_lbType info"
  "bii_upstream (enrichTrustedCA env ing an info) = bii_upstream info"
  by (simp_all add: enrichTrustedCA_def Let_def split: option.split prod.split)

lemma enrich_keeps [simp]:
  "bii_host (enrichIngressInfo env rule ing info) = bii_host info"
  "bii_path (enrichIngressInfo env rule ing info) = bii_path info"
  "bii_backend (enrichIngressInfo env rule ing info) = bii_backend info"
  by (simp_all add: enrichIngressInfo_def Let_def split: option.split)

definition supported_lb :: "string \<Rightarrow> bool" where
  "supported_lb b \<longleftrightarrow> b \<in> {RoundRobinLoadBalancer, LeastWorkLoadBalancer, HashingLoadBalancer}"

lemma enrichBalancer_lbType: "supported_lb (bii_lbType (enrichBalancer an info))"
  by (simp add: supported_lb_def enrichBalancer_def Let_def)

lemma enrich_lbType:
  "meta_Annotations (ing_Meta ing) \<noteq> None \<Longrightarrow> supported_lb (bii_lbType (enrichIngressInfo env rule ing info))"
  by (auto simp: enrichIngressInfo_def Let_def enrichBalancer_lbType)

lemma enrich_upstream:
  assumes "bii_upstream info = None"
  shows "bii_upstream (enrichIngressInfo env rule ing info) = None \<longleftrightarrow> meta_Annotations (ing_Meta ing) = None"
  using assms by (simp add: enrichIngressInfo_def Let_def split: option.split)

text \<open>A route agrees with the key it is stored under, and is complete if it has an upstream.\<close>

definition route_ok :: "RouteKey \<Rightarrow> BaseIngressInfo \<Rightarrow> bool" where
  "route_ok k info \<longleftrightarrow>
     k = route_key (bii_backend info) info \<and> spn_Protocol (bii_backend info) = ProtocolTCP \<and>
     (bii_upstream info \<noteq> None \<longrightarrow> supported_lb (bii_lbType info))"

definition routes_ok :: "IngressMap \<Rightarrow> bool" where
  "routes_ok m \<longleftrightarrow> gm_wf m \<and> (\<forall>k info. gget m k = Some info \<longrightarrow> route_ok k info)"

lemma routes_ok_Nil [simp]: "routes_ok []"
  by (simp add: routes_ok_def)

lemma newBaseIngressInfo_Some:
  "newBaseIngressInfo lib rule path spn = Inr (Some info) \<Longrightarrow>
   bii_backend info = spn \<and> bii_upstream info = None \<and> bii_host info = ir_Host rule"
  by (cases "hip_PathType path")
    (auto simp: newBaseIngressInfo_def deref_def base_info_def split: if_splits)

lemma ict_servicePortName_TCP: "ict_servicePortName env ns s = Some spn \<Longrightarrow> spn_Protocol spn = ProtocolTCP"
  by (auto simp: ict_servicePortName_def createSvcPortNameInstance_def Let_def
      split: option.splits if_splits sum.splits)

text \<open>The cases of \<open>add_path\<close>: the map is unchanged, or it gets one new entry under a new key.\<close>

lemma add_path_cases:
  assumes "add_path env ing rule path m = Inr m'"
  obtains "m' = m"
  | spn info where "ict_servicePortName env (meta_Namespace (ing_Meta ing)) (hip_Backend_Service path) = Some spn"
      "newBaseIngressInfo (env_lib env) rule path spn = Inr (Some info)"
      "gget m (route_key spn info) = None"
      "m' = gput (route_key spn info) (enrichIngressInfo env rule ing info) m"
proof (cases "ict_servicePortName env (meta_Namespace (ing_Meta ing)) (hip_Backend_Service path)")
  case None
  with assms that(1) show ?thesis
    by (auto simp: add_path_def split: option.splits)
next
  case (Some spn)
  then obtain service where service: "hip_Backend_Service path = Some service"
    by (cases "hip_Backend_Service path") (simp_all add: ict_servicePortName_def)
  with assms Some obtain info' where new: "newBaseIngressInfo (env_lib env) rule path spn = Inr info'"
    by (auto simp: add_path_def go_bind_Inr_iff)
  show ?thesis
  proof (cases info')
    case None
    with assms Some service new that(1) show ?thesis by (simp add: add_path_def)
  next
    case info: (Some info)
    let ?m = "gput (route_key spn info) (enrichIngressInfo env rule ing info) m"
    have m': "m' = (if gget m (route_key spn info) = None then ?m else m)"
      using assms Some service new info by (simp add: add_path_def Let_def split: if_splits)
    show ?thesis
    proof (cases "gget m (route_key spn info) = None")
      case True
      with m' have "m' = ?m" by simp
      with True Some new info show ?thesis by (intro that(2)) simp_all
    next
      case False
      with m' show ?thesis by (intro that(1)) simp
    qed
  qed
qed

lemma add_path_routes_ok:
  assumes "add_path env ing rule path m = Inr m'" and "routes_ok m"
  shows "routes_ok m'"
  using assms(1)
proof (cases rule: add_path_cases)
  case 1
  with assms(2) show ?thesis by simp
next
  case (2 spn info)
  then have "route_ok (route_key spn info) (enrichIngressInfo env rule ing info)"
    using newBaseIngressInfo_Some ict_servicePortName_TCP enrich_upstream enrich_lbType
    by (fastforce simp: route_ok_def route_key_def)
  with 2 assms(2) show ?thesis by (simp add: routes_ok_def gomap_wf)
qed

lemma add_rule_routes_ok: "add_rule env ing rule m = Inr m' \<Longrightarrow> routes_ok m \<Longrightarrow> routes_ok m'"
  by (auto simp: add_rule_def split: option.splits intro: add_path_routes_ok
      elim!: go_fold_inv [where P = routes_ok])

lemma ingressToIngressMap_routes_ok:
  "ingressToIngressMap env ing = Inr (Some m) \<Longrightarrow> routes_ok m"
  by (auto simp: ingressToIngressMap_def go_bind_Inr_iff split: option.splits intro: add_rule_routes_ok
      elim!: go_fold_inv [where P = routes_ok])

lemma add_path_keeps: "add_path env ing rule path m = Inr m' \<Longrightarrow> gget m k = Some v \<Longrightarrow> gget m' k = Some v"
  by (erule add_path_cases) auto

lemma add_rule_keeps: "add_rule env ing rule m = Inr m' \<Longrightarrow> gget m k = Some v \<Longrightarrow> gget m' k = Some v"
  by (auto simp: add_rule_def split: option.splits intro: add_path_keeps
      elim!: go_fold_inv [where P = "\<lambda>m. gget m k = Some v"])

section \<open>Applying changes\<close>

lemma IngressMap_applyOne_look:
  assumes "gm_wf_opt (previous ch)" and "gm_wf_opt (current ch)"
  shows "gget (IngressMap_applyOne ch M) k = change_look (previous ch) (current ch) M k"
  using assms
  by (cases "previous ch"; cases "current ch")
    (simp_all add: IngressMap_applyOne_def IngressMap_merge_def IngressMap_unmerge_def
      change_look_def gomap_simps split: option.split)

lemma gm_wf_IngressMap_applyOne [gomap_wf]: "gm_wf M \<Longrightarrow> gm_wf (IngressMap_applyOne ch M)"
  by (simp add: IngressMap_applyOne_def IngressMap_merge_def IngressMap_unmerge_def gomap_wf)

lemma IngressMap_apply_simps:
  "fst (IngressMap_apply t M) = fold IngressMap_applyOne (map snd (ict_items t)) M"
  "snd (IngressMap_apply t M) = t\<lparr>ict_items := []\<rparr>"
  by (simp_all add: IngressMap_apply_def IngressChangeTracker_checkoutChanges_def)

text \<open>The states the tracker and the map go through, with the surroundings (Services, Secrets,
  classes) different at every step.\<close>

inductive ing_reach :: "IngressChangeTracker \<Rightarrow> IngressMap \<Rightarrow> bool" where
  init: "ing_reach NewIngressChangeTracker []"
| update: "ing_reach t M \<Longrightarrow> IngressChangeTracker_Update env prev cur t = Inr (b, t') \<Longrightarrow> ing_reach t' M"
| sync: "ing_reach t M \<Longrightarrow> IngressMap_apply t M = (M', t') \<Longrightarrow> ing_reach t' M'"

definition routes_ok_opt :: "IngressMap option \<Rightarrow> bool" where
  "routes_ok_opt m = (case m of None \<Rightarrow> True | Some m' \<Rightarrow> routes_ok m')"

definition ing_inv :: "IngressChangeTracker \<Rightarrow> IngressMap \<Rightarrow> bool" where
  "ing_inv t M \<longleftrightarrow> gm_wf (ict_items t) \<and> routes_ok M \<and>
     (\<forall>n ch. gget (ict_items t) n = Some ch \<longrightarrow> routes_ok_opt (previous ch) \<and> routes_ok_opt (current ch))"

lemma routes_ok_opt_conv: "ingressToIngressMap env ing = Inr m \<Longrightarrow> routes_ok_opt m"
  by (auto simp: routes_ok_opt_def split: option.split dest: ingressToIngressMap_routes_ok)

lemma track_change_routes_ok:
  assumes "\<And>n ch. gget items n = Some ch \<Longrightarrow> routes_ok_opt (previous ch) \<and> routes_ok_opt (current ch)"
    and "routes_ok_opt p" and "routes_ok_opt c"
    and "gget (track_change n p c items) m = Some ch"
  shows "routes_ok_opt (previous ch) \<and> routes_ok_opt (current ch)"
  using assms by (auto simp: track_change_def Let_def split: if_splits option.splits)

lemma IngressChangeTracker_Update_cases:
  assumes "IngressChangeTracker_Update env prev cur t = Inr (b, t')"
  obtains "t' = t"
  | n p c where "t' = t\<lparr>ict_items := track_change n p c (ict_items t)\<rparr>" "routes_ok_opt p" "routes_ok_opt c"
proof (cases "case cur of Some i \<Rightarrow> Some i | None \<Rightarrow> prev")
  case None
  with assms that(1) show ?thesis by (simp add: IngressChangeTracker_Update_def)
next
  case (Some ing)
  show ?thesis
  proof (cases "IsValidPipyIngress (env_DefaultIngressClass env) ing")
    case False
    with Some assms that(1) show ?thesis by (simp add: IngressChangeTracker_Update_def)
  next
    case True
    with Some assms obtain p c where
      p: "(if gget (ict_items t) (ing_nn ing) = None then ingressToIngressMap env prev else Inr None) = Inr p"
      and c: "ingressToIngressMap env cur = Inr c"
      and t': "t' = t\<lparr>ict_items := track_change (ing_nn ing) p c (ict_items t)\<rparr>"
      by (auto simp: IngressChangeTracker_Update_def go_bind_Inr_iff Let_def)
    have "routes_ok_opt p"
      using p routes_ok_opt_conv by (cases "gget (ict_items t) (ing_nn ing) = None") (auto simp: routes_ok_opt_def)
    with t' c routes_ok_opt_conv that(2) show ?thesis by blast
  qed
qed

lemma ing_inv_update:
  assumes "ing_inv t M" and "IngressChangeTracker_Update env prev cur t = Inr (b, t')"
  shows "ing_inv t' M"
  using assms(2)
proof (cases rule: IngressChangeTracker_Update_cases)
  case 1
  with assms(1) show ?thesis by simp
next
  case (2 n p c)
  have "\<forall>m ch. gget (track_change n p c (ict_items t)) m = Some ch \<longrightarrow>
      routes_ok_opt (previous ch) \<and> routes_ok_opt (current ch)"
    using track_change_routes_ok [of "ict_items t" p c n] 2 assms(1) unfolding ing_inv_def by blast
  with 2 assms(1) show ?thesis by (simp add: ing_inv_def gomap_wf)
qed

lemma IngressMap_applyOne_routes_ok:
  assumes "routes_ok M" and "routes_ok_opt (previous ch)" and "routes_ok_opt (current ch)"
  shows "routes_ok (IngressMap_applyOne ch M)"
proof -
  have "gm_wf_opt (previous ch)" and "gm_wf_opt (current ch)"
    using assms(2,3) by (auto simp: routes_ok_opt_def routes_ok_def split: option.splits)
  moreover have "gm_look (current ch) k = Some info \<Longrightarrow> route_ok k info" for k info
    using assms(3) by (auto simp: routes_ok_opt_def routes_ok_def split: option.splits)
  ultimately show ?thesis
    using assms(1)
    by (auto simp: routes_ok_def gomap_wf IngressMap_applyOne_look change_look_def split: option.splits if_splits)
qed

lemma ing_inv_sync:
  assumes "ing_inv t M" and "IngressMap_apply t M = (M', t')"
  shows "ing_inv t' M'"
proof -
  have ok: "\<forall>ch \<in> set (map snd (ict_items t)). routes_ok_opt (previous ch) \<and> routes_ok_opt (current ch)"
    using assms(1) by (auto simp: ing_inv_def gget_set_iff)
  have "routes_ok (fold IngressMap_applyOne chs M)"
    if "\<forall>ch \<in> set chs. routes_ok_opt (previous ch) \<and> routes_ok_opt (current ch)" and "routes_ok M" for chs M
    using that by (induction chs arbitrary: M) (auto intro: IngressMap_applyOne_routes_ok)
  with ok assms show ?thesis
    using IngressMap_apply_simps [of t M] by (simp add: ing_inv_def)
qed

lemma ing_reach_inv: "ing_reach t M \<Longrightarrow> ing_inv t M"
proof (induction rule: ing_reach.induct)
  case init
  then show ?case by (simp add: ing_inv_def NewIngressChangeTracker_def)
qed (blast intro: ing_inv_update ing_inv_sync)+

end
