(* ===== verification/Ingress_Routes.thy ===== *)
theory Ingress_Routes
  imports Ingress_Cache
begin

text \<open>
  The properties of the routes that Ingresses give: the invariant of the map of routes, the order
  in which rules and changes take effect, the inputs on which the conversion panics, and three
  behaviours that the sources do not intend.
\<close>

section \<open>A concrete environment for the witnesses\<close>

definition demo_env :: ingress_env where
  "demo_env = \<lparr>env_lib = demo_lib\<lparr>SplitMetaNamespaceKey := (\<lambda>s. (''default'', [], None))\<rparr>,
     env_serviceStore = (\<lambda>_. Inr (Some (demo_svc ServiceTypeClusterIP [demo_port ''http'' 80]))),
     env_getService = (\<lambda>_ _. Inl NotFound), env_secretLister = (\<lambda>_ _. Inl NotFound),
     env_pemDecode = (\<lambda>_. None), env_parseCertificate = Inr, env_verifyHostname = (\<lambda>_ _. None),
     env_DefaultIngressClass = ''pipy''\<rparr>"

definition demo_path :: "string \<Rightarrow> string option \<Rightarrow> HTTPIngressPath" where
  "demo_path p ty = \<lparr>hip_Path = p, hip_PathType = ty,
     hip_Backend_Service = Some \<lparr>isb_Name = ''web'', isb_Port = \<lparr>sbp_Name = [], sbp_Number = 80\<rparr>\<rparr>\<rparr>"

definition demo_ing :: "string \<Rightarrow> (string, string) gomap option \<Rightarrow> HTTPIngressPath list \<Rightarrow> Ingress" where
  "demo_ing nm annotations paths =
     \<lparr>ing_Meta = (named_meta ''default'' nm)\<lparr>meta_Annotations := annotations\<rparr>, ing_IngressClassName = Some ''pipy'',
      ing_TLS = [], ing_Rules = [\<lparr>ir_Host = ''a.com'', ir_HTTP = Some paths\<rparr>]\<rparr>"

abbreviation demo_route_key :: "string \<Rightarrow> RouteKey" where
  "demo_route_key p \<equiv> \<lparr>rk_ServicePortName = demo_spn, rk_Host = ''a.com'', rk_Path = p\<rparr>"

lemmas demo_ing_defs =
  demo_env_def demo_path_def demo_ing_def demo_lib_def demo_svc_def demo_port_def named_meta_def

lemmas ingress_eval =
  ingressToIngressMap_def add_rule_def add_path_def ict_servicePortName_def findService_def
  createSvcPortNameInstance_def newBaseIngressInfo_def deref_def base_info_def isWildcardHost_def route_key_def
  prefix_path_def IsValidPipyIngress_def ing_nn_def nn_of_meta_def enrichIngressInfo_def enrichTLS_def Let_def

section \<open>The invariant of the map\<close>


text \<open>A run that reaches a map with one route.\<close>

definition demo_route :: BaseIngressInfo where
  "demo_route = base_info (env_lib demo_env) \<lparr>ir_Host = ''a.com'', ir_HTTP = None\<rparr> ''/x'' demo_spn"

lemma demo_ing_map:
  "ingressToIngressMap demo_env (Some (demo_ing nm None [demo_path ''/x'' (Some ''Exact'')])) =
     Inr (Some [(demo_route_key ''/x'', demo_route)])"
  by (simp add: ingress_eval demo_ing_defs demo_route_def)

lemma demo_ing_update:
  "IngressChangeTracker_Update demo_env None (Some (demo_ing nm None [demo_path ''/x'' (Some ''Exact'')])) NewIngressChangeTracker =
     Inr (True, \<lparr>ict_items = [(nn ''default'' nm, \<lparr>previous = None, current = Some [(demo_route_key ''/x'', demo_route)]\<rparr>)]\<rparr>)"
proof -
  have valid: "IsValidPipyIngress (env_DefaultIngressClass demo_env) (demo_ing nm None ps)" for ps
    by (simp add: IsValidPipyIngress_def demo_ing_defs)
  have name: "ing_nn (demo_ing nm None ps) = nn ''default'' nm" for ps
    by (simp add: ing_nn_def nn_of_meta_def demo_ing_def)
  show ?thesis
    unfolding IngressChangeTracker_Update_def
    by (simp add: valid name demo_ing_map NewIngressChangeTracker_def ingressToIngressMap_def [of _ None]
        track_change_def Let_def)
qed

lemma demo_ing_reach: "ing_reach \<lparr>ict_items = []\<rparr> [(demo_route_key ''/x'', demo_route)]"
  by (rule ing_reach.sync [OF ing_reach.update [OF ing_reach.init demo_ing_update]])
    (simp add: IngressMap_apply_def IngressChangeTracker_checkoutChanges_def IngressMap_applyOne_def
      IngressMap_merge_def IngressMap_unmerge_def range_put_def range_del_def)


section \<open>The order of rules and changes\<close>

lemma rules_irrelevant [simp]:
  "fetchSSLCert env (ing\<lparr>ing_Rules := rs\<rparr>) = fetchSSLCert env ing"
  "tls_cert_matches env (ing\<lparr>ing_Rules := rs\<rparr>) = tls_cert_matches env ing"
  "getTLSSecretName env rule (ing\<lparr>ing_Rules := rs\<rparr>) = getTLSSecretName env rule ing"
  "SecretNamespaceAndName lib s (ing\<lparr>ing_Rules := rs\<rparr>) = SecretNamespaceAndName lib s ing"
  "enrichTLS env rule (ing\<lparr>ing_Rules := rs\<rparr>) = enrichTLS env rule ing"
  "enrichUpstream env (ing\<lparr>ing_Rules := rs\<rparr>) = enrichUpstream env ing"
  "enrichTrustedCA env (ing\<lparr>ing_Rules := rs\<rparr>) = enrichTrustedCA env ing"
proof -
  show cert: "fetchSSLCert env (ing\<lparr>ing_Rules := rs\<rparr>) = fetchSSLCert env ing"
    by (intro ext) (simp add: fetchSSLCert_def)
  show tls: "tls_cert_matches env (ing\<lparr>ing_Rules := rs\<rparr>) = tls_cert_matches env ing"
    by (intro ext) (simp add: tls_cert_matches_def cert)
  show name: "getTLSSecretName env rule (ing\<lparr>ing_Rules := rs\<rparr>) = getTLSSecretName env rule ing"
    by (simp add: getTLSSecretName_def tls Let_def split: option.split)
  have sec: "SecretNamespaceAndName lib s (ing\<lparr>ing_Rules := rs\<rparr>) = SecretNamespaceAndName lib s ing" for lib s
    by (simp add: SecretNamespaceAndName_def Let_def split: prod.split)
  then show "SecretNamespaceAndName lib s (ing\<lparr>ing_Rules := rs\<rparr>) = SecretNamespaceAndName lib s ing" .
  show "enrichUpstream env (ing\<lparr>ing_Rules := rs\<rparr>) = enrichUpstream env ing"
    unfolding enrichUpstream_def [abs_def] cert sec ..
  show "enrichTrustedCA env (ing\<lparr>ing_Rules := rs\<rparr>) = enrichTrustedCA env ing"
    unfolding enrichTrustedCA_def [abs_def] cert sec ..
  show "enrichTLS env rule (ing\<lparr>ing_Rules := rs\<rparr>) = enrichTLS env rule ing"
    by (intro ext) (simp add: enrichTLS_def name cert Let_def)
qed

text \<open>Within an Ingress the first rule for a key wins: adding rules at the end never changes
  the route of a key that the earlier rules already have.\<close>

theorem ingress_first_rule_wins:
  assumes "ingressToIngressMap env (Some ing) = Inr (Some m)"
    and "ingressToIngressMap env (Some (ing\<lparr>ing_Rules := ing_Rules ing @ rules\<rparr>)) = Inr (Some m')"
    and "gget m k = Some info"
  shows "gget m' k = Some info"
proof -
  let ?ing' = "ing\<lparr>ing_Rules := ing_Rules ing @ rules\<rparr>"
  have "enrichIngressInfo env rule ?ing' = enrichIngressInfo env rule ing" for rule
    by (rule ext) (simp add: enrichIngressInfo_def Let_def split: option.split)
  moreover have "ing_Meta ?ing' = ing_Meta ing" by simp
  ultimately have "add_path env ?ing' = add_path env ing"
    unfolding add_path_def [abs_def] by (simp only:)
  then have "add_rule env ?ing' = add_rule env ing"
    unfolding add_rule_def [abs_def] by (simp only:)
  with assms(1,2) have "go_fold (add_rule env ing) rules m = Inr m'"
    by (auto simp: ingressToIngressMap_def go_fold_append go_bind_Inr_iff)
  then show ?thesis
    using assms(3) by (rule go_fold_inv [where P = "\<lambda>m. gget m k = Some info"]) (rule add_rule_keeps)
qed

theorem ingress_first_rule_wins_witness:
  "let ing = demo_ing ''i'' None [demo_path ''/x'' (Some ''Exact'')];
       more = [\<lparr>ir_Host = ''a.com'', ir_HTTP = Some [demo_path ''/x'' (Some ''Exact'')]\<rparr>]
   in \<exists>m'. ingressToIngressMap demo_env (Some (ing\<lparr>ing_Rules := ing_Rules ing @ more\<rparr>)) = Inr (Some m') \<and>
           gget m' (demo_route_key ''/x'') = Some demo_route"
proof -
  let ?ing = "demo_ing ''i'' None [demo_path ''/x'' (Some ''Exact'')]"
  let ?more = "[\<lparr>ir_Host = ''a.com'', ir_HTTP = Some [demo_path ''/x'' (Some ''Exact'')]\<rparr>]"
  obtain m' where m': "ingressToIngressMap demo_env (Some (?ing\<lparr>ing_Rules := ing_Rules ?ing @ ?more\<rparr>)) = Inr (Some m')"
    by (simp add: ingress_eval demo_ing_defs)
  from ingress_first_rule_wins [OF demo_ing_map m', of "demo_route_key ''/x''" demo_route] m'
  show ?thesis by simp
qed

text \<open>C33. When no two pending changes touch the same route, a synchronisation gives the same map
  in whatever order Go visits the map of changes.\<close>

theorem ingress_sync_order_independent:
  assumes "gm_wf (ict_items t)" and "gm_wf (ict_items t')" and "set (ict_items t) = set (ict_items t')"
    and "\<And>n ch. gget (ict_items t) n = Some ch \<Longrightarrow> gm_wf_opt (previous ch) \<and> gm_wf_opt (current ch)"
    and disjoint: "\<And>n ch n' ch' k. gget (ict_items t) n = Some ch \<Longrightarrow> gget (ict_items t) n' = Some ch' \<Longrightarrow> n \<noteq> n' \<Longrightarrow>
           gm_look (previous ch) k \<noteq> None \<or> gm_look (current ch) k \<noteq> None \<Longrightarrow>
           gm_look (previous ch') k = None \<and> gm_look (current ch') k = None"
  shows "gget (fst (IngressMap_apply t M)) k = gget (fst (IngressMap_apply t' M)) k"
proof -
  let ?touches = "\<lambda>k n. \<exists>p c. items_pend (ict_items t) n = Some (p, c) \<and> (gm_look p k \<noteq> None \<or> gm_look c k \<noteq> None)"
  define owner where "owner k = (SOME n. ?touches k n)" for k
  have same: "items_pend (ict_items t') = items_pend (ict_items t)"
    using gm_wf_same_set [OF assms(1,2)] assms(3) by (simp add: items_pend_def fun_eq_iff)
  have unique: "n = n'" if "?touches k n" and "?touches k n'" for n n' k
    using that disjoint [of n _ n' _ k] by (fastforce simp: items_pend_def)
  have owner: "owner k = n" if "?touches k n" for n k
    unfolding owner_def by (rule some_equality [where P = "?touches k", OF that]) (rule unique [OF _ that])
  have wf: "gm_wf_opt p \<and> gm_wf_opt c" if "items_pend (ict_items t) n = Some (p, c)" for n p c
    using that assms(4) by (auto simp: items_pend_def)
  have "gget (fold IngressMap_applyOne (map snd items) M) k =
      (case items_pend (ict_items t) (owner k) of None \<Rightarrow> gget M k | Some (p, c) \<Rightarrow> change_look p c M k)"
    if "gm_wf items" and "items_pend items = items_pend (ict_items t)" for items
    using apply_changes_look [OF IngressMap_applyOne_look, of items owner M k] that owner wf
    by (metis (no_types, lifting))
  with assms(1,2) same show ?thesis by (simp add: IngressMap_apply_simps)
qed

theorem ingress_sync_order_independent_witness:
  "let c1 = (nn ''default'' ''i'', \<lparr>previous = None, current = Some [(demo_route_key ''/x'', demo_route)]\<rparr>);
       c2 = (nn ''default'' ''j'', \<lparr>previous = Some [(demo_route_key ''/y'', demo_route)], current = None\<rparr>)
   in gget (fst (IngressMap_apply \<lparr>ict_items = [c1, c2]\<rparr> [])) (demo_route_key ''/x'') =
      gget (fst (IngressMap_apply \<lparr>ict_items = [c2, c1]\<rparr> [])) (demo_route_key ''/x'')"
  unfolding Let_def
  by (rule ingress_sync_order_independent) (auto simp: gm_wf_def split: if_splits)

section \<open>When the conversion panics\<close>

text \<open>C34. The conversion of an Ingress returns a map unless some path that has a resolvable Service
  backend has no path type; then, and only then, it dereferences a nil pointer.\<close>

theorem ingress_conversion_panics_iff:
  "(\<exists>p. ingressToIngressMap env (Some ing) = Inl p) \<longleftrightarrow>
     (\<exists>rule \<in> set (ing_Rules ing). \<exists>paths path. ir_HTTP rule = Some paths \<and> path \<in> set paths \<and>
        hip_PathType path = None \<and>
        ict_servicePortName env (meta_Namespace (ing_Meta ing)) (hip_Backend_Service path) \<noteq> None)"
proof -
  let ?bad = "\<lambda>path. hip_PathType path = None \<and>
      ict_servicePortName env (meta_Namespace (ing_Meta ing)) (hip_Backend_Service path) \<noteq> None"
  have path: "(\<exists>p. add_path env ing rule path m = Inl p) = ?bad path" for rule path m
    by (cases "hip_Backend_Service path"; cases "hip_PathType path")
      (auto simp: add_path_def newBaseIngressInfo_def deref_def Let_def
        ict_servicePortName_def [of _ _ None] split: option.splits)
  have rule: "(\<exists>p. add_rule env ing rule m = Inl p) = (\<exists>paths path. ir_HTTP rule = Some paths \<and> path \<in> set paths \<and> ?bad path)"
    for rule m
  proof (cases "ir_HTTP rule")
    case (Some paths)
    have "(\<exists>p. go_fold (add_path env ing rule) paths m = Inl p) \<longleftrightarrow> (\<exists>path \<in> set paths. ?bad path)"
      by (rule go_fold_panics) (rule path)
    with Some show ?thesis by (auto simp: add_rule_def)
  qed (simp add: add_rule_def)
  have "(\<exists>p. ingressToIngressMap env (Some ing) = Inl p) = (\<exists>p. go_fold (add_rule env ing) (ing_Rules ing) [] = Inl p)"
    by (cases "go_fold (add_rule env ing) (ing_Rules ing) []") (auto simp: ingressToIngressMap_def)
  also have "\<dots> = (\<exists>rule \<in> set (ing_Rules ing). \<exists>paths path. ir_HTTP rule = Some paths \<and> path \<in> set paths \<and> ?bad path)"
    by (rule go_fold_panics) (rule rule)
  finally show ?thesis .
qed

section \<open>Prefix paths\<close>

text \<open>The route of a prefix path ends in \<open>/*\<close>, starts with the path that was written, and
  normalising it again changes nothing; the route of an exact path has the path as written.\<close>

theorem ingress_path_normalised:
  assumes "newBaseIngressInfo lib rule path spn = Inr (Some info)"
  shows "(hip_PathType path = Some PathTypePrefix \<longrightarrow>
            suffix ''/*'' (bii_path info) \<and> prefix (hip_Path path) (bii_path info) \<and>
            prefix_path (bii_path info) = bii_path info) \<and>
         (hip_PathType path = Some PathTypeExact \<longrightarrow> bii_path info = hip_Path path)"
proof -
  have "suffix ''/*'' (prefix_path p)" for p
    by (auto simp: prefix_path_def suffix_def)
  moreover have "prefix p (prefix_path p)" for p
    by (simp add: prefix_path_def)
  ultimately show ?thesis
    using assms
    by (cases "hip_PathType path")
      (auto simp: newBaseIngressInfo_def deref_def base_info_def prefix_path_def [of "prefix_path _"])
qed

theorem ingress_path_normalised_witness:
  "\<exists>info. newBaseIngressInfo demo_lib \<lparr>ir_Host = ''a.com'', ir_HTTP = None\<rparr> (demo_path ''/api'' (Some ''Prefix'')) demo_spn =
            Inr (Some info) \<and> bii_path info = ''/api/*'' \<and> suffix ''/*'' (bii_path info)"
proof -
  obtain info where info:
    "newBaseIngressInfo demo_lib \<lparr>ir_Host = ''a.com'', ir_HTTP = None\<rparr> (demo_path ''/api'' (Some ''Prefix'')) demo_spn =
       Inr (Some info)" and "bii_path info = ''/api/*''"
    by (simp add: newBaseIngressInfo_def deref_def demo_path_def base_info_def prefix_path_def suffix_def)
  with ingress_path_normalised [OF info] show ?thesis by (auto simp: demo_path_def)
qed

section \<open>Behaviours the sources do not intend\<close>

text \<open>Two Ingresses may have the same route. When both have been synchronised and one of them
  is deleted, the next synchronisation removes the route although the other Ingress is still
  there and still has it.\<close>

theorem ingress_shared_route_lost:
  assumes valid: "IsValidPipyIngress (env_DefaultIngressClass env) i" "IsValidPipyIngress (env_DefaultIngressClass env) j"
    and conv: "ingressToIngressMap env (Some i) = Inr (Some mi)" "ingressToIngressMap env (Some j) = Inr (Some mj)"
    and both: "gget mi k \<noteq> None" "gget mj k \<noteq> None" and "ing_nn i \<noteq> ing_nn j"
    and run: "IngressChangeTracker_Update env None (Some i) NewIngressChangeTracker = Inr (b1, t1)"
      "IngressChangeTracker_Update env None (Some j) t1 = Inr (b2, t2)" "IngressMap_apply t2 [] = (M, t3)"
      "IngressChangeTracker_Update env (Some i) None t3 = Inr (b3, t4)" "IngressMap_apply t4 M = (M', t5)"
  shows "gget M k \<noteq> None \<and> gget M' k = None"
proof -
  note upd = IngressChangeTracker_Update_def track_change_def Let_def
  note app = IngressMap_apply_simps IngressMap_applyOne_def IngressMap_merge_def IngressMap_unmerge_def gomap_simps
  have wf: "gm_wf mi" "gm_wf mj"
    using ingressToIngressMap_routes_ok conv by (auto simp: routes_ok_def)
  have "t1 = \<lparr>ict_items = [(ing_nn i, \<lparr>previous = None, current = Some mi\<rparr>)]\<rparr>"
    using run(1) valid conv by (auto simp: upd NewIngressChangeTracker_def)
  then have t2: "ict_items t2 = [(ing_nn i, \<lparr>previous = None, current = Some mi\<rparr>), (ing_nn j, \<lparr>previous = None, current = Some mj\<rparr>)]"
    using run(2) valid conv assms(7) by (auto simp: upd)
  have t3: "ict_items t3 = []"
    using run(3) IngressMap_apply_simps(2) [of t2 "[]"] by auto
  then have t4: "ict_items t4 = [(ing_nn i, \<lparr>previous = Some mi, current = None\<rparr>)]"
    using run(4) valid conv by (auto simp: upd)
  have "gget M k \<noteq> None"
    using run(3) both wf IngressMap_apply_simps(1) [of t2 "[]"] by (auto simp: t2 app split: option.split)
  moreover have "gget M' k = None"
    using run(5) both IngressMap_apply_simps(1) [of t4 M] by (auto simp: t4 app)
  ultimately show ?thesis ..
qed

theorem ingress_shared_route_lost_witness:
  "let i = demo_ing ''i'' None [demo_path ''/x'' (Some ''Exact'')];
       j = demo_ing ''j'' None [demo_path ''/x'' (Some ''Exact'')]
   in \<exists>b1 t1 b2 t2 M t3 b3 t4 M' t5.
        IngressChangeTracker_Update demo_env None (Some i) NewIngressChangeTracker = Inr (b1, t1) \<and>
        IngressChangeTracker_Update demo_env None (Some j) t1 = Inr (b2, t2) \<and> IngressMap_apply t2 [] = (M, t3) \<and>
        IngressChangeTracker_Update demo_env (Some i) None t3 = Inr (b3, t4) \<and> IngressMap_apply t4 M = (M', t5) \<and>
        gget M (demo_route_key ''/x'') \<noteq> None \<and> gget M' (demo_route_key ''/x'') = None"
proof -
  let ?i = "demo_ing ''i'' None [demo_path ''/x'' (Some ''Exact'')]"
  let ?j = "demo_ing ''j'' None [demo_path ''/x'' (Some ''Exact'')]"
  have valid: "IsValidPipyIngress (env_DefaultIngressClass demo_env) (demo_ing nm None ps)" for nm ps
    by (simp add: IsValidPipyIngress_def demo_ing_defs)
  have names: "ing_nn ?i \<noteq> ing_nn ?j"
    by (simp add: ing_nn_def nn_of_meta_def demo_ing_def)
  note upd = IngressChangeTracker_Update_def valid demo_ing_map Let_def
  obtain b1 t1 where r1: "IngressChangeTracker_Update demo_env None (Some ?i) NewIngressChangeTracker = Inr (b1, t1)"
    by (simp add: upd NewIngressChangeTracker_def)
  obtain b2 t2 where r2: "IngressChangeTracker_Update demo_env None (Some ?j) t1 = Inr (b2, t2)"
    by (cases "gget (ict_items t1) (ing_nn ?j)") (simp_all add: upd)
  obtain M t3 where r3: "IngressMap_apply t2 [] = (M, t3)" by fastforce
  obtain b3 t4 where r4: "IngressChangeTracker_Update demo_env (Some ?i) None t3 = Inr (b3, t4)"
    by (cases "gget (ict_items t3) (ing_nn ?i)") (simp_all add: upd)
  obtain M' t5 where r5: "IngressMap_apply t4 M = (M', t5)" by fastforce
  from ingress_shared_route_lost [OF valid valid demo_ing_map demo_ing_map _ _ names r1 r2 r3 r4 r5] r1 r2 r3 r4 r5
  show ?thesis unfolding Let_def by (metis (no_types) map_of_Cons_code(2) option.distinct(1))
qed

text \<open>An annotation for the trusted CA that names a namespace but no secret (\<open>ns/\<close>, which
  \<open>SplitMetaNamespaceKey\<close> splits without an error) is not rejected: the route loses its trusted CA,
  even the one that its own certificate brought.\<close>

theorem trusted_ca_lost:
  assumes "gstr annotations PipyIngressAnnotationTLSTrustedCASecret = secret" and "secret \<noteq> []"
    and "SplitMetaNamespaceKey (env_lib env) secret = (ns, [], None)"
  shows "bii_trustedCA (enrichTrustedCA env ing annotations info) = None"
  using assms by (simp add: enrichTrustedCA_def SecretNamespaceAndName_def fetchSSLCert_def Let_def)

theorem trusted_ca_lost_witness:
  "let crt = \<lparr>crt_Cert = ''c'', crt_Key = ''k'', crt_CA = ''ca''\<rparr>;
       annotations = [(PipyIngressAnnotationTLSTrustedCASecret, ''default/'')]
   in bii_trustedCA (enrichTrustedCA demo_env (demo_ing ''i'' None []) annotations
        (demo_route\<lparr>bii_certificate := Some crt\<rparr>)) = None"
  unfolding Let_def
  by (rule trusted_ca_lost [where secret = "''default/''" and ns = "''default''"])
    (simp_all add: gstr_def demo_env_def)

end
