(* ===== verification/Repo_Client.thy ===== *)
theory Repo_Client
  imports Route_Types "HOL-Library.Word"
begin

text \<open>
  \<open>pkg/repo/client.go\<close> and \<open>pkg/repo/types.go\<close>: the client of the Pipy repository. The HTTP
  client and the server behind it are a parameter: a function from a request and the state of the
  world to a response and the next state. \<open>logged\<close> adds a log of the requests to any such
  function, and the properties say what the client leaves in the log.

  The version of a codebase is an \<open>int64\<close>, a 64-bit word here: \<open>commit\<close> adds one to it.
\<close>

record Codebase =
  cb_Version :: "64 word"
  cb_Path :: string
  cb_Main :: string
  cb_Base :: string
  cb_Files :: "string list"
  cb_EditFiles :: "string list"
  cb_ErasedFiles :: "string list"
  cb_Derived :: "string list"

definition mk_Codebase :: "64 word \<Rightarrow> string \<Rightarrow> Codebase" where
  "mk_Codebase version base =
     \<lparr>cb_Version = version, cb_Path = [], cb_Main = [], cb_Base = base, cb_Files = [], cb_EditFiles = [],
      cb_ErasedFiles = [], cb_Derived = []\<rparr>"

record 'c BatchItem =
  bi_Path :: string
  bi_Filename :: string
  bi_Content :: 'c

record 'c Batch =
  ba_Basepath :: string
  ba_Items :: "'c BatchItem list"

record repo_response =
  rsp_StatusCode :: int
  rsp_Status :: string
  rsp_IsSuccess :: bool
  rsp_IsError :: bool
  rsp_Result :: Codebase
  rsp_Body :: string

datatype 'c repo_request =
    RepoGet string
  | RepoPost string Codebase
  | RepoPatch string Codebase
  | FileGet string
  | FilePost string string 'c

type_synonym ('c, 'w) repo_http = "'c repo_request \<Rightarrow> 'w \<Rightarrow> repo_response result \<times> 'w"

definition fullRepoApiPath :: "string \<Rightarrow> string" where
  "fullRepoApiPath path = ''/api/v1/repo'' @ path"

definition fullFileApiPath :: "string \<Rightarrow> string" where
  "fullFileApiPath path = ''/api/v1/repo-files'' @ path"

section \<open>Single requests\<close>

definition isCodebaseExists :: "('c, 'w) repo_http \<Rightarrow> string \<Rightarrow> 'w \<Rightarrow> (bool \<times> Codebase option) \<times> 'w" where
  "isCodebaseExists http path w =
     (case http (RepoGet (fullRepoApiPath path)) w of
        (Inl _, w') \<Rightarrow> ((False, None), w')
      | (Inr resp, w') \<Rightarrow>
          if rsp_StatusCode resp = 404 then ((False, None), w')
          else if rsp_StatusCode resp = 200 then ((True, Some (rsp_Result resp)), w')
          else ((False, None), w'))"

definition repo_get :: "('c, 'w) repo_http \<Rightarrow> string \<Rightarrow> 'w \<Rightarrow> Codebase result \<times> 'w" where
  "repo_get http path w =
     (case http (RepoGet (fullRepoApiPath path)) w of
        (Inl err, w') \<Rightarrow> (Inl err, w')
      | (Inr resp, w') \<Rightarrow> (Inr (rsp_Result resp), w'))"

definition createCodebase :: "('c, 'w) repo_http \<Rightarrow> string \<Rightarrow> 'w \<Rightarrow> Codebase result \<times> 'w" where
  "createCodebase http path w =
     (case http (RepoPost (fullRepoApiPath path) (mk_Codebase 1 [])) w of
        (Inl err, w') \<Rightarrow> (Inl err, w')
      | (Inr resp, w') \<Rightarrow>
          if rsp_IsError resp
          then (Inl (Errorf (''failed to create codebase '' @ path @ '', reason: '' @ rsp_Status resp)), w')
          else repo_get http path w')"

definition deriveCodebase_post :: "('c, 'w) repo_http \<Rightarrow> string \<Rightarrow> string \<Rightarrow> 'w \<Rightarrow> Codebase result \<times> 'w" where
  "deriveCodebase_post http path base w =
     (case isCodebaseExists http base w of
        ((exists, _), w1) \<Rightarrow>
          if \<not> exists
          then (Inl (Errorf (''parent '' @ base @ '' of codebase '' @ path @ '' doesn't exists'')), w1)
          else
            (case http (RepoPost (fullRepoApiPath path) (mk_Codebase 1 base)) w1 of
               (Inl err, w2) \<Rightarrow> (Inl err, w2)
             | (Inr resp, w2) \<Rightarrow>
                 if rsp_StatusCode resp = 200 \<or> rsp_StatusCode resp = 201 then repo_get http path w2
                 else (Inl (Errorf (''failed to derive codebase codebase: path: '' @ path @ '', base: '' @ base
                              @ '', reason: '' @ rsp_Status resp)), w2)))"

definition GetFile :: "('c, 'w) repo_http \<Rightarrow> string \<Rightarrow> 'w \<Rightarrow> string result \<times> 'w" where
  "GetFile http path w =
     (case http (FileGet (fullFileApiPath path)) w of
        (Inl err, w') \<Rightarrow> (Inl err, w')
      | (Inr resp, w') \<Rightarrow> (Inr (rsp_Body resp), w'))"

definition content_type :: "string \<Rightarrow> string" where
  "content_type path = (if suffix ''.json'' path then ''application/json'' else ''text/plain'')"

definition upsertFile :: "('c, 'w) repo_http \<Rightarrow> string \<Rightarrow> 'c \<Rightarrow> 'w \<Rightarrow> unit result \<times> 'w" where
  "upsertFile http path content w =
     (case http (FilePost (fullFileApiPath path) (content_type path) content) w of
        (Inl err, w') \<Rightarrow> (Inl err, w')
      | (Inr resp, w') \<Rightarrow>
          if rsp_IsSuccess resp then (Inr (), w')
          else (Inl (Errorf (''repo server responsed with error HTTP code: '' @ itoa (rsp_StatusCode resp)
                       @ '', error: '' @ rsp_Status resp)), w'))"

definition repo_commit :: "('c, 'w) repo_http \<Rightarrow> string \<Rightarrow> 64 word \<Rightarrow> 'w \<Rightarrow> unit result \<times> 'w" where
  "repo_commit http path version w =
     (case http (RepoPatch (fullRepoApiPath path) (mk_Codebase (version + 1) [])) w of
        (Inl err, w') \<Rightarrow> (Inl err, w')
      | (Inr resp, w') \<Rightarrow>
          if rsp_IsSuccess resp then (Inr (), w')
          else (Inl (Errorf (''failed to commit codebase '' @ path @ '', reason: '' @ rsp_Status resp)), w'))"

section \<open>Batches\<close>

definition item_path :: "'c Batch \<Rightarrow> 'c BatchItem \<Rightarrow> string" where
  "item_path batch item = ba_Basepath batch @ bi_Path item @ ''/'' @ bi_Filename item"

text \<open>Step 2 of \<open>Batch\<close>: upload every item, stop at the first error.\<close>

fun upload_items :: "('c, 'w) repo_http \<Rightarrow> 'c Batch \<Rightarrow> 'c BatchItem list \<Rightarrow> 'w \<Rightarrow> unit result \<times> 'w" where
  "upload_items http batch [] w = (Inr (), w)"
| "upload_items http batch (item # items) w =
     (case upsertFile http (item_path batch item) (bi_Content item) w of
        (Inl err, w') \<Rightarrow> (Inl err, w')
      | (Inr _, w') \<Rightarrow> upload_items http batch items w')"

text \<open>Step 1: the version of the codebase, which is created if it is not there.\<close>

definition batch_version :: "('c, 'w) repo_http \<Rightarrow> 'c Batch \<Rightarrow> 'w \<Rightarrow> (64 word) result \<times> 'w" where
  "batch_version http batch w =
     (case isCodebaseExists http (ba_Basepath batch) w of
        ((True, Some codebase), w') \<Rightarrow> (Inr (cb_Version codebase), w')
      | (_, w') \<Rightarrow>
          (case createCodebase http (ba_Basepath batch) w' of
             (Inl err, w'') \<Rightarrow> (Inl err, w'')
           | (Inr result, w'') \<Rightarrow> (Inr (cb_Version result), w'')))"

definition batch_one :: "('c, 'w) repo_http \<Rightarrow> 'c Batch \<Rightarrow> 'w \<Rightarrow> unit result \<times> 'w" where
  "batch_one http batch w =
     (case batch_version http batch w of
        (Inl err, w1) \<Rightarrow> (Inl err, w1)
      | (Inr version, w1) \<Rightarrow>
          (case upload_items http batch (ba_Items batch) w1 of
             (Inl err, w2) \<Rightarrow> (Inl err, w2)
           | (Inr _, w2) \<Rightarrow>
               if version = -1 then (Inl (Errorf ''-1 is not a valid version''), w2)
               else repo_commit http (ba_Basepath batch) version w2))"

fun repo_Batch :: "('c, 'w) repo_http \<Rightarrow> 'c Batch list \<Rightarrow> 'w \<Rightarrow> unit result \<times> 'w" where
  "repo_Batch http [] w = (Inr (), w)"
| "repo_Batch http (batch # batches) w =
     (case batch_one http batch w of
        (Inl err, w') \<Rightarrow> (Inl err, w')
      | (Inr _, w') \<Rightarrow> repo_Batch http batches w')"

definition DeriveCodebase :: "('c, 'w) repo_http \<Rightarrow> string \<Rightarrow> string \<Rightarrow> 'w \<Rightarrow> unit result \<times> 'w" where
  "DeriveCodebase http path base w =
     (case isCodebaseExists http path w of
        ((exists, _), w1) \<Rightarrow>
          if exists then (Inr (), w1)
          else
            (case deriveCodebase_post http path base w1 of
               (Inl err, w2) \<Rightarrow> (Inl err, w2)
             | (Inr result, w2) \<Rightarrow> repo_commit http path (cb_Version result) w2))"

definition IsRepoUp :: "('c, 'w) repo_http \<Rightarrow> 'w \<Rightarrow> bool \<times> 'w" where
  "IsRepoUp http w =
     (case repo_get http ''/'' w of (Inl _, w') \<Rightarrow> (False, w') | (Inr _, w') \<Rightarrow> (True, w'))"

section \<open>Logging requests\<close>

type_synonym 'c repo_log = "('c repo_request \<times> repo_response result) list"

definition logged :: "('c, 'w) repo_http \<Rightarrow> ('c, 'w \<times> 'c repo_log) repo_http" where
  "logged http req wl = (let (w, log) = wl; (r, w') = http req w in (r, (w', log @ [(req, r)])))"

definition succeeded :: "repo_response result \<Rightarrow> bool" where
  "succeeded r = (case r of Inl _ \<Rightarrow> False | Inr resp \<Rightarrow> rsp_IsSuccess resp)"

definition is_commit :: "'c repo_request \<times> repo_response result \<Rightarrow> bool" where
  "is_commit e = (case fst e of RepoPatch _ _ \<Rightarrow> True | _ \<Rightarrow> False)"

definition upload_req :: "'c Batch \<Rightarrow> 'c BatchItem \<Rightarrow> 'c repo_request" where
  "upload_req batch item =
     FilePost (fullFileApiPath (item_path batch item)) (content_type (item_path batch item)) (bi_Content item)"

lemma logged_apply: "logged http req (w, log) = (fst (http req w), (snd (http req w), log @ [(req, fst (http req w))]))"
  by (simp add: logged_def case_prod_beta Let_def)

lemma is_commit_simps [simp]:
  "\<not> is_commit (RepoGet p, r)" "\<not> is_commit (RepoPost p c, r)" "is_commit (RepoPatch p c, r)"
  "\<not> is_commit (FileGet p, r)" "\<not> is_commit (FilePost p t f, r)" "\<not> is_commit (upload_req b i, r)"
  by (simp_all add: is_commit_def upload_req_def)

text \<open>What the uploads of a batch leave in the log: the requests for some first items, all answered
  with success but perhaps the last.\<close>

lemma upload_items_log:
  assumes "upload_items (logged http) batch items (w, log) = (r, (w', log'))"
  shows "\<exists>ups. log' = log @ ups \<and> (\<forall>e \<in> set ups. \<not> is_commit e) \<and>
     (r = Inr () \<longrightarrow> map fst ups = map (upload_req batch) items \<and> (\<forall>e \<in> set ups. succeeded (snd e)))"
  using assms
proof (induction items arbitrary: w log)
  case Nil
  then show ?case by simp
next
  case (Cons item items)
  let ?q = "upload_req batch item"
  let ?a = "fst (http ?q w)"
  have step: "upsertFile (logged http) (item_path batch item) (bi_Content item) (w, log) =
      (if succeeded ?a then (Inr (), (snd (http ?q w), log @ [(?q, ?a)]))
       else (fst (upsertFile (logged http) (item_path batch item) (bi_Content item) (w, log)),
             (snd (http ?q w), log @ [(?q, ?a)])))"
    and err: "\<not> succeeded ?a \<Longrightarrow>
       \<exists>err. fst (upsertFile (logged http) (item_path batch item) (bi_Content item) (w, log)) = Inl err"
    by (auto simp: upsertFile_def logged_apply upload_req_def succeeded_def split: sum.splits)
  show ?case
  proof (cases "succeeded ?a")
    case True
    with Cons.prems step have "upload_items (logged http) batch items (snd (http ?q w), log @ [(?q, ?a)]) = (r, (w', log'))"
      by simp
    from Cons.IH [OF this] obtain ups where "log' = log @ (?q, ?a) # ups" "\<forall>e \<in> set ups. \<not> is_commit e"
        "r = Inr () \<longrightarrow> map fst ups = map (upload_req batch) items \<and> (\<forall>e \<in> set ups. succeeded (snd e))"
      by auto
    with True show ?thesis by (intro exI [of _ "(?q, ?a) # ups"]) auto
  next
    case False
    from err [OF this] obtain e where "fst (upsertFile (logged http) (item_path batch item) (bi_Content item) (w, log)) = Inl e"
      by blast
    with Cons.prems step False have "log' = log @ [(?q, ?a)]" and "r = Inl e" by auto
    then show ?thesis by (intro exI [of _ "[(?q, ?a)]"]) auto
  qed
qed

lemma batch_version_log:
  assumes "batch_version (logged http) batch (w, log) = (r, (w', log'))"
  shows "\<exists>pre. log' = log @ pre \<and> (\<forall>e \<in> set pre. \<not> is_commit e)"
  using assms
  by (auto simp: batch_version_def isCodebaseExists_def createCodebase_def repo_get_def logged_apply
      split: sum.splits option.splits if_splits)

lemma batch_one_log:
  assumes "batch_one (logged http) batch (w, log) = (r, (w', log'))"
  shows "\<exists>pre ups post. log' = log @ pre @ ups @ post \<and> (\<forall>e \<in> set (pre @ ups). \<not> is_commit e) \<and>
     (post = [] \<and> r \<noteq> Inr () \<or>
      (\<exists>version a. post = [(RepoPatch (fullRepoApiPath (ba_Basepath batch)) (mk_Codebase (version + 1) []), a)] \<and>
         version \<noteq> -1 \<and> map fst ups = map (upload_req batch) (ba_Items batch) \<and>
         (\<forall>e \<in> set ups. succeeded (snd e)) \<and> (r = Inr () \<longleftrightarrow> succeeded a)))"
proof -
  obtain v w1 l1 where v: "batch_version (logged http) batch (w, log) = (v, (w1, l1))"
    by (cases "batch_version (logged http) batch (w, log)") auto
  from batch_version_log [OF v] obtain pre where pre: "l1 = log @ pre" "\<forall>e \<in> set pre. \<not> is_commit e" by auto
  show ?thesis
  proof (cases v)
    case (Inl err)
    with assms v pre show ?thesis
      by (intro exI [of _ pre] exI [of _ "[]"]) (auto simp: batch_one_def)
  next
    case (Inr version)
    obtain u w2 l2 where u: "upload_items (logged http) batch (ba_Items batch) (w1, l1) = (u, (w2, l2))"
      by (cases "upload_items (logged http) batch (ba_Items batch) (w1, l1)") auto
    from upload_items_log [OF u] obtain ups where ups: "l2 = l1 @ ups" "\<forall>e \<in> set ups. \<not> is_commit e"
        "u = Inr () \<longrightarrow> map fst ups = map (upload_req batch) (ba_Items batch) \<and> (\<forall>e \<in> set ups. succeeded (snd e))"
      by auto
    let ?q = "RepoPatch (fullRepoApiPath (ba_Basepath batch)) (mk_Codebase (version + 1) [])"
    let ?a = "fst (http ?q w2)"
    show ?thesis
    proof (cases "u = Inr () \<and> version \<noteq> -1")
      case True
      then have "(r, (w', log')) = repo_commit (logged http) (ba_Basepath batch) version (w2, l2)"
        using assms v u Inr by (simp add: batch_one_def)
      then have "log' = l2 @ [(?q, ?a)] \<and> (r = Inr () \<longleftrightarrow> succeeded ?a)"
        by (auto simp: repo_commit_def logged_apply succeeded_def split: sum.splits if_splits)
      with pre ups True show ?thesis
        by (intro exI [of _ pre] exI [of _ ups] exI [of _ "[(?q, ?a)]"]) auto
    next
      case False
      then have "log' = l2 \<and> r \<noteq> Inr ()"
        using assms v u Inr by (auto simp: batch_one_def split: sum.splits if_splits)
      with pre ups show ?thesis
        by (intro exI [of _ pre] exI [of _ ups] exI [of _ "[]"]) auto
    qed
  qed
qed

section \<open>Properties\<close>

text \<open>A commit in a log comes right after the successful uploads of its batch.\<close>

definition commits_ok :: "'c Batch set \<Rightarrow> 'c repo_log \<Rightarrow> bool" where
  "commits_ok batches log \<longleftrightarrow>
     (\<forall>l1 e l2. log = l1 @ e # l2 \<longrightarrow> is_commit e \<longrightarrow>
        (\<exists>batch \<in> batches. \<exists>l0 ups cb. fst e = RepoPatch (fullRepoApiPath (ba_Basepath batch)) cb \<and> l1 = l0 @ ups \<and>
           map fst ups = map (upload_req batch) (ba_Items batch) \<and> (\<forall>u \<in> set ups. succeeded (snd u))))"

lemma commits_ok_append_plain:
  assumes "commits_ok B log" and "\<forall>e \<in> set added. \<not> is_commit e"
  shows "commits_ok B (log @ added)"
  unfolding commits_ok_def
proof (intro allI impI)
  fix l1 e l2
  assume eq: "log @ added = l1 @ e # l2" and com: "is_commit e"
  then have "e \<notin> set added" using assms(2) by auto
  with eq obtain l2' where "log = l1 @ e # l2'"
    by (auto simp: append_eq_append_conv2 append_eq_Cons_conv Cons_eq_append_conv)
  with assms(1) com show "\<exists>batch \<in> B. \<exists>l0 ups cb. fst e = RepoPatch (fullRepoApiPath (ba_Basepath batch)) cb \<and> l1 = l0 @ ups \<and>
      map fst ups = map (upload_req batch) (ba_Items batch) \<and> (\<forall>u \<in> set ups. succeeded (snd u))"
    unfolding commits_ok_def by blast
qed

lemma commits_ok_append_commit:
  assumes "commits_ok B log" and "batch \<in> B" and "log = l0 @ ups"
    and "map fst ups = map (upload_req batch) (ba_Items batch)" and "\<forall>u \<in> set ups. succeeded (snd u)"
    and "fst c = RepoPatch (fullRepoApiPath (ba_Basepath batch)) cb"
  shows "commits_ok B (log @ [c])"
  unfolding commits_ok_def
proof (intro allI impI)
  fix l1 e l2
  assume eq: "log @ [c] = l1 @ e # l2" and com: "is_commit e"
  show "\<exists>batch \<in> B. \<exists>l0 ups cb. fst e = RepoPatch (fullRepoApiPath (ba_Basepath batch)) cb \<and> l1 = l0 @ ups \<and>
      map fst ups = map (upload_req batch) (ba_Items batch) \<and> (\<forall>u \<in> set ups. succeeded (snd u))"
  proof (cases l2 rule: rev_cases)
    case Nil
    with eq have "l1 = log" and "e = c" by auto
    with assms show ?thesis by blast
  next
    case (snoc l2' x)
    with eq have "log = l1 @ e # l2'" by auto
    with assms(1) com show ?thesis unfolding commits_ok_def by blast
  qed
qed

lemma repo_Batch_log:
  assumes "repo_Batch (logged http) batches (w, log) = (r, (w', log'))" and "commits_ok B log" and "set batches \<subseteq> B"
  shows "\<exists>added. log' = log @ added \<and> commits_ok B log' \<and>
     (r = Inr () \<longrightarrow> (\<forall>batch \<in> set batches. \<exists>version a.
        (RepoPatch (fullRepoApiPath (ba_Basepath batch)) (mk_Codebase (version + 1) []), a) \<in> set added \<and> succeeded a))"
  using assms
proof (induction batches arbitrary: w log)
  case Nil
  then show ?case by simp
next
  case (Cons batch batches)
  obtain r1 w1 log1 where one: "batch_one (logged http) batch (w, log) = (r1, (w1, log1))"
    by (cases "batch_one (logged http) batch (w, log)") auto
  from batch_one_log [OF one] obtain pre ups post where
      log1: "log1 = log @ pre @ ups @ post" and plain: "\<forall>e \<in> set (pre @ ups). \<not> is_commit e"
    and post: "post = [] \<and> r1 \<noteq> Inr () \<or>
      (\<exists>version a. post = [(RepoPatch (fullRepoApiPath (ba_Basepath batch)) (mk_Codebase (version + 1) []), a)] \<and>
         version \<noteq> -1 \<and> map fst ups = map (upload_req batch) (ba_Items batch) \<and>
         (\<forall>e \<in> set ups. succeeded (snd e)) \<and> (r1 = Inr () \<longleftrightarrow> succeeded a))"
    by blast
  have "commits_ok B (log @ pre @ ups)"
    using commits_ok_append_plain [OF Cons.prems(2) plain] by simp
  then have ok1: "commits_ok B log1"
    using post
  proof (elim disjE conjE exE)
    fix version :: "64 word" and a :: "repo_response result"
    let ?c = "(RepoPatch (fullRepoApiPath (ba_Basepath batch)) (mk_Codebase (version + 1) []), a)"
    assume ok: "commits_ok B (log @ pre @ ups)" and "post = [?c]"
      and ups: "map fst ups = map (upload_req batch) (ba_Items batch)" "\<forall>e \<in> set ups. succeeded (snd e)"
    have "commits_ok B ((log @ pre @ ups) @ [?c])"
      by (rule commits_ok_append_commit [OF ok _ _ ups]) (use Cons.prems(3) in simp_all)
    with \<open>post = [?c]\<close> show ?thesis by (simp add: log1)
  qed (simp add: log1)
  show ?case
  proof (cases r1)
    case (Inl err)
    with one Cons.prems(1) log1 ok1 show ?thesis by auto
  next
    case (Inr u)
    with one Cons.prems(1) have "repo_Batch (logged http) batches (w1, log1) = (r, (w', log'))" by simp
    from Cons.IH [OF this ok1] Cons.prems(3) obtain added where added: "log' = log1 @ added" "commits_ok B log'"
        "r = Inr () \<longrightarrow> (\<forall>batch \<in> set batches. \<exists>version a.
           (RepoPatch (fullRepoApiPath (ba_Basepath batch)) (mk_Codebase (version + 1) []), a) \<in> set added \<and> succeeded a)"
      by auto
    moreover obtain version a where
      "(RepoPatch (fullRepoApiPath (ba_Basepath batch)) (mk_Codebase (version + 1) []), a) \<in> set post" "succeeded a"
      using post Inr by auto
    ultimately show ?thesis
      by (intro exI [of _ "pre @ ups @ post @ added"]) (simp add: log1, blast)
  qed
qed

text \<open>C16. \<open>Batch\<close> never commits a codebase whose files are not all there: whatever the server
  answers, every commit in the log of requests comes directly after the uploads of all the items
  of its batch, in order, each answered with success.\<close>

theorem repo_commit_after_uploads:
  assumes "repo_Batch (logged http) batches (w, []) = (r, (w', log))"
    and "log = l1 @ (RepoPatch path cb, a) # l2"
  shows "\<exists>batch \<in> set batches. \<exists>l0 ups. path = fullRepoApiPath (ba_Basepath batch) \<and> l1 = l0 @ ups \<and>
     map fst ups = map (upload_req batch) (ba_Items batch) \<and> (\<forall>u \<in> set ups. succeeded (snd u))"
proof -
  have "commits_ok (set batches) log"
    using repo_Batch_log [OF assms(1), of "set batches"] by (auto simp: commits_ok_def)
  with assms(2) show ?thesis unfolding commits_ok_def by fastforce
qed

text \<open>A server that accepts everything, and a batch of one file, for the witnesses.\<close>

definition ok_response :: "64 word \<Rightarrow> repo_response" where
  "ok_response v = \<lparr>rsp_StatusCode = 200, rsp_Status = ''200 OK'', rsp_IsSuccess = True, rsp_IsError = False,
                    rsp_Result = mk_Codebase v [], rsp_Body = []\<rparr>"

definition ok_http :: "(string, unit) repo_http" where
  "ok_http req w = (Inr (ok_response 7), w)"

definition demo_batch :: "string Batch" where
  "demo_batch = \<lparr>ba_Basepath = ''/local/services'',
     ba_Items = [\<lparr>bi_Path = ''/config'', bi_Filename = ''registry.json'', bi_Content = ''x''\<rparr>]\<rparr>"

lemma demo_batch_run:
  "repo_Batch (logged ok_http) [demo_batch] ((), []) =
     (Inr (), ((), [(RepoGet ''/api/v1/repo/local/services'', Inr (ok_response 7)),
        (upload_req demo_batch (hd (ba_Items demo_batch)), Inr (ok_response 7)),
        (RepoPatch ''/api/v1/repo/local/services'' (mk_Codebase 8 []), Inr (ok_response 7))]))"
  by (simp add: batch_one_def batch_version_def isCodebaseExists_def upsertFile_def repo_commit_def logged_apply
      ok_http_def ok_response_def demo_batch_def upload_req_def item_path_def fullRepoApiPath_def mk_Codebase_def)

theorem repo_commit_after_uploads_witness:
  "\<exists>batch \<in> set [demo_batch]. \<exists>l0 ups. ''/api/v1/repo/local/services'' = fullRepoApiPath (ba_Basepath batch) \<and>
     [(RepoGet ''/api/v1/repo/local/services'', Inr (ok_response 7)),
      (upload_req demo_batch (hd (ba_Items demo_batch)), Inr (ok_response 7))] = l0 @ ups \<and>
     map fst ups = map (upload_req batch) (ba_Items batch) \<and> (\<forall>u \<in> set ups. succeeded (snd u))"
  by (rule repo_commit_after_uploads [OF demo_batch_run]) simp

text \<open>C17. When \<open>Batch\<close> returns no error, the server has accepted a commit for the base path of every
  batch.\<close>

theorem repo_batch_commits_all:
  assumes "repo_Batch (logged http) batches (w, []) = (Inr (), (w', log))" and "batch \<in> set batches"
  shows "\<exists>version a. (RepoPatch (fullRepoApiPath (ba_Basepath batch)) (mk_Codebase (version + 1) []), a) \<in> set log \<and>
           succeeded a"
  using repo_Batch_log [OF assms(1), of "set batches"] assms(2) by (auto simp: commits_ok_def)

theorem repo_batch_commits_all_witness:
  "demo_batch \<in> set [demo_batch] \<and>
   (\<exists>log. repo_Batch (logged ok_http) [demo_batch] ((), []) = (Inr (), ((), log)) \<and>
     (\<exists>version a. (RepoPatch (fullRepoApiPath (ba_Basepath demo_batch)) (mk_Codebase (version + 1) []), a) \<in> set log \<and>
        succeeded a))"
  using repo_batch_commits_all [OF demo_batch_run, of demo_batch] demo_batch_run by auto

text \<open>Deriving a codebase that already exists changes nothing: the only request is the lookup.\<close>

theorem derive_existing_codebase:
  assumes "http (RepoGet (fullRepoApiPath path)) w = (Inr resp, w')" and "rsp_StatusCode resp = 200"
  shows "DeriveCodebase (logged http) path base (w, log) =
           (Inr (), (w', log @ [(RepoGet (fullRepoApiPath path), Inr resp)]))"
  using assms by (simp add: DeriveCodebase_def isCodebaseExists_def logged_apply)

theorem derive_existing_codebase_witness:
  "DeriveCodebase (logged ok_http) ''/local/ingress'' ''/base/ingress'' ((), []) =
     (Inr (), ((), [(RepoGet (fullRepoApiPath ''/local/ingress''), Inr (ok_response 7))]))"
  using derive_existing_codebase [of ok_http "''/local/ingress''" "()" "ok_response 7" "()" "''/base/ingress''" "[]"]
  by (simp add: ok_http_def ok_response_def)

end
