(* ===== verification/Mesh_Config.thy ===== *)
theory Mesh_Config
  imports Repo_Client Net_Addr Api_Types
begin

text \<open>
  \<open>pkg/config\<close>: the mesh configuration kept in a ConfigMap, its client, the listeners that react to
  its changes, and the configuration of a connector. JSON encoding, the struct validator, the
  function \<open>sjson.Set\<close>, name resolution, the certificate manager and the API server are
  parameters, collected in the records \<open>mesh_lib\<close> and \<open>cfg_api\<close>.

  The lister of ConfigMaps hands out pointers into its cache. \<open>UpdateConfig\<close> writes through such a
  pointer, so the cache is part of the state here (\<open>cfg_cache\<close>).
\<close>

section \<open>The configuration\<close>

record SSLPassthroughCfg =
  sp_Enabled :: bool
  sp_UpstreamPort :: int

record HTTPCfg =
  http_Enabled :: bool
  http_Bind :: int
  http_Listen :: int
  http_NodePort :: int

record TLSCfg =
  tlsc_Enabled :: bool
  tlsc_Bind :: int
  tlsc_Listen :: int
  tlsc_NodePort :: int
  tlsc_MTLS :: bool
  tlsc_SSLPassthrough :: SSLPassthroughCfg

record IngressCfg =
  ingc_Enabled :: bool
  ingc_Namespaced :: bool
  ingc_HTTP :: HTTPCfg
  ingc_TLS :: TLSCfg

record ImagesCfg =
  img_Repository :: string
  img_PipyImage :: string
  img_ProxyInitImage :: string
  img_KlipperLbImage :: string

record ClusterCfg =
  cc_UID :: string
  cc_Region :: string
  cc_Zone :: string
  cc_Group :: string
  cc_Name :: string
  cc_ControlPlaneUID :: string

record CertificateCfg =
  certc_Manager :: string
  certc_CaBundleName :: string
  certc_CaBundleNamespace :: string

record MeshConfig =
  mc_IsManaged :: bool
  mc_RepoRootURL :: string
  mc_Images :: ImagesCfg
  mc_WebhookServiceName :: string
  mc_Ingress :: IngressCfg
  mc_GatewayApiEnabled :: bool
  mc_Certificate :: CertificateCfg
  mc_Cluster :: ClusterCfg
  mc_ServiceLBEnabled :: bool

definition IsControlPlane :: "MeshConfig \<Rightarrow> bool" where
  "IsControlPlane o' \<longleftrightarrow> cc_ControlPlaneUID (mc_Cluster o') = [] \<or>
     cc_UID (mc_Cluster o') = cc_ControlPlaneUID (mc_Cluster o')"

definition PipyImage :: "MeshConfig \<Rightarrow> string" where
  "PipyImage o' = img_Repository (mc_Images o') @ ''/'' @ img_PipyImage (mc_Images o')"

definition ProxyInitImage :: "MeshConfig \<Rightarrow> string" where
  "ProxyInitImage o' = img_Repository (mc_Images o') @ ''/'' @ img_ProxyInitImage (mc_Images o')"

definition ServiceLbImage :: "MeshConfig \<Rightarrow> string" where
  "ServiceLbImage o' = img_Repository (mc_Images o') @ ''/'' @ img_KlipperLbImage (mc_Images o')"

definition RepoBaseURL :: "MeshConfig \<Rightarrow> string" where
  "RepoBaseURL o' = mc_RepoRootURL o' @ ''/repo''"

definition GetCaBundleNamespace :: "string \<Rightarrow> MeshConfig \<Rightarrow> string" where
  "GetCaBundleNamespace erieCanalNamespace o' =
     (if certc_CaBundleNamespace (mc_Certificate o') \<noteq> [] then certc_CaBundleNamespace (mc_Certificate o')
      else erieCanalNamespace)"

definition NamespacedIngressCodebasePath :: "MeshConfig \<Rightarrow> string \<Rightarrow> string" where
  "NamespacedIngressCodebasePath o' namespace = ''/local/nsig/'' @ namespace"

definition GetDefaultServicesPath :: "MeshConfig \<Rightarrow> string" where
  "GetDefaultServicesPath o' = ''/local/services''"

definition GetDefaultIngressPath :: "MeshConfig \<Rightarrow> string" where
  "GetDefaultIngressPath o' = ''/local/ingress''"

definition IngressCodebasePath :: "MeshConfig \<Rightarrow> string" where
  "IngressCodebasePath o' = GetDefaultIngressPath o'"

abbreviation MeshConfigName :: string where "MeshConfigName \<equiv> ''erie-canal-mesh-config''"
abbreviation MeshConfigJsonName :: string where "MeshConfigJsonName \<equiv> ''mesh_config.json''"
abbreviation DefaultIngressBasePath :: string where "DefaultIngressBasePath \<equiv> ''/base/ingress''"

section \<open>Parsing and the client\<close>

record ConfigMap =
  cm_Meta :: ObjectMeta
  cm_Data :: "(string, string) gomap option"

record mesh_lib =
  Unmarshal :: "string \<Rightarrow> MeshConfig result"
  MarshalIndent :: "MeshConfig \<Rightarrow> string result"
  validate_Struct :: "MeshConfig \<Rightarrow> go_error option"
  ErieCanalNamespace :: string

record 'w cfg_api =
  api_getConfigMap :: "string \<Rightarrow> 'w \<Rightarrow> ConfigMap result \<times> 'w"
  api_updateConfigMap :: "ConfigMap \<Rightarrow> 'w \<Rightarrow> ConfigMap result \<times> 'w"

text \<open>The entry of the lister's cache for the mesh configuration, and the rest of the world.\<close>

record 'w cfg_state =
  cfg_cache :: "ConfigMap result"
  cfg_world :: 'w

definition ParseMeshConfig :: "mesh_lib \<Rightarrow> ConfigMap \<Rightarrow> MeshConfig result" where
  "ParseMeshConfig lib cm =
     (case gm_look (cm_Data cm) MeshConfigJsonName of
        None \<Rightarrow> Inl (Errorf ''Config file mesh_config.json not found'')
      | Some cfgJson \<Rightarrow>
          (case Unmarshal lib cfgJson of
             Inl err \<Rightarrow> Inl (Errorf ''Unable to unmarshal mesh_config.json to config.MeshConfig'')
           | Inr cfg \<Rightarrow>
               (case validate_Struct lib cfg of Some err \<Rightarrow> Inl err | None \<Rightarrow> Inr cfg)))"

definition ToJson :: "mesh_lib \<Rightarrow> MeshConfig \<Rightarrow> string" where
  "ToJson lib o' = (case MarshalIndent lib o' of Inl _ \<Rightarrow> [] | Inr s \<Rightarrow> s)"

text \<open>\<open>getConfigMap\<close>; the flag says whether the pointer it returns leads into the cache.\<close>

definition getConfigMap :: "'w cfg_api \<Rightarrow> 'w cfg_state \<Rightarrow> (ConfigMap \<times> bool) option \<times> 'w cfg_state" where
  "getConfigMap api s =
     (case cfg_cache s of
        Inr cm \<Rightarrow> (Some (cm, True), s)
      | Inl NotFound \<Rightarrow>
          (case api_getConfigMap api MeshConfigName (cfg_world s) of
             (Inl _, w) \<Rightarrow> (None, s\<lparr>cfg_world := w\<rparr>)
           | (Inr cm, w) \<Rightarrow> (Some (cm, False), s\<lparr>cfg_world := w\<rparr>))
      | Inl _ \<Rightarrow> (None, s))"

definition GetConfig :: "mesh_lib \<Rightarrow> 'w cfg_api \<Rightarrow> 'w cfg_state \<Rightarrow> MeshConfig go \<times> 'w cfg_state" where
  "GetConfig lib api s =
     (case getConfigMap api s of
        (Some (cm, _), s') \<Rightarrow>
          (case ParseMeshConfig lib cm of
             Inl _ \<Rightarrow> (Inl (Panicked ''invalid mesh config''), s')
           | Inr cfg \<Rightarrow> (Inr cfg, s'))
      | (None, s') \<Rightarrow> (Inl (Panicked ''MeshConfig is not found or has invalid value''), s'))"

text \<open>The assignment \<open>cm.Data[k] = v\<close> on a nil map panics; otherwise it changes the object the
  pointer leads to, which is the cached one if the lister returned it.\<close>

definition UpdateConfig ::
  "mesh_lib \<Rightarrow> 'w cfg_api \<Rightarrow> MeshConfig option \<Rightarrow> 'w cfg_state \<Rightarrow> MeshConfig result go \<times> 'w cfg_state"
where
  "UpdateConfig lib api config' s =
     (case config' of
        None \<Rightarrow> (Inr (Inl (Errorf ''config is nil'')), s)
      | Some config \<Rightarrow>
          (case validate_Struct lib config of
             Some err \<Rightarrow> (Inr (Inl err), s)
           | None \<Rightarrow>
               (case getConfigMap api s of
                  (None, s1) \<Rightarrow> (Inr (Inl (Errorf ''config map is not found'')), s1)
                | (Some (cm, cached), s1) \<Rightarrow>
                    (case cm_Data cm of
                       None \<Rightarrow> (Inl (Panicked ''assignment to entry in nil map''), s1)
                     | Some data \<Rightarrow>
                         (let cm' = cm\<lparr>cm_Data := Some (gput MeshConfigJsonName (ToJson lib config) data)\<rparr>;
                              s2 = (if cached then s1\<lparr>cfg_cache := Inr cm'\<rparr> else s1)
                          in case api_updateConfigMap api cm' (cfg_world s2) of
                               (Inl _, w) \<Rightarrow> (Inr (Inl (Errorf ''Update ConfigMap error'')), s2\<lparr>cfg_world := w\<rparr>)
                             | (Inr cm'', w) \<Rightarrow> (Inr (ParseMeshConfig lib cm''), s2\<lparr>cfg_world := w\<rparr>))))))"

section \<open>The main configuration file in the repository\<close>

datatype json_value = JBool bool | JInt int | JString string | JObject "(string \<times> json_value) list"

type_synonym sjson_set = "string \<Rightarrow> string \<Rightarrow> json_value \<Rightarrow> string result"

definition getPathOfMainJson :: "string \<Rightarrow> string" where
  "getPathOfMainJson basepath = basepath @ ''/config/main.json''"

definition getMainJson :: "(repo_content, 'w) repo_http \<Rightarrow> string \<Rightarrow> 'w \<Rightarrow> string result \<times> 'w" where
  "getMainJson http basepath w = GetFile http (getPathOfMainJson basepath) w"

definition updateMainJson :: "(repo_content, 'w) repo_http \<Rightarrow> string \<Rightarrow> string \<Rightarrow> 'w \<Rightarrow> unit result \<times> 'w" where
  "updateMainJson http basepath newJson w =
     repo_Batch http
       [\<lparr>ba_Basepath = basepath,
         ba_Items = [\<lparr>bi_Path = ''/config'', bi_Filename = ''main.json'', bi_Content = ContentText newJson\<rparr>]\<rparr>] w"

text \<open>Reading the file, setting values in it one after the other, and writing it back.\<close>

fun set_all :: "sjson_set \<Rightarrow> (string \<times> json_value) list \<Rightarrow> string \<Rightarrow> string result" where
  "set_all sjson [] json = Inr json"
| "set_all sjson ((path, v) # rest) json =
     (case sjson json path v of Inl err \<Rightarrow> Inl err | Inr json' \<Rightarrow> set_all sjson rest json')"

definition editMainJson ::
  "(repo_content, 'w) repo_http \<Rightarrow> sjson_set \<Rightarrow> string \<Rightarrow> (string \<times> json_value) list \<Rightarrow> 'w \<Rightarrow> unit result \<times> 'w"
where
  "editMainJson http sjson basepath edits w =
     (case getMainJson http basepath w of
        (Inl err, w') \<Rightarrow> (Inl err, w')
      | (Inr json, w') \<Rightarrow>
          (case set_all sjson edits json of
             Inl err \<Rightarrow> (Inl err, w')
           | Inr newJson \<Rightarrow> updateMainJson http basepath newJson w'))"

definition UpdateIngressHTTPConfig ::
  "(repo_content, 'w) repo_http \<Rightarrow> sjson_set \<Rightarrow> string \<Rightarrow> MeshConfig \<Rightarrow> 'w \<Rightarrow> unit result \<times> 'w"
where
  "UpdateIngressHTTPConfig http sjson basepath mc =
     editMainJson http sjson basepath
       [(''http'', JObject [(''enabled'', JBool (http_Enabled (ingc_HTTP (mc_Ingress mc)))),
                            (''listen'', JInt (http_Listen (ingc_HTTP (mc_Ingress mc))))])]"

definition UpdateIngressTLSConfig ::
  "(repo_content, 'w) repo_http \<Rightarrow> sjson_set \<Rightarrow> string \<Rightarrow> MeshConfig \<Rightarrow> 'w \<Rightarrow> unit result \<times> 'w"
where
  "UpdateIngressTLSConfig http sjson basepath mc =
     editMainJson http sjson basepath
       [(''tls.enabled'', JBool (tlsc_Enabled (ingc_TLS (mc_Ingress mc)))),
        (''tls.listen'', JInt (tlsc_Listen (ingc_TLS (mc_Ingress mc)))),
        (''tls.mTLS'', JBool (tlsc_MTLS (ingc_TLS (mc_Ingress mc))))]"

record IssuedCert =
  ic_CrtPEM :: string
  ic_KeyPEM :: string
  ic_CA :: string

type_synonym 'w cert_issuer = "string \<Rightarrow> string list \<Rightarrow> 'w \<Rightarrow> IssuedCert result \<times> 'w"

definition IssueCertForIngress ::
  "(repo_content, 'w) repo_http \<Rightarrow> sjson_set \<Rightarrow> 'w cert_issuer \<Rightarrow> string \<Rightarrow> MeshConfig \<Rightarrow> 'w \<Rightarrow> unit result \<times> 'w"
where
  "IssueCertForIngress http sjson issue basepath mc w =
     (case issue ''ingress-pipy'' [] w of
        (Inl err, w') \<Rightarrow> (Inl err, w')
      | (Inr crt, w') \<Rightarrow>
          editMainJson http sjson basepath
            [(''tls'', JObject [(''enabled'', JBool (tlsc_Enabled (ingc_TLS (mc_Ingress mc)))),
                (''listen'', JInt (tlsc_Listen (ingc_TLS (mc_Ingress mc)))),
                (''mTLS'', JBool (tlsc_MTLS (ingc_TLS (mc_Ingress mc)))),
                (''certificate'', JObject [(''cert'', JString (ic_CrtPEM crt)), (''key'', JString (ic_KeyPEM crt)),
                                           (''ca'', JString (ic_CA crt))])])] w')"

definition UpdateSSLPassthrough ::
  "(repo_content, 'w) repo_http \<Rightarrow> sjson_set \<Rightarrow> string \<Rightarrow> bool \<Rightarrow> int \<Rightarrow> 'w \<Rightarrow> unit result \<times> 'w"
where
  "UpdateSSLPassthrough http sjson basepath enabled upstreamPort =
     editMainJson http sjson basepath
       [(''sslPassthrough'', JObject [(''enabled'', JBool enabled), (''upstreamPort'', JInt upstreamPort)])]"

section \<open>Reacting to a changed configuration\<close>

definition isHTTPConfigChanged :: "MeshConfig \<Rightarrow> MeshConfig \<Rightarrow> bool" where
  "isHTTPConfigChanged oldCfg cfg \<longleftrightarrow>
     (let o' = ingc_HTTP (mc_Ingress oldCfg); n = ingc_HTTP (mc_Ingress cfg) in
      ingc_Enabled (mc_Ingress cfg) \<and> (http_Enabled o' \<noteq> http_Enabled n \<or> http_Listen o' \<noteq> http_Listen n))"

definition isTLSConfigChanged :: "MeshConfig \<Rightarrow> MeshConfig \<Rightarrow> bool" where
  "isTLSConfigChanged oldCfg cfg \<longleftrightarrow>
     (let o' = ingc_TLS (mc_Ingress oldCfg); n = ingc_TLS (mc_Ingress cfg) in
      ingc_Enabled (mc_Ingress cfg) \<and>
      (tlsc_Enabled o' \<noteq> tlsc_Enabled n \<or> tlsc_Listen o' \<noteq> tlsc_Listen n \<or> tlsc_MTLS o' \<noteq> tlsc_MTLS n))"

definition shouldUpdateIngressControllerServiceSpec :: "MeshConfig \<Rightarrow> MeshConfig \<Rightarrow> bool" where
  "shouldUpdateIngressControllerServiceSpec oldCfg cfg \<longleftrightarrow>
     (let ot = ingc_TLS (mc_Ingress oldCfg); nt = ingc_TLS (mc_Ingress cfg);
          oh = ingc_HTTP (mc_Ingress oldCfg); nh = ingc_HTTP (mc_Ingress cfg) in
      ingc_Enabled (mc_Ingress cfg) \<and>
      (tlsc_Enabled ot \<noteq> tlsc_Enabled nt \<or> tlsc_Listen ot \<noteq> tlsc_Listen nt \<or> tlsc_Bind ot \<noteq> tlsc_Bind nt \<or>
       tlsc_NodePort ot \<noteq> tlsc_NodePort nt \<or> http_Enabled oh \<noteq> http_Enabled nh \<or> http_Listen oh \<noteq> http_Listen nh \<or>
       http_NodePort oh \<noteq> http_NodePort nh \<or> http_Bind oh \<noteq> http_Bind nh))"

text \<open>The ports of the ingress controller's Service; the zero value of \<open>NodePort\<close> is 0.\<close>

definition ingress_service_ports :: "MeshConfig \<Rightarrow> ServicePort list" where
  "ingress_service_ports cfg =
     (let h = ingc_HTTP (mc_Ingress cfg); t = ingc_TLS (mc_Ingress cfg) in
      (if http_Enabled h
       then [\<lparr>sp_Name = ''http'', sp_Protocol = ProtocolTCP, sp_Port = http_Bind h,
              sp_TargetPort = IntPort (http_Listen h),
              sp_NodePort = (if http_NodePort h > 0 then http_NodePort h else 0), sp_AppProtocol = None\<rparr>] else []) @
      (if tlsc_Enabled t
       then [\<lparr>sp_Name = ''https'', sp_Protocol = ProtocolTCP, sp_Port = tlsc_Bind t,
              sp_TargetPort = IntPort (tlsc_Listen t),
              sp_NodePort = (if tlsc_NodePort t > 0 then tlsc_NodePort t else 0), sp_AppProtocol = None\<rparr>] else []))"

record 'w svc_api =
  api_listIngressServices :: "'w \<Rightarrow> Service list result \<times> 'w"
  api_updateService :: "Service \<Rightarrow> 'w \<Rightarrow> unit result \<times> 'w"

fun update_services :: "'w svc_api \<Rightarrow> ServicePort list \<Rightarrow> Service list \<Rightarrow> 'w \<Rightarrow> 'w" where
  "update_services api ports [] w = w"
| "update_services api ports (svc # svcs) w =
     (let service = svc\<lparr>svc_Spec := (svc_Spec svc)\<lparr>ssp_Ports := ports\<rparr>\<rparr>;
          w' = (if ports \<noteq> [] then snd (api_updateService api service w) else w)
      in update_services api ports svcs w')"

definition updateIngressControllerSpec :: "'w svc_api \<Rightarrow> MeshConfig \<Rightarrow> MeshConfig \<Rightarrow> 'w \<Rightarrow> 'w" where
  "updateIngressControllerSpec api oldCfg cfg w =
     (case api_listIngressServices api w of
        (Inl _, w') \<Rightarrow> w'
      | (Inr svcs, w') \<Rightarrow> update_services api (ingress_service_ports cfg) svcs w')"

text \<open>\<open>OnConfigUpdate\<close> of the listener for the basic configuration; errors are only logged.\<close>

definition OnConfigUpdate_basic ::
  "(repo_content, 'w) repo_http \<Rightarrow> sjson_set \<Rightarrow> 'w cert_issuer \<Rightarrow> 'w svc_api \<Rightarrow> MeshConfig \<Rightarrow> MeshConfig \<Rightarrow> 'w \<Rightarrow> 'w"
where
  "OnConfigUpdate_basic http sjson issue api oldCfg cfg w =
     (let w = (if isHTTPConfigChanged oldCfg cfg
               then snd (UpdateIngressHTTPConfig http sjson DefaultIngressBasePath cfg w) else w);
          w = (if isTLSConfigChanged oldCfg cfg
               then (if tlsc_Enabled (ingc_TLS (mc_Ingress cfg))
                     then snd (IssueCertForIngress http sjson issue DefaultIngressBasePath cfg w)
                     else snd (UpdateIngressTLSConfig http sjson DefaultIngressBasePath cfg w))
               else w)
      in if shouldUpdateIngressControllerServiceSpec oldCfg cfg
         then updateIngressControllerSpec api oldCfg cfg w else w)"

text \<open>\<open>updateIngressController\<close> restarts the ingress controllers by patching an annotation of their
  deployments with the time; an error of one patch does not stop the others.\<close>

record 'w deploy_api =
  api_listIngressDeployments :: "'w \<Rightarrow> NamespacedName list result \<times> 'w"
  api_patchDeployment :: "NamespacedName \<Rightarrow> string \<Rightarrow> 'w \<Rightarrow> unit result \<times> 'w"

definition restart_patch :: "string \<Rightarrow> string" where
  "restart_patch now =
     ''{\"spec\": {\"template\":{\"metadata\": {\"annotations\": {\"kubectl.kubernetes.io/restartedAt\": \"'' @ now @
     ''\"}}}}}''"

definition updateIngressController :: "'w deploy_api \<Rightarrow> string \<Rightarrow> MeshConfig \<Rightarrow> 'w \<Rightarrow> 'w" where
  "updateIngressController api now mc w =
     (case api_listIngressDeployments api w of
        (Inl _, w') \<Rightarrow> w'
      | (Inr deployments, w') \<Rightarrow>
          fold (\<lambda>d w. snd (api_patchDeployment api d (restart_patch now) w)) deployments w')"

definition zero_MeshConfig :: MeshConfig where
  "zero_MeshConfig =
     \<lparr>mc_IsManaged = False, mc_RepoRootURL = [],
      mc_Images = \<lparr>img_Repository = [], img_PipyImage = [], img_ProxyInitImage = [], img_KlipperLbImage = []\<rparr>,
      mc_WebhookServiceName = [],
      mc_Ingress = \<lparr>ingc_Enabled = False, ingc_Namespaced = False,
        ingc_HTTP = \<lparr>http_Enabled = False, http_Bind = 0, http_Listen = 0, http_NodePort = 0\<rparr>,
        ingc_TLS = \<lparr>tlsc_Enabled = False, tlsc_Bind = 0, tlsc_Listen = 0, tlsc_NodePort = 0, tlsc_MTLS = False,
          tlsc_SSLPassthrough = \<lparr>sp_Enabled = False, sp_UpstreamPort = 0\<rparr>\<rparr>\<rparr>,
      mc_GatewayApiEnabled = False,
      mc_Certificate = \<lparr>certc_Manager = [], certc_CaBundleName = [], certc_CaBundleNamespace = []\<rparr>,
      mc_Cluster = \<lparr>cc_UID = [], cc_Region = [], cc_Zone = [], cc_Group = [], cc_Name = [], cc_ControlPlaneUID = []\<rparr>,
      mc_ServiceLBEnabled = False\<rparr>"

text \<open>\<open>onUpdate\<close> of the listener for the ingress controllers. A missing old configuration is read from
  the client, which may panic; a missing new one is the zero configuration.\<close>

definition onUpdate_ingress ::
  "'w deploy_api \<Rightarrow> string \<Rightarrow> MeshConfig go \<Rightarrow> MeshConfig option \<Rightarrow> MeshConfig option \<Rightarrow> 'w \<Rightarrow> 'w go"
where
  "onUpdate_ingress api now stored oldCfg' cfg' w =
     go_bind (case oldCfg' of None \<Rightarrow> stored | Some c \<Rightarrow> Inr c) (\<lambda>oldCfg.
       let cfg = (case cfg' of None \<Rightarrow> zero_MeshConfig | Some c \<Rightarrow> c)
       in Inr (if IngressCodebasePath oldCfg \<noteq> IngressCodebasePath cfg
               then updateIngressController api now cfg w else w))"

text \<open>The handler of ConfigMap events parses both versions and starts one goroutine per listener.\<close>

datatype cfg_job = JobCreate MeshConfig | JobUpdate MeshConfig MeshConfig | JobDelete MeshConfig

definition OnConfigMapAdd :: "mesh_lib \<Rightarrow> ConfigMap \<Rightarrow> cfg_job option" where
  "OnConfigMapAdd lib cm =
     (if meta_Name (cm_Meta cm) \<noteq> MeshConfigName then None
      else case ParseMeshConfig lib cm of Inl _ \<Rightarrow> None | Inr cfg \<Rightarrow> Some (JobCreate cfg))"

definition OnConfigMapUpdate :: "mesh_lib \<Rightarrow> ConfigMap \<Rightarrow> ConfigMap \<Rightarrow> cfg_job option" where
  "OnConfigMapUpdate lib oldCm cm =
     (if meta_Name (cm_Meta cm) \<noteq> MeshConfigName then None
      else case ParseMeshConfig lib oldCm of
             Inl _ \<Rightarrow> None
           | Inr oldCfg \<Rightarrow>
               (case ParseMeshConfig lib cm of Inl _ \<Rightarrow> None | Inr cfg \<Rightarrow> Some (JobUpdate oldCfg cfg)))"

definition OnConfigMapDelete :: "mesh_lib \<Rightarrow> ConfigMap \<Rightarrow> cfg_job option" where
  "OnConfigMapDelete lib cm =
     (if meta_Name (cm_Meta cm) \<noteq> MeshConfigName then None
      else case ParseMeshConfig lib cm of Inl _ \<Rightarrow> None | Inr cfg \<Rightarrow> Some (JobDelete cfg))"

text \<open>The filter in front of the handler: an event object is a ConfigMap, a tombstone or something else.\<close>

datatype informer_obj = ObjConfigMap ConfigMap | ObjTombstone ConfigMap | ObjOther

fun DefaultConfigurationFilter :: "mesh_lib \<Rightarrow> informer_obj \<Rightarrow> bool" where
  "DefaultConfigurationFilter lib (ObjConfigMap cm) =
     (meta_Namespace (cm_Meta cm) = ErieCanalNamespace lib \<and> meta_Name (cm_Meta cm) = MeshConfigName)"
| "DefaultConfigurationFilter lib _ = False"

fun handleDeleteConfigMap :: "mesh_lib \<Rightarrow> informer_obj \<Rightarrow> cfg_job option" where
  "handleDeleteConfigMap lib (ObjConfigMap cm) = OnConfigMapDelete lib cm"
| "handleDeleteConfigMap lib (ObjTombstone cm) = OnConfigMapDelete lib cm"
| "handleDeleteConfigMap lib ObjOther = None"

section \<open>The configuration of a connector\<close>

record ConnectorConfig =
  con_name :: string
  con_region :: string
  con_zone :: string
  con_group :: string
  con_inCluster :: bool
  con_key :: string
  con_gatewayHost :: string
  con_gatewayIP :: "ip option"
  con_gatewayPort :: int
  con_controlPlaneUID :: string

record dns_lib =
  IsValidIPv4Address :: "string \<Rightarrow> string list"
  dns_IsDNS1123Subdomain :: "string \<Rightarrow> string list"
  ResolveIPAddr :: "string \<Rightarrow> ip result"

definition NewConnectorConfig ::
  "dns_lib \<Rightarrow> string \<Rightarrow> string \<Rightarrow> string \<Rightarrow> string \<Rightarrow> string \<Rightarrow> int \<Rightarrow> bool \<Rightarrow> string \<Rightarrow> ConnectorConfig result"
where
  "NewConnectorConfig dns region zone grp nm gatewayHost gatewayPort inCluster controlPlaneUID =
     (let c = \<lparr>con_name = nm, con_region = region, con_zone = zone, con_group = grp, con_inCluster = inCluster,
               con_key = cluster_key region zone grp nm, con_gatewayHost = [], con_gatewayIP = None,
               con_gatewayPort = 0, con_controlPlaneUID = controlPlaneUID\<rparr>;
          isIP = (IsValidIPv4Address dns gatewayHost = [])
      in if inCluster then Inr c
         else if \<not> isIP \<and> dns_IsDNS1123Subdomain dns gatewayHost \<noteq> []
         then Inl (Errorf (''invalid DNS name or IP '' @ gatewayHost))
         else
           (case (if isIP then Inr (ParseIP gatewayHost) else map_sum id Some (ResolveIPAddr dns gatewayHost)) of
              Inl err \<Rightarrow> Inl (Errorf (gatewayHost @ '' cannot be resolved to IP''))
            | Inr ipAddr \<Rightarrow>
                (case Option.bind ipAddr To4 of
                   None \<Rightarrow> Inl (Errorf (gatewayHost @ '' cannot be resolved to a IPv4 address''))
                 | Some gwIPv4 \<Rightarrow>
                     if IsLoopback gwIPv4 \<or> IsUnspecified gwIPv4
                     then Inl (Errorf (''gateway Host '' @ gatewayHost @ '' is resolved to Loopback IP or Unspecified''))
                     else Inr (c\<lparr>con_gatewayHost := gatewayHost, con_gatewayPort := gatewayPort,
                                 con_gatewayIP := Some gwIPv4\<rparr>))))"

definition GatewayHost :: "ConnectorConfig \<Rightarrow> string" where
  "GatewayHost c = (if con_inCluster c then [] else con_gatewayHost c)"

definition GatewayIP :: "ConnectorConfig \<Rightarrow> ip option" where
  "GatewayIP c = (if con_inCluster c then Some (replicate 10 0 @ [255, 255, 0, 0, 0, 0]) else con_gatewayIP c)"

definition GatewayPort :: "ConnectorConfig \<Rightarrow> int" where
  "GatewayPort c = (if con_inCluster c then 0 else con_gatewayPort c)"

section \<open>Properties\<close>

definition demo_cfg :: MeshConfig where
  "demo_cfg = zero_MeshConfig\<lparr>mc_RepoRootURL := ''http://repo:6060'',
     mc_Ingress := (mc_Ingress zero_MeshConfig)\<lparr>ingc_Enabled := True,
       ingc_HTTP := \<lparr>http_Enabled = True, http_Bind = 80, http_Listen = 8000, http_NodePort = 0\<rparr>\<rparr>\<rparr>"

definition demo_mesh_lib :: mesh_lib where
  "demo_mesh_lib = \<lparr>Unmarshal = (\<lambda>s. if s = ''cfg'' then Inr demo_cfg else Inr zero_MeshConfig),
     MarshalIndent = (\<lambda>c. if c = demo_cfg then Inr ''cfg'' else Inr ''zero''),
     validate_Struct = (\<lambda>_. None), ErieCanalNamespace = ''erie-canal''\<rparr>"

definition demo_cm :: "string \<Rightarrow> ConfigMap" where
  "demo_cm json = \<lparr>cm_Meta = named_meta ''erie-canal'' MeshConfigName, cm_Data = Some [(MeshConfigJsonName, json)]\<rparr>"

text \<open>The library is used as a pair of inverse functions on a configuration.\<close>

definition json_roundtrip :: "mesh_lib \<Rightarrow> MeshConfig \<Rightarrow> bool" where
  "json_roundtrip lib cfg \<longleftrightarrow> (\<exists>json. MarshalIndent lib cfg = Inr json \<and> Unmarshal lib json = Inr cfg)"

lemma ParseMeshConfig_ToJson:
  assumes "json_roundtrip lib cfg" and "validate_Struct lib cfg = None"
  shows "ParseMeshConfig lib (cm\<lparr>cm_Data := Some (gput MeshConfigJsonName (ToJson lib cfg) data)\<rparr>) = Inr cfg"
  using assms by (auto simp: json_roundtrip_def ParseMeshConfig_def ToJson_def)



text \<open>When the API server refuses the update, \<open>UpdateConfig\<close> returns an error, but it has already
  written the new configuration into the object it got from the lister's cache: the next
  \<open>GetConfig\<close> returns the configuration that was refused.\<close>

theorem refused_config_is_served:
  assumes "cfg_cache s = Inr cm" and "cm_Data cm = Some data" and "json_roundtrip lib cfg"
    and "validate_Struct lib cfg = None" and "\<And>cm' w. api_updateConfigMap api cm' w = (Inl err, w)"
  shows "\<exists>e s'. UpdateConfig lib api (Some cfg) s = (Inr (Inl e), s') \<and> fst (GetConfig lib api s') = Inr cfg"
  using assms ParseMeshConfig_ToJson [OF assms(3,4)]
  by (simp add: UpdateConfig_def getConfigMap_def GetConfig_def Let_def)

theorem refused_config_is_served_witness:
  "let api = \<lparr>api_getConfigMap = (\<lambda>_ w. (Inl NotFound, w)), api_updateConfigMap = (\<lambda>cm w. (Inl (Errorf ''denied''), w))\<rparr>;
       s = \<lparr>cfg_cache = Inr (demo_cm ''zero''), cfg_world = ()\<rparr>
   in fst (GetConfig demo_mesh_lib api s) = Inr zero_MeshConfig \<and>
      (\<exists>e s'. UpdateConfig demo_mesh_lib api (Some demo_cfg) s = (Inr (Inl e), s') \<and>
              fst (GetConfig demo_mesh_lib api s') = Inr demo_cfg)"
proof -
  have "json_roundtrip demo_mesh_lib demo_cfg"
    by (simp add: json_roundtrip_def demo_mesh_lib_def)
  then show ?thesis
    unfolding Let_def
    by (intro conjI refused_config_is_served [where cm = "demo_cm ''zero''" and err = "Errorf ''denied''"])
      (simp_all add: demo_cm_def demo_mesh_lib_def GetConfig_def getConfigMap_def ParseMeshConfig_def)
qed

text \<open>A connector to another cluster is configured only with a gateway address that can be
  reached from here: four bytes, neither a loopback nor the unspecified address.\<close>

theorem connector_gateway_usable:
  assumes "NewConnectorConfig dns region zone grp nm host port False uid = Inr c"
  shows "\<exists>gw. GatewayIP c = Some gw \<and> length gw = 4 \<and> hd gw \<noteq> 127 \<and> gw \<noteq> [0, 0, 0, 0] \<and>
           GatewayHost c = host \<and> GatewayPort c = port \<and> con_key c = cluster_key region zone grp nm"
proof -
  have To4_4: "length gw = 4" if "To4 p = Some gw" for p gw
    using that by (auto simp: To4_def split: if_splits)
  have To4_idem: "To4 gw = Some gw" if "length gw = 4" for gw
    using that by (simp add: To4_def)
  obtain ipAddr gw where gw: "To4 ipAddr = Some gw" and ok: "\<not> IsLoopback gw" "\<not> IsUnspecified gw"
    and c: "con_gatewayIP c = Some gw" "con_inCluster c = False" "con_gatewayHost c = host" "con_gatewayPort c = port"
      "con_key c = cluster_key region zone grp nm"
    using assms
    by (auto simp: NewConnectorConfig_def Let_def bind_eq_Some_conv split: if_splits sum.splits option.splits)
  with To4_4 [OF gw] To4_idem [of gw] show ?thesis
    by (auto simp: GatewayIP_def GatewayHost_def GatewayPort_def IsLoopback_def IsUnspecified_def)
qed

theorem connector_gateway_usable_witness:
  "let dns = \<lparr>IsValidIPv4Address = (\<lambda>_. [''no IP'']), dns_IsDNS1123Subdomain = (\<lambda>_. []), ResolveIPAddr = (\<lambda>_. Inr [10, 0, 0, 9])\<rparr>
   in \<exists>c. NewConnectorConfig dns ''r'' ''z'' ''g'' ''c1'' ''gw.example'' 80 False [] = Inr c \<and>
          GatewayIP c = Some [10, 0, 0, 9] \<and> con_key c = ''r/z/g/c1''"
proof -
  let ?dns = "\<lparr>IsValidIPv4Address = (\<lambda>_. [''no IP'']), dns_IsDNS1123Subdomain = (\<lambda>_. []), ResolveIPAddr = (\<lambda>_. Inr [10, 0, 0, 9])\<rparr>"
  obtain c where c: "NewConnectorConfig ?dns ''r'' ''z'' ''g'' ''c1'' ''gw.example'' 80 False [] = Inr c"
      and "con_gatewayIP c = Some [10, 0, 0, 9]" and "con_inCluster c = False"
    by (simp add: NewConnectorConfig_def To4_def IsLoopback_def IsUnspecified_def Let_def replicate_numeral)
  with connector_gateway_usable [OF c] show ?thesis
    by (auto simp: GatewayIP_def cluster_key_def)
qed

text \<open>While the ingress is enabled, every change of the configuration that changes the ports of
  the ingress controller's Service is noticed by \<open>shouldUpdateIngressControllerServiceSpec\<close>.\<close>

theorem service_spec_change_noticed:
  assumes "ingc_Enabled (mc_Ingress cfg)" and "ingress_service_ports oldCfg \<noteq> ingress_service_ports cfg"
  shows "shouldUpdateIngressControllerServiceSpec oldCfg cfg"
  using assms
  by (auto simp: shouldUpdateIngressControllerServiceSpec_def ingress_service_ports_def Let_def split: if_splits)

theorem service_spec_change_noticed_witness:
  "ingress_service_ports zero_MeshConfig \<noteq> ingress_service_ports demo_cfg \<and>
   shouldUpdateIngressControllerServiceSpec zero_MeshConfig demo_cfg"
proof -
  have "ingress_service_ports zero_MeshConfig \<noteq> ingress_service_ports demo_cfg" and "ingc_Enabled (mc_Ingress demo_cfg)"
    by (simp_all add: ingress_service_ports_def demo_cfg_def zero_MeshConfig_def)
  with service_spec_change_noticed [of demo_cfg zero_MeshConfig] show ?thesis by simp
qed

text \<open>The listener for the ingress controllers never restarts them: the codebase path it compares
  is a constant, although the comments give it as made of region, zone, group and cluster.\<close>

theorem ingress_controllers_never_restarted:
  "onUpdate_ingress api now (Inr stored) oldCfg cfg w = Inr w"
  by (simp add: onUpdate_ingress_def IngressCodebasePath_def GetDefaultIngressPath_def Let_def split: option.split)

end
