(* ===== verification/Local_Cache.thy ===== *)
theory Local_Cache
  imports ServiceImport_Cache Ingress_Routes Mesh_Config
begin

text \<open>
  \<open>pkg/cache/local_cache.go\<close> and the event handlers beside it: the cache of the local cluster. Events
  go to the four trackers; \<open>syncRoutes\<close> moves the changes into the maps, builds the service and
  ingress routes and, when their hash has changed, starts a goroutine that uploads them and then
  records the hash. The goroutines in flight are the jobs in \<open>lc_jobs\<close>, and finishing one is a step
  of its own.

  The record \<open>local_env\<close> has what the cache reads from outside: the surroundings of the trackers, the
  lister of Ingresses, the mesh configuration, the hash function and the order in which the set
  library lists its elements.
\<close>

datatype job_kind = ServiceJob | IngressJob

record route_job =
  job_kind :: job_kind
  job_batches :: "repo_content Batch list"
  job_hash :: string

record local_env =
  le_ingress :: ingress_env
  le_serviceLister :: service_lister
  le_ingressLister :: "Ingress list result"
  le_meshConfig :: "MeshConfig go"
  le_hashServices :: "ServiceRouteEntry list \<Rightarrow> string"
  le_hashIngress :: "IngressRouteSpec list \<Rightarrow> string"
  le_ToSlice :: "ServicePortName list \<Rightarrow> ServicePortName list"

record LocalCache =
  lc_serviceChanges :: ServiceChangeTracker
  lc_endpointsChanges :: EndpointChangeTracker
  lc_ingressChanges :: IngressChangeTracker
  lc_serviceImportChanges :: ServiceImportChangeTracker
  lc_serviceMap :: ServiceMap
  lc_endpointsMap :: EndpointsMap
  lc_ingressMap :: IngressMap
  lc_serviceImportMap :: ServiceImportMap
  lc_multiClusterEndpointsMap :: MultiClusterEndpointsMap
  lc_endpointsSynced :: bool
  lc_servicesSynced :: bool
  lc_ingressesSynced :: bool
  lc_ingressClassesSynced :: bool
  lc_serviceImportSynced :: bool
  lc_initialized :: int
  lc_syncRequested :: bool
  lc_ingressRoutesVersion :: string
  lc_serviceRoutesVersion :: string
  lc_DefaultIngressClass :: string
  lc_jobs :: "route_job list"

definition newLocalCache :: LocalCache where
  "newLocalCache =
     \<lparr>lc_serviceChanges = NewServiceChangeTracker (Some enrichServiceInfo),
      lc_endpointsChanges = NewEndpointChangeTracker None,
      lc_ingressChanges = NewIngressChangeTracker,
      lc_serviceImportChanges = NewServiceImportChangeTracker (Some enrichServiceImportInfo) None,
      lc_serviceMap = [], lc_endpointsMap = [], lc_ingressMap = [], lc_serviceImportMap = [],
      lc_multiClusterEndpointsMap = [], lc_endpointsSynced = False, lc_servicesSynced = False,
      lc_ingressesSynced = False, lc_ingressClassesSynced = False, lc_serviceImportSynced = False,
      lc_initialized = 0, lc_syncRequested = False, lc_ingressRoutesVersion = [], lc_serviceRoutesVersion = [],
      lc_DefaultIngressClass = [], lc_jobs = []\<rparr>"

definition setInitialized :: "bool \<Rightarrow> LocalCache \<Rightarrow> LocalCache" where
  "setInitialized v c = c\<lparr>lc_initialized := (if v then 1 else 0)\<rparr>"

definition isInitialized :: "LocalCache \<Rightarrow> bool" where
  "isInitialized c \<longleftrightarrow> lc_initialized c > 0"

definition Sync :: "LocalCache \<Rightarrow> LocalCache" where
  "Sync c = c\<lparr>lc_syncRequested := True\<rparr>"

text \<open>The ingress environment with the current value of the global \<open>DefaultIngressClass\<close>.\<close>

definition ing_env :: "local_env \<Rightarrow> LocalCache \<Rightarrow> ingress_env" where
  "ing_env env c = (le_ingress env)\<lparr>env_DefaultIngressClass := lc_DefaultIngressClass c\<rparr>"

abbreviation le_lib :: "local_env \<Rightarrow> k8s_lib" where
  "le_lib env \<equiv> env_lib (le_ingress env)"

section \<open>Service routes\<close>

definition service_targets :: "BaseEndpointInfo list \<Rightarrow> RouteTarget list" where
  "service_targets eps =
     map (\<lambda>ep. \<lparr>rt_Address = bei_Endpoint ep, rt_Tags = [(''Node'', bei_Nodename ep), (''Host'', bei_Hostname ep)]\<rparr>) eps"

definition import_targets :: "BaseEndpointInfo list \<Rightarrow> RouteTarget list" where
  "import_targets eps = map (\<lambda>ep. \<lparr>rt_Address = bei_Endpoint ep, rt_Tags = [(''Cluster'', bei_Cluster ep)]\<rparr>) eps"

text \<open>The two halves of the loop body: what a name contributes as a Service and as a ServiceImport.\<close>

definition service_entry :: "LocalCache \<Rightarrow> ServicePortName \<Rightarrow> ServiceRouteEntry list" where
  "service_entry c svcName =
     (case gget (lc_serviceMap c) svcName of
        Some (PortService svcInfo) \<Rightarrow>
          (let sr = \<lparr>sre_Name = nn_Name (si_svcName svcInfo), sre_Namespace = nn_Namespace (si_svcName svcInfo),
                     sre_Targets = [], sre_PortName = bsi_portName (si_BaseServiceInfo svcInfo)\<rparr>
           in if si_Type svcInfo = ServiceTypeClusterIP
              then [sr\<lparr>sre_Targets := service_targets (gslice (lc_endpointsMap c) svcName)\<rparr>]
              else if si_Type svcInfo = ServiceTypeExternalName
              then [sr\<lparr>sre_Targets := [\<lparr>rt_Address = bsi_address (si_BaseServiceInfo svcInfo), rt_Tags = []\<rparr>]\<rparr>]
              else [])
      | _ \<Rightarrow> [])"

definition import_entry :: "LocalCache \<Rightarrow> ServicePortName \<Rightarrow> ServiceRouteEntry list" where
  "import_entry c svcName =
     (case gget (lc_serviceImportMap c) svcName of
        Some (PortImport svcImpInfo) \<Rightarrow>
          [\<lparr>sre_Name = nn_Name (sii_svcName svcImpInfo), sre_Namespace = nn_Namespace (sii_svcName svcImpInfo),
            sre_Targets = import_targets (gslice (lc_multiClusterEndpointsMap c) svcName),
            sre_PortName = bsi_portName (sii_BaseServiceInfo svcImpInfo)\<rparr>]
      | _ \<Rightarrow> [])"

definition buildServiceRoutes :: "local_env \<Rightarrow> LocalCache \<Rightarrow> ServiceRoute" where
  "buildServiceRoutes env c =
     (let svcNames = remdups (map fst (lc_serviceMap c) @ map fst (lc_serviceImportMap c));
          routes = fold (\<lambda>svcName rs. rs @ service_entry c svcName @ import_entry c svcName) (le_ToSlice env svcNames) []
      in \<lparr>sr_Hash = le_hashServices env routes, sr_Routes = routes\<rparr>)"

definition lc_servicePortName :: "ServiceRouteEntry \<Rightarrow> string" where
  "lc_servicePortName route = sre_Namespace route @ ''/'' @ sre_Name route @ fmtPortName (sre_PortName route)"

definition addresses :: "ServiceRouteEntry \<Rightarrow> string list" where
  "addresses route = map rt_Address (sre_Targets route)"

definition service_registry :: "ServiceRouteEntry list \<Rightarrow> ServiceRegistryEntry" where
  "service_registry routes =
     fold (\<lambda>route registry.
         if addresses route \<noteq> [] then gappend (lc_servicePortName route) (addresses route) registry else registry)
       routes []"

definition serviceBatches :: "ServiceRoute \<Rightarrow> MeshConfig \<Rightarrow> repo_content Batch list" where
  "serviceBatches serviceRoutes mc =
     [\<lparr>ba_Basepath = GetDefaultServicesPath mc,
       ba_Items = [\<lparr>bi_Path = ''/config'', bi_Filename = ''registry.json'',
                    bi_Content = ContentRegistry (service_registry (sr_Routes serviceRoutes))\<rparr>]\<rparr>]"

section \<open>Ingress routes\<close>

definition upstream_endpoints :: "k8s_lib \<Rightarrow> BaseEndpointInfo list \<Rightarrow> UpstreamEndpoint list" where
  "upstream_endpoints lib eps =
     concat (map (\<lambda>ep. case BaseEndpointInfo_Port lib ep of
                        Inl _ \<Rightarrow> []
                      | Inr epPort \<Rightarrow>
                          if BaseEndpointInfo_IP lib ep = [] then []
                          else [\<lparr>ue_IP = BaseEndpointInfo_IP lib ep, ue_Port = epPort, ue_Protocol = []\<rparr>]) eps)"

definition route_spec :: "k8s_lib \<Rightarrow> LocalCache \<Rightarrow> BaseIngressInfo \<Rightarrow> IngressRouteSpec go" where
  "route_spec lib c route =
     go_bind (UpstreamSSLName route) (\<lambda>sslName. go_bind (UpstreamSSLVerify route) (\<lambda>sslVerify.
     go_bind (UpstreamSSLCert route) (\<lambda>sslCert.
       Inr \<lparr>irs_RouterSpec = \<lparr>rs_Host = bii_host route, rs_Path = bii_path route,
              rs_Service = ServicePortName_String (bii_backend route), rs_Rewrite = bii_rewrite route\<rparr>,
            irs_BalancerSpec = \<lparr>bs_Sticky = bii_sessionSticky route, bs_Balancer = bii_lbType route,
              bs_Upstream = Some \<lparr>us_SSLName = sslName, us_SSLCert = sslCert, us_SSLVerify = sslVerify,
                us_Endpoints = upstream_endpoints lib (gslice (lc_endpointsMap c) (bii_backend route))\<rparr>\<rparr>,
            irs_TLSSpec = \<lparr>ts_IsTLS = bii_isTLS route, ts_IsWildcardHost = bii_isWildcardHost route,
              ts_VerifyClient = bii_verifyClient route, ts_VerifyDepth = bii_verifyDepth route,
              ts_Certificate = bii_certificate route, ts_TrustedCA = bii_trustedCA route\<rparr>\<rparr>)))"

definition add_route :: "k8s_lib \<Rightarrow> LocalCache \<Rightarrow> RouteKey \<times> BaseIngressInfo \<Rightarrow> IngressRouteSpec list \<Rightarrow> IngressRouteSpec list go" where
  "add_route lib c kr routes =
     go_bind (route_spec lib c (snd kr)) (\<lambda>ir.
       Inr (if upstream_endpoints lib (gslice (lc_endpointsMap c) (bii_backend (snd kr))) \<noteq> [] then routes @ [ir] else routes))"

definition buildIngressConfig :: "local_env \<Rightarrow> LocalCache \<Rightarrow> IngressData go" where
  "buildIngressConfig env c =
     go_bind (go_fold (add_route (le_lib env) c) (lc_ingressMap c) []) (\<lambda>routes.
       Inr \<lparr>id_Hash = le_hashIngress env routes, id_Routes = routes\<rparr>)"

definition routerKey :: "IngressRouteSpec \<Rightarrow> string" where
  "routerKey r = rs_Host (irs_RouterSpec r) @ rs_Path (irs_RouterSpec r)"

definition getTrustedCAs :: "(string, bool) gomap \<Rightarrow> string list" where
  "getTrustedCAs caMap = map fst caMap"

text \<open>The body of the loop of \<open>ingressBatches\<close>: a route whose host already has a certificate entry
  leaves the loop body early.\<close>

definition add_trusted :: "IngressRouteSpec \<Rightarrow> (string, bool) gomap \<Rightarrow> (string, bool) gomap" where
  "add_trusted r cas =
     (let cas = (case ts_TrustedCA (irs_TLSSpec r) of
                   Some ca \<Rightarrow> if crt_CA ca \<noteq> [] then gput (crt_CA ca) True cas else cas | None \<Rightarrow> cas)
      in case ts_Certificate (irs_TLSSpec r) of
           Some crt \<Rightarrow> if crt_CA crt \<noteq> [] then gput (crt_CA crt) True cas else cas | None \<Rightarrow> cas)"

definition add_ingress_route ::
  "IngressRouteSpec \<Rightarrow>
   (string, RouterSpec) gomap \<times> (string, BalancerSpec) gomap \<times> (string, TLSSpec) gomap \<times> (string, bool) gomap \<Rightarrow>
   (string, RouterSpec) gomap \<times> (string, BalancerSpec) gomap \<times> (string, TLSSpec) gomap \<times> (string, bool) gomap"
where
  "add_ingress_route r acc =
     (case acc of (router, balancer, certificates, cas) \<Rightarrow>
        let router = gput (routerKey r) (irs_RouterSpec r) router;
            balancer = gput (rs_Service (irs_RouterSpec r)) (irs_BalancerSpec r) balancer;
            host = rs_Host (irs_RouterSpec r)
        in if host \<noteq> [] \<and> ts_IsTLS (irs_TLSSpec r) then
             (if gget certificates host \<noteq> None then (router, balancer, certificates, cas)
              else (router, balancer, gput host (irs_TLSSpec r) certificates, add_trusted r cas))
           else (router, balancer, certificates, add_trusted r cas))"

definition ingress_config :: "IngressRouteSpec list \<Rightarrow> IngressConfig" where
  "ingress_config routes =
     (case fold add_ingress_route routes ([], [], [], []) of
        (router, balancer, certificates, cas) \<Rightarrow>
          \<lparr>icf_TrustedCAs = getTrustedCAs cas, icf_Certificates = certificates, icf_Routes = router,
           icf_Services = balancer\<rparr>)"

definition ingressBatchItems :: "IngressConfig \<Rightarrow> repo_content BatchItem list" where
  "ingressBatchItems ingressConfig =
     [\<lparr>bi_Path = ''/config'', bi_Filename = ''ingress.json'', bi_Content = ContentIngress ingressConfig\<rparr>]"

definition ingressBatches :: "IngressData \<Rightarrow> MeshConfig \<Rightarrow> repo_content Batch list" where
  "ingressBatches ingressData mc =
     [\<lparr>ba_Basepath = GetDefaultIngressPath mc, ba_Items = ingressBatchItems (ingress_config (id_Routes ingressData))\<rparr>]"

section \<open>Synchronising\<close>

text \<open>\<open>refreshIngress\<close>: when the list of Ingresses cannot be read it is empty.\<close>

definition refreshIngress :: "local_env \<Rightarrow> LocalCache \<Rightarrow> LocalCache go" where
  "refreshIngress env c =
     (let ingresses = (case le_ingressLister env of Inl _ \<Rightarrow> [] | Inr is \<Rightarrow> is) in
      go_bind
        (go_fold (\<lambda>ing ict.
            if \<not> IsValidPipyIngress (lc_DefaultIngressClass c) ing then Inr ict
            else go_bind (IngressChangeTracker_Update (ing_env env c) None (Some ing) ict) (\<lambda>(_, ict'). Inr ict'))
          ingresses (lc_ingressChanges c))
        (\<lambda>ict. let (im, ict') = IngressMap_apply ict (lc_ingressMap c)
               in Inr (c\<lparr>lc_ingressMap := im, lc_ingressChanges := ict'\<rparr>)))"

text \<open>The first part of \<open>syncRoutes\<close>: the five maps take over the recorded changes.\<close>

definition update_maps :: "LocalCache \<Rightarrow> LocalCache" where
  "update_maps c =
     (let (sm, sct) = ServiceMap_apply (lc_serviceChanges c) (lc_serviceMap c);
          (sim, sict) = ServiceImportMap_apply (lc_serviceImportChanges c) (lc_serviceImportMap c);
          (mem, sict') = MultiClusterEndpointsMap_apply sict (lc_multiClusterEndpointsMap c);
          (em, ect) = EndpointsMap_apply (lc_endpointsChanges c) (lc_endpointsMap c);
          (im, ict) = IngressMap_apply (lc_ingressChanges c) (lc_ingressMap c)
      in c\<lparr>lc_serviceMap := sm, lc_serviceChanges := sct, lc_serviceImportMap := sim,
           lc_serviceImportChanges := sict', lc_multiClusterEndpointsMap := mem, lc_endpointsMap := em,
           lc_endpointsChanges := ect, lc_ingressMap := im, lc_ingressChanges := ict\<rparr>)"

definition sync_services :: "local_env \<Rightarrow> MeshConfig \<Rightarrow> LocalCache \<Rightarrow> LocalCache go" where
  "sync_services env mc c =
     (let serviceRoutes = buildServiceRoutes env c in
      if lc_serviceRoutesVersion c \<noteq> sr_Hash serviceRoutes then
        (let batches = serviceBatches serviceRoutes mc;
             c = (if batches \<noteq> [] then c\<lparr>lc_jobs := lc_jobs c @ [\<lparr>job_kind = ServiceJob, job_batches = batches,
                                         job_hash = sr_Hash serviceRoutes\<rparr>]\<rparr> else c)
         in refreshIngress env c)
      else Inr c)"

definition sync_ingress :: "local_env \<Rightarrow> MeshConfig \<Rightarrow> LocalCache \<Rightarrow> LocalCache go" where
  "sync_ingress env mc c =
     go_bind (buildIngressConfig env c) (\<lambda>ingressRoutes.
       if lc_ingressRoutesVersion c \<noteq> id_Hash ingressRoutes then
         (let batches = ingressBatches ingressRoutes mc
          in Inr (if batches \<noteq> [] then c\<lparr>lc_jobs := lc_jobs c @ [\<lparr>job_kind = IngressJob, job_batches = batches,
                                         job_hash = id_Hash ingressRoutes\<rparr>]\<rparr> else c))
       else Inr c)"

definition syncRoutes :: "local_env \<Rightarrow> LocalCache \<Rightarrow> LocalCache go" where
  "syncRoutes env c =
     (let c = update_maps c in
      go_bind (le_meshConfig env) (\<lambda>mc. go_bind (sync_services env mc c) (sync_ingress env mc)))"

text \<open>The end of a goroutine started by \<open>syncRoutes\<close>.\<close>

definition finish_job :: "(repo_content, 'w) repo_http \<Rightarrow> route_job \<Rightarrow> LocalCache \<times> 'w \<Rightarrow> LocalCache \<times> 'w" where
  "finish_job http job cw =
     (case repo_Batch http (job_batches job) (snd cw) of
        (Inl _, w) \<Rightarrow> (fst cw, w)
      | (Inr _, w) \<Rightarrow>
          ((case job_kind job of
              ServiceJob \<Rightarrow> (fst cw)\<lparr>lc_serviceRoutesVersion := job_hash job\<rparr>
            | IngressJob \<Rightarrow> (fst cw)\<lparr>lc_ingressRoutesVersion := job_hash job\<rparr>), w))"

section \<open>Event handlers\<close>

definition sync_if :: "bool \<Rightarrow> LocalCache \<Rightarrow> LocalCache" where
  "sync_if changed c = (if changed \<and> isInitialized c then Sync c else c)"

definition OnServiceUpdate :: "local_env \<Rightarrow> Service option \<Rightarrow> Service option \<Rightarrow> LocalCache \<Rightarrow> LocalCache" where
  "OnServiceUpdate env oldService service c =
     (case ServiceChangeTracker_Update (le_lib env) oldService service (lc_serviceChanges c) of
        (changed, t) \<Rightarrow> sync_if changed (c\<lparr>lc_serviceChanges := t\<rparr>))"

definition OnEndpointsUpdate :: "local_env \<Rightarrow> Endpoints option \<Rightarrow> Endpoints option \<Rightarrow> LocalCache \<Rightarrow> LocalCache" where
  "OnEndpointsUpdate env oldEndpoints endpoints c =
     (case EndpointChangeTracker_Update (le_lib env) oldEndpoints endpoints (lc_endpointsChanges c) of
        (changed, t) \<Rightarrow> sync_if changed (c\<lparr>lc_endpointsChanges := t\<rparr>))"

definition OnServiceImportUpdate ::
  "local_env \<Rightarrow> ServiceImport option \<Rightarrow> ServiceImport option \<Rightarrow> LocalCache \<Rightarrow> LocalCache"
where
  "OnServiceImportUpdate env oldImp imp c =
     (case ServiceImportChangeTracker_Update (le_lib env) (le_serviceLister env) oldImp imp (lc_serviceImportChanges c) of
        (changed, t) \<Rightarrow> sync_if changed (c\<lparr>lc_serviceImportChanges := t\<rparr>))"

definition onIngressUpdate :: "local_env \<Rightarrow> Ingress option \<Rightarrow> Ingress option \<Rightarrow> LocalCache \<Rightarrow> LocalCache go" where
  "onIngressUpdate env oldIngress ingress c =
     go_bind (IngressChangeTracker_Update (ing_env env c) oldIngress ingress (lc_ingressChanges c)) (\<lambda>(changed, t).
       Inr (sync_if changed (c\<lparr>lc_ingressChanges := t\<rparr>)))"

definition updateDefaultIngressClass :: "IngressClass \<Rightarrow> string \<Rightarrow> LocalCache \<Rightarrow> LocalCache" where
  "updateDefaultIngressClass cls className c =
     (if gm_look (meta_Annotations (ic_Meta cls)) IngressClassAnnotationKey = Some ''true''
      then c\<lparr>lc_DefaultIngressClass := className\<rparr> else c)"

definition OnIngressClassv1Add :: "IngressClass \<Rightarrow> LocalCache \<Rightarrow> LocalCache" where
  "OnIngressClassv1Add cls = updateDefaultIngressClass cls (meta_Name (ic_Meta cls))"

definition OnIngressClassv1Update :: "IngressClass \<Rightarrow> IngressClass \<Rightarrow> LocalCache \<Rightarrow> LocalCache" where
  "OnIngressClassv1Update oldClass cls c =
     (if meta_ResourceVersion (ic_Meta oldClass) = meta_ResourceVersion (ic_Meta cls) then c
      else updateDefaultIngressClass cls (meta_Name (ic_Meta cls)) c)"

definition OnIngressClassv1Delete :: "IngressClass \<Rightarrow> LocalCache \<Rightarrow> LocalCache" where
  "OnIngressClassv1Delete cls = updateDefaultIngressClass cls []"

definition OnServiceSynced :: "local_env \<Rightarrow> LocalCache \<Rightarrow> LocalCache go" where
  "OnServiceSynced env c =
     (let c = c\<lparr>lc_servicesSynced := True\<rparr>
      in syncRoutes env (setInitialized (lc_serviceImportSynced c \<and> lc_endpointsSynced c \<and> lc_ingressesSynced c \<and>
           lc_ingressClassesSynced c) c))"

definition OnEndpointsSynced :: "local_env \<Rightarrow> LocalCache \<Rightarrow> LocalCache go" where
  "OnEndpointsSynced env c =
     (let c = c\<lparr>lc_endpointsSynced := True\<rparr>
      in syncRoutes env (setInitialized (lc_servicesSynced c \<and> lc_serviceImportSynced c \<and> lc_ingressesSynced c \<and>
           lc_ingressClassesSynced c) c))"

definition OnIngressv1Synced :: "local_env \<Rightarrow> LocalCache \<Rightarrow> LocalCache go" where
  "OnIngressv1Synced env c =
     (let c = c\<lparr>lc_ingressesSynced := True\<rparr>
      in syncRoutes env (setInitialized (lc_servicesSynced c \<and> lc_endpointsSynced c \<and> lc_serviceImportSynced c \<and>
           lc_ingressClassesSynced c) c))"

definition OnIngressClassv1Synced :: "local_env \<Rightarrow> LocalCache \<Rightarrow> LocalCache go" where
  "OnIngressClassv1Synced env c =
     (let c = c\<lparr>lc_ingressClassesSynced := True\<rparr>
      in syncRoutes env (setInitialized (lc_ingressesSynced c \<and> lc_servicesSynced c \<and> lc_endpointsSynced c \<and>
           lc_serviceImportSynced c) c))"

definition OnServiceImportSynced :: "local_env \<Rightarrow> LocalCache \<Rightarrow> LocalCache go" where
  "OnServiceImportSynced env c =
     (let c = c\<lparr>lc_serviceImportSynced := True\<rparr>
      in syncRoutes env (setInitialized (lc_servicesSynced c \<and> lc_endpointsSynced c \<and> lc_ingressesSynced c \<and>
           lc_ingressClassesSynced c) c))"

end
