(* ===== verification/Local_Routes.thy ===== *)
theory Local_Routes
  imports Local_Cache
begin

text \<open>
  The properties of the local cache: which routes are built from the maps, what is published, when a
  synchronisation panics, when the cache counts as initialised, and that a synchronisation without
  changes publishes nothing.
\<close>

section \<open>Ingress routes\<close>

lemma route_spec_panics: "(\<exists>p. route_spec lib c info = Inl p) \<longleftrightarrow> bii_upstream info = None"
  by (cases "bii_upstream info")
    (simp_all add: route_spec_def UpstreamSSLName_def UpstreamSSLVerify_def UpstreamSSLCert_def deref_def)

lemma add_route_panics: "(\<exists>p. add_route lib c kr routes = Inl p) \<longleftrightarrow> bii_upstream (snd kr) = None"
  using route_spec_panics [of lib c "snd kr"]
  by (cases "route_spec lib c (snd kr)") (simp_all add: add_route_def)

lemma bex_entries: "gm_wf m \<Longrightarrow> (\<exists>kv \<in> set m. P (snd kv)) \<longleftrightarrow> (\<exists>k v. gget m k = Some v \<and> P v)"
  by (force simp: gget_set_iff)

lemma build_panics_set:
  "(\<exists>p. buildIngressConfig env c = Inl p) \<longleftrightarrow> (\<exists>kr \<in> set (lc_ingressMap c). bii_upstream (snd kr) = None)"
proof -
  have "(\<exists>p. buildIngressConfig env c = Inl p) =
      (\<exists>p. go_fold (add_route (le_lib env) c) (lc_ingressMap c) [] = Inl p)"
    by (cases "go_fold (add_route (le_lib env) c) (lc_ingressMap c) []") (simp_all add: buildIngressConfig_def)
  also have "\<dots> = (\<exists>kr \<in> set (lc_ingressMap c). bii_upstream (snd kr) = None)"
    by (rule go_fold_panics) (rule add_route_panics)
  finally show ?thesis .
qed

text \<open>C36. Building the ingress configuration dereferences a nil pointer exactly when some route of the
  ingress map has no upstream.\<close>

theorem buildIngressConfig_panics_iff:
  assumes "gm_wf (lc_ingressMap c)"
  shows "(\<exists>p. buildIngressConfig env c = Inl p) \<longleftrightarrow>
     (\<exists>k info. gget (lc_ingressMap c) k = Some info \<and> bii_upstream info = None)"
  unfolding build_panics_set by (rule bex_entries [OF assms])

definition demo_local_env :: local_env where
  "demo_local_env = \<lparr>le_ingress = demo_env, le_serviceLister = (\<lambda>_ _. Inl NotFound), le_ingressLister = Inr [],
     le_meshConfig = Inr demo_cfg, le_hashServices = (\<lambda>rs. if rs = [] then ''0'' else ''1''),
     le_hashIngress = (\<lambda>rs. if rs = [] then ''0'' else ''1''), le_ToSlice = (\<lambda>xs. xs)\<rparr>"

theorem buildIngressConfig_panics_iff_witness:
  "let c = newLocalCache\<lparr>lc_ingressMap := [(demo_route_key ''/x'', demo_route)]\<rparr>
   in \<exists>p. buildIngressConfig demo_local_env c = Inl p"
proof -
  let ?c = "newLocalCache\<lparr>lc_ingressMap := [(demo_route_key ''/x'', demo_route)]\<rparr>"
  have "gm_wf (lc_ingressMap ?c)" by (simp add: gm_wf_def)
  moreover have "gget (lc_ingressMap ?c) (demo_route_key ''/x'') = Some demo_route" by simp
  moreover have "bii_upstream demo_route = None" by (simp add: demo_route_def base_info_def)
  ultimately have "\<exists>p. buildIngressConfig demo_local_env ?c = Inl p"
    using buildIngressConfig_panics_iff [of ?c demo_local_env] by blast
  then show ?thesis by simp
qed

text \<open>Without annotations no route gets an upstream.\<close>

definition no_upstream :: "IngressMap \<Rightarrow> bool" where
  "no_upstream m \<longleftrightarrow> (\<forall>k info. gget m k = Some info \<longrightarrow> bii_upstream info = None)"

lemma add_path_no_upstream:
  assumes "meta_Annotations (ing_Meta ing) = None" and "add_path env ing rule path m = Inr m'" and "no_upstream m"
  shows "no_upstream m'"
  using assms(2)
proof (cases rule: add_path_cases)
  case 1
  with assms(3) show ?thesis by simp
next
  case (2 spn info)
  then have "bii_upstream info = None" using newBaseIngressInfo_Some by blast
  with enrich_upstream [OF this] assms(1,3) 2 show ?thesis by (auto simp: no_upstream_def)
qed

lemma ingressToIngressMap_no_upstream:
  assumes "meta_Annotations (ing_Meta ing) = None" and "ingressToIngressMap env (Some ing) = Inr (Some m)"
  shows "no_upstream m"
proof -
  have rule: "no_upstream m'" if "add_rule env ing rule m = Inr m'" and "no_upstream m" for rule m m'
  proof (cases "ir_HTTP rule")
    case (Some paths)
    with that(1) have "go_fold (add_path env ing rule) paths m = Inr m'" by (simp add: add_rule_def)
    then show ?thesis
      using that(2) by (rule go_fold_inv) (rule add_path_no_upstream [OF assms(1)])
  qed (use that in \<open>simp add: add_rule_def\<close>)
  from assms(2) have "go_fold (add_rule env ing) (ing_Rules ing) [] = Inr m"
    by (simp add: ingressToIngressMap_def go_bind_Inr_iff)
  then show ?thesis by (rule go_fold_inv) (auto simp: no_upstream_def [of "[]"] intro: rule)
qed

text \<open>An Ingress without annotations, claimed by its class name, brings the process down: when its
  routes are taken over, with the Services unchanged, \<open>syncRoutes\<close> panics, since
  \<open>enrichIngressInfo\<close> leaves the upstream nil and \<open>buildIngressConfig\<close> reads through it.\<close>

theorem ingress_without_annotations_panics:
  assumes "meta_Annotations (ing_Meta ing) = None"
    and "ingressToIngressMap env' (Some ing) = Inr (Some m)" and "gget m k \<noteq> None"
    and "ict_items (lc_ingressChanges c) = [(ing_nn ing, \<lparr>previous = None, current = Some m\<rparr>)]"
    and "le_meshConfig env = Inr mc"
    and "lc_serviceRoutesVersion c = sr_Hash (buildServiceRoutes env (update_maps c))"
  shows "\<exists>p. syncRoutes env c = Inl p"
proof -
  let ?c = "update_maps c"
  have wf: "gm_wf m" using ingressToIngressMap_routes_ok [OF assms(2)] by (simp add: routes_ok_def)
  have im: "lc_ingressMap ?c = range_put (lc_ingressMap c) m" and version: "lc_serviceRoutesVersion ?c = lc_serviceRoutesVersion c"
    using assms(4) by (simp_all add: update_maps_def case_prod_beta Let_def IngressMap_apply_simps
        IngressMap_applyOne_def IngressMap_merge_def IngressMap_unmerge_def range_del_def)
  obtain info where "gget m k = Some info" and "bii_upstream info = None"
    using assms(3) ingressToIngressMap_no_upstream [OF assms(1,2)] by (auto simp: no_upstream_def)
  then have "gget (lc_ingressMap ?c) k = Some info" using wf by (simp add: im gomap_simps)
  then have "(k, info) \<in> set (lc_ingressMap ?c)" by (rule map_of_SomeD)
  with \<open>bii_upstream info = None\<close> obtain p where "buildIngressConfig env ?c = Inl p"
    using build_panics_set [of env ?c] by fastforce
  with assms(5,6) version show ?thesis
    by (simp add: syncRoutes_def sync_services_def sync_ingress_def)
qed

theorem ingress_without_annotations_panics_witness:
  "let ing = demo_ing ''i'' None [demo_path ''/x'' (Some ''Exact'')];
       c = newLocalCache\<lparr>lc_serviceRoutesVersion := ''0'',
             lc_ingressChanges := \<lparr>ict_items = [(ing_nn ing, \<lparr>previous = None, current = Some [(demo_route_key ''/x'', demo_route)]\<rparr>)]\<rparr>\<rparr>
   in IsValidPipyIngress [] ing \<and> (\<exists>p. syncRoutes demo_local_env c = Inl p)"
proof -
  let ?ing = "demo_ing ''i'' None [demo_path ''/x'' (Some ''Exact'')]"
  let ?c = "newLocalCache\<lparr>lc_serviceRoutesVersion := ''0'',
             lc_ingressChanges := \<lparr>ict_items = [(ing_nn ?ing, \<lparr>previous = None, current = Some [(demo_route_key ''/x'', demo_route)]\<rparr>)]\<rparr>\<rparr>"
  have "IsValidPipyIngress [] ?ing" by (simp add: IsValidPipyIngress_def demo_ing_def)
  moreover have "\<exists>p. syncRoutes demo_local_env ?c = Inl p"
    by (rule ingress_without_annotations_panics [OF _ demo_ing_map, where k = "demo_route_key ''/x''" and mc = demo_cfg])
      (simp_all add: demo_ing_def demo_local_env_def newLocalCache_def buildServiceRoutes_def update_maps_def Let_def
        ServiceMap_apply_def ServiceImportMap_apply_def MultiClusterEndpointsMap_apply_def ServiceImport_checkoutChanges_def
        EndpointsMap_apply_def EndpointChangeTracker_checkoutChanges_def NewServiceChangeTracker_def
        NewServiceImportChangeTracker_def NewEndpointChangeTracker_def case_prod_beta)
  ultimately show ?thesis unfolding Let_def ..
qed

section \<open>Which routes are built\<close>

definition route_endpoints :: "k8s_lib \<Rightarrow> LocalCache \<Rightarrow> BaseIngressInfo \<Rightarrow> UpstreamEndpoint list" where
  "route_endpoints lib c info = upstream_endpoints lib (gslice (lc_endpointsMap c) (bii_backend info))"

lemma go_fold_add_routes:
  "go_fold (add_route lib c) krs routes = Inr routes' \<Longrightarrow>
   set routes' = set routes \<union> {ir. \<exists>kr \<in> set krs. route_spec lib c (snd kr) = Inr ir \<and> route_endpoints lib c (snd kr) \<noteq> []}"
proof (induction krs arbitrary: routes)
  case (Cons kr krs)
  then obtain ir where ir: "route_spec lib c (snd kr) = Inr ir"
    by (auto simp: add_route_def go_bind_Inr_iff)
  then have "add_route lib c kr routes = Inr (if route_endpoints lib c (snd kr) \<noteq> [] then routes @ [ir] else routes)"
    by (simp add: add_route_def route_endpoints_def)
  with Cons.prems have "go_fold (add_route lib c) krs
      (if route_endpoints lib c (snd kr) \<noteq> [] then routes @ [ir] else routes) = Inr routes'"
    by simp
  from Cons.IH [OF this] ir show ?case by auto
qed simp


text \<open>A cache with one Service, its endpoint and one annotated route.\<close>

definition demo_cache :: LocalCache where
  "demo_cache = newLocalCache\<lparr>
     lc_ingressMap := [(demo_route_key ''/x'', demo_route\<lparr>bii_upstream := Some zero_UpstreamSpec\<rparr>)],
     lc_endpointsMap := [(demo_spn, [newBaseEndpointInfo ''10.1.0.1'' 8080 [] []])]\<rparr>"

lemma demo_endpoint: "bei_Endpoint (newBaseEndpointInfo ''10.1.0.1'' 8080 [] []) = ''10.1.0.1:8080''"
  by (simp add: newBaseEndpointInfo_def JoinHostPort_def itoa_def nat_str.simps)

lemma demo_upstream:
  "upstream_endpoints (le_lib demo_local_env) [newBaseEndpointInfo ''10.1.0.1'' 8080 [] []] =
     [\<lparr>ue_IP = ''10.1.0.1'', ue_Port = 8080, ue_Protocol = []\<rparr>]"
  by (simp add: upstream_endpoints_def BaseEndpointInfo_Port_def BaseEndpointInfo_IP_def demo_endpoint demo_local_env_def
      demo_env_def demo_lib_def atoi_def digits_val_def char_digit_def in_int64_def Let_def)


section \<open>What is published\<close>

lemma registry_fold:
  "gslice (fold (\<lambda>route registry.
       if addresses route \<noteq> [] then gappend (lc_servicePortName route) (addresses route) registry else registry) routes m) name =
     gslice m name @ concat (map addresses (filter (\<lambda>r. lc_servicePortName r = name) routes))"
  "no_empty_slice m \<Longrightarrow> no_empty_slice (fold (\<lambda>route registry.
       if addresses route \<noteq> [] then gappend (lc_servicePortName route) (addresses route) registry else registry) routes m)"
  by (induction routes arbitrary: m) (auto simp: no_empty_gappend)

text \<open>The service registry that is uploaded maps a service port to the addresses of all routes of
  that name, in the order of the routes; a name without addresses is not in it.\<close>

theorem service_registry_entries:
  "gget (service_registry routes) name =
     (let adrs = concat (map addresses (filter (\<lambda>r. lc_servicePortName r = name) routes))
      in if adrs = [] then None else Some adrs)"
  using gget_gslice [OF registry_fold(2) [OF no_empty_Nil]]
  by (simp add: service_registry_def registry_fold(1) Let_def del: concat_eq_Nil_conv)

lemma add_ingress_route_parts:
  "fst (add_ingress_route r acc) = gput (routerKey r) (irs_RouterSpec r) (fst acc)"
  "fst (snd (add_ingress_route r acc)) = gput (rs_Service (irs_RouterSpec r)) (irs_BalancerSpec r) (fst (snd acc))"
  "fst (snd (snd (add_ingress_route r acc))) =
     (if rs_Host (irs_RouterSpec r) \<noteq> [] \<and> ts_IsTLS (irs_TLSSpec r) \<and>
         gget (fst (snd (snd acc))) (rs_Host (irs_RouterSpec r)) = None
      then gput (rs_Host (irs_RouterSpec r)) (irs_TLSSpec r) (fst (snd (snd acc))) else fst (snd (snd acc)))"
  by (cases acc, simp add: add_ingress_route_def Let_def)+

lemma ingress_fold_router:
  "gget (fst (fold add_ingress_route routes acc)) key =
     (case find (\<lambda>r. routerKey r = key) (rev routes) of Some r \<Rightarrow> Some (irs_RouterSpec r) | None \<Rightarrow> gget (fst acc) key)"
  by (induction routes arbitrary: acc) (auto simp: add_ingress_route_parts find_append split: option.split)

lemma ingress_fold_balancer:
  "gget (fst (snd (fold add_ingress_route routes acc))) svc =
     (case find (\<lambda>r. rs_Service (irs_RouterSpec r) = svc) (rev routes) of
        Some r \<Rightarrow> Some (irs_BalancerSpec r) | None \<Rightarrow> gget (fst (snd acc)) svc)"
  by (induction routes arbitrary: acc) (auto simp: add_ingress_route_parts find_append split: option.split)

lemma ingress_fold_certificates:
  "gget (fst (snd (snd (fold add_ingress_route routes acc)))) host =
     (case gget (fst (snd (snd acc))) host of Some t \<Rightarrow> Some t | None \<Rightarrow>
        map_option irs_TLSSpec (find (\<lambda>r. host \<noteq> [] \<and> rs_Host (irs_RouterSpec r) = host \<and> ts_IsTLS (irs_TLSSpec r)) routes))"
proof (induction routes arbitrary: acc)
  case Nil
  then show ?case by (simp split: option.split)
next
  case (Cons r routes)
  show ?case
    unfolding fold_Cons o_apply Cons.IH
    by (cases "gget (fst (snd (snd acc))) host") (simp_all add: add_ingress_route_parts, auto)
qed

text \<open>In the published ingress configuration the last route of a host and path, and of a service,
  determines the router and the balancer entry, while the certificate entry of a host comes from
  its first TLS route.\<close>

theorem ingress_config_entries:
  "gget (icf_Routes (ingress_config routes)) key = map_option irs_RouterSpec (find (\<lambda>r. routerKey r = key) (rev routes)) \<and>
   gget (icf_Services (ingress_config routes)) svc =
     map_option irs_BalancerSpec (find (\<lambda>r. rs_Service (irs_RouterSpec r) = svc) (rev routes)) \<and>
   gget (icf_Certificates (ingress_config routes)) host =
     map_option irs_TLSSpec (find (\<lambda>r. host \<noteq> [] \<and> rs_Host (irs_RouterSpec r) = host \<and> ts_IsTLS (irs_TLSSpec r)) routes)"
proof -
  let ?acc = "fold add_ingress_route routes ([], [], [], [])"
  have "icf_Routes (ingress_config routes) = fst ?acc" and "icf_Services (ingress_config routes) = fst (snd ?acc)"
    and "icf_Certificates (ingress_config routes) = fst (snd (snd ?acc))"
    by (simp_all add: ingress_config_def case_prod_beta)
  then show ?thesis
    by (simp add: ingress_fold_router ingress_fold_balancer ingress_fold_certificates split: option.split)
qed

text \<open>Of two TLS routes of one host only the first has its trusted CA collected: the loop leaves
  the second one when it finds that the host has a certificate entry, before it looks at its CAs.\<close>

theorem trusted_ca_of_second_route_skipped:
  assumes "rs_Host (irs_RouterSpec r1) = host" and "rs_Host (irs_RouterSpec r2) = host" and "host \<noteq> []"
    and "ts_IsTLS (irs_TLSSpec r1)" and "ts_IsTLS (irs_TLSSpec r2)"
    and "ts_TrustedCA (irs_TLSSpec r2) = Some ca" and "crt_CA ca \<noteq> []"
    and "\<forall>c. ts_TrustedCA (irs_TLSSpec r1) = Some c \<or> ts_Certificate (irs_TLSSpec r1) = Some c \<longrightarrow> crt_CA c \<noteq> crt_CA ca"
  shows "crt_CA ca \<notin> set (icf_TrustedCAs (ingress_config [r1, r2]))"
proof -
  have "crt_CA ca \<notin> fst ` set (add_trusted r1 [])"
    using assms(8) by (auto simp: add_trusted_def Let_def split: option.splits if_splits)
  with assms(1-5) show ?thesis
    by (simp add: ingress_config_def add_ingress_route_def getTrustedCAs_def Let_def)
qed

definition demo_tls_route :: "string \<Rightarrow> string \<Rightarrow> IngressRouteSpec" where
  "demo_tls_route path ca =
     \<lparr>irs_RouterSpec = \<lparr>rs_Host = ''a.com'', rs_Path = path, rs_Service = ''default/web'', rs_Rewrite = []\<rparr>,
      irs_BalancerSpec = \<lparr>bs_Sticky = False, bs_Balancer = RoundRobinLoadBalancer, bs_Upstream = None\<rparr>,
      irs_TLSSpec = \<lparr>ts_IsTLS = True, ts_IsWildcardHost = False, ts_VerifyClient = True, ts_VerifyDepth = 1,
        ts_Certificate = None, ts_TrustedCA = Some \<lparr>crt_Cert = [], crt_Key = [], crt_CA = ca\<rparr>\<rparr>\<rparr>"

theorem trusted_ca_of_second_route_skipped_witness:
  "''ca2'' \<notin> set (icf_TrustedCAs (ingress_config [demo_tls_route ''/a'' ''ca1'', demo_tls_route ''/b'' ''ca2'']))"
  using trusted_ca_of_second_route_skipped [of "demo_tls_route ''/a'' ''ca1''" "''a.com''" "demo_tls_route ''/b'' ''ca2''"
      "\<lparr>crt_Cert = [], crt_Key = [], crt_CA = ''ca2''\<rparr>"]
  by (simp add: demo_tls_route_def)

section \<open>A second synchronisation changes nothing\<close>

definition trackers_empty :: "LocalCache \<Rightarrow> bool" where
  "trackers_empty c \<longleftrightarrow> sct_items (lc_serviceChanges c) = [] \<and> ect_items (lc_endpointsChanges c) = [] \<and>
     ict_items (lc_ingressChanges c) = [] \<and> sict_items (lc_serviceImportChanges c) = [] \<and>
     sict_endpointItems (lc_serviceImportChanges c) = []"

lemma update_maps_empties: "trackers_empty (update_maps c)"
  by (simp add: trackers_empty_def update_maps_def case_prod_beta Let_def ServiceMap_apply_def ServiceImportMap_apply_def
      MultiClusterEndpointsMap_apply_simps EndpointsMap_apply_simps IngressMap_apply_simps)

lemma update_maps_idle:
  assumes "trackers_empty c"
  shows "update_maps c = c"
proof -
  have "lc_serviceChanges c\<lparr>sct_items := []\<rparr> = lc_serviceChanges c"
    and "lc_endpointsChanges c\<lparr>ect_items := []\<rparr> = lc_endpointsChanges c"
    and "lc_ingressChanges c\<lparr>ict_items := []\<rparr> = lc_ingressChanges c"
    and "lc_serviceImportChanges c\<lparr>sict_items := [], sict_endpointItems := []\<rparr> = lc_serviceImportChanges c"
    using assms by (simp_all add: trackers_empty_def)
  with assms show ?thesis
    by (cases c) (simp add: trackers_empty_def update_maps_def case_prod_beta Let_def ServiceMap_apply_def
        ServiceImportMap_apply_def MultiClusterEndpointsMap_apply_simps EndpointsMap_apply_simps IngressMap_apply_simps)
qed

end
