(* ===== verification/Local_Run.thy ===== *)
theory Local_Run
  imports Local_Routes
begin

text \<open>
  The local cache while it runs: informer events of the five resources, the synchronised
  notifications, synchronisations and the ends of uploads interleave in any order
  (\<open>lc_reach\<close>). The invariant \<open>lc_inv\<close> puts the contracts of the four trackers together and links
  the cache to the informer stores; from it follows what is published.
\<close>

section \<open>Steps\<close>

record stores =
  st_services :: "NamespacedName \<Rightarrow> Service option"
  st_endpoints :: "NamespacedName \<Rightarrow> Endpoints option"
  st_imports :: "NamespacedName \<Rightarrow> ServiceImport option"

definition no_objects :: stores where
  "no_objects = \<lparr>st_services = Map.empty, st_endpoints = Map.empty, st_imports = Map.empty\<rparr>"

text \<open>The handlers that the informer calls for an event, as \<open>OnServiceAdd\<close> and \<open>OnServiceDelete\<close> do
  through the update handler.\<close>

fun on_event :: "('o option \<Rightarrow> 'o option \<Rightarrow> LocalCache \<Rightarrow> LocalCache) \<Rightarrow> 'o informer_event \<Rightarrow> LocalCache \<Rightarrow> LocalCache" where
  "on_event h (Added x) c = h None (Some x) c"
| "on_event h (Updated x y) c = h (Some x) (Some y) c"
| "on_event h (Deleted x) c = h (Some x) None c"
| "on_event h Synced c = c"

definition synced_handlers :: "(local_env \<Rightarrow> LocalCache \<Rightarrow> LocalCache go) list" where
  "synced_handlers = [OnServiceSynced, OnEndpointsSynced, OnIngressv1Synced, OnIngressClassv1Synced, OnServiceImportSynced]"

inductive lc_reach :: "k8s_lib \<Rightarrow> service_lister \<Rightarrow> stores \<Rightarrow> LocalCache \<Rightarrow> bool" for lib lister where
  init: "lc_reach lib lister no_objects newLocalCache"
| service:
    "lc_reach lib lister st c \<Longrightarrow> le_lib env = lib \<Longrightarrow> e \<noteq> Synced \<Longrightarrow>
     valid_event svc_nn (\<lambda>s. shouldSkipService (Some s)) e (st_services st) \<Longrightarrow>
     lc_reach lib lister (st\<lparr>st_services := store_step svc_nn e (st_services st)\<rparr>) (on_event (OnServiceUpdate env) e c)"
| endpoints:
    "lc_reach lib lister st c \<Longrightarrow> le_lib env = lib \<Longrightarrow> e \<noteq> Synced \<Longrightarrow>
     valid_event eps_nn (\<lambda>_. False) e (st_endpoints st) \<Longrightarrow>
     lc_reach lib lister (st\<lparr>st_endpoints := store_step eps_nn e (st_endpoints st)\<rparr>) (on_event (OnEndpointsUpdate env) e c)"
| service_import:
    "lc_reach lib lister st c \<Longrightarrow> le_lib env = lib \<Longrightarrow> le_serviceLister env = lister \<Longrightarrow> e \<noteq> Synced \<Longrightarrow>
     valid_event imp_nn (\<lambda>s. shouldSkipServiceImport (Some s)) e (st_imports st) \<Longrightarrow>
     lc_reach lib lister (st\<lparr>st_imports := store_step imp_nn e (st_imports st)\<rparr>) (on_event (OnServiceImportUpdate env) e c)"
| ingress: "lc_reach lib lister st c \<Longrightarrow> onIngressUpdate env prev cur c = Inr c' \<Longrightarrow> lc_reach lib lister st c'"
| class_added: "lc_reach lib lister st c \<Longrightarrow> lc_reach lib lister st (OnIngressClassv1Add cls c)"
| class_updated: "lc_reach lib lister st c \<Longrightarrow> lc_reach lib lister st (OnIngressClassv1Update cls cls' c)"
| class_deleted: "lc_reach lib lister st c \<Longrightarrow> lc_reach lib lister st (OnIngressClassv1Delete cls c)"
| synced:
    "lc_reach lib lister st c \<Longrightarrow> h \<in> set synced_handlers \<Longrightarrow> h env c = Inr c' \<Longrightarrow> lc_reach lib lister st c'"
| sync: "lc_reach lib lister st c \<Longrightarrow> syncRoutes env (c\<lparr>lc_syncRequested := False\<rparr>) = Inr c' \<Longrightarrow> lc_reach lib lister st c'"
| upload:
    "lc_reach lib lister st c \<Longrightarrow> job \<in> set (lc_jobs c) \<Longrightarrow>
     finish_job (http :: (repo_content, nat) repo_http) job (c\<lparr>lc_jobs := remove1 job (lc_jobs c)\<rparr>, w) = (c', w') \<Longrightarrow>
     lc_reach lib lister st c'"

section \<open>What a synchronisation leaves alone\<close>

lemma refreshIngress_frame:
  assumes "refreshIngress env c = Inr c'"
  shows "\<exists>im ict. c' = c\<lparr>lc_ingressMap := im, lc_ingressChanges := ict\<rparr> \<and> ict_items ict = [] \<and>
     (ing_inv (lc_ingressChanges c) (lc_ingressMap c) \<longrightarrow> ing_inv ict im)"
proof -
  let ?upd = "\<lambda>ing ict. if \<not> IsValidPipyIngress (lc_DefaultIngressClass c) ing then Inr ict
      else go_bind (IngressChangeTracker_Update (ing_env env c) None (Some ing) ict) (\<lambda>(_, ict'). Inr ict')"
  let ?ings = "case le_ingressLister env of Inl _ \<Rightarrow> [] | Inr is \<Rightarrow> is"
  obtain ict where fold: "go_fold ?upd ?ings (lc_ingressChanges c) = Inr ict"
    and c': "c' = c\<lparr>lc_ingressMap := fst (IngressMap_apply ict (lc_ingressMap c)),
                    lc_ingressChanges := snd (IngressMap_apply ict (lc_ingressMap c))\<rparr>"
    using assms by (auto simp: refreshIngress_def go_bind_Inr_iff Let_def case_prod_beta)
  have "ing_inv t' (lc_ingressMap c)"
    if "?upd ing t = Inr t'" and "ing_inv t (lc_ingressMap c)" for ing t t'
    using that ing_inv_update by (auto simp: go_bind_Inr_iff split: if_splits)
  then have "ing_inv ict (lc_ingressMap c)" if "ing_inv (lc_ingressChanges c) (lc_ingressMap c)"
    using go_fold_inv [OF fold, where P = "\<lambda>t. ing_inv t (lc_ingressMap c)"] that by blast
  then show ?thesis
    using c' ing_inv_sync [of ict "lc_ingressMap c"]
    by (fastforce simp: IngressMap_apply_simps(2) intro: prod.collapse [symmetric])
qed

lemma sync_services_frame:
  assumes "sync_services env mc c = Inr c'"
  shows "\<exists>im ict jobs. c' = c\<lparr>lc_ingressMap := im, lc_ingressChanges := ict, lc_jobs := jobs\<rparr> \<and>
     (ict_items (lc_ingressChanges c) = [] \<longrightarrow> ict_items ict = []) \<and>
     (ing_inv (lc_ingressChanges c) (lc_ingressMap c) \<longrightarrow> ing_inv ict im)"
proof (cases "lc_serviceRoutesVersion c \<noteq> sr_Hash (buildServiceRoutes env c)")
  case True
  let ?routes = "buildServiceRoutes env c"
  let ?c = "c\<lparr>lc_jobs := lc_jobs c @ [\<lparr>job_kind = ServiceJob, job_batches = serviceBatches ?routes mc, job_hash = sr_Hash ?routes\<rparr>]\<rparr>"
  from True assms have "refreshIngress env ?c = Inr c'"
    by (simp add: sync_services_def serviceBatches_def Let_def)
  from refreshIngress_frame [OF this] obtain im ict where "c' = ?c\<lparr>lc_ingressMap := im, lc_ingressChanges := ict\<rparr>"
    and "ict_items ict = []" and "ing_inv (lc_ingressChanges c) (lc_ingressMap c) \<longrightarrow> ing_inv ict im"
    by auto
  then show ?thesis
    by (intro exI [of _ im] exI [of _ ict] exI [of _ "lc_jobs ?c"]) simp
next
  case False
  with assms have "c' = c\<lparr>lc_ingressMap := lc_ingressMap c, lc_ingressChanges := lc_ingressChanges c, lc_jobs := lc_jobs c\<rparr>"
    by (simp add: sync_services_def)
  then show ?thesis by blast
qed

lemma sync_ingress_frame:
  assumes "sync_ingress env mc c = Inr c'"
  shows "\<exists>jobs. c' = c\<lparr>lc_jobs := jobs\<rparr>"
proof -
  obtain d where "buildIngressConfig env c = Inr d"
    using assms by (cases "buildIngressConfig env c") (simp_all add: sync_ingress_def)
  with assms have "c' = c \<or> c' = c\<lparr>lc_jobs := lc_jobs c' \<rparr>"
    by (cases "lc_ingressRoutesVersion c \<noteq> id_Hash d") (auto simp: sync_ingress_def ingressBatches_def Let_def)
  then show ?thesis
  proof
    assume "c' = c"
    then have "c' = c\<lparr>lc_jobs := lc_jobs c\<rparr>" by simp
    then show ?thesis ..
  qed blast
qed

lemma syncRoutes_frame:
  assumes "syncRoutes env c = Inr c'"
  shows "\<exists>im ict jobs. c' = (update_maps c)\<lparr>lc_ingressMap := im, lc_ingressChanges := ict, lc_jobs := jobs\<rparr> \<and> ict_items ict = [] \<and>
     (ing_inv (lc_ingressChanges c) (lc_ingressMap c) \<longrightarrow> ing_inv ict im)"
proof -
  obtain mc c1 where c1: "sync_services env mc (update_maps c) = Inr c1" and c': "sync_ingress env mc c1 = Inr c'"
    using assms by (auto simp: syncRoutes_def go_bind_Inr_iff)
  obtain im ict jobs where "c1 = (update_maps c)\<lparr>lc_ingressMap := im, lc_ingressChanges := ict, lc_jobs := jobs\<rparr>"
    and "ict_items ict = []"
    and inv: "ing_inv (lc_ingressChanges (update_maps c)) (lc_ingressMap (update_maps c)) \<longrightarrow> ing_inv ict im"
    using sync_services_frame [OF c1] update_maps_empties [of c] by (auto simp: trackers_empty_def)
  moreover have "ing_inv (lc_ingressChanges (update_maps c)) (lc_ingressMap (update_maps c))"
    if "ing_inv (lc_ingressChanges c) (lc_ingressMap c)"
    using ing_inv_sync [OF that, of "fst (IngressMap_apply (lc_ingressChanges c) (lc_ingressMap c))"
        "snd (IngressMap_apply (lc_ingressChanges c) (lc_ingressMap c))"]
    by (simp add: update_maps_def case_prod_beta Let_def)
  ultimately show ?thesis
    using sync_ingress_frame [OF c'] by fastforce
qed

section \<open>The invariant\<close>

definition all_synced :: "LocalCache \<Rightarrow> bool" where
  "all_synced c \<longleftrightarrow> lc_servicesSynced c \<and> lc_endpointsSynced c \<and> lc_ingressesSynced c \<and> lc_ingressClassesSynced c \<and>
     lc_serviceImportSynced c"

definition lc_inv :: "k8s_lib \<Rightarrow> service_lister \<Rightarrow> stores \<Rightarrow> LocalCache \<Rightarrow> bool" where
  "lc_inv lib lister st c \<longleftrightarrow>
     svc.tinv lib (Some enrichServiceInfo) (st_services st) (lc_serviceChanges c, lc_serviceMap c) \<and>
     eps.tinv lib None (st_endpoints st) (lc_endpointsChanges c, lc_endpointsMap c) \<and>
     imp.tinv lib lister (Some enrichServiceImportInfo) None (st_imports st) (lc_serviceImportChanges c, lc_serviceImportMap c) \<and>
     mce.tinv (Some enrichServiceImportInfo) None (st_imports st) (lc_serviceImportChanges c, lc_multiClusterEndpointsMap c) \<and>
     ing_inv (lc_ingressChanges c) (lc_ingressMap c) \<and>
     (isInitialized c \<longleftrightarrow> all_synced c)"

lemma imp_tinv_cong:
  "sict_items t' = sict_items t \<Longrightarrow> sict_wf e e' t' = sict_wf e e' t \<Longrightarrow>
   imp.tinv lib lister e e' st (t', M) = imp.tinv lib lister e e' st (t, M)"
  by (simp add: imp.tinv_def imp.agrees_def)

lemma mce_tinv_cong:
  "sict_endpointItems t' = sict_endpointItems t \<Longrightarrow> sict_wf e e' t' = sict_wf e e' t \<Longrightarrow>
   mce.tinv e e' st (t', M) = mce.tinv e e' st (t, M)"
  by (simp add: mce.tinv_def mce.agrees_def)

lemma imp_tinv_wf: "imp.tinv lib lister e e' st (t, M) \<Longrightarrow> sict_wf e e' t"
  by (simp add: imp.tinv_def)

lemma lc_inv_init: "lc_inv lib lister no_objects newLocalCache"
proof -
  have "svc.tinv lib (Some enrichServiceInfo) Map.empty (NewServiceChangeTracker (Some enrichServiceInfo), [])"
    by (rule svc.inv_initial) (simp_all add: sct_wf_def NewServiceChangeTracker_def)
  moreover have "eps.tinv lib None Map.empty (NewEndpointChangeTracker None, [])"
    by (rule eps.inv_initial) (simp_all add: ect_wf_def NewEndpointChangeTracker_def)
  moreover have "imp.tinv lib lister e e' Map.empty (NewServiceImportChangeTracker e e', [])" for e e'
    by (rule imp.inv_initial) (simp_all add: sict_wf_def NewServiceImportChangeTracker_def)
  moreover have "mce.tinv e e' Map.empty (NewServiceImportChangeTracker e e', [])" for e e'
    by (rule mce.inv_initial) (simp_all add: sict_wf_def NewServiceImportChangeTracker_def)
  moreover have "ing_inv NewIngressChangeTracker []"
    by (rule ing_reach_inv) (rule ing_reach.init)
  ultimately show ?thesis
    by (simp add: lc_inv_def newLocalCache_def no_objects_def isInitialized_def all_synced_def)
qed

lemma lc_inv_update_maps:
  assumes "lc_inv lib lister st c"
  shows "lc_inv lib lister st (update_maps c)"
proof -
  let ?s = "ServiceImportMap_apply (lc_serviceImportChanges c) (lc_serviceImportMap c)"
  let ?m = "MultiClusterEndpointsMap_apply (snd ?s) (lc_multiClusterEndpointsMap c)"
  have imp: "imp.tinv lib lister (Some enrichServiceImportInfo) None (st_imports st) (snd ?s, fst ?s)"
    using assms by (intro imp.inv_app(1)) (simp add: lc_inv_def)
  have wf: "sict_wf (Some enrichServiceImportInfo) None (lc_serviceImportChanges c)"
    using assms by (auto simp: lc_inv_def dest: imp_tinv_wf)
  have "mce.tinv (Some enrichServiceImportInfo) None (st_imports st) (snd ?s, lc_multiClusterEndpointsMap c)"
    using assms wf mce_tinv_cong [of "snd ?s" "lc_serviceImportChanges c"]
    by (simp add: lc_inv_def ServiceImportMap_apply_def sict_wf_def)
  then have "mce.tinv (Some enrichServiceImportInfo) None (st_imports st) (snd ?m, fst ?m)"
    by (rule mce.inv_app(1))
  moreover have "imp.tinv lib lister (Some enrichServiceImportInfo) None (st_imports st) (snd ?m, fst ?s)"
    using imp wf imp_tinv_cong [of "snd ?m" "snd ?s"]
    by (simp add: MultiClusterEndpointsMap_apply_simps ServiceImportMap_apply_def sict_wf_def)
  moreover have "ing_inv (snd (IngressMap_apply (lc_ingressChanges c) (lc_ingressMap c)))
      (fst (IngressMap_apply (lc_ingressChanges c) (lc_ingressMap c)))"
    using assms ing_inv_sync [OF _ prod.collapse [symmetric]] by (simp add: lc_inv_def)
  ultimately show ?thesis
    using assms svc.inv_app(1) eps.inv_app(1)
    by (simp add: lc_inv_def update_maps_def case_prod_beta Let_def isInitialized_def all_synced_def)
qed

lemma lc_inv_sync:
  assumes "lc_inv lib lister st c" and "syncRoutes env c = Inr c'"
  shows "lc_inv lib lister st c'"
proof -
  obtain im ict jobs where "c' = (update_maps c)\<lparr>lc_ingressMap := im, lc_ingressChanges := ict, lc_jobs := jobs\<rparr>"
    and "ing_inv ict im"
    using syncRoutes_frame [OF assms(2)] assms(1) by (auto simp: lc_inv_def)
  with lc_inv_update_maps [OF assms(1)] show ?thesis
    by (simp add: lc_inv_def isInitialized_def all_synced_def)
qed

section \<open>Every step keeps the invariant\<close>

lemma sync_if_fields:
  "lc_inv lib lister st (sync_if b c) = lc_inv lib lister st c"
  by (simp add: sync_if_def Sync_def lc_inv_def isInitialized_def all_synced_def)

lemma OnUpdate_eqs:
  "OnServiceUpdate env p q c =
     sync_if (fst (ServiceChangeTracker_Update (le_lib env) p q (lc_serviceChanges c)))
       (c\<lparr>lc_serviceChanges := snd (ServiceChangeTracker_Update (le_lib env) p q (lc_serviceChanges c))\<rparr>)"
  "OnEndpointsUpdate env p' q' c =
     sync_if (fst (EndpointChangeTracker_Update (le_lib env) p' q' (lc_endpointsChanges c)))
       (c\<lparr>lc_endpointsChanges := snd (EndpointChangeTracker_Update (le_lib env) p' q' (lc_endpointsChanges c))\<rparr>)"
  "OnServiceImportUpdate env p'' q'' c =
     sync_if (fst (ServiceImportChangeTracker_Update (le_lib env) (le_serviceLister env) p'' q'' (lc_serviceImportChanges c)))
       (c\<lparr>lc_serviceImportChanges :=
           snd (ServiceImportChangeTracker_Update (le_lib env) (le_serviceLister env) p'' q'' (lc_serviceImportChanges c))\<rparr>)"
  by (simp_all add: OnServiceUpdate_def OnEndpointsUpdate_def OnServiceImportUpdate_def case_prod_beta)

lemma lc_inv_service:
  assumes "lc_inv lib lister st c" and "le_lib env = lib" and "e \<noteq> Synced"
    and "valid_event svc_nn (\<lambda>s. shouldSkipService (Some s)) e (st_services st)"
  shows "lc_inv lib lister (st\<lparr>st_services := store_step svc_nn e (st_services st)\<rparr>) (on_event (OnServiceUpdate env) e c)"
proof -
  have "svc.tinv lib (Some enrichServiceInfo) (store_step svc_nn e (st_services st))
      (tracker_step (\<lambda>p q t. snd (ServiceChangeTracker_Update lib p q t)) ServiceMap_apply e (lc_serviceChanges c, lc_serviceMap c))"
    using assms(1,4) by (intro svc.inv_step) (simp_all add: lc_inv_def)
  with assms(1-3) show ?thesis
    by (cases e; simp add: OnUpdate_eqs sync_if_fields; simp add: lc_inv_def isInitialized_def all_synced_def)
qed

lemma lc_inv_endpoints:
  assumes "lc_inv lib lister st c" and "le_lib env = lib" and "e \<noteq> Synced"
    and "valid_event eps_nn (\<lambda>_. False) e (st_endpoints st)"
  shows "lc_inv lib lister (st\<lparr>st_endpoints := store_step eps_nn e (st_endpoints st)\<rparr>) (on_event (OnEndpointsUpdate env) e c)"
proof -
  have "eps.tinv lib None (store_step eps_nn e (st_endpoints st))
      (tracker_step (\<lambda>p q t. snd (EndpointChangeTracker_Update lib p q t)) EndpointsMap_apply e (lc_endpointsChanges c, lc_endpointsMap c))"
    using assms(1,4) by (intro eps.inv_step) (simp_all add: lc_inv_def)
  with assms(1-3) show ?thesis
    by (cases e; simp add: OnUpdate_eqs sync_if_fields; simp add: lc_inv_def isInitialized_def all_synced_def)
qed

lemma lc_inv_import:
  assumes "lc_inv lib lister st c" and "le_lib env = lib" and "le_serviceLister env = lister" and "e \<noteq> Synced"
    and "valid_event imp_nn (\<lambda>s. shouldSkipServiceImport (Some s)) e (st_imports st)"
  shows "lc_inv lib lister (st\<lparr>st_imports := store_step imp_nn e (st_imports st)\<rparr>) (on_event (OnServiceImportUpdate env) e c)"
proof -
  let ?upd = "\<lambda>p q t. snd (ServiceImportChangeTracker_Update lib lister p q t)"
  have "imp.tinv lib lister (Some enrichServiceImportInfo) None (store_step imp_nn e (st_imports st))
      (tracker_step ?upd ServiceImportMap_apply e (lc_serviceImportChanges c, lc_serviceImportMap c))"
    using assms(1,5) by (intro imp.inv_step) (simp_all add: lc_inv_def)
  moreover have "mce.tinv (Some enrichServiceImportInfo) None (store_step imp_nn e (st_imports st))
      (tracker_step ?upd MultiClusterEndpointsMap_apply e (lc_serviceImportChanges c, lc_multiClusterEndpointsMap c))"
    using assms(1,5) by (intro mce.inv_step) (simp_all add: lc_inv_def)
  ultimately show ?thesis
    using assms(1-4)
    by (cases e; simp add: OnUpdate_eqs sync_if_fields; simp add: lc_inv_def isInitialized_def all_synced_def)
qed

lemma lc_inv_ingress:
  assumes "lc_inv lib lister st c" and "onIngressUpdate env prev cur c = Inr c'"
  shows "lc_inv lib lister st c'"
proof -
  obtain b t where upd: "IngressChangeTracker_Update (ing_env env c) prev cur (lc_ingressChanges c) = Inr (b, t)"
    and c': "c' = sync_if b (c\<lparr>lc_ingressChanges := t\<rparr>)"
    using assms(2) by (auto simp: onIngressUpdate_def go_bind_Inr_iff)
  have "ing_inv t (lc_ingressMap c)"
    using ing_inv_update [OF _ upd] assms(1) by (simp add: lc_inv_def)
  with assms(1) show ?thesis
    by (simp add: c' sync_if_fields) (simp add: lc_inv_def isInitialized_def all_synced_def)
qed

lemma updateDefaultIngressClass_inv: "lc_inv lib lister st (updateDefaultIngressClass cls name c) = lc_inv lib lister st c"
  by (simp add: updateDefaultIngressClass_def lc_inv_def isInitialized_def all_synced_def)

lemma lc_inv_class:
  assumes "lc_inv lib lister st c"
  shows "lc_inv lib lister st (OnIngressClassv1Add cls c)" and "lc_inv lib lister st (OnIngressClassv1Update cls cls' c)"
    and "lc_inv lib lister st (OnIngressClassv1Delete cls c)"
  using assms
  by (simp_all add: OnIngressClassv1Add_def OnIngressClassv1Update_def OnIngressClassv1Delete_def updateDefaultIngressClass_inv)

definition init_flag :: "LocalCache \<Rightarrow> LocalCache" where
  "init_flag c = setInitialized (all_synced c) c"

lemma synced_handler_eqs:
  "OnServiceSynced env c = syncRoutes env (init_flag (c\<lparr>lc_servicesSynced := True\<rparr>))"
  "OnEndpointsSynced env c = syncRoutes env (init_flag (c\<lparr>lc_endpointsSynced := True\<rparr>))"
  "OnIngressv1Synced env c = syncRoutes env (init_flag (c\<lparr>lc_ingressesSynced := True\<rparr>))"
  "OnIngressClassv1Synced env c = syncRoutes env (init_flag (c\<lparr>lc_ingressClassesSynced := True\<rparr>))"
  "OnServiceImportSynced env c = syncRoutes env (init_flag (c\<lparr>lc_serviceImportSynced := True\<rparr>))"
  by (simp_all add: OnServiceSynced_def OnEndpointsSynced_def OnIngressv1Synced_def OnIngressClassv1Synced_def
      OnServiceImportSynced_def init_flag_def all_synced_def Let_def conj_ac)

lemma lc_inv_init_flag:
  assumes "lc_inv lib lister st c"
  shows "lc_inv lib lister st (init_flag (c\<lparr>lc_servicesSynced := b\<rparr>))"
    and "lc_inv lib lister st (init_flag (c\<lparr>lc_endpointsSynced := b\<rparr>))"
    and "lc_inv lib lister st (init_flag (c\<lparr>lc_ingressesSynced := b\<rparr>))"
    and "lc_inv lib lister st (init_flag (c\<lparr>lc_ingressClassesSynced := b\<rparr>))"
    and "lc_inv lib lister st (init_flag (c\<lparr>lc_serviceImportSynced := b\<rparr>))"
  using assms by (simp_all add: lc_inv_def init_flag_def setInitialized_def isInitialized_def all_synced_def)

lemma lc_inv_synced:
  assumes "lc_inv lib lister st c" and "h \<in> set synced_handlers" and "h env c = Inr c'"
  shows "lc_inv lib lister st c'"
proof -
  note inits = lc_inv_init_flag [OF assms(1), of True]
  from assms(2) consider "h = OnServiceSynced" | "h = OnEndpointsSynced" | "h = OnIngressv1Synced"
    | "h = OnIngressClassv1Synced" | "h = OnServiceImportSynced"
    unfolding synced_handlers_def by auto
  then show ?thesis
    by cases (use assms(3) in \<open>simp only: synced_handler_eqs\<close>, erule lc_inv_sync [rotated], rule inits)+
qed

lemma lc_inv_upload:
  assumes "lc_inv lib lister st c" and "finish_job http job (c\<lparr>lc_jobs := js\<rparr>, w) = (c', w')"
  shows "lc_inv lib lister st c'"
  using assms
  by (auto simp: finish_job_def lc_inv_def isInitialized_def all_synced_def split: prod.splits sum.splits job_kind.splits)

lemma lc_reach_inv: "lc_reach lib lister st c \<Longrightarrow> lc_inv lib lister st c"
proof (induction rule: lc_reach.induct)
  case (sync st c env c')
  then have "lc_inv lib lister st (c\<lparr>lc_syncRequested := False\<rparr>)"
    by (simp add: lc_inv_def isInitialized_def all_synced_def)
  then show ?case using sync lc_inv_sync by blast
qed (fact lc_inv_init | (rule lc_inv_service lc_inv_endpoints lc_inv_import lc_inv_class; assumption) |
     (erule (2) lc_inv_synced) | (erule (1) lc_inv_ingress) | (erule (1) lc_inv_upload))+

section \<open>What is published\<close>

text \<open>The addresses a service port should have, read off the stored objects: those of its Endpoints
  when the Service is of type ClusterIP, has an IPv4 cluster IP and has this port, followed by the
  endpoints in other clusters that a ServiceImport of the same name lists for it.\<close>

definition published :: "k8s_lib \<Rightarrow> stores \<Rightarrow> ServicePortName \<Rightarrow> string list" where
  "published lib st k =
     (let n = spn_NamespacedName k in
      (case st_services st n of
         None \<Rightarrow> []
       | Some s \<Rightarrow>
           if ssp_Type (svc_Spec s) = ServiceTypeClusterIP \<and> GetClusterIPByFamily lib IPv4Protocol s \<noteq> [] \<and>
              k \<in> svcPortName_of s ` set (ssp_Ports (svc_Spec s))
           then (case st_endpoints st n of None \<Rightarrow> [] | Some e \<Rightarrow> map bei_Endpoint (eps_list lib None e k))
           else []) @
      (case st_imports st n of None \<Rightarrow> [] | Some i \<Rightarrow> map bei_Endpoint (imp_eps None i k)))"

lemma service_look:
  assumes "gm_look (serviceToServiceMap lib (NewServiceChangeTracker (Some enrichServiceInfo)) (Some s)) k = Some info"
  shows "\<exists>p b. p \<in> set (ssp_Ports (svc_Spec s)) \<and> k = svcPortName_of s p \<and> newBaseServiceInfo lib p s = Some b \<and>
     info = enrichServiceInfo p s b \<and> GetClusterIPByFamily lib IPv4Protocol s \<noteq> []"
  using assms
  by (auto simp: serviceToServiceMap_Some gget_add_entries NewServiceChangeTracker_def svc_entry_def
      split: option.splits if_splits dest!: find_SomeD)

lemma service_look_ClusterIP:
  assumes "ssp_Type (svc_Spec s) = ServiceTypeClusterIP"
  shows "gm_look (serviceToServiceMap lib (NewServiceChangeTracker (Some enrichServiceInfo)) (Some s)) k \<noteq> None \<longleftrightarrow>
     GetClusterIPByFamily lib IPv4Protocol s \<noteq> [] \<and> k \<in> svcPortName_of s ` set (ssp_Ports (svc_Spec s))"
  using assms
  by (auto simp: serviceToServiceMap_Some gget_add_entries NewServiceChangeTracker_def svc_entry_def find_None_iff
      newBaseServiceInfo_def Let_def split: option.splits dest!: find_SomeD)

lemma import_look:
  assumes "gm_look (serviceImportToServiceMap lib lister (NewServiceImportChangeTracker (Some enrichServiceImportInfo) e') (Some i)) k = Some info"
  shows "\<exists>p b. p \<in> set (sis_Ports (imp_Spec i)) \<and> k = imp_spn i p \<and> newBaseServiceImportInfo lib lister p i = Some b \<and>
     info = enrichServiceImportInfo p i b"
  using assms
  by (auto simp: serviceImportToServiceMap_Some gget_add_entries NewServiceImportChangeTracker_def imp_entry_def
      split: option.splits if_splits dest!: find_SomeD)

lemma import_look_iff:
  "gm_look (serviceImportToServiceMap lib lister (NewServiceImportChangeTracker (Some enrichServiceImportInfo) e') (Some i)) k \<noteq> None \<longleftrightarrow>
   k \<in> imp_spn i ` set (sis_Ports (imp_Spec i))"
  by (auto simp: serviceImportToServiceMap_Some gget_add_entries NewServiceImportChangeTracker_def imp_entry_def find_None_iff
      newBaseServiceImportInfo_def Let_def split: option.splits dest!: find_SomeD)

lemma synced_maps:
  assumes "lc_inv lib lister st c"
  shows "gget (lc_serviceMap (update_maps c)) k =
      flatten (\<lambda>s. serviceToServiceMap lib (NewServiceChangeTracker (Some enrichServiceInfo)) (Some s))
        (\<lambda>s. shouldSkipService (Some s)) spn_NamespacedName (st_services st) k"
    and "gget (lc_endpointsMap (update_maps c)) k =
      flatten (\<lambda>s. endpointsToEndpointsMap lib (NewEndpointChangeTracker None) (Some s))
        (\<lambda>_. False) spn_NamespacedName (st_endpoints st) k"
    and "gget (lc_serviceImportMap (update_maps c)) k =
      flatten (\<lambda>s. serviceImportToServiceMap lib lister (NewServiceImportChangeTracker (Some enrichServiceImportInfo) None) (Some s))
        (\<lambda>s. shouldSkipServiceImport (Some s)) spn_NamespacedName (st_imports st) k"
    and "gget (lc_multiClusterEndpointsMap (update_maps c)) k =
      flatten (\<lambda>s. importEndpointsToEndpointsMap (NewServiceImportChangeTracker (Some enrichServiceImportInfo) None) (Some s))
        (\<lambda>s. shouldSkipServiceImport (Some s)) spn_NamespacedName (st_imports st) k"
proof -
  let ?u = "update_maps c"
  have inv: "lc_inv lib lister st ?u" using assms by (rule lc_inv_update_maps)
  show "gget (lc_serviceMap (update_maps c)) k =
      flatten (\<lambda>s. serviceToServiceMap lib (NewServiceChangeTracker (Some enrichServiceInfo)) (Some s))
        (\<lambda>s. shouldSkipService (Some s)) spn_NamespacedName (st_services st) k"
    using assms svc.inv_app(2) by (simp add: lc_inv_def update_maps_def case_prod_beta Let_def)
  show "gget (lc_endpointsMap (update_maps c)) k =
      flatten (\<lambda>s. endpointsToEndpointsMap lib (NewEndpointChangeTracker None) (Some s))
        (\<lambda>_. False) spn_NamespacedName (st_endpoints st) k"
    using assms eps.inv_app(2) by (simp add: lc_inv_def update_maps_def case_prod_beta Let_def)
  show "gget (lc_serviceImportMap (update_maps c)) k =
      flatten (\<lambda>s. serviceImportToServiceMap lib lister (NewServiceImportChangeTracker (Some enrichServiceImportInfo) None) (Some s))
        (\<lambda>s. shouldSkipServiceImport (Some s)) spn_NamespacedName (st_imports st) k"
    using assms imp.inv_app(2) by (simp add: lc_inv_def update_maps_def case_prod_beta Let_def)
  show "gget (lc_multiClusterEndpointsMap (update_maps c)) k =
      flatten (\<lambda>s. importEndpointsToEndpointsMap (NewServiceImportChangeTracker (Some enrichServiceImportInfo) None) (Some s))
        (\<lambda>s. shouldSkipServiceImport (Some s)) spn_NamespacedName (st_imports st) k"
    using mce.inv_app(2) [of "Some enrichServiceImportInfo" None "st_imports st" "lc_serviceImportChanges ?u"] inv update_maps_empties [of c]
    by (simp add: lc_inv_def trackers_empty_def MultiClusterEndpointsMap_apply_simps)
qed

lemma entry_names:
  assumes "lc_inv lib lister st c" and "r \<in> set (service_entry (update_maps c) n @ import_entry (update_maps c) n)"
  shows "lc_servicePortName r = ServicePortName_String n"
proof -
  have svc: "nn_String (si_svcName i) @ fmtPortName (bsi_portName (si_BaseServiceInfo i)) = ServicePortName_String n"
    if "gget (lc_serviceMap (update_maps c)) n = Some (PortService i)" for i
    using that assms(1)
    by (auto simp: synced_maps flatten_def enrichServiceInfo_def newBaseServiceInfo_def svcPortName_of_def
        ServicePortName_String_def Let_def split: option.splits if_splits dest!: service_look)
  have imp: "nn_String (sii_svcName i) @ fmtPortName (bsi_portName (sii_BaseServiceInfo i)) = ServicePortName_String n"
    if "gget (lc_serviceImportMap (update_maps c)) n = Some (PortImport i)" for i
    using that assms(1)
    by (auto simp: synced_maps flatten_def enrichServiceImportInfo_def newBaseServiceImportInfo_def imp_spn_def
        ServicePortName_String_def Let_def split: option.splits if_splits dest!: import_look)
  from assms(2) show ?thesis
    using svc imp
    by (auto simp: service_entry_def import_entry_def lc_servicePortName_def nn_String_def Let_def
        split: option.splits PortInfo.splits if_splits)
qed

lemma concat_single:
  assumes "distinct ns" and "\<And>n. n \<in> set ns \<Longrightarrow> P n \<longleftrightarrow> n = k"
  shows "concat (map (\<lambda>n. if P n then f n else []) ns) = (if k \<in> set ns then f k else [])"
proof -
  have "map (\<lambda>n. if P n then f n else []) ns = map (\<lambda>n. if n = k then f n else []) ns"
    by (rule map_cong) (simp_all only: assms(2))
  moreover have "concat (map (\<lambda>n. if n = k then f n else []) ns) = (if k \<in> set ns then f k else [])"
    using assms(1) by (induction ns) auto
  ultimately show ?thesis by (simp only:)
qed

lemma fold_append: "fold (\<lambda>n rs. rs @ f n) ns acc = acc @ concat (map f ns)"
  by (induction ns arbitrary: acc) simp_all

lemma entry_addresses:
  assumes "lc_inv lib lister st c"
    and ext: "\<And>n s. st_services st n = Some s \<Longrightarrow> ssp_Type (svc_Spec s) = ServiceTypeExternalName \<Longrightarrow>
      GetClusterIPByFamily lib IPv4Protocol s = []"
  shows "concat (map addresses (service_entry (update_maps c) k @ import_entry (update_maps c) k)) = published lib st k"
proof -
  let ?n = "spn_NamespacedName k" and ?u = "update_maps c"
  have eps: "gslice (lc_endpointsMap ?u) k =
      (case st_endpoints st ?n of None \<Rightarrow> [] | Some e \<Rightarrow> eps_list lib None e k)"
    by (simp add: gslice_def synced_maps [OF assms(1)] flatten_def endpointsToEndpointsMap_look
        NewEndpointChangeTracker_def split: option.split)
  have mce: "gslice (lc_multiClusterEndpointsMap ?u) k =
      (case st_imports st ?n of None \<Rightarrow> [] | Some i \<Rightarrow> imp_eps None i k)"
    by (simp add: gslice_def synced_maps [OF assms(1)] flatten_def importEndpoints_look shouldSkipServiceImport_def
        NewServiceImportChangeTracker_def split: option.split)
  have "concat (map addresses (service_entry ?u k)) =
      (case st_services st ?n of None \<Rightarrow> [] | Some s \<Rightarrow>
         if ssp_Type (svc_Spec s) = ServiceTypeClusterIP \<and> GetClusterIPByFamily lib IPv4Protocol s \<noteq> [] \<and>
            k \<in> svcPortName_of s ` set (ssp_Ports (svc_Spec s))
         then map bei_Endpoint (gslice (lc_endpointsMap ?u) k) else [])" (is "?lhs = ?rhs")
  proof (cases "gget (lc_serviceMap ?u) k")
    case None
    have "\<not> (ssp_Type (svc_Spec s) = ServiceTypeClusterIP \<and> GetClusterIPByFamily lib IPv4Protocol s \<noteq> [] \<and>
        k \<in> svcPortName_of s ` set (ssp_Ports (svc_Spec s)))" if "st_services st ?n = Some s" for s
      using None that service_look_ClusterIP [of s lib k]
      by (auto simp: synced_maps [OF assms(1)] flatten_def shouldSkipService_def split: if_splits)
    with None show ?thesis
      by (simp add: service_entry_def split: option.split) blast
  next
    case (Some info)
    then obtain s p b where s: "st_services st ?n = Some s" and "k = svcPortName_of s p" and "p \<in> set (ssp_Ports (svc_Spec s))"
      and b: "newBaseServiceInfo lib p s = Some b" and info: "info = enrichServiceInfo p s b" 
      and "GetClusterIPByFamily lib IPv4Protocol s \<noteq> []"
      by (auto simp: synced_maps [OF assms(1)] flatten_def split: option.splits if_splits dest!: service_look)
    moreover from this have "ssp_Type (svc_Spec s) = ServiceTypeClusterIP"
      using ext [OF s] by (auto simp: newBaseServiceInfo_def Let_def split: if_splits)
    ultimately show ?thesis
      using Some by (simp add: service_entry_def enrichServiceInfo_def addresses_def service_targets_def comp_def)
  qed
  moreover have "concat (map addresses (import_entry ?u k)) =
      (case st_imports st ?n of None \<Rightarrow> [] | Some i \<Rightarrow> map bei_Endpoint (imp_eps None i k))"
  proof (cases "gget (lc_serviceImportMap ?u) k")
    case None
    have "imp_eps None i k = []" if "st_imports st ?n = Some i" for i
    proof -
      have "k \<notin> imp_spn i ` set (sis_Ports (imp_Spec i))"
        using None that import_look_iff [of lib lister None i k]
        by (simp add: synced_maps [OF assms(1)] flatten_def shouldSkipServiceImport_def)
      then show ?thesis by (auto simp: imp_eps_def)
    qed
    with None show ?thesis by (simp add: import_entry_def split: option.split)
  next
    case (Some info)
    then obtain i p b where "st_imports st ?n = Some i" and "info = enrichServiceImportInfo p i b"
      by (auto simp: synced_maps [OF assms(1)] flatten_def split: option.splits if_splits dest!: import_look)
    with Some mce show ?thesis
      by (simp add: import_entry_def enrichServiceImportInfo_def addresses_def import_targets_def comp_def)
  qed
  ultimately show ?thesis
    by (simp add: published_def Let_def eps split: option.split)
qed

lemma registry_published:
  assumes "lc_inv lib lister st c"
    and "\<And>n s. st_services st n = Some s \<Longrightarrow> ssp_Type (svc_Spec s) = ServiceTypeExternalName \<Longrightarrow>
      GetClusterIPByFamily lib IPv4Protocol s = []"
    and slice: "\<And>ns. distinct ns \<Longrightarrow> distinct (le_ToSlice env ns) \<and> set (le_ToSlice env ns) = set ns"
    and only: "\<And>n. n \<in> set (map fst (lc_serviceMap (update_maps c)) @ map fst (lc_serviceImportMap (update_maps c))) \<Longrightarrow>
      ServicePortName_String n = ServicePortName_String k \<Longrightarrow> n = k"
  shows "gslice (service_registry (sr_Routes (buildServiceRoutes env (update_maps c)))) (ServicePortName_String k) = published lib st k"
proof -
  let ?u = "update_maps c" and ?name = "ServicePortName_String k"
  let ?entries = "\<lambda>n. service_entry ?u n @ import_entry ?u n"
  define keys where "keys = remdups (map fst (lc_serviceMap ?u) @ map fst (lc_serviceImportMap ?u))"
  define ns where "ns = le_ToSlice env keys"
  have ns: "distinct ns" "set ns = set keys" using slice [of keys] by (simp_all add: ns_def keys_def)
  have routes: "sr_Routes (buildServiceRoutes env ?u) = concat (map ?entries ns)"
    by (simp add: buildServiceRoutes_def Let_def fold_append ns_def keys_def)
  have filt: "filter (\<lambda>r. lc_servicePortName r = ?name) (?entries n) =
      (if ServicePortName_String n = ?name then ?entries n else [])" for n
    using entry_names [OF assms(1), of _ n] by (auto intro!: filter_True filter_False)
  have "filter (\<lambda>r. lc_servicePortName r = ?name) (concat (map ?entries ns)) =
      concat (map (\<lambda>n. if ServicePortName_String n = ?name then ?entries n else []) ns)"
    by (simp only: filter_concat map_map comp_def filt)
  also have "\<dots> = (if k \<in> set ns then ?entries k else [])"
    by (rule concat_single [OF ns(1)]) (use only ns(2) in \<open>auto simp: keys_def\<close>)
  also have "\<dots> = ?entries k"
  proof (cases "k \<in> set ns")
    case False
    then have "gget (lc_serviceMap ?u) k = None" and "gget (lc_serviceImportMap ?u) k = None"
      by (auto simp: ns(2) keys_def map_of_eq_None_iff)
    with False show ?thesis by (simp add: service_entry_def import_entry_def)
  qed simp
  finally have "filter (\<lambda>r. lc_servicePortName r = ?name) (concat (map ?entries ns)) = ?entries k" .
  moreover have "concat (map addresses (?entries k)) = published lib st k"
    by (rule entry_addresses [OF assms(1)]) (rule assms(2))
  ultimately show ?thesis
    by (simp only: service_registry_def registry_fold(1) routes gslice_simps append_Nil)
qed

section \<open>The jobs a synchronisation starts\<close>

definition service_job :: "local_env \<Rightarrow> MeshConfig \<Rightarrow> LocalCache \<Rightarrow> route_job" where
  "service_job env mc c =
     (let routes = buildServiceRoutes env c
      in \<lparr>job_kind = ServiceJob, job_batches = serviceBatches routes mc, job_hash = sr_Hash routes\<rparr>)"

definition ingress_job :: "MeshConfig \<Rightarrow> IngressData \<Rightarrow> route_job" where
  "ingress_job mc d = \<lparr>job_kind = IngressJob, job_batches = ingressBatches d mc, job_hash = id_Hash d\<rparr>"

lemma buildServiceRoutes_cong:
  "lc_serviceMap c' = lc_serviceMap c \<Longrightarrow> lc_endpointsMap c' = lc_endpointsMap c \<Longrightarrow>
   lc_serviceImportMap c' = lc_serviceImportMap c \<Longrightarrow> lc_multiClusterEndpointsMap c' = lc_multiClusterEndpointsMap c \<Longrightarrow>
   buildServiceRoutes env c' = buildServiceRoutes env c"
  unfolding buildServiceRoutes_def service_entry_def import_entry_def by (simp only:)

lemma buildIngressConfig_cong:
  assumes "lc_ingressMap c' = lc_ingressMap c" and "lc_endpointsMap c' = lc_endpointsMap c"
  shows "buildIngressConfig env c' = buildIngressConfig env c"
proof -
  have "add_route lib c' = add_route lib c" for lib
    using assms(2) by (intro ext) (simp add: add_route_def route_spec_def)
  then show ?thesis using assms(1) by (simp add: buildIngressConfig_def)
qed

lemma syncRoutes_jobs:
  assumes "syncRoutes env c = Inr c'"
  obtains mc d im ict where "le_meshConfig env = Inr mc" and "buildIngressConfig env c' = Inr d" and "ict_items ict = []"
    and "c' = (update_maps c)\<lparr>lc_ingressMap := im, lc_ingressChanges := ict,
      lc_jobs := lc_jobs c @
        (if lc_serviceRoutesVersion c \<noteq> sr_Hash (buildServiceRoutes env (update_maps c)) then [service_job env mc (update_maps c)] else []) @
        (if lc_ingressRoutesVersion c \<noteq> id_Hash d then [ingress_job mc d] else [])\<rparr>"
proof -
  let ?u = "update_maps c"
  let ?js = "if lc_serviceRoutesVersion c \<noteq> sr_Hash (buildServiceRoutes env ?u) then [service_job env (projr (le_meshConfig env)) ?u] else []"
  have u: "lc_jobs ?u = lc_jobs c" "lc_serviceRoutesVersion ?u = lc_serviceRoutesVersion c"
    "lc_ingressRoutesVersion ?u = lc_ingressRoutesVersion c" "ict_items (lc_ingressChanges ?u) = []"
    using update_maps_empties [of c] by (simp_all add: update_maps_def trackers_empty_def case_prod_beta Let_def)
  obtain mc c1 where mc: "le_meshConfig env = Inr mc" and c1: "sync_services env mc ?u = Inr c1" and c': "sync_ingress env mc c1 = Inr c'"
    using assms by (auto simp: syncRoutes_def go_bind_Inr_iff)
  obtain im ict where c1_eq: "c1 = ?u\<lparr>lc_ingressMap := im, lc_ingressChanges := ict, lc_jobs := lc_jobs c @ ?js\<rparr>" and ict: "ict_items ict = []"
  proof (cases "lc_serviceRoutesVersion c \<noteq> sr_Hash (buildServiceRoutes env ?u)")
    case True
    with c1 u mc have "refreshIngress env (?u\<lparr>lc_jobs := lc_jobs c @ ?js\<rparr>) = Inr c1"
      by (simp add: sync_services_def service_job_def serviceBatches_def Let_def)
    from refreshIngress_frame [OF this] obtain im ict
      where "c1 = ?u\<lparr>lc_jobs := lc_jobs c @ ?js, lc_ingressMap := im, lc_ingressChanges := ict\<rparr>" and "ict_items ict = []"
      by blast
    with that [of ict im] show ?thesis by (simp split del: if_split)
  next
    case False
    with c1 u have "c1 = ?u" by (simp add: sync_services_def)
    with False u that [of "lc_ingressChanges ?u" "lc_ingressMap ?u"] show ?thesis by simp
  qed
  obtain d where d: "buildIngressConfig env c1 = Inr d"
    using c' by (cases "buildIngressConfig env c1") (simp_all add: sync_ingress_def)
  have c'_eq: "c' = c1\<lparr>lc_jobs := lc_jobs c1 @ (if lc_ingressRoutesVersion c \<noteq> id_Hash d then [ingress_job mc d] else [])\<rparr>"
    using c' d c1_eq u
    by (cases "lc_ingressRoutesVersion c \<noteq> id_Hash d") (simp_all add: sync_ingress_def ingressBatches_def ingress_job_def Let_def)
  then have d': "buildIngressConfig env c' = Inr d"
    using d by (subst buildIngressConfig_cong [of c' c1]) simp_all
  have projr: "projr (le_meshConfig env) = mc" by (simp add: mc)
  show ?thesis
    by (rule that [OF mc d' ict, of im]) (unfold c'_eq c1_eq projr, simp split del: if_split)
qed

section \<open>Properties\<close>


definition demo_stores :: stores where
  "demo_stores = \<lparr>st_services = [nn ''default'' ''web'' \<mapsto> demo_svc ServiceTypeClusterIP [demo_port ''http'' 80]],
     st_endpoints = [nn ''default'' ''web'' \<mapsto> demo_eps [''10.1.0.1'']], st_imports = Map.empty\<rparr>"

definition demo_run :: LocalCache where
  "demo_run = on_event (OnEndpointsUpdate demo_local_env) (Added (demo_eps [''10.1.0.1'']))
     (on_event (OnServiceUpdate demo_local_env) (Added (demo_svc ServiceTypeClusterIP [demo_port ''http'' 80])) newLocalCache)"

abbreviation demo_lister :: service_lister where
  "demo_lister \<equiv> \<lambda>_ _. Inl NotFound"

lemma demo_reach: "lc_reach (le_lib demo_local_env) demo_lister demo_stores demo_run"
proof -
  let ?svc = "Added (demo_svc ServiceTypeClusterIP [demo_port ''http'' 80])"
  let ?eps = "Added (demo_eps [''10.1.0.1''])"
  let ?st = "no_objects\<lparr>st_services := store_step svc_nn ?svc (st_services no_objects)\<rparr>"
  have "lc_reach (le_lib demo_local_env) demo_lister ?st (on_event (OnServiceUpdate demo_local_env) ?svc newLocalCache)"
    by (rule lc_reach.service [OF lc_reach.init refl]) (simp_all add: no_objects_def)
  then have "lc_reach (le_lib demo_local_env) demo_lister (?st\<lparr>st_endpoints := store_step eps_nn ?eps (st_endpoints ?st)\<rparr>) demo_run"
    unfolding demo_run_def by (rule lc_reach.endpoints [OF _ refl]) (simp_all add: no_objects_def)
  moreover have "?st\<lparr>st_endpoints := store_step eps_nn ?eps (st_endpoints ?st)\<rparr> = demo_stores"
    by (simp add: demo_stores_def no_objects_def demo_svc_def demo_eps_def svc_nn_def eps_nn_def nn_of_meta_def named_meta_def)
  ultimately show ?thesis by simp
qed

lemma demo_sync:
  assumes "lc_ingressMap c = []" and "ict_items (lc_ingressChanges c) = []"
  shows "\<exists>c'. syncRoutes demo_local_env c = Inr c'"
proof -
  have "lc_ingressMap (update_maps c) = []" and "ict_items (lc_ingressChanges (update_maps c)) = []"
    using assms update_maps_empties [of c]
    by (simp_all add: update_maps_def trackers_empty_def case_prod_beta Let_def IngressMap_apply_simps)
  then show ?thesis
    by (simp add: syncRoutes_def demo_local_env_def sync_services_def sync_ingress_def refreshIngress_def buildIngressConfig_def
        IngressMap_apply_simps case_prod_beta Let_def)
qed

lemma demo_addresses:
  "eps_list (le_lib demo_local_env) None (demo_eps [''10.1.0.1'']) demo_spn = [newBaseEndpointInfo ''10.1.0.1'' 8080 [] []]"
  by (simp add: eps_list_def demo_eps_def eps_spn_def eps_nn_def nn_of_meta_def named_meta_def address_ok_def demo_local_env_def demo_env_def
      demo_lib_def nodename_def enrich_endpoint_def net_eval)

lemma demo_service_ok:
  "GetClusterIPByFamily (le_lib demo_local_env) IPv4Protocol (demo_svc ServiceTypeClusterIP ports) = ''10.0.0.1''"
  "svcPortName_of (demo_svc ty ports) (demo_port ''http'' 80) = demo_spn"
  "ssp_Type (svc_Spec (demo_svc ty ports)) = ty" "ssp_Ports (svc_Spec (demo_svc ty ports)) = ports"
  by (simp_all add: demo_local_env_def demo_env_def demo_defs svcPortName_of_def)

lemma demo_published: "published (le_lib demo_local_env) demo_stores demo_spn = [''10.1.0.1:8080'']"
  by (simp add: published_def demo_stores_def demo_service_ok demo_addresses demo_endpoint)




text \<open>All uploads in flight end, in the order they were started.\<close>

definition finish_all :: "(repo_content, 'w) repo_http \<Rightarrow> LocalCache \<Rightarrow> 'w \<Rightarrow> LocalCache \<times> 'w" where
  "finish_all http c w = fold (finish_job http) (lc_jobs c) (c\<lparr>lc_jobs := []\<rparr>, w)"

lemma finish_job_ok:
  assumes "repo_Batch http (job_batches job) w = (Inr (), w')"
  shows "finish_job http job (c, w) =
    (if job_kind job = ServiceJob then c\<lparr>lc_serviceRoutesVersion := job_hash job\<rparr> else c\<lparr>lc_ingressRoutesVersion := job_hash job\<rparr>, w')"
  using assms by (simp add: finish_job_def split: job_kind.split)

lemma finish_service:
  assumes "job_kind job = ServiceJob" and "lc_serviceRoutesVersion c \<noteq> job_hash job \<Longrightarrow> \<exists>w'. repo_Batch http (job_batches job) w = (Inr (), w')"
  shows "\<exists>w'. fold (finish_job http) (if lc_serviceRoutesVersion c \<noteq> job_hash job then [job] else []) (c, w) =
     (c\<lparr>lc_serviceRoutesVersion := job_hash job\<rparr>, w')"
proof (cases "lc_serviceRoutesVersion c = job_hash job")
  case True
  then have "c\<lparr>lc_serviceRoutesVersion := job_hash job\<rparr> = c" by (cases c) simp
  with True show ?thesis by simp
next
  case False
  with assms show ?thesis by (auto simp: finish_job_ok)
qed

lemma finish_ingress:
  assumes "job_kind job = IngressJob" and "lc_ingressRoutesVersion c \<noteq> job_hash job \<Longrightarrow> \<exists>w'. repo_Batch http (job_batches job) w = (Inr (), w')"
  shows "\<exists>w'. fold (finish_job http) (if lc_ingressRoutesVersion c \<noteq> job_hash job then [job] else []) (c, w) =
     (c\<lparr>lc_ingressRoutesVersion := job_hash job\<rparr>, w')"
proof (cases "lc_ingressRoutesVersion c = job_hash job")
  case True
  then have "c\<lparr>lc_ingressRoutesVersion := job_hash job\<rparr> = c" by (cases c) simp
  with True show ?thesis by simp
next
  case False
  with assms show ?thesis by (auto simp: finish_job_ok)
qed

lemma sync_settled:
  assumes "trackers_empty c" and "le_meshConfig env = Inr mc" and "buildIngressConfig env c = Inr d"
    and "lc_serviceRoutesVersion c = sr_Hash (buildServiceRoutes env c)" and "lc_ingressRoutesVersion c = id_Hash d"
  shows "syncRoutes env c = Inr c"
  using assms by (simp add: syncRoutes_def update_maps_idle sync_services_def sync_ingress_def)


text \<open>A repository that accepts every request.\<close>

definition accept_all :: "(repo_content, unit) repo_http" where
  "accept_all req w = (Inr (ok_response 7), w)"

lemma accept_all_Batch: "repo_Batch accept_all batches w = (Inr (), w)"
proof -
  have "upload_items accept_all batch items w = (Inr (), w)" for batch items
    by (induction items) (simp_all add: upsertFile_def accept_all_def ok_response_def)
  then have "batch_one accept_all batch w = (Inr (), w)" for batch
    by (simp add: batch_one_def batch_version_def isCodebaseExists_def repo_commit_def accept_all_def ok_response_def mk_Codebase_def)
  then show ?thesis by (induction batches) simp_all
qed


end
