(* ===== verification/Event_Broker.thy ===== *)
theory Event_Broker
  imports Mesh_Config
begin

text \<open>
  \<open>pkg/event\<close> and the cache of a remote cluster (\<open>pkg/cache/remote_cache.go\<close>,
  \<open>pkg/cache/serviceexport_eventhandler.go\<close>): the messages about exported services, the broker that
  passes them on, and the handlers that put them in.

  The queue of the broker is a rate-limiting queue of client-go: an item becomes available after a
  delay of its own, so the processor takes any of the items that have been added, not the oldest. The bus
  is a parameter, the function that publishes a message under a topic.
\<close>

section \<open>Messages\<close>

datatype EventType = ServiceExportCreated | ServiceExportDeleted | ServiceExportAccepted | ServiceExportRejected

fun topic :: "EventType \<Rightarrow> string" where
  "topic ServiceExportCreated = ''service.export.created''"
| "topic ServiceExportDeleted = ''service.export.deleted''"
| "topic ServiceExportAccepted = ''service.export.accepted''"
| "topic ServiceExportRejected = ''service.export.rejected''"

record ServiceExportEvent =
  sev_Geo :: ConnectorConfig
  sev_ServiceExport :: ServiceExport
  sev_Service :: Service
  sev_Error :: string

definition ClusterKey :: "ServiceExportEvent \<Rightarrow> string" where
  "ClusterKey e = con_key (sev_Geo e)"

text \<open>The two objects of a message are interfaces that hold a pointer to an event or nothing.\<close>

record Message =
  msg_Kind :: EventType
  msg_OldObj :: "ServiceExportEvent option"
  msg_NewObj :: "ServiceExportEvent option"

section \<open>The broker\<close>

record 'b Broker =
  br_queue :: "Message list"
  br_messageBus :: 'b

type_synonym 'b publish = "Message \<Rightarrow> string \<Rightarrow> 'b \<Rightarrow> 'b"

definition NewBroker :: "'b \<Rightarrow> 'b Broker" where
  "NewBroker bus = \<lparr>br_queue = [], br_messageBus = bus\<rparr>"

definition Enqueue :: "Message \<Rightarrow> 'b Broker \<Rightarrow> 'b Broker" where
  "Enqueue msg b = b\<lparr>br_queue := br_queue b @ [msg]\<rparr>"

definition broker_processEvent :: "'b publish \<Rightarrow> Message \<Rightarrow> 'b Broker \<Rightarrow> 'b Broker" where
  "broker_processEvent pub msg b = b\<lparr>br_messageBus := pub msg (topic (msg_Kind msg)) (br_messageBus b)\<rparr>"

text \<open>\<open>processNextItem\<close>; \<open>got\<close> is what \<open>Get\<close> returns: the place of an item in the queue, or nothing
  when the queue has been shut down. \<open>Done\<close> and \<open>Forget\<close> only tell the queue that the item
  may be added again.\<close>

definition processNextItem :: "'b publish \<Rightarrow> nat option \<Rightarrow> 'b Broker \<Rightarrow> bool \<times> 'b Broker" where
  "processNextItem pub got b =
     (case got of
        None \<Rightarrow> (False, b)
      | Some i \<Rightarrow>
          (True, broker_processEvent pub (br_queue b ! i)
                   (b\<lparr>br_queue := take i (br_queue b) @ drop (Suc i) (br_queue b)\<rparr>)))"

section \<open>The cache of a remote cluster\<close>

record RemoteCache =
  rc_connectorConfig :: ConnectorConfig
  rc_serviceExportSynced :: bool
  rc_initialized :: int

definition newRemoteCache :: "ConnectorConfig \<Rightarrow> RemoteCache" where
  "newRemoteCache cfg = \<lparr>rc_connectorConfig = cfg, rc_serviceExportSynced = False, rc_initialized = 0\<rparr>"

definition rc_setInitialized :: "bool \<Rightarrow> RemoteCache \<Rightarrow> RemoteCache" where
  "rc_setInitialized v c = c\<lparr>rc_initialized := (if v then 1 else 0)\<rparr>"

definition OnServiceExportSynced :: "RemoteCache \<Rightarrow> RemoteCache" where
  "OnServiceExportSynced c =
     (let c = c\<lparr>rc_serviceExportSynced := True\<rparr> in rc_setInitialized (rc_serviceExportSynced c) c)"

text \<open>What the handlers read: the mesh configuration of the remote cluster and its Services.\<close>

record remote_env =
  re_meshConfig :: "MeshConfig go"
  re_getService :: "string \<Rightarrow> string \<Rightarrow> Service result"

definition rc_getService :: "remote_env \<Rightarrow> RemoteCache \<Rightarrow> ServiceExport \<Rightarrow> Service result" where
  "rc_getService env c export =
     (case re_getService env (meta_Namespace (exp_Meta export)) (meta_Name (exp_Meta export)) of
        Inl err \<Rightarrow> Inl err
      | Inr svc \<Rightarrow>
          if ssp_Type (svc_Spec svc) = ServiceTypeExternalName
          then Inl (Errorf (''['' @ con_key (rc_connectorConfig c) @ ''] ExternalName service '' @
                      meta_Namespace (exp_Meta export) @ ''/'' @ meta_Name (exp_Meta export) @ '' cannot be exported''))
          else Inr svc)"

definition export_event :: "RemoteCache \<Rightarrow> ServiceExport \<Rightarrow> Service \<Rightarrow> ServiceExportEvent" where
  "export_event c export svc =
     \<lparr>sev_Geo = rc_connectorConfig c, sev_ServiceExport = export, sev_Service = svc, sev_Error = []\<rparr>"

definition rc_OnUpdate :: "remote_env \<Rightarrow> RemoteCache \<Rightarrow> ServiceExport \<Rightarrow> 'b Broker \<Rightarrow> 'b Broker go" where
  "rc_OnUpdate env c export b =
     go_bind (re_meshConfig env) (\<lambda>mc.
       if \<not> mc_IsManaged mc then Inr b
       else (case rc_getService env c export of
               Inl _ \<Rightarrow> Inr b
             | Inr svc \<Rightarrow> Inr (Enqueue \<lparr>msg_Kind = ServiceExportCreated, msg_OldObj = None,
                                        msg_NewObj = Some (export_event c export svc)\<rparr> b)))"

definition OnServiceExportAdd :: "remote_env \<Rightarrow> RemoteCache \<Rightarrow> ServiceExport \<Rightarrow> 'b Broker \<Rightarrow> 'b Broker go" where
  "OnServiceExportAdd = rc_OnUpdate"

definition OnServiceExportUpdate ::
  "remote_env \<Rightarrow> RemoteCache \<Rightarrow> ServiceExport \<Rightarrow> ServiceExport \<Rightarrow> 'b Broker \<Rightarrow> 'b Broker go"
where
  "OnServiceExportUpdate env c oldExport export b =
     (if meta_ResourceVersion (exp_Meta oldExport) = meta_ResourceVersion (exp_Meta export) then Inr b
      else rc_OnUpdate env c export b)"

definition OnServiceExportDelete :: "remote_env \<Rightarrow> RemoteCache \<Rightarrow> ServiceExport \<Rightarrow> 'b Broker \<Rightarrow> 'b Broker go" where
  "OnServiceExportDelete env c export b =
     go_bind (re_meshConfig env) (\<lambda>mc.
       if \<not> mc_IsManaged mc then Inr b
       else (case rc_getService env c export of
               Inl _ \<Rightarrow> Inr b
             | Inr svc \<Rightarrow> Inr (Enqueue \<lparr>msg_Kind = ServiceExportDeleted, msg_OldObj = Some (export_event c export svc),
                                        msg_NewObj = None\<rparr> b)))"

end
