(* ===== verification/Cluster_Connector.thy ===== *)
theory Cluster_Connector
  imports Event_Broker "HOL-Library.Multiset"
begin

text \<open>
  \<open>pkg/cluster\<close>: the connector to a cluster. A remote connector marks the configuration of its cluster
  as managed and then keeps the ServiceImports of that cluster up to date with the events about
  exported services (\<open>remote.go\<close>); the connector to the control plane's own cluster
  prepares the codebases of the repo (\<open>local.go\<close>).

  A stop channel is a number and a kubeconfig the text it was loaded from. The API server of the cluster, the condition helpers of apimachinery, the retry loop and the order
  in which Go visits the map of endpoints are parameters. Every call of the API server takes and
  returns a world of any type.
\<close>

section \<open>What the connector calls\<close>

record 'w conn_api =
  api_createNamespace :: "string \<Rightarrow> 'w \<Rightarrow> unit result \<times> 'w"
  api_createImport :: "ServiceImport \<Rightarrow> 'w \<Rightarrow> ServiceImport result \<times> 'w"
  api_getImport :: "string \<Rightarrow> string \<Rightarrow> 'w \<Rightarrow> ServiceImport result \<times> 'w"
  api_updateImport :: "ServiceImport \<Rightarrow> 'w \<Rightarrow> ServiceImport result \<times> 'w"
  api_deleteImport :: "string \<Rightarrow> string \<Rightarrow> 'w \<Rightarrow> unit result \<times> 'w"
  api_getServiceNamed :: "string \<Rightarrow> string \<Rightarrow> 'w \<Rightarrow> Service result \<times> 'w"
  api_getExport :: "string \<Rightarrow> string \<Rightarrow> 'w \<Rightarrow> ServiceExport result \<times> 'w"
  api_updateExportStatus :: "ServiceExport \<Rightarrow> 'w \<Rightarrow> ServiceExport result \<times> 'w"
  api_warnExport :: "ServiceExport \<Rightarrow> string \<Rightarrow> string \<Rightarrow> 'w \<Rightarrow> 'w"

record conn_lib =
  SetStatusCondition :: "Condition \<Rightarrow> Condition list \<Rightarrow> Condition list"
  IsStatusConditionTrue :: "Condition list \<Rightarrow> string \<Rightarrow> bool"
  IsStatusConditionFalse :: "Condition list \<Rightarrow> string \<Rightarrow> bool"
  err_text :: "go_error \<Rightarrow> string"
  ep_order :: "(string, ImportEndpoint) gomap \<Rightarrow> ImportEndpoint list"

record ConnectorContext =
  ctx_ClusterKey :: string
  ctx_SpecHash :: string
  ctx_KubeConfig :: string
  ctx_ConnectorConfig :: ConnectorConfig
  ctx_StopCh :: nat

abbreviation ev_ns :: "ServiceExportEvent \<Rightarrow> string" where
  "ev_ns ev \<equiv> meta_Namespace (exp_Meta (sev_ServiceExport ev))"

abbreviation ev_name :: "ServiceExportEvent \<Rightarrow> string" where
  "ev_name ev \<equiv> meta_Name (exp_Meta (sev_ServiceExport ev))"

abbreviation ev_rules :: "ServiceExportEvent \<Rightarrow> ServiceExportRule list" where
  "ev_rules ev \<equiv> ses_Rules (exp_Spec (sev_ServiceExport ev))"

section \<open>Joining the set of clusters\<close>

definition updateConfigsOfManagedCluster ::
  "mesh_lib \<Rightarrow> 'w cfg_api \<Rightarrow> ConnectorConfig \<Rightarrow> 'w cfg_state \<Rightarrow> unit result go \<times> 'w cfg_state"
where
  "updateConfigsOfManagedCluster lib api con s =
     (if con_inCluster con then (Inr (Inr ()), s)
      else (case GetConfig lib api s of
              (Inl p, s1) \<Rightarrow> (Inl p, s1)
            | (Inr mc, s1) \<Rightarrow>
                if mc_IsManaged mc \<and> cc_ControlPlaneUID (mc_Cluster mc) \<noteq> [] then
                  (if cc_ControlPlaneUID (mc_Cluster mc) \<noteq> con_controlPlaneUID con
                   then (Inr (Inl (Errorf (''cluster '' @ con_key con @
                           '' is already managed, cannot join the MultiCluster''))), s1)
                   else (Inr (Inr ()), s1))
                else
                  (case UpdateConfig lib api
                          (Some (mc\<lparr>mc_IsManaged := True,
                                   mc_Cluster := (mc_Cluster mc)\<lparr>cc_Region := con_region con, cc_Zone := con_zone con,
                                     cc_Group := con_group con, cc_Name := con_name con,
                                     cc_ControlPlaneUID := con_controlPlaneUID con\<rparr>\<rparr>)) s1 of
                     (Inl p, s2) \<Rightarrow> (Inl p, s2)
                   | (Inr (Inl err), s2) \<Rightarrow> (Inr (Inl err), s2)
                   | (Inr (Inr _), s2) \<Rightarrow> (Inr (Inr ()), s2))))"

section \<open>Questions the controller asks\<close>

definition ServiceImportExists :: "'w conn_api \<Rightarrow> ServiceExport \<Rightarrow> 'w \<Rightarrow> bool \<times> 'w" where
  "ServiceImportExists api svcExp w =
     (case api_getImport api (meta_Namespace (exp_Meta svcExp)) (meta_Name (exp_Meta svcExp)) w of
        (Inl err, w') \<Rightarrow> (err \<noteq> NotFound, w')
      | (Inr _, w') \<Rightarrow> (True, w'))"

definition ValidateServiceExport ::
  "conn_lib \<Rightarrow> 'w conn_api \<Rightarrow> ConnectorContext \<Rightarrow> ServiceExport \<Rightarrow> Service \<Rightarrow> 'w \<Rightarrow> unit result \<times> 'w"
where
  "ValidateServiceExport lib api ctx svcExp service w =
     (case api_getServiceNamed api (meta_Namespace (exp_Meta svcExp)) (meta_Name (exp_Meta svcExp)) w of
        (Inl err, w') \<Rightarrow>
          (if err = NotFound then Inr ()
           else Inl (Errorf (''['' @ ctx_ClusterKey ctx @ ''] Failed get Service '' @
                  meta_Namespace (exp_Meta svcExp) @ ''/'' @ meta_Name (exp_Meta svcExp) @ '': '' @ err_text lib err)), w')
      | (Inr localSvc, w') \<Rightarrow>
          (if ssp_Type (svc_Spec service) \<noteq> ssp_Type (svc_Spec localSvc)
           then Inl (Errorf (''['' @ ctx_ClusterKey ctx @ ''] service type doesn't match: '' @
                  ssp_Type (svc_Spec service) @ '' vs '' @ ssp_Type (svc_Spec localSvc)))
           else if ssp_Ports (svc_Spec service) \<noteq> ssp_Ports (svc_Spec localSvc)
           then Inl (Errorf (''['' @ ctx_ClusterKey ctx @ ''] spec.ports conflict, please check service spec''))
           else Inr (), w'))"

section \<open>Imports\<close>

definition newEndpoint ::
  "ServiceExportEvent \<Rightarrow> ServiceExportRule \<Rightarrow> string \<Rightarrow> ip option \<Rightarrow> int \<Rightarrow> ImportEndpoint"
where
  "newEndpoint export r host ip' port =
     \<lparr>ie_Target = \<lparr>tgt_Host = host, tgt_IP = IP_String ip', tgt_Port = port, tgt_Path = ser_Path r\<rparr>,
      ie_ClusterKey = ClusterKey export\<rparr>"

text \<open>All three callers pass the gateway of the exporting cluster.\<close>

abbreviation gatewayEndpoint :: "ServiceExportEvent \<Rightarrow> ServiceExportRule \<Rightarrow> ImportEndpoint" where
  "gatewayEndpoint export r \<equiv>
     newEndpoint export r (GatewayHost (sev_Geo export)) (GatewayIP (sev_Geo export)) (GatewayPort (sev_Geo export))"

definition newServiceImport :: "ServiceExportEvent \<Rightarrow> ServiceImport" where
  "newServiceImport export =
     \<lparr>imp_Meta = named_meta (ev_ns export) (ev_name export),
      imp_Spec =
        \<lparr>sis_Ports =
           concat (map (\<lambda>r. map (\<lambda>p. \<lparr>ip_Name = sp_Name p, ip_Protocol = sp_Protocol p,
                                        ip_AppProtocol = sp_AppProtocol p, ip_Port = sp_Port p,
                                        ip_Endpoints = [gatewayEndpoint export r]\<rparr>)
                             (filter (\<lambda>p. ser_PortNumber r = sp_Port p) (ssp_Ports (svc_Spec (sev_Service export)))))
                  (ev_rules export)),
         sis_Type = ClusterSetIP,
         sis_ServiceAccountName = ses_ServiceAccountName (exp_Spec (sev_ServiceExport export))\<rparr>\<rparr>"

definition createServiceImport :: "'w conn_api \<Rightarrow> ServiceExportEvent \<Rightarrow> 'w \<Rightarrow> ServiceImport result \<times> 'w" where
  "createServiceImport api export w =
     (case api_createImport api (newServiceImport export) w of
        (Inr imp, w') \<Rightarrow> (Inr imp, w')
      | (Inl err, w') \<Rightarrow>
          if err = AlreadyExists then api_getImport api (ev_ns export) (ev_name export) w' else (Inl err, w'))"

definition getOrCreateServiceImport :: "'w conn_api \<Rightarrow> ServiceExportEvent \<Rightarrow> 'w \<Rightarrow> ServiceImport result \<times> 'w" where
  "getOrCreateServiceImport api export w =
     (case api_createNamespace api (ev_ns export) w of
        (Inr _, w') \<Rightarrow> createServiceImport api export w'
      | (Inl err, w') \<Rightarrow> if err = AlreadyExists then createServiceImport api export w' else (Inl err, w'))"

text \<open>The endpoints \<open>upsertServiceImport\<close> gives one port of the import.\<close>

definition mergedEndpoints :: "ServiceExportEvent \<Rightarrow> ImportPort \<Rightarrow> (string, ImportEndpoint) gomap" where
  "mergedEndpoints export p =
     fold (\<lambda>r m. if ser_PortNumber r = ip_Port p
                  then gput (ClusterKey export) (gatewayEndpoint export r)
                         (fold (\<lambda>ep m. gput (ie_ClusterKey ep) ep m) (ip_Endpoints p) m)
                  else m)
       (ev_rules export) []"

definition upsertEndpoints :: "conn_lib \<Rightarrow> ServiceExportEvent \<Rightarrow> ImportPort \<Rightarrow> ImportEndpoint list" where
  "upsertEndpoints lib export p =
     (if ip_Endpoints p = []
      then map (gatewayEndpoint export) (filter (\<lambda>r. ser_PortNumber r = ip_Port p) (ev_rules export))
      else ep_order lib (mergedEndpoints export p))"

definition upsertSpec :: "conn_lib \<Rightarrow> ServiceExportEvent \<Rightarrow> ServiceImportSpec \<Rightarrow> ServiceImportSpec" where
  "upsertSpec lib export spec =
     spec\<lparr>sis_Ports := map (\<lambda>p. p\<lparr>ip_Endpoints := upsertEndpoints lib export p\<rparr>) (sis_Ports spec),
          sis_ServiceAccountName := ses_ServiceAccountName (exp_Spec (sev_ServiceExport export))\<rparr>"

definition upsertServiceImport ::
  "conn_lib \<Rightarrow> 'w conn_api \<Rightarrow> ConnectorContext \<Rightarrow> ServiceExportEvent \<Rightarrow> 'w \<Rightarrow> unit result \<times> 'w"
where
  "upsertServiceImport lib api ctx export w =
     (if ClusterKey export = ctx_ClusterKey ctx then (Inr (), w)
      else (case getOrCreateServiceImport api export w of
              (Inl err, w') \<Rightarrow> (Inl err, w')
            | (Inr imp, w') \<Rightarrow>
                (case api_updateImport api (imp\<lparr>imp_Spec := upsertSpec lib export (imp_Spec imp)\<rparr>) w' of
                   (Inl err, w'') \<Rightarrow> (Inl err, w'')
                 | (Inr _, w'') \<Rightarrow> (Inr (), w''))))"

text \<open>The ports that are left when the endpoints of the exporting cluster are taken out.\<close>

definition remainingPorts :: "ServiceExportEvent \<Rightarrow> ImportPort list \<Rightarrow> ImportPort list" where
  "remainingPorts export ports =
     concat (map (\<lambda>r. filter (\<lambda>p. ip_Endpoints p \<noteq> [])
                        (map (\<lambda>p. p\<lparr>ip_Endpoints := filter (\<lambda>ep. ie_ClusterKey ep \<noteq> ClusterKey export) (ip_Endpoints p)\<rparr>)
                           (filter (\<lambda>p. ser_PortNumber r = ip_Port p) ports)))
            (ev_rules export))"

definition deleteServiceImport :: "'w conn_api \<Rightarrow> ConnectorContext \<Rightarrow> ServiceExportEvent \<Rightarrow> 'w \<Rightarrow> unit result \<times> 'w" where
  "deleteServiceImport api ctx export w =
     (if ClusterKey export = ctx_ClusterKey ctx then (Inr (), w)
      else (case api_getImport api (ev_ns export) (ev_name export) w of
              (Inl err, w') \<Rightarrow> (if err = NotFound then Inr () else Inl err, w')
            | (Inr imp, w') \<Rightarrow>
                if meta_DeletionTimestamp (imp_Meta imp) \<noteq> None then (Inr (), w')
                else
                  (let ports = remainingPorts export (sis_Ports (imp_Spec imp))
                   in if ports \<noteq> []
                      then (case api_updateImport api (imp\<lparr>imp_Spec := (imp_Spec imp)\<lparr>sis_Ports := ports\<rparr>\<rparr>) w' of
                              (Inl err, w'') \<Rightarrow> (Inl err, w'')
                            | (Inr _, w'') \<Rightarrow> (Inr (), w''))
                      else api_deleteImport api (ev_ns export) (ev_name export) w')))"

definition rejectServiceExport ::
  "conn_lib \<Rightarrow> 'w conn_api \<Rightarrow> ConnectorContext \<Rightarrow> ServiceExportEvent \<Rightarrow> 'w \<Rightarrow> unit result \<times> 'w"
where
  "rejectServiceExport lib api ctx ev w =
     (if ctx_ClusterKey ctx \<noteq> ClusterKey ev then (Inr (), w)
      else (case api_getExport api (ev_ns ev) (ev_name ev) w of
              (Inl err, w1) \<Rightarrow> (Inl err, w1)
            | (Inr exp, w1) \<Rightarrow>
                (let exp_name = meta_Namespace (exp_Meta exp) @ ''/'' @ meta_Name (exp_Meta exp);
                     w2 = api_warnExport api exp ''Rejected''
                            (''ServiceExport '' @ exp_name @ '' is invalid, '' @ sev_Error ev) w1;
                     exp' = exp\<lparr>exp_Conditions :=
                              SetStatusCondition lib
                                \<lparr>cond_Type = ServiceExportConflict, cond_Status = ''True'', cond_Reason = ''Conflict'',
                                 cond_Message = ''ServiceExport '' @ exp_name @ '' conflicts, '' @ sev_Error ev,
                                 cond_ObservedGeneration = exp_Generation exp\<rparr> (exp_Conditions exp)\<rparr>
                 in case api_updateExportStatus api exp' w2 of
                      (Inl err, w3) \<Rightarrow> (Inl err, w3)
                    | (Inr _, w3) \<Rightarrow> (Inr (), w3))))"

text \<open>What \<open>processEvent\<close> does with a message that arrives on one of its three channels; the
  retry loop is a parameter, and the message of another kind never arrives. \<open>None\<close> is a message that
  does not carry an event, which is logged and dropped.\<close>

type_synonym 'w retry_loop = "('w \<Rightarrow> unit result \<times> 'w) \<Rightarrow> 'w \<Rightarrow> unit result \<times> 'w"

definition connector_processEvent ::
  "conn_lib \<Rightarrow> 'w conn_api \<Rightarrow> 'w retry_loop \<Rightarrow> ConnectorContext \<Rightarrow> Message \<Rightarrow> 'w \<Rightarrow> unit result option \<times> 'w"
where
  "connector_processEvent lib api retry ctx msg w =
     (case (msg_Kind msg, msg_OldObj msg, msg_NewObj msg) of
        (ServiceExportDeleted, Some ev, _) \<Rightarrow> apfst Some (retry (deleteServiceImport api ctx ev) w)
      | (ServiceExportAccepted, _, Some ev) \<Rightarrow> apfst Some (retry (upsertServiceImport lib api ctx ev) w)
      | (ServiceExportRejected, _, Some ev) \<Rightarrow> apfst Some (retry (rejectServiceExport lib api ctx ev) w)
      | _ \<Rightarrow> (None, w))"

section \<open>Creating a connector\<close>

text \<open>The version of the API server is detected once and kept in a package variable, whichever cluster
  it belongs to; when it cannot be detected the process exits. Versions are those of the package
  \<open>semver\<close>, whose parser and comparison are parameters.\<close>

record version_lib =
  semver_MustParse :: "string \<Rightarrow> string go"
  semver_GTE :: "string \<Rightarrow> string \<Rightarrow> bool"

abbreviation zeroVersion :: string where "zeroVersion \<equiv> ''0.0.0''"
abbreviation MinK8sVersion :: string where "MinK8sVersion \<equiv> ''1.19.0''"

definition getServerVersion :: "version_lib \<Rightarrow> string result \<Rightarrow> string result go" where
  "getServerVersion vl gitVersion' =
     (case gitVersion' of
        Inl err \<Rightarrow> Inr (Inl err)
      | Inr gitVersion \<Rightarrow>
          go_bind (semver_MustParse vl (if length gitVersion > 1 \<and> take 1 gitVersion = ''v'' then drop 1 gitVersion else gitVersion))
            (\<lambda>v. Inr (Inr v)))"

definition detectServerVersion :: "version_lib \<Rightarrow> string result \<Rightarrow> string \<Rightarrow> string go" where
  "detectServerVersion vl gitVersion ServerVersion =
     (if ServerVersion = zeroVersion
      then go_bind (getServerVersion vl gitVersion) (\<lambda>r.
             case r of Inl err \<Rightarrow> Inl (Panicked ''exit status 1'') | Inr ver \<Rightarrow> Inr ver)
      else Inr ServerVersion)"

definition IsSupportedK8sVersion :: "version_lib \<Rightarrow> string result \<Rightarrow> string \<Rightarrow> (bool \<times> string) go" where
  "IsSupportedK8sVersion vl gitVersion ServerVersion =
     go_bind (detectServerVersion vl gitVersion ServerVersion) (\<lambda>v. Inr (semver_GTE vl v MinK8sVersion, v))"

text \<open>What a kubeconfig leads to: a client, the version of the API server and the deployment of the
  manager, each of which may be missing.\<close>

record cluster_access =
  ca_NewAPIForConfig :: "unit result"
  ca_GitVersion :: "string result"
  ca_getManagerDeployment :: "unit result"

datatype Connector = LocalConnector ConnectorContext | RemoteConnector ConnectorContext

definition NewConnector ::
  "version_lib \<Rightarrow> (string \<Rightarrow> cluster_access) \<Rightarrow> ConnectorContext \<Rightarrow> string \<Rightarrow> (Connector result \<times> string) go"
where
  "NewConnector vl access ctx ServerVersion =
     (let k8s = access (ctx_KubeConfig ctx) in
      case ca_NewAPIForConfig k8s of
        Inl err \<Rightarrow> Inr (Inl err, ServerVersion)
      | Inr _ \<Rightarrow>
          go_bind (IsSupportedK8sVersion vl (ca_GitVersion k8s) ServerVersion) (\<lambda>(supported, v).
            if \<not> supported
            then Inr (Inl (Errorf (''kubernetes server version '' @ v @ '' is not supported, requires at least '' @ MinK8sVersion)), v)
            else (case ca_getManagerDeployment k8s of
                    Inl err \<Rightarrow> Inr (Inl err, v)
                  | Inr _ \<Rightarrow> Inr (Inr (if con_inCluster (ctx_ConnectorConfig ctx) then LocalConnector ctx else RemoteConnector ctx), v))))"

section \<open>The connector to the own cluster\<close>

abbreviation DefaultServiceBasePath :: string where "DefaultServiceBasePath \<equiv> ''/base/services''"

definition ensureCodebaseDerivatives :: "('c, 'w) repo_http \<Rightarrow> MeshConfig \<Rightarrow> 'w \<Rightarrow> unit result \<times> 'w" where
  "ensureCodebaseDerivatives http mc w =
     (case DeriveCodebase http (GetDefaultServicesPath mc) DefaultServiceBasePath w of
        (Inl err, w') \<Rightarrow> (Inl err, w')
      | (Inr _, w') \<Rightarrow> DeriveCodebase http (GetDefaultIngressPath mc) DefaultIngressBasePath w')"

section \<open>Specifications\<close>

text \<open>The API server keeps ServiceImports by namespace and name, and \<open>view w\<close> is what it keeps in the
  world \<open>w\<close>: a call that succeeds has the effect its verb names, a call that fails changes
  nothing. ServiceImports have no finalizers, so none is found while it is being deleted.\<close>

definition import_server :: "'w conn_api \<Rightarrow> ('w \<Rightarrow> NamespacedName \<rightharpoonup> ServiceImportSpec) \<Rightarrow> bool" where
  "import_server api view \<longleftrightarrow>
     (\<forall>ns w r w'. api_createNamespace api ns w = (r, w') \<longrightarrow> view w' = view w) \<and>
     (\<forall>imp w err w'. api_createImport api imp w = (Inl err, w') \<longrightarrow> view w' = view w) \<and>
     (\<forall>imp w imp' w'. api_createImport api imp w = (Inr imp', w') \<longrightarrow>
        view w (imp_nn imp) = None \<and> imp_Spec imp' = imp_Spec imp \<and> imp_nn imp' = imp_nn imp \<and>
        view w' = (view w)(imp_nn imp \<mapsto> imp_Spec imp)) \<and>
     (\<forall>ns nm w r w'. api_getImport api ns nm w = (r, w') \<longrightarrow> view w' = view w) \<and>
     (\<forall>ns nm w w'. api_getImport api ns nm w = (Inl NotFound, w') \<longrightarrow> view w (nn ns nm) = None) \<and>
     (\<forall>ns nm w imp w'. api_getImport api ns nm w = (Inr imp, w') \<longrightarrow>
        view w (nn ns nm) = Some (imp_Spec imp) \<and> imp_nn imp = nn ns nm \<and> meta_DeletionTimestamp (imp_Meta imp) = None) \<and>
     (\<forall>imp w err w'. api_updateImport api imp w = (Inl err, w') \<longrightarrow> view w' = view w) \<and>
     (\<forall>imp w imp' w'. api_updateImport api imp w = (Inr imp', w') \<longrightarrow> view w' = (view w)(imp_nn imp \<mapsto> imp_Spec imp)) \<and>
     (\<forall>ns nm w err w'. api_deleteImport api ns nm w = (Inl err, w') \<longrightarrow> view w' = view w) \<and>
     (\<forall>ns nm w u w'. api_deleteImport api ns nm w = (Inr u, w') \<longrightarrow> view w' = (view w)(nn ns nm := None)) \<and>
     (\<forall>ns nm w r w'. api_getExport api ns nm w = (r, w') \<longrightarrow> view w' = view w) \<and>
     (\<forall>exp w r w'. api_updateExportStatus api exp w = (r, w') \<longrightarrow> view w' = view w) \<and>
     (\<forall>exp reason text w. view (api_warnExport api exp reason text w) = view w)"

text \<open>The retry loop repeats the call until it succeeds or its context is done. The context of a
  connector is never done (\<open>ConnectorContext.Done\<close> returns nil), so in the code only success ends it.\<close>

fun attempts :: "nat \<Rightarrow> 'w retry_loop" where
  "attempts 0 f w = (Inl (Errorf ''context canceled''), w)"
| "attempts (Suc n) f w = (case f w of (Inr _, w') \<Rightarrow> (Inr (), w') | (Inl _, w') \<Rightarrow> attempts n f w')"

definition retries :: "'w retry_loop \<Rightarrow> bool" where
  "retries retry \<longleftrightarrow> (\<forall>f w. \<exists>n. retry f w = attempts n f w)"

definition any_order :: "conn_lib \<Rightarrow> bool" where
  "any_order lib \<longleftrightarrow> (\<forall>m. mset (ep_order lib m) = mset (map snd m))"

text \<open>The abstract state of an import: the clusters that export the service, each with its latest event.\<close>

type_synonym exporters = "string \<rightharpoonup> ServiceExportEvent"

text \<open>Exports of the same ports, each port with one rule.\<close>

definition exports_ports :: "int set \<Rightarrow> ServiceExportEvent \<Rightarrow> bool" where
  "exports_ports P ev \<longleftrightarrow> distinct (map ser_PortNumber (ev_rules ev)) \<and> ser_PortNumber ` set (ev_rules ev) = P \<and>
     P \<noteq> {} \<and> P \<subseteq> sp_Port ` set (ssp_Ports (svc_Spec (sev_Service ev)))"

definition ev_endpoint :: "int \<Rightarrow> ServiceExportEvent \<Rightarrow> ImportEndpoint option" where
  "ev_endpoint n ev = map_option (gatewayEndpoint ev) (find (\<lambda>r. ser_PortNumber r = n) (ev_rules ev))"

definition by_cluster :: "ImportEndpoint list \<Rightarrow> string \<rightharpoonup> ImportEndpoint" where
  "by_cluster eps = map_of (map (\<lambda>e. (ie_ClusterKey e, e)) eps)"

definition port_reflects :: "exporters \<Rightarrow> ImportPort \<Rightarrow> bool" where
  "port_reflects A p \<longleftrightarrow> distinct (map ie_ClusterKey (ip_Endpoints p)) \<and>
     (\<forall>c. by_cluster (ip_Endpoints p) c = Option.bind (A c) (ev_endpoint (ip_Port p)))"

definition import_reflects :: "int set \<Rightarrow> exporters \<Rightarrow> ServiceImportSpec option \<Rightarrow> bool" where
  "import_reflects P A v \<longleftrightarrow>
     (\<forall>c ev. A c = Some ev \<longrightarrow> ClusterKey ev = c \<and> exports_ports P ev) \<and>
     (case v of
        None \<Rightarrow> A = Map.empty
      | Some spec \<Rightarrow> A \<noteq> Map.empty \<and> ip_Port ` set (sis_Ports spec) = P \<and> (\<forall>p\<in>set (sis_Ports spec). port_reflects A p))"

fun apply_event :: "string \<Rightarrow> EventType \<Rightarrow> ServiceExportEvent \<Rightarrow> exporters \<Rightarrow> exporters" where
  "apply_event own ServiceExportAccepted ev A = (if ClusterKey ev = own then A else A(ClusterKey ev \<mapsto> ev))"
| "apply_event own ServiceExportDeleted ev A = (if ClusterKey ev = own then A else A(ClusterKey ev := None))"
| "apply_event own _ ev A = A"

section \<open>One port\<close>

lemma by_cluster_iff:
  assumes "distinct (map ie_ClusterKey eps)"
  shows "by_cluster eps c = Some e \<longleftrightarrow> e \<in> set eps \<and> ie_ClusterKey e = c"
proof -
  have "distinct (map fst (map (\<lambda>e. (ie_ClusterKey e, e)) eps))"
    using assms by (simp add: comp_def)
  then show ?thesis
    by (auto simp: by_cluster_def map_of_eq_Some_iff simp del: map_map)
qed

lemma by_cluster_None_iff: "by_cluster eps c = None \<longleftrightarrow> c \<notin> ie_ClusterKey ` set eps"
  by (force simp: by_cluster_def map_of_eq_None_iff)

lemma by_cluster_entries:
  assumes "mset eps = mset (map snd m)" and "gm_wf m" and "\<And>k e. (k, e) \<in> set m \<Longrightarrow> ie_ClusterKey e = k"
  shows "distinct (map ie_ClusterKey eps) \<and> by_cluster eps = gget m"
proof
  have keys: "map ie_ClusterKey (map snd m) = map fst m"
    using assms(3) by auto
  have "mset (map ie_ClusterKey eps) = mset (map fst m)"
    using arg_cong [OF assms(1), of "image_mset ie_ClusterKey"] by (simp add: keys [symmetric] flip: mset_map)
  with assms(2) show d: "distinct (map ie_ClusterKey eps)"
    by (metis gm_wf_def mset_eq_imp_distinct_iff)
  have set_eps: "set eps = snd ` set m"
    using mset_eq_setD [OF assms(1)] by simp
  show "by_cluster eps = gget m"
  proof
    fix c
    have "by_cluster eps c = Some e \<longleftrightarrow> gget m c = Some e" for e
      using assms(2,3) by (force simp: by_cluster_iff [OF d] set_eps gget_set_iff)
    then show "by_cluster eps c = gget m c"
      by (metis option.exhaust)
  qed
qed

lemma fold_if_filter: "fold (\<lambda>x m. if P x then f x m else m) xs m = fold f (filter P xs) m"
  by (induction xs arbitrary: m) simp_all

lemma filter_distinct_find:
  assumes "distinct (map f xs)"
  shows "filter (\<lambda>x. f x = k) xs = (case find (\<lambda>x. f x = k) xs of None \<Rightarrow> [] | Some x \<Rightarrow> [x])"
  using assms by (induction xs) (auto simp: image_iff split: option.splits dest!: find_SomeD)

lemma set_gput: "set (gput k v m) \<subseteq> insert (k, v) (set m)"
  by (induction m) auto

lemma copied_endpoints:
  "gm_wf m \<Longrightarrow> gm_wf (fold (\<lambda>ep m. gput (ie_ClusterKey ep) ep m) eps m) \<and>
     set (fold (\<lambda>ep m. gput (ie_ClusterKey ep) ep m) eps m) \<subseteq> set m \<union> {(ie_ClusterKey e, e) | e. e \<in> set eps}"
proof (induction eps arbitrary: m)
  case (Cons e eps)
  from Cons.IH [OF gm_wf_gput [OF Cons.prems]] set_gput [of "ie_ClusterKey e" e m] show ?case
    by fastforce
qed simp

lemma gget_copied_endpoints:
  "distinct (map ie_ClusterKey eps) \<Longrightarrow>
   gget (fold (\<lambda>ep m. gput (ie_ClusterKey ep) ep m) eps m) c =
     (case by_cluster eps c of None \<Rightarrow> gget m c | Some e \<Rightarrow> Some e)"
proof (induction eps arbitrary: m)
  case (Cons e eps)
  then have "by_cluster eps (ie_ClusterKey e) = None"
    by (simp add: by_cluster_None_iff)
  with Cons show ?case
    by (auto simp: by_cluster_def split: option.splits)
qed (simp add: by_cluster_def)

lemma mergedEndpoints_one_rule:
  assumes "distinct (map ser_PortNumber (ev_rules ev))" and "find (\<lambda>r. ser_PortNumber r = ip_Port p) (ev_rules ev) = Some r"
  shows "mergedEndpoints ev p =
           gput (ClusterKey ev) (gatewayEndpoint ev r) (fold (\<lambda>ep m. gput (ie_ClusterKey ep) ep m) (ip_Endpoints p) [])"
  unfolding mergedEndpoints_def fold_if_filter filter_distinct_find [OF assms(1)] assms(2) by simp

lemma ie_ClusterKey_newEndpoint [simp]: "ie_ClusterKey (newEndpoint ev r h i n) = ClusterKey ev"
  by (simp add: newEndpoint_def)

lemma upsert_port_reflects:
  assumes "any_order lib" and "exports_ports P ev" and "ip_Port p \<in> P" and "port_reflects A p"
  shows "port_reflects (A(ClusterKey ev \<mapsto> ev)) (p\<lparr>ip_Endpoints := upsertEndpoints lib ev p\<rparr>)"
proof -
  obtain r where r: "find (\<lambda>r. ser_PortNumber r = ip_Port p) (ev_rules ev) = Some r"
    using assms(2,3) by (cases "find (\<lambda>r. ser_PortNumber r = ip_Port p) (ev_rules ev)")
      (auto simp: exports_ports_def find_None_iff)
  have d: "distinct (map ser_PortNumber (ev_rules ev))"
    using assms(2) by (simp add: exports_ports_def)
  have p: "distinct (map ie_ClusterKey (ip_Endpoints p))"
      "by_cluster (ip_Endpoints p) c = Option.bind (A c) (ev_endpoint (ip_Port p))" for c
    using assms(4) by (simp_all add: port_reflects_def)
  show ?thesis
  proof (cases "ip_Endpoints p = []")
    case True
    then have "upsertEndpoints lib ev p = [gatewayEndpoint ev r]"
      using d r by (simp add: upsertEndpoints_def filter_distinct_find)
    moreover have "Option.bind (A c) (ev_endpoint (ip_Port p)) = None" for c
      using p(2) [of c] True by (simp add: by_cluster_def)
    ultimately show ?thesis
      using r by (simp add: port_reflects_def by_cluster_def ev_endpoint_def)
  next
    case False
    let ?copied = "fold (\<lambda>ep m. gput (ie_ClusterKey ep) ep m) (ip_Endpoints p) []"
    let ?m = "gput (ClusterKey ev) (gatewayEndpoint ev r) ?copied"
    have "set ?m \<subseteq> insert (ClusterKey ev, gatewayEndpoint ev r) (set ?copied)"
      by (rule set_gput)
    then have "ie_ClusterKey e = k" if "(k, e) \<in> set ?m" for k e
      using that copied_endpoints [of "[]" "ip_Endpoints p"] by auto
    moreover have "upsertEndpoints lib ev p = ep_order lib ?m"
      using False by (simp add: upsertEndpoints_def mergedEndpoints_one_rule [OF d r])
    ultimately have "distinct (map ie_ClusterKey (upsertEndpoints lib ev p)) \<and> by_cluster (upsertEndpoints lib ev p) = gget ?m"
      using assms(1) copied_endpoints [of "[]" "ip_Endpoints p"]
      by (intro by_cluster_entries) (auto simp: any_order_def intro: gm_wf_gput)
    then show ?thesis
      using r p by (auto simp: port_reflects_def gget_copied_endpoints ev_endpoint_def split: option.splits)
  qed
qed

section \<open>One import\<close>

lemma upsertSpec_reflects:
  assumes "any_order lib" and "exports_ports P ev" and "import_reflects P A (Some spec)"
  shows "import_reflects P (A(ClusterKey ev \<mapsto> ev)) (Some (upsertSpec lib ev spec))"
proof -
  have "ip_Port ` set (sis_Ports spec) = P" and "\<forall>p\<in>set (sis_Ports spec). port_reflects A p"
    using assms(3) by (simp_all add: import_reflects_def)
  then have "\<forall>p\<in>set (sis_Ports (upsertSpec lib ev spec)). port_reflects (A(ClusterKey ev \<mapsto> ev)) p"
    and "ip_Port ` set (sis_Ports (upsertSpec lib ev spec)) = P"
    using upsert_port_reflects [OF assms(1,2)] by (auto simp: upsertSpec_def image_image)
  with assms(2,3) show ?thesis
    by (auto simp: import_reflects_def)
qed

lemma find_distinct_Some:
  "distinct (map f xs) \<Longrightarrow> x \<in> set xs \<Longrightarrow> find (\<lambda>y. f y = f x) xs = Some x"
  by (induction xs) (auto simp: image_iff)

lemma newServiceImport_reflects:
  assumes "exports_ports P ev"
  shows "import_reflects P [ClusterKey ev \<mapsto> ev] (Some (imp_Spec (newServiceImport ev)))"
proof -
  have d: "distinct (map ser_PortNumber (ev_rules ev))" and P: "ser_PortNumber ` set (ev_rules ev) = P"
    and svc: "P \<subseteq> sp_Port ` set (ssp_Ports (svc_Spec (sev_Service ev)))"
    using assms by (simp_all add: exports_ports_def)
  have "port_reflects [ClusterKey ev \<mapsto> ev] p" if p: "p \<in> set (sis_Ports (imp_Spec (newServiceImport ev)))" for p
  proof -
    obtain r where "r \<in> set (ev_rules ev)" "ip_Port p = ser_PortNumber r" "ip_Endpoints p = [gatewayEndpoint ev r]"
      using p by (auto simp: newServiceImport_def)
    then show ?thesis
      using find_distinct_Some [OF d] by (simp add: port_reflects_def by_cluster_def ev_endpoint_def)
  qed
  moreover have "ip_Port ` set (sis_Ports (imp_Spec (newServiceImport ev))) =
      sp_Port ` set (ssp_Ports (svc_Spec (sev_Service ev))) \<inter> ser_PortNumber ` set (ev_rules ev)"
    by (auto simp: newServiceImport_def image_Union image_image image_iff) metis+
  with P svc have "ip_Port ` set (sis_Ports (imp_Spec (newServiceImport ev))) = P"
    by blast
  ultimately show ?thesis
    using assms by (simp add: import_reflects_def)
qed

lemma set_concat_filter_map:
  "set (concat (map (\<lambda>r. filter Q (map g (filter (\<lambda>p. f r = h p) ps))) rs)) = g ` {p \<in> set ps. h p \<in> f ` set rs \<and> Q (g p)}"
  by (induction rs) auto

lemma set_remainingPorts:
  "set (remainingPorts ev ports) =
     (\<lambda>p. p\<lparr>ip_Endpoints := filter (\<lambda>ep. ie_ClusterKey ep \<noteq> ClusterKey ev) (ip_Endpoints p)\<rparr>) `
       {p \<in> set ports. ip_Port p \<in> ser_PortNumber ` set (ev_rules ev) \<and>
                        (\<exists>ep\<in>set (ip_Endpoints p). ie_ClusterKey ep \<noteq> ClusterKey ev)}"
  by (simp add: remainingPorts_def set_concat_filter_map filter_empty_conv del: set_concat set_map)

lemma by_cluster_filter: "by_cluster (filter (\<lambda>ep. ie_ClusterKey ep \<noteq> k) eps) = (by_cluster eps)(k := None)"
  by (induction eps) (auto simp: by_cluster_def)

lemma delete_port_reflects:
  assumes "port_reflects A p"
  shows "port_reflects (A(k := None)) (p\<lparr>ip_Endpoints := filter (\<lambda>ep. ie_ClusterKey ep \<noteq> k) (ip_Endpoints p)\<rparr>)"
  using assms by (auto simp: port_reflects_def by_cluster_filter distinct_map_filter)

text \<open>Every exporter has an endpoint in every port.\<close>

lemma reflects_other_endpoint:
  assumes "import_reflects P A (Some spec)" and "p \<in> set (sis_Ports spec)"
  shows "(\<exists>ep\<in>set (ip_Endpoints p). ie_ClusterKey ep \<noteq> k) \<longleftrightarrow> A(k := None) \<noteq> Map.empty"
proof -
  have p: "distinct (map ie_ClusterKey (ip_Endpoints p))"
      "\<And>c. by_cluster (ip_Endpoints p) c = Option.bind (A c) (ev_endpoint (ip_Port p))"
    and P: "ip_Port p \<in> P" and A: "\<And>c ev. A c = Some ev \<Longrightarrow> exports_ports P ev"
    using assms by (auto simp: import_reflects_def port_reflects_def)
  have "ev_endpoint (ip_Port p) ev \<noteq> None" if "A c = Some ev" for c ev
    using A [OF that] P by (auto simp: ev_endpoint_def find_None_iff exports_ports_def)
  then have "(\<exists>ep\<in>set (ip_Endpoints p). ie_ClusterKey ep = c) \<longleftrightarrow> A c \<noteq> None" for c
    using by_cluster_iff [OF p(1), of c] p(2) [of c] by (cases "A c") (auto, force)
  then show ?thesis
    by (auto simp: fun_eq_iff) metis
qed

lemma import_reflects_SomeI:
  assumes "\<forall>c ev. A c = Some ev \<longrightarrow> ClusterKey ev = c \<and> exports_ports P ev"
    and "A \<noteq> Map.empty" and "ip_Port ` set ports = P" and "\<forall>p\<in>set ports. port_reflects A p"
  shows "import_reflects P A (Some (spec\<lparr>sis_Ports := ports\<rparr>))"
  using assms by (simp add: import_reflects_def)

lemma remainingPorts_reflects:
  assumes "exports_ports P ev" and "import_reflects P A (Some spec)"
  shows "import_reflects P (A(ClusterKey ev := None))
           (if remainingPorts ev (sis_Ports spec) \<noteq> []
            then Some (spec\<lparr>sis_Ports := remainingPorts ev (sis_Ports spec)\<rparr>) else None)"
proof -
  let ?A = "A(ClusterKey ev := None)"
  have ports: "ip_Port ` set (sis_Ports spec) = P" "\<forall>p\<in>set (sis_Ports spec). port_reflects A p"
    and P: "P \<noteq> {}" "ser_PortNumber ` set (ev_rules ev) = P"
    using assms by (auto simp: import_reflects_def exports_ports_def)
  have rest: "set (remainingPorts ev (sis_Ports spec)) =
      (\<lambda>p. p\<lparr>ip_Endpoints := filter (\<lambda>ep. ie_ClusterKey ep \<noteq> ClusterKey ev) (ip_Endpoints p)\<rparr>) `
        {p \<in> set (sis_Ports spec). ?A \<noteq> Map.empty}"
    unfolding set_remainingPorts P(2)
    using reflects_other_endpoint [OF assms(2), of _ "ClusterKey ev"] ports(1) by (intro arg_cong2 [of _ _ _ _ image] refl) auto
  have A: "\<forall>c ev'. ?A c = Some ev' \<longrightarrow> ClusterKey ev' = c \<and> exports_ports P ev'"
    using assms(2) by (simp add: import_reflects_def)
  have empty_iff: "remainingPorts ev (sis_Ports spec) \<noteq> [] \<longleftrightarrow> ?A \<noteq> Map.empty"
    using rest ports(1) P(1) by (auto simp flip: set_empty)
  have some: "ip_Port ` set (remainingPorts ev (sis_Ports spec)) = P \<and>
      (\<forall>p\<in>set (remainingPorts ev (sis_Ports spec)). port_reflects ?A p)" if "?A \<noteq> Map.empty"
    using that ports delete_port_reflects by (auto simp: rest image_image)
  show ?thesis
  proof (cases "?A = Map.empty")
    case True
    with empty_iff show ?thesis
      by (simp only: import_reflects_def) simp
  next
    case False
    then have rest_ne: "(remainingPorts ev (sis_Ports spec) \<noteq> []) = True"
      using empty_iff by simp
    show ?thesis
      unfolding rest_ne if_True
      by (rule import_reflects_SomeI) (use A False some [OF False] in blast)+
  qed
qed

section \<open>One event\<close>

abbreviation ev_nn :: "ServiceExportEvent \<Rightarrow> NamespacedName" where
  "ev_nn ev \<equiv> nn (ev_ns ev) (ev_name ev)"

lemma server_laws:
  assumes "import_server api view"
  shows "api_createNamespace api ns w = (r, w') \<Longrightarrow> view w' = view w"
    and "api_createImport api imp w = (Inl err, w') \<Longrightarrow> view w' = view w"
    and "api_createImport api imp w = (Inr imp', w') \<Longrightarrow>
           view w (imp_nn imp) = None \<and> imp_Spec imp' = imp_Spec imp \<and> imp_nn imp' = imp_nn imp \<and>
           view w' = (view w)(imp_nn imp \<mapsto> imp_Spec imp)"
    and "api_getImport api ns nm w = (r', w') \<Longrightarrow> view w' = view w"
    and "api_getImport api ns nm w = (Inl NotFound, w') \<Longrightarrow> view w (nn ns nm) = None"
    and "api_getImport api ns nm w = (Inr imp, w') \<Longrightarrow>
           view w (nn ns nm) = Some (imp_Spec imp) \<and> imp_nn imp = nn ns nm \<and> meta_DeletionTimestamp (imp_Meta imp) = None"
    and "api_updateImport api imp w = (Inl err, w') \<Longrightarrow> view w' = view w"
    and "api_updateImport api imp w = (Inr imp', w') \<Longrightarrow> view w' = (view w)(imp_nn imp \<mapsto> imp_Spec imp)"
    and "api_deleteImport api ns nm w = (Inl err, w') \<Longrightarrow> view w' = view w"
    and "api_deleteImport api ns nm w = (Inr u, w') \<Longrightarrow> view w' = (view w)(nn ns nm := None)"
    and "api_getExport api ns nm w = (r'', w') \<Longrightarrow> view w' = view w"
    and "api_updateExportStatus api exp w = (r'', w') \<Longrightarrow> view w' = view w"
    and "view (api_warnExport api exp reason text w) = view w"
  using assms unfolding import_server_def by metis+

lemma imp_nn_newServiceImport [simp]: "imp_nn (newServiceImport ev) = ev_nn ev"
  by (simp add: imp_nn_def newServiceImport_def nn_of_meta_def)

lemma getOrCreate_cases:
  assumes "getOrCreateServiceImport api ev w = (r, w')"
  obtains r1 w1 where "api_createNamespace api (ev_ns ev) w = (r1, w1)" and "\<exists>err. r = Inl err" and "w' = w1"
  | r1 w1 where "api_createNamespace api (ev_ns ev) w = (r1, w1)"
      and "api_createImport api (newServiceImport ev) w1 = (r, w')"
  | r1 w1 w2 where "api_createNamespace api (ev_ns ev) w = (r1, w1)"
      and "api_createImport api (newServiceImport ev) w1 = (Inl AlreadyExists, w2)"
      and "api_getImport api (ev_ns ev) (ev_name ev) w2 = (r, w')"
  using assms that
  by (auto simp: getOrCreateServiceImport_def createServiceImport_def split: prod.splits sum.splits if_splits)

lemma getOrCreate_view:
  assumes "import_server api view" and "getOrCreateServiceImport api ev w = (r, w')"
  shows "case r of
           Inl _ \<Rightarrow> view w' = view w
         | Inr imp \<Rightarrow> imp_nn imp = ev_nn ev \<and> view w' = (view w)(ev_nn ev \<mapsto> imp_Spec imp) \<and>
             (view w (ev_nn ev) = Some (imp_Spec imp) \<or>
              view w (ev_nn ev) = None \<and> imp_Spec imp = imp_Spec (newServiceImport ev))"
  using assms(2)
proof (cases rule: getOrCreate_cases)
  case (1 r1 w1)
  then show ?thesis
    using server_laws(1) [OF assms(1)] by auto
next
  case (2 r1 w1)
  note ns = server_laws(1) [OF assms(1) 2(1)]
  show ?thesis
  proof (cases r)
    case (Inl err)
    with ns server_laws(2) [OF assms(1) 2(2) [unfolded Inl]] show ?thesis
      by simp
  next
    case (Inr imp)
    from server_laws(3) [OF assms(1) 2(2) [unfolded Inr]] show ?thesis
      by (simp add: ns Inr)
  qed
next
  case (3 r1 w1 w2)
  note ns = server_laws(1) [OF assms(1) 3(1)] server_laws(2) [OF assms(1) 3(2)] server_laws(4) [OF assms(1) 3(3)]
  show ?thesis
  proof (cases r)
    case (Inr imp)
    from server_laws(6) [OF assms(1) 3(3) [unfolded Inr]] show ?thesis
      by (simp add: ns Inr fun_upd_idem)
  qed (simp add: ns)
qed

text \<open>After a call the view has changed at most at the import of the event, which reflects the exporters
  after the event, or the call failed and nothing has changed.\<close>

definition event_done ::
  "int set \<Rightarrow> ServiceExportEvent \<Rightarrow> exporters \<Rightarrow> (NamespacedName \<rightharpoonup> ServiceImportSpec) \<Rightarrow> unit result \<Rightarrow>
   (NamespacedName \<rightharpoonup> ServiceImportSpec) \<Rightarrow> bool"
where
  "event_done P ev A v r v' \<longleftrightarrow>
     (\<forall>m. m \<noteq> ev_nn ev \<longrightarrow> v' m = v m) \<and>
     (import_reflects P A (v' (ev_nn ev)) \<or> (\<exists>err. r = Inl err) \<and> v' = v)"

lemma event_doneI:
  assumes "import_reflects P A s"
  shows "event_done P ev A v r (v(ev_nn ev := s))"
  using assms by (simp add: event_done_def)

lemma created_or_found:
  assumes "exports_ports P ev" and "import_reflects P A v"
    and "v = Some spec \<or> v = None \<and> spec = imp_Spec (newServiceImport ev)"
  obtains A1 where "import_reflects P A1 (Some spec)" and "A1(ClusterKey ev \<mapsto> ev) = A(ClusterKey ev \<mapsto> ev)"
    and "A1 = A \<and> v = Some spec \<or> A1 = A(ClusterKey ev \<mapsto> ev)"
proof (cases v)
  case None
  then have "A = Map.empty" and "spec = imp_Spec (newServiceImport ev)"
    using assms(2,3) by (simp_all add: import_reflects_def)
  then show ?thesis
    using newServiceImport_reflects [OF assms(1)] that [of "[ClusterKey ev \<mapsto> ev]"] by simp
next
  case (Some spec')
  then show ?thesis
    using assms(2,3) that [of A] by simp
qed

lemma upsert_step:
  assumes srv: "import_server api view" and "any_order lib" and "exports_ports P ev" and "ClusterKey ev \<noteq> ctx_ClusterKey ctx"
    and A: "import_reflects P A (view w (ev_nn ev))" and run: "upsertServiceImport lib api ctx ev w = (r, w')"
  shows "event_done P ev (A(ClusterKey ev \<mapsto> ev)) (view w) r (view w')"
proof -
  obtain r1 w1 where got: "getOrCreateServiceImport api ev w = (r1, w1)"
    by (cases "getOrCreateServiceImport api ev w")
  note view1 = getOrCreate_view [OF srv got]
  show ?thesis
  proof (cases r1)
    case (Inl err)
    with view1 run got assms(4) show ?thesis
      by (auto simp: upsertServiceImport_def event_done_def)
  next
    case (Inr imp)
    obtain r2 w2 where upd: "api_updateImport api (imp\<lparr>imp_Spec := upsertSpec lib ev (imp_Spec imp)\<rparr>) w1 = (r2, w2)"
      by (cases "api_updateImport api (imp\<lparr>imp_Spec := upsertSpec lib ev (imp_Spec imp)\<rparr>) w1")
    have w': "w' = w2" and r: "r = (case r2 of Inl err \<Rightarrow> Inl err | Inr _ \<Rightarrow> Inr ())"
      using run got Inr upd assms(4) by (auto simp: upsertServiceImport_def split: sum.splits)
    have imp: "imp_nn imp = ev_nn ev" "view w1 = (view w)(ev_nn ev \<mapsto> imp_Spec imp)"
      using view1 by (simp_all add: Inr)
    obtain A1 where A1: "import_reflects P A1 (Some (imp_Spec imp))" "A1(ClusterKey ev \<mapsto> ev) = A(ClusterKey ev \<mapsto> ev)"
        "A1 = A \<and> view w (ev_nn ev) = Some (imp_Spec imp) \<or> A1 = A(ClusterKey ev \<mapsto> ev)"
      using created_or_found [OF assms(3) A] view1 by (auto simp: Inr)
    note merged = upsertSpec_reflects [OF assms(2,3) A1(1), unfolded A1(2)]
    show ?thesis
    proof (cases r2)
      case (Inl err)
      then have "view w' = (view w)(ev_nn ev \<mapsto> imp_Spec imp)"
        using server_laws(7) [OF srv upd [unfolded Inl]] imp(2) w' by simp
      with A1 Inl r show ?thesis
        by (auto simp: event_done_def fun_upd_idem)
    next
      case (Inr imp2)
      then have "view w' = (view w)(ev_nn ev \<mapsto> upsertSpec lib ev (imp_Spec imp))"
        using server_laws(8) [OF srv upd [unfolded Inr]] imp w' by (simp add: imp_nn_def)
      with merged show ?thesis
        by (simp add: event_done_def)
    qed
  qed
qed

lemma delete_step:
  assumes srv: "import_server api view" and "exports_ports P ev" and "ClusterKey ev \<noteq> ctx_ClusterKey ctx"
    and A: "import_reflects P A (view w (ev_nn ev))" and run: "deleteServiceImport api ctx ev w = (r, w')"
  shows "event_done P ev (A(ClusterKey ev := None)) (view w) r (view w')"
proof -
  obtain r1 w1 where got: "api_getImport api (ev_ns ev) (ev_name ev) w = (r1, w1)"
    by (cases "api_getImport api (ev_ns ev) (ev_name ev) w")
  have view1: "view w1 = view w"
    by (rule server_laws(4) [OF srv got])
  show ?thesis
  proof (cases r1)
    case (Inl err)
    then have "view w (ev_nn ev) = None" if "err = NotFound"
      using server_laws(5) [OF srv] got that by blast
    moreover have "w' = w1" "r = (if err = NotFound then Inr () else Inl err)"
      using run got Inl assms(3) by (simp_all add: deleteServiceImport_def)
    ultimately show ?thesis
      using A view1 by (auto simp: event_done_def import_reflects_def)
  next
    case (Inr imp)
    let ?ports = "remainingPorts ev (sis_Ports (imp_Spec imp))"
    let ?imp = "imp\<lparr>imp_Spec := (imp_Spec imp)\<lparr>sis_Ports := ?ports\<rparr>\<rparr>"
    have imp: "view w (ev_nn ev) = Some (imp_Spec imp)" "imp_nn imp = ev_nn ev" "meta_DeletionTimestamp (imp_Meta imp) = None"
      using server_laws(6) [OF srv got [unfolded Inr]] by simp_all
    note rest = remainingPorts_reflects [OF assms(2) A [unfolded imp(1)]]
    show ?thesis
    proof (cases "?ports = []")
      case True
      then have del: "api_deleteImport api (ev_ns ev) (ev_name ev) w1 = (r, w')"
        using run got Inr imp(3) assms(3) by (simp add: deleteServiceImport_def)
      show ?thesis
        using rest server_laws(9,10) [OF srv] del True view1 by (cases r) (auto simp: event_done_def)
    next
      case False
      obtain r2 where upd: "api_updateImport api ?imp w1 = (r2, w')" and r: "r = (case r2 of Inl err \<Rightarrow> Inl err | Inr _ \<Rightarrow> Inr ())"
        using run got Inr imp(3) assms(3) False
        by (auto simp: deleteServiceImport_def Let_def split: prod.splits sum.splits)
      show ?thesis
      proof (cases r2)
        case (Inl err)
        with server_laws(7) [OF srv upd [unfolded Inl]] view1 r show ?thesis
          by (simp add: event_done_def)
      next
        case (Inr imp2)
        then have "view w' = (view w)(ev_nn ev \<mapsto> (imp_Spec imp)\<lparr>sis_Ports := ?ports\<rparr>)"
          using server_laws(8) [OF srv upd [unfolded Inr]] imp(2) view1 by (simp add: imp_nn_def)
        with rest False show ?thesis
          by (simp add: event_done_def)
      qed
    qed
  qed
qed

lemma reject_view:
  assumes srv: "import_server api view" and run: "rejectServiceExport lib api ctx ev w = (r, w')"
  shows "view w' = view w"
  using run server_laws(11-13) [OF srv]
  by (auto simp: rejectServiceExport_def Let_def split: prod.splits sum.splits if_splits)

section \<open>Sequences of messages\<close>

text \<open>The event a connector reads in a message, and the exporters after a sequence of messages.\<close>

definition msg_event :: "Message \<Rightarrow> ServiceExportEvent option" where
  "msg_event msg =
     (case msg_Kind msg of
        ServiceExportCreated \<Rightarrow> None
      | ServiceExportDeleted \<Rightarrow> msg_OldObj msg
      | ServiceExportAccepted \<Rightarrow> msg_NewObj msg
      | ServiceExportRejected \<Rightarrow> msg_NewObj msg)"

definition apply_message :: "string \<Rightarrow> Message \<Rightarrow> exporters \<Rightarrow> exporters" where
  "apply_message own msg A = (case msg_event msg of None \<Rightarrow> A | Some ev \<Rightarrow> apply_event own (msg_Kind msg) ev A)"

definition exporters_after :: "string \<Rightarrow> Message list \<Rightarrow> exporters" where
  "exporters_after own msgs = fold (apply_message own) msgs Map.empty"

fun process_messages ::
  "conn_lib \<Rightarrow> 'w conn_api \<Rightarrow> 'w retry_loop \<Rightarrow> ConnectorContext \<Rightarrow> Message list \<Rightarrow> 'w \<Rightarrow> unit result option list \<times> 'w"
where
  "process_messages lib api retry ctx [] w = ([], w)"
| "process_messages lib api retry ctx (msg # msgs) w =
     (let (r, w) = connector_processEvent lib api retry ctx msg w;
          (rs, w) = process_messages lib api retry ctx msgs w
      in (r # rs, w))"

text \<open>A message about the service \<open>n\<close> with the ports \<open>P\<close>.\<close>

definition message_about :: "int set \<Rightarrow> NamespacedName \<Rightarrow> Message \<Rightarrow> bool" where
  "message_about P n msg \<longleftrightarrow> (\<forall>ev. msg_event msg = Some ev \<longrightarrow> ev_nn ev = n \<and> exports_ports P ev)"

lemma attempts_event:
  assumes "\<And>A w r w'. import_reflects P A (view w (ev_nn ev)) \<Longrightarrow> f w = (r, w') \<Longrightarrow> event_done P ev (F A) (view w) r (view w')"
    and "\<And>A. F (F A) = F A"
    and "import_reflects P A (view w (ev_nn ev))" and "attempts k f w = (r, w')"
  shows "event_done P ev (F A) (view w) r (view w')"
  using assms(3,4)
proof (induction k arbitrary: A w)
  case 0
  then show ?case
    by (auto simp: event_done_def)
next
  case (Suc k)
  obtain r1 w1 where f: "f w = (r1, w1)"
    by (cases "f w")
  note step = assms(1) [OF Suc.prems(1) f]
  show ?case
  proof (cases r1)
    case (Inr u)
    with Suc.prems(2) f step show ?thesis
      by (simp add: event_done_def)
  next
    case (Inl err)
    then have rest: "attempts k f w1 = (r, w')"
      using Suc.prems(2) f by simp
    from step Suc.prems(1) consider "import_reflects P (F A) (view w1 (ev_nn ev))" | "view w1 = view w"
      by (auto simp: event_done_def)
    then show ?thesis
    proof cases
      case 1
      from Suc.IH [OF this rest] 1 step show ?thesis
        unfolding assms(2) by (auto simp: event_done_def)
    next
      case 2
      with Suc.IH [of A w1] Suc.prems(1) rest show ?thesis
        by simp
    qed
  qed
qed

text \<open>The call that is retried for an event.\<close>

fun event_call ::
  "conn_lib \<Rightarrow> 'w conn_api \<Rightarrow> ConnectorContext \<Rightarrow> EventType \<Rightarrow> ServiceExportEvent \<Rightarrow> 'w \<Rightarrow> unit result \<times> 'w"
where
  "event_call lib api ctx ServiceExportDeleted ev = deleteServiceImport api ctx ev"
| "event_call lib api ctx ServiceExportAccepted ev = upsertServiceImport lib api ctx ev"
| "event_call lib api ctx ServiceExportRejected ev = rejectServiceExport lib api ctx ev"
| "event_call lib api ctx ServiceExportCreated ev = Pair (Inr ())"

lemma connector_processEvent_call:
  "connector_processEvent lib api retry ctx msg w =
     (case msg_event msg of
        None \<Rightarrow> (None, w)
      | Some ev \<Rightarrow> apfst Some (retry (event_call lib api ctx (msg_Kind msg) ev) w))"
  by (auto simp: connector_processEvent_def msg_event_def split: EventType.splits option.splits)

lemma call_step:
  assumes "import_server api view" and "any_order lib" and "exports_ports P ev"
    and "import_reflects P A (view w (ev_nn ev))" and "event_call lib api ctx kind ev w = (r, w')"
  shows "event_done P ev (apply_event (ctx_ClusterKey ctx) kind ev A) (view w) r (view w')"
proof (cases kind)
  case ServiceExportAccepted
  with assms upsert_step [OF assms(1-3) _ assms(4)] show ?thesis
    by (cases "ClusterKey ev = ctx_ClusterKey ctx") (auto simp: upsertServiceImport_def event_done_def)
next
  case ServiceExportDeleted
  with assms delete_step [OF assms(1,3) _ assms(4)] show ?thesis
    by (cases "ClusterKey ev = ctx_ClusterKey ctx") (auto simp: deleteServiceImport_def event_done_def)
next
  case ServiceExportRejected
  with assms reject_view [OF assms(1)] show ?thesis
    by (simp add: event_done_def)
qed (use assms in \<open>simp add: event_done_def\<close>)

lemma apply_event_idem: "apply_event own kind ev (apply_event own kind ev A) = apply_event own kind ev A"
  by (cases kind) auto

lemma retry_event:
  assumes "retries retry" and "import_server api view" and "any_order lib" and "exports_ports P ev"
    and "import_reflects P A (view w (ev_nn ev))" and "retry (event_call lib api ctx kind ev) w = (r, w')"
  shows "event_done P ev (apply_event (ctx_ClusterKey ctx) kind ev A) (view w) r (view w')"
proof -
  obtain k where "attempts k (event_call lib api ctx kind ev) w = (r, w')"
    using assms(1,6) unfolding retries_def by metis
  with call_step [OF assms(2-4)] apply_event_idem assms(5) show ?thesis
    by (rule attempts_event)
qed

lemma process_messages_reflects:
  assumes "retries retry" and "import_server api view" and "any_order lib" and "\<forall>msg\<in>set msgs. message_about P n msg"
    and "import_reflects P A (view w n)" and "process_messages lib api retry ctx msgs w = (rs, w')"
    and "\<forall>r\<in>set rs. \<forall>err. r \<noteq> Some (Inl err)"
  shows "import_reflects P (fold (apply_message (ctx_ClusterKey ctx)) msgs A) (view w' n)"
  using assms(4-7)
proof (induction msgs arbitrary: A w rs)
  case (Cons msg msgs)
  obtain r w1 where r: "connector_processEvent lib api retry ctx msg w = (r, w1)"
    by (cases "connector_processEvent lib api retry ctx msg w")
  obtain rs1 where rs1: "process_messages lib api retry ctx msgs w1 = (rs1, w')" and rs: "rs = r # rs1"
    using Cons.prems(3) r by (auto split: prod.splits)
  have "import_reflects P (apply_message (ctx_ClusterKey ctx) msg A) (view w1 n)"
  proof (cases "msg_event msg")
    case None
    with r Cons.prems(2) show ?thesis
      by (simp add: connector_processEvent_call apply_message_def)
  next
    case (Some ev)
    then have ev: "ev_nn ev = n" "exports_ports P ev"
      using Cons.prems(1) by (simp_all add: message_about_def)
    obtain r1 where r1: "retry (event_call lib api ctx (msg_Kind msg) ev) w = (r1, w1)" and "r = Some r1"
      using r Some by (cases "retry (event_call lib api ctx (msg_Kind msg) ev) w") (auto simp: connector_processEvent_call)
    with retry_event [OF assms(1-3) ev(2) _ r1, of A] Cons.prems(2,4) ev(1) rs Some show ?thesis
      by (auto simp: event_done_def apply_message_def)
  qed
  with Cons.IH [OF _ _ rs1] Cons.prems(1,4) rs show ?case
    by simp
qed simp

section \<open>Properties\<close>

text \<open>A server that keeps the imports in a map and accepts every call.\<close>

definition map_server :: "(NamespacedName \<rightharpoonup> ServiceImportSpec) conn_api" where
  "map_server =
     \<lparr>api_createNamespace = (\<lambda>_ w. (Inr (), w)),
      api_createImport = (\<lambda>imp w. if w (imp_nn imp) = None then (Inr imp, w(imp_nn imp \<mapsto> imp_Spec imp)) else (Inl AlreadyExists, w)),
      api_getImport = (\<lambda>ns nm w. (case w (nn ns nm) of None \<Rightarrow> Inl NotFound
                                  | Some spec \<Rightarrow> Inr \<lparr>imp_Meta = named_meta ns nm, imp_Spec = spec\<rparr>, w)),
      api_updateImport = (\<lambda>imp w. (Inr imp, w(imp_nn imp \<mapsto> imp_Spec imp))),
      api_deleteImport = (\<lambda>ns nm w. (Inr (), w(nn ns nm := None))),
      api_getServiceNamed = (\<lambda>_ _ w. (Inl NotFound, w)), api_getExport = (\<lambda>_ _ w. (Inl NotFound, w)),
      api_updateExportStatus = (\<lambda>exp w. (Inr exp, w)), api_warnExport = (\<lambda>_ _ _ w. w)\<rparr>"

definition demo_conn_lib :: conn_lib where
  "demo_conn_lib =
     \<lparr>SetStatusCondition = Cons, IsStatusConditionTrue = (\<lambda>cs t. \<exists>c\<in>set cs. cond_Type c = t \<and> cond_Status c = ''True''),
      IsStatusConditionFalse = (\<lambda>cs t. \<exists>c\<in>set cs. cond_Type c = t \<and> cond_Status c = ''False''),
      err_text = (\<lambda>_. []), ep_order = map snd\<rparr>"

definition demo_con :: "string \<Rightarrow> ConnectorConfig" where
  "demo_con nm = \<lparr>con_name = nm, con_region = ''r'', con_zone = ''z'', con_group = ''g'', con_inCluster = False,
     con_key = cluster_key ''r'' ''z'' ''g'' nm, con_gatewayHost = nm, con_gatewayIP = Some [10, 0, 0, 1],
     con_gatewayPort = 80, con_controlPlaneUID = ''uid''\<rparr>"

definition demo_export :: "(int \<times> string) list \<Rightarrow> ServiceExport" where
  "demo_export rules =
     \<lparr>exp_Meta = named_meta ''ns'' ''web'', exp_Generation = 1,
      exp_Spec = \<lparr>ses_PathRewrite = None, ses_SessionSticky = False, ses_LoadBalancer = [],
        ses_Rules = map (\<lambda>(n, path). \<lparr>ser_PortNumber = n, ser_Path = path, ser_PathType = None\<rparr>) rules,
        ses_TargetClusters = [], ses_ServiceAccountName = []\<rparr>,
      exp_Conditions = []\<rparr>"

definition demo_service :: "int list \<Rightarrow> Service" where
  "demo_service ports =
     \<lparr>svc_Meta = named_meta ''ns'' ''web'',
      svc_Spec = \<lparr>ssp_Type = ServiceTypeClusterIP, ssp_ClusterIP = [], ssp_ClusterIPs = [], ssp_IPFamilies = [], ssp_ExternalName = [],
        ssp_Ports = map (\<lambda>n. \<lparr>sp_Name = itoa n, sp_Protocol = ProtocolTCP, sp_Port = n, sp_TargetPort = IntPort n, sp_NodePort = 0,
                             sp_AppProtocol = None\<rparr>) ports,
        ssp_LoadBalancerClass = None, ssp_IPFamilyPolicy = None\<rparr>,
      svc_LoadBalancerIngressIPs = []\<rparr>"

definition demo_event :: "string \<Rightarrow> (int \<times> string) list \<Rightarrow> ServiceExportEvent" where
  "demo_event nm rules =
     \<lparr>sev_Geo = demo_con nm, sev_ServiceExport = demo_export rules, sev_Service = demo_service (map fst rules), sev_Error = []\<rparr>"

definition accepted :: "ServiceExportEvent \<Rightarrow> Message" where
  "accepted ev = \<lparr>msg_Kind = ServiceExportAccepted, msg_OldObj = None, msg_NewObj = Some ev\<rparr>"

definition deleted :: "ServiceExportEvent \<Rightarrow> Message" where
  "deleted ev = \<lparr>msg_Kind = ServiceExportDeleted, msg_OldObj = Some ev, msg_NewObj = None\<rparr>"

definition demo_ctx :: ConnectorContext where
  "demo_ctx = \<lparr>ctx_ClusterKey = cluster_key ''r'' ''z'' ''g'' ''own'', ctx_SpecHash = [], ctx_KubeConfig = [],
     ctx_ConnectorConfig = demo_con ''own'', ctx_StopCh = 0\<rparr>"

lemma map_server_ok: "import_server map_server (\<lambda>w. w)"
  by (auto simp: import_server_def map_server_def imp_nn_def nn_of_meta_def split: if_splits option.splits)



text \<open>The ports of an import that an export does not name lose all their endpoints, also those of the
  other clusters: the map of endpoints is filled only while a rule for the port is found. Here cluster
  \<open>a\<close> exports the ports 80 and 443 and cluster \<open>b\<close> only port 80; after \<open>b\<close>'s export nothing is left
  of \<open>a\<close>'s port 443, although \<open>a\<close> still exports it. When \<open>b\<close> withdraws its export, port 443 is
  removed from the import altogether.\<close>

theorem unlisted_port_loses_endpoints:
  "let a = demo_event ''a'' [(80, ''/a80''), (443, ''/a443'')]; b = demo_event ''b'' [(80, ''/b80'')];
       ports = (\<lambda>msgs. case snd (process_messages demo_conn_lib map_server (attempts 1) demo_ctx msgs Map.empty) (nn ''ns'' ''web'') of
                          None \<Rightarrow> [] | Some spec \<Rightarrow> map (\<lambda>p. (ip_Port p, map ie_ClusterKey (ip_Endpoints p))) (sis_Ports spec))
   in ports [accepted a] = [(80, [''r/z/g/a'']), (443, [''r/z/g/a''])] \<and>
      ports [accepted a, accepted b] = [(80, [''r/z/g/a'', ''r/z/g/b'']), (443, [])] \<and>
      ports [accepted a, accepted b, deleted b] = [(80, [''r/z/g/a''])]"
  by code_simp

text \<open>The configuration of a cluster that has joined.\<close>

definition joined :: "ConnectorConfig \<Rightarrow> MeshConfig \<Rightarrow> MeshConfig" where
  "joined con mc = mc\<lparr>mc_IsManaged := True,
     mc_Cluster := \<lparr>cc_UID = cc_UID (mc_Cluster mc), cc_Region = con_region con, cc_Zone = con_zone con, cc_Group = con_group con,
                    cc_Name = con_name con, cc_ControlPlaneUID = con_controlPlaneUID con\<rparr>\<rparr>"

lemma joined_update:
  "mc\<lparr>mc_IsManaged := True,
      mc_Cluster := (mc_Cluster mc)\<lparr>cc_Region := con_region con, cc_Zone := con_zone con, cc_Group := con_group con,
        cc_Name := con_name con, cc_ControlPlaneUID := con_controlPlaneUID con\<rparr>\<rparr> = joined con mc"
  by (simp add: joined_def)

text \<open>Joining the set of clusters. The connector of a cluster that another control plane manages
  fails and leaves the configuration alone; a cluster of the same control plane joins again without
  a change; any other cluster is marked as managed by this control plane, and every later read of
  its configuration shows that.\<close>

theorem join_cluster_set:
  assumes "cfg_cache s = Inr cm" and "cm_Data cm = Some data" and "ParseMeshConfig lib cm = Inr mc" and "\<not> con_inCluster con"
    and "json_roundtrip lib (joined con mc)" and "validate_Struct lib (joined con mc) = None"
    and "\<And>cm' w. api_updateConfigMap api cm' w = (Inr cm', f cm' w)"
  shows "if mc_IsManaged mc \<and> cc_ControlPlaneUID (mc_Cluster mc) \<noteq> [] then
           (if cc_ControlPlaneUID (mc_Cluster mc) = con_controlPlaneUID con
            then updateConfigsOfManagedCluster lib api con s = (Inr (Inr ()), s)
            else \<exists>err. updateConfigsOfManagedCluster lib api con s = (Inr (Inl err), s))
         else \<exists>s'. updateConfigsOfManagedCluster lib api con s = (Inr (Inr ()), s') \<and>
                   GetConfig lib api s' = (Inr (joined con mc), s')"
proof -
  have get: "GetConfig lib api s = (Inr mc, s)"
    using assms(1,3) by (simp add: GetConfig_def getConfigMap_def)
  have "\<exists>s'. UpdateConfig lib api (Some (joined con mc)) s = (Inr (Inr (joined con mc)), s') \<and>
      GetConfig lib api s' = (Inr (joined con mc), s')"
    using assms ParseMeshConfig_ToJson [OF assms(5,6)]
    by (simp add: UpdateConfig_def getConfigMap_def GetConfig_def Let_def)
  with assms(4) get show ?thesis
    by (auto simp: updateConfigsOfManagedCluster_def joined_update)
qed

theorem join_cluster_set_witness:
  "let con = demo_con ''a''; mc = demo_cfg; cfg = joined con mc;
       lib = \<lparr>Unmarshal = (\<lambda>s. if s = ''joined'' then Inr cfg else Inr mc), MarshalIndent = (\<lambda>_. Inr ''joined''),
              validate_Struct = (\<lambda>_. None), ErieCanalNamespace = ''erie-canal''\<rparr>;
       api = \<lparr>api_getConfigMap = (\<lambda>_ w. (Inl NotFound, w)), api_updateConfigMap = (\<lambda>cm w. (Inr cm, w + (1 :: nat)))\<rparr>;
       s = \<lparr>cfg_cache = Inr (demo_cm ''own''), cfg_world = 0\<rparr>
   in \<exists>s'. updateConfigsOfManagedCluster lib api con s = (Inr (Inr ()), s') \<and> GetConfig lib api s' = (Inr cfg, s')"
proof -
  let ?con = "demo_con ''a''"
  let ?lib = "\<lparr>Unmarshal = (\<lambda>s. if s = ''joined'' then Inr (joined ?con demo_cfg) else Inr demo_cfg), MarshalIndent = (\<lambda>_. Inr ''joined''),
      validate_Struct = (\<lambda>_. None), ErieCanalNamespace = ''erie-canal''\<rparr>"
  let ?api = "\<lparr>api_getConfigMap = (\<lambda>_ w. (Inl NotFound, w)), api_updateConfigMap = (\<lambda>cm w. (Inr cm, w + (1 :: nat)))\<rparr>"
  let ?s = "\<lparr>cfg_cache = Inr (demo_cm ''own''), cfg_world = 0 :: nat\<rparr>"
  have "\<not> mc_IsManaged demo_cfg"
    by (simp add: demo_cfg_def zero_MeshConfig_def)
  moreover have "json_roundtrip ?lib (joined ?con demo_cfg)"
    by (simp add: json_roundtrip_def)
  ultimately show ?thesis
    unfolding Let_def
    using join_cluster_set [of ?s "demo_cm ''own''" "[(MeshConfigJsonName, ''own'')]" ?lib demo_cfg ?con ?api "\<lambda>_ w. w + 1"]
    by (simp add: demo_cm_def demo_con_def ParseMeshConfig_def)
qed

end
