(* ===== verification/Cluster_Controller.thy ===== *)
theory Cluster_Controller
  imports Cluster_Connector
begin

text \<open>
  \<open>controllers/cluster/v1alpha1/cluster_controller.go\<close>: the reconciler that keeps a connector running
  for every Cluster resource, and its handler of new exports, which decides whether an export is
  accepted or rejected in the whole set of clusters.

  The goroutine that runs a connector is a step of its own: \<open>run_failed\<close> is what it does when
  \<open>Run\<close> returns an error. A stop channel is a number; closing a channel twice panics. The requests to
  the API servers, the hash of a spec, the order of a range over the map of connectors and the libraries
  that load a kubeconfig are parameters.
\<close>

section \<open>State\<close>

record connectorBackground =
  bg_isInCluster :: bool
  bg_context :: ConnectorContext
  bg_connector :: Connector

text \<open>Beside the map: the number of channels made so far, those that have been closed, the
  connectors whose \<open>Run\<close> has not returned (stop channel and key), and the package variable with the
  version of the API server.\<close>

record ClusterReconciler =
  rec_backgrounds :: "(string, connectorBackground) gomap"
  rec_channels :: nat
  rec_closed :: "nat list"
  rec_running :: "(nat \<times> string) list"
  rec_ServerVersion :: string

definition New :: ClusterReconciler where
  "New = \<lparr>rec_backgrounds = [], rec_channels = 0, rec_closed = [], rec_running = [], rec_ServerVersion = zeroVersion\<rparr>"

record 'w cluster_env =
  ce_getCluster :: "string \<Rightarrow> 'w \<Rightarrow> Cluster result \<times> 'w"
  ce_updateStatus :: "Cluster \<Rightarrow> 'w \<Rightarrow> unit result \<times> 'w"
  ce_http :: "(repo_content, 'w) repo_http"
  ce_Hash :: "ClusterSpec \<Rightarrow> nat result"
  ce_InClusterConfig :: "string result"
  ce_LoadKubeconfig :: "string \<Rightarrow> string result"
  ce_access :: "string \<Rightarrow> cluster_access"
  ce_version :: version_lib
  ce_dns :: dns_lib
  ce_lib :: conn_lib

text \<open>What a reconciler returns: the seconds after which the request is queued again, and the error.\<close>

type_synonym ctrl_result = "nat \<times> unit result"

section \<open>Connectors\<close>

definition close_channel :: "nat \<Rightarrow> ClusterReconciler \<Rightarrow> ClusterReconciler go" where
  "close_channel ch st =
     (if ch \<in> set (rec_closed st) then Inl (Panicked ''close of closed channel'')
      else Inr (st\<lparr>rec_closed := ch # rec_closed st\<rparr>))"

definition delete_background :: "string \<Rightarrow> ClusterReconciler \<Rightarrow> ClusterReconciler" where
  "delete_background key st = st\<lparr>rec_backgrounds := gdel key (rec_backgrounds st)\<rparr>"

definition destroyConnector :: "Cluster \<Rightarrow> ClusterReconciler \<Rightarrow> ClusterReconciler go" where
  "destroyConnector cluster st =
     (case gget (rec_backgrounds st) (Cluster_Key cluster) of
        None \<Rightarrow> Inr st
      | Some bg \<Rightarrow>
          go_bind (close_channel (ctx_StopCh (bg_context bg)) st) (\<lambda>st. Inr (delete_background (Cluster_Key cluster) st)))"

definition remoteKubeConfig :: "'w cluster_env \<Rightarrow> Cluster \<Rightarrow> string result" where
  "remoteKubeConfig env cluster = ce_LoadKubeconfig env (cls_Kubeconfig (cl_Spec cluster))"

definition getKubeConfig :: "'w cluster_env \<Rightarrow> Cluster \<Rightarrow> string result" where
  "getKubeConfig env cluster =
     (if cls_IsInCluster (cl_Spec cluster) then ce_InClusterConfig env else remoteKubeConfig env cluster)"

definition connectorConfig :: "'w cluster_env \<Rightarrow> Cluster \<Rightarrow> MeshConfig \<Rightarrow> ConnectorConfig result" where
  "connectorConfig env cluster mc =
     (let spec = cl_Spec cluster; cc = mc_Cluster mc in
      if cls_IsInCluster spec
      then NewConnectorConfig (ce_dns env) (cc_Region cc) (cc_Zone cc) (cc_Group cc) (cc_Name cc)
             (cls_GatewayHost spec) (cls_GatewayPort spec) (cls_IsInCluster spec) []
      else NewConnectorConfig (ce_dns env) (cls_Region spec) (cls_Zone spec) (cls_Group spec) (meta_Name (cl_Meta cluster))
             (cls_GatewayHost spec) (cls_GatewayPort spec) (cls_IsInCluster spec) (cc_UID cc))"

definition joinStatus :: "'w cluster_env \<Rightarrow> Cluster \<Rightarrow> string \<Rightarrow> string \<Rightarrow> string \<Rightarrow> Cluster" where
  "joinStatus env cluster status reason message =
     cluster\<lparr>cl_Conditions :=
       SetStatusCondition (ce_lib env)
         \<lparr>cond_Type = ClusterManaged, cond_Status = status, cond_Reason = reason, cond_Message = message,
          cond_ObservedGeneration = cl_Generation cluster\<rparr> (cl_Conditions cluster)\<rparr>"

definition successJoinClusterSet :: "'w cluster_env \<Rightarrow> Cluster \<Rightarrow> 'w \<Rightarrow> ctrl_result \<times> 'w" where
  "successJoinClusterSet env cluster w =
     apfst (Pair 0) (ce_updateStatus env
       (joinStatus env cluster ''True'' ''Success'' (''Cluster '' @ Cluster_Key cluster @ '' joined ClusterSet successfully.'')) w)"

definition failedJoinClusterSet :: "'w cluster_env \<Rightarrow> Cluster \<Rightarrow> string \<Rightarrow> 'w \<Rightarrow> ctrl_result \<times> 'w" where
  "failedJoinClusterSet env cluster err w =
     apfst (Pair 0) (ce_updateStatus env
       (joinStatus env cluster ''False'' ''Failed''
         (''Cluster '' @ Cluster_Key cluster @ '' failed to join ClusterSet: '' @ err @ ''.'')) w)"

text \<open>What the goroutine does when \<open>Run\<close> has returned an error.\<close>

definition run_failed :: "nat \<Rightarrow> string \<Rightarrow> ClusterReconciler \<Rightarrow> ClusterReconciler go" where
  "run_failed stop key st =
     go_bind (close_channel stop (st\<lparr>rec_running := removeAll (stop, key) (rec_running st)\<rparr>)) (\<lambda>st.
       Inr (delete_background key st))"

text \<open>\<open>newConnector\<close>. The variable \<open>success\<close> is shared with the goroutine without synchronisation:
  \<open>early\<close> is the error with which \<open>Run\<close> has returned by the time it is read, if it has.\<close>

definition newConnector ::
  "'w cluster_env \<Rightarrow> string option \<Rightarrow> Cluster \<Rightarrow> MeshConfig \<Rightarrow> ClusterReconciler \<Rightarrow> 'w \<Rightarrow>
   (ctrl_result \<times> ClusterReconciler \<times> 'w) go"
where
  "newConnector env early cluster mc st w =
     (let key = Cluster_Key cluster in
      case getKubeConfig env cluster of
        Inl err \<Rightarrow> Inr ((0, Inl err), st, w)
      | Inr kubeconfig \<Rightarrow>
          (case connectorConfig env cluster mc of
             Inl err \<Rightarrow> Inr ((0, Inl err), st, w)
           | Inr connCfg \<Rightarrow>
               (let stop = rec_channels st;
                    background = \<lparr>ctx_ClusterKey = key, ctx_SpecHash = SimpleHash (ce_Hash env (cl_Spec cluster)),
                                  ctx_KubeConfig = kubeconfig, ctx_ConnectorConfig = connCfg, ctx_StopCh = stop\<rparr>;
                    st = st\<lparr>rec_channels := stop + 1\<rparr>
                in go_bind (NewConnector (ce_version env) (ce_access env) background (rec_ServerVersion st)) (\<lambda>(connector', v).
                     let st = st\<lparr>rec_ServerVersion := v\<rparr> in
                     case connector' of
                       Inl err \<Rightarrow> Inr ((0, Inl err), st, w)
                     | Inr connector \<Rightarrow>
                         let st = st\<lparr>rec_backgrounds := gput key
                                      \<lparr>bg_isInCluster = cls_IsInCluster (cl_Spec cluster), bg_context = background,
                                       bg_connector = connector\<rparr> (rec_backgrounds st),
                                     rec_running := (stop, key) # rec_running st\<rparr>
                         in go_bind (case early of None \<Rightarrow> Inr st | Some _ \<Rightarrow> run_failed stop key st) (\<lambda>st.
                              let (res, w) =
                                (if \<not> cls_IsInCluster (cl_Spec cluster)
                                 then (case early of
                                         None \<Rightarrow> successJoinClusterSet env cluster w
                                       | Some errorMsg \<Rightarrow> failedJoinClusterSet env cluster errorMsg w)
                                 else ((0, Inr ()), w))
                              in Inr (res, st, w))))))"

definition createConnector ::
  "'w cluster_env \<Rightarrow> string option \<Rightarrow> Cluster \<Rightarrow> MeshConfig \<Rightarrow> ClusterReconciler \<Rightarrow> 'w \<Rightarrow>
   (ctrl_result \<times> ClusterReconciler \<times> 'w) go"
where
  "createConnector = newConnector"

definition recreateConnector ::
  "'w cluster_env \<Rightarrow> string option \<Rightarrow> connectorBackground \<Rightarrow> Cluster \<Rightarrow> MeshConfig \<Rightarrow> ClusterReconciler \<Rightarrow> 'w \<Rightarrow>
   (ctrl_result \<times> ClusterReconciler \<times> 'w) go"
where
  "recreateConnector env early bg cluster mc st w =
     go_bind (close_channel (ctx_StopCh (bg_context bg)) st) (\<lambda>st.
       newConnector env early cluster mc (delete_background (Cluster_Key cluster) st) w)"

definition deriveCodebases :: "('c, 'w) repo_http \<Rightarrow> MeshConfig \<Rightarrow> 'w \<Rightarrow> ctrl_result \<times> 'w" where
  "deriveCodebases http mc w =
     (case DeriveCodebase http (GetDefaultServicesPath mc) DefaultServiceBasePath w of
        (Inl err, w') \<Rightarrow> ((1, Inl err), w')
      | (Inr _, w') \<Rightarrow>
          (case DeriveCodebase http (GetDefaultIngressPath mc) DefaultIngressBasePath w' of
             (Inl err, w'') \<Rightarrow> ((1, Inl err), w'')
           | (Inr _, w'') \<Rightarrow> ((0, Inr ()), w'')))"

text \<open>The object that \<open>Get\<close> leaves behind when there is no such Cluster.\<close>

definition zero_Cluster :: Cluster where
  "zero_Cluster =
     \<lparr>cl_Meta = named_meta [] [], cl_Generation = 0,
      cl_Spec = \<lparr>cls_IsInCluster = False, cls_Region = [], cls_Zone = [], cls_Group = [], cls_GatewayHost = [],
        cls_GatewayPort = 0, cls_Kubeconfig = []\<rparr>,
      cl_Conditions = []\<rparr>"

definition Cluster_Reconcile ::
  "'w cluster_env \<Rightarrow> string option \<Rightarrow> string \<Rightarrow> MeshConfig go \<Rightarrow> ClusterReconciler \<Rightarrow> 'w \<Rightarrow>
   (ctrl_result \<times> ClusterReconciler \<times> 'w) go"
where
  "Cluster_Reconcile env early nm mesh st w =
     (case ce_getCluster env nm w of
        (Inl err, w) \<Rightarrow>
          if err = NotFound then go_bind (destroyConnector zero_Cluster st) (\<lambda>st. Inr ((0, Inr ()), st, w))
          else Inr ((0, Inl err), st, w)
      | (Inr cluster, w) \<Rightarrow>
          go_bind mesh (\<lambda>mc.
            case deriveCodebases (ce_http env) mc w of
              ((n, Inl err), w) \<Rightarrow> Inr ((n, Inl err), st, w)
            | ((n, Inr _), w) \<Rightarrow>
                (case gget (rec_backgrounds st) (Cluster_Key cluster) of
                   None \<Rightarrow> createConnector env early cluster mc st w
                 | Some bg \<Rightarrow>
                     if ctx_SpecHash (bg_context bg) \<noteq> SimpleHash (ce_Hash env (cl_Spec cluster))
                     then recreateConnector env early bg cluster mc st w
                     else Inr ((0, Inr ()), st, w))))"

section \<open>New exports\<close>

text \<open>The type assertion \<open>bg.connector.(*conn.RemoteConnector)\<close>.\<close>

fun asRemote :: "Connector \<Rightarrow> ConnectorContext go" where
  "asRemote (RemoteConnector ctx) = Inr ctx"
| "asRemote (LocalConnector ctx) = Inl (Panicked ''interface conversion'')"

text \<open>\<open>apis\<close> gives the API server of each cluster by its key; the two loops visit the connectors in
  the order of the list.\<close>

fun isFirstTimeExport ::
  "(string \<Rightarrow> 'w conn_api) \<Rightarrow> ServiceExportEvent \<Rightarrow> (string \<times> connectorBackground) list \<Rightarrow> 'w \<Rightarrow> (bool \<times> 'w) go"
where
  "isFirstTimeExport apis ev [] w = Inr (True, w)"
| "isFirstTimeExport apis ev ((key, bg) # bgs) w =
     (if bg_isInCluster bg then isFirstTimeExport apis ev bgs w
      else go_bind (asRemote (bg_connector bg)) (\<lambda>ctx.
             case ServiceImportExists (apis (ctx_ClusterKey ctx)) (sev_ServiceExport ev) w of
               (exists, w) \<Rightarrow> if exists then Inr (False, w) else isFirstTimeExport apis ev bgs w))"

fun isValidServiceExport ::
  "conn_lib \<Rightarrow> (string \<Rightarrow> 'w conn_api) \<Rightarrow> ServiceExportEvent \<Rightarrow> (string \<times> connectorBackground) list \<Rightarrow> 'w \<Rightarrow>
   (unit result \<times> 'w) go"
where
  "isValidServiceExport lib apis ev [] w = Inr (Inr (), w)"
| "isValidServiceExport lib apis ev ((key, bg) # bgs) w =
     (if bg_isInCluster bg \<or> ctx_ClusterKey (bg_context bg) = ClusterKey ev then isValidServiceExport lib apis ev bgs w
      else go_bind (asRemote (bg_connector bg)) (\<lambda>ctx.
             case ValidateServiceExport lib (apis (ctx_ClusterKey ctx)) ctx (sev_ServiceExport ev) (sev_Service ev) w of
               (Inl err, w) \<Rightarrow> Inr (Inl err, w)
             | (Inr _, w) \<Rightarrow> isValidServiceExport lib apis ev bgs w))"

definition acceptServiceExport :: "ServiceExportEvent \<Rightarrow> 'b Broker \<Rightarrow> 'b Broker" where
  "acceptServiceExport ev b = Enqueue \<lparr>msg_Kind = ServiceExportAccepted, msg_OldObj = None, msg_NewObj = Some ev\<rparr> b"

definition error_String :: "conn_lib \<Rightarrow> go_error \<Rightarrow> string" where
  "error_String lib err = (case err of Errorf s \<Rightarrow> s | _ \<Rightarrow> err_text lib err)"

definition ctl_rejectServiceExport :: "conn_lib \<Rightarrow> ServiceExportEvent \<Rightarrow> go_error \<Rightarrow> 'b Broker \<Rightarrow> 'b Broker" where
  "ctl_rejectServiceExport lib ev err b =
     Enqueue \<lparr>msg_Kind = ServiceExportRejected, msg_OldObj = None, msg_NewObj = Some (ev\<lparr>sev_Error := error_String lib err\<rparr>)\<rparr> b"

text \<open>\<open>ord1\<close> and \<open>ord2\<close> are the orders in which the two loops visit the map of connectors.\<close>

definition processServiceExportCreatedEvent ::
  "conn_lib \<Rightarrow> (string \<Rightarrow> 'w conn_api) \<Rightarrow> (string \<times> connectorBackground) list \<Rightarrow> (string \<times> connectorBackground) list \<Rightarrow>
   ServiceExportEvent \<Rightarrow> 'b Broker \<times> 'w \<Rightarrow> ('b Broker \<times> 'w) go"
where
  "processServiceExportCreatedEvent lib apis ord1 ord2 ev bw =
     go_bind (isFirstTimeExport apis ev ord1 (snd bw)) (\<lambda>(first, w).
       if first then Inr (acceptServiceExport ev (fst bw), w)
       else go_bind (isValidServiceExport lib apis ev ord2 w) (\<lambda>(valid, w).
              case valid of
                Inr _ \<Rightarrow> Inr (acceptServiceExport ev (fst bw), w)
              | Inl err \<Rightarrow> Inr (ctl_rejectServiceExport lib ev err (fst bw), w)))"

text \<open>One round of \<open>processEvent\<close>: \<open>msg'\<close> is what the channel delivers, nothing when it is closed.\<close>

definition controller_processEvent ::
  "conn_lib \<Rightarrow> (string \<Rightarrow> 'w conn_api) \<Rightarrow> (string \<times> connectorBackground) list \<Rightarrow> (string \<times> connectorBackground) list \<Rightarrow>
   MeshConfig go \<Rightarrow> Message option \<Rightarrow> 'b Broker \<times> 'w \<Rightarrow> ('b Broker \<times> 'w) go"
where
  "controller_processEvent lib apis ord1 ord2 mesh msg' bw =
     go_bind mesh (\<lambda>mc.
       if mc_IsManaged mc \<and> cc_ControlPlaneUID (mc_Cluster mc) \<noteq> [] \<and> cc_UID (mc_Cluster mc) \<noteq> cc_ControlPlaneUID (mc_Cluster mc)
       then Inr bw
       else (case Option.bind msg' msg_NewObj of
               None \<Rightarrow> Inr bw
             | Some ev \<Rightarrow>
                 if IsStatusConditionFalse lib (exp_Conditions (sev_ServiceExport ev)) ServiceExportValid then Inr bw
                 else if IsStatusConditionTrue lib (exp_Conditions (sev_ServiceExport ev)) ServiceExportConflict then Inr bw
                 else processServiceExportCreatedEvent lib apis ord1 ord2 ev bw))"

section \<open>Reachable states and their invariant\<close>

text \<open>The reconciler is called for any Cluster at any time and with any configuration, and a connector that
  runs may fail at any time. A step that panics ends the process and leads to no state.\<close>

inductive rec_reach :: "'w cluster_env \<Rightarrow> ClusterReconciler \<Rightarrow> bool" for env :: "'w cluster_env" where
  reach_New: "rec_reach env New"
| reach_Reconcile:
    "rec_reach env st \<Longrightarrow> Cluster_Reconcile env early nm mesh st w = Inr (res, st', w') \<Longrightarrow> rec_reach env st'"
| reach_failed: "rec_reach env st \<Longrightarrow> (ch, key) \<in> set (rec_running st) \<Longrightarrow> run_failed ch key st = Inr st' \<Longrightarrow> rec_reach env st'"

definition bg_ok :: "string \<Rightarrow> connectorBackground \<Rightarrow> bool" where
  "bg_ok key bg \<longleftrightarrow> ctx_ClusterKey (bg_context bg) = key \<and>
     bg_connector bg = (if bg_isInCluster bg then LocalConnector else RemoteConnector) (bg_context bg)"

text \<open>The connectors that run and have not been told to stop are exactly those in the map.\<close>

definition rec_inv :: "ClusterReconciler \<Rightarrow> bool" where
  "rec_inv st \<longleftrightarrow>
     gm_wf (rec_backgrounds st) \<and>
     (\<forall>key bg. gget (rec_backgrounds st) key = Some bg \<longrightarrow> bg_ok key bg) \<and>
     (\<forall>ch key. (ch, key) \<in> set (rec_running st) \<and> ch \<notin> set (rec_closed st) \<longleftrightarrow>
                (\<exists>bg. gget (rec_backgrounds st) key = Some bg \<and> ctx_StopCh (bg_context bg) = ch)) \<and>
     (\<forall>ch key key'. (ch, key) \<in> set (rec_running st) \<and> (ch, key') \<in> set (rec_running st) \<longrightarrow> key' = key) \<and>
     (\<forall>ch key. (ch, key) \<in> set (rec_running st) \<longrightarrow> ch < rec_channels st) \<and>
     (\<forall>ch\<in>set (rec_closed st). ch < rec_channels st)"

lemma NewConnectorConfig_inCluster:
  "NewConnectorConfig dns region zone grp nm host port inCluster uid = Inr c \<Longrightarrow> con_inCluster c = inCluster"
  by (auto simp: NewConnectorConfig_def Let_def split: if_splits sum.splits option.splits)

lemma connectorConfig_inCluster:
  "connectorConfig env cluster mc = Inr c \<Longrightarrow> con_inCluster c = cls_IsInCluster (cl_Spec cluster)"
  by (auto simp: connectorConfig_def Let_def split: if_splits dest: NewConnectorConfig_inCluster)

lemma NewConnector_kind:
  "NewConnector vl access ctx v = Inr (Inr connector, v') \<Longrightarrow>
   connector = (if con_inCluster (ctx_ConnectorConfig ctx) then LocalConnector else RemoteConnector) ctx"
  by (cases "ca_getManagerDeployment (access (ctx_KubeConfig ctx))")
    (auto simp: NewConnector_def Let_def go_bind_Inr_iff split: sum.splits if_splits)

definition started :: "string \<Rightarrow> connectorBackground \<Rightarrow> string \<Rightarrow> ClusterReconciler \<Rightarrow> ClusterReconciler" where
  "started key bg v st =
     st\<lparr>rec_channels := rec_channels st + 1, rec_ServerVersion := v,
        rec_backgrounds := gput key bg (rec_backgrounds st), rec_running := (rec_channels st, key) # rec_running st\<rparr>"

lemma newConnector_cases:
  assumes "newConnector env early cluster mc st w = Inr (res, st', w')"
  obtains (refused) err n v where "res = (0, Inl err)" and "st' = st\<lparr>rec_channels := n, rec_ServerVersion := v\<rparr>"
      and "rec_channels st \<le> n" and "w' = w"
  | (started) bg v where "bg_ok (Cluster_Key cluster) bg" and "ctx_StopCh (bg_context bg) = rec_channels st"
      and "ctx_SpecHash (bg_context bg) = SimpleHash (ce_Hash env (cl_Spec cluster))"
      and "(case early of None \<Rightarrow> Inr (started (Cluster_Key cluster) bg v st)
            | Some _ \<Rightarrow> run_failed (rec_channels st) (Cluster_Key cluster) (started (Cluster_Key cluster) bg v st)) = Inr st'"
proof -
  show ?thesis
  proof (cases "getKubeConfig env cluster")
    case (Inl err)
    with assms show ?thesis
      by (intro refused [of err "rec_ServerVersion st" "rec_channels st"]) (auto simp: newConnector_def Let_def)
  next
    case kubeconfig: (Inr kubeconfig)
    show ?thesis
    proof (cases "connectorConfig env cluster mc")
      case (Inl err)
      with assms kubeconfig show ?thesis
        by (intro refused [of err "rec_ServerVersion st" "rec_channels st"]) (auto simp: newConnector_def Let_def)
    next
      case connCfg: (Inr connCfg)
      let ?ctx = "\<lparr>ctx_ClusterKey = Cluster_Key cluster, ctx_SpecHash = SimpleHash (ce_Hash env (cl_Spec cluster)),
                   ctx_KubeConfig = kubeconfig, ctx_ConnectorConfig = connCfg, ctx_StopCh = rec_channels st\<rparr>"
      obtain c v where new: "NewConnector (ce_version env) (ce_access env) ?ctx (rec_ServerVersion st) = Inr (c, v)"
        using assms kubeconfig connCfg by (auto simp: newConnector_def Let_def go_bind_Inr_iff)
      show ?thesis
      proof (cases c)
        case (Inl err)
        with assms kubeconfig connCfg new show ?thesis
          by (intro refused [of err v "rec_channels st + 1"]) (auto simp: newConnector_def Let_def)
      next
        case (Inr connector)
        let ?bg = "\<lparr>bg_isInCluster = cls_IsInCluster (cl_Spec cluster), bg_context = ?ctx, bg_connector = connector\<rparr>"
        have "bg_ok (Cluster_Key cluster) ?bg"
          using NewConnector_kind [OF new [unfolded Inr]] connectorConfig_inCluster [OF connCfg] by (simp add: bg_ok_def)
        moreover have "(case early of None \<Rightarrow> Inr (started (Cluster_Key cluster) ?bg v st)
            | Some _ \<Rightarrow> run_failed (rec_channels st) (Cluster_Key cluster) (started (Cluster_Key cluster) ?bg v st)) = Inr st'"
          using assms kubeconfig connCfg new Inr
          by (auto simp: newConnector_def Let_def go_bind_Inr_iff started_def case_prod_beta split: option.splits)
        ultimately show ?thesis
          by (intro started [of ?bg v]) simp_all
      qed
    qed
  qed
qed

lemma rec_invD:
  assumes "rec_inv st"
  shows "gm_wf (rec_backgrounds st)"
    and "gget (rec_backgrounds st) key = Some bg \<Longrightarrow> bg_ok key bg"
    and "gget (rec_backgrounds st) key = Some bg \<Longrightarrow> (ctx_StopCh (bg_context bg), key) \<in> set (rec_running st)"
    and "gget (rec_backgrounds st) key = Some bg \<Longrightarrow> ctx_StopCh (bg_context bg) \<notin> set (rec_closed st)"
    and "(ch, key) \<in> set (rec_running st) \<Longrightarrow> ch \<notin> set (rec_closed st) \<Longrightarrow>
           \<exists>bg. gget (rec_backgrounds st) key = Some bg \<and> ctx_StopCh (bg_context bg) = ch"
    and "(ch, key) \<in> set (rec_running st) \<Longrightarrow> (ch, key') \<in> set (rec_running st) \<Longrightarrow> key' = key"
    and "(ch, key) \<in> set (rec_running st) \<Longrightarrow> ch < rec_channels st"
    and "ch \<in> set (rec_closed st) \<Longrightarrow> ch < rec_channels st"
  using assms unfolding rec_inv_def by blast+

lemma rec_invI:
  assumes "gm_wf (rec_backgrounds st)"
    and "\<And>key bg. gget (rec_backgrounds st) key = Some bg \<Longrightarrow>
           bg_ok key bg \<and> (ctx_StopCh (bg_context bg), key) \<in> set (rec_running st) \<and> ctx_StopCh (bg_context bg) \<notin> set (rec_closed st)"
    and "\<And>ch key. (ch, key) \<in> set (rec_running st) \<Longrightarrow> ch \<notin> set (rec_closed st) \<Longrightarrow>
           \<exists>bg. gget (rec_backgrounds st) key = Some bg \<and> ctx_StopCh (bg_context bg) = ch"
    and "\<And>ch key key'. (ch, key) \<in> set (rec_running st) \<Longrightarrow> (ch, key') \<in> set (rec_running st) \<Longrightarrow> key' = key"
    and "\<And>ch key. (ch, key) \<in> set (rec_running st) \<Longrightarrow> ch < rec_channels st"
    and "\<And>ch. ch \<in> set (rec_closed st) \<Longrightarrow> ch < rec_channels st"
  shows "rec_inv st"
  using assms unfolding rec_inv_def by blast

lemma rec_inv_New: "rec_inv New"
  by (rule rec_invI) (simp_all add: New_def)

lemma rec_inv_started:
  assumes inv: "rec_inv st" and bg: "bg_ok key bg" "ctx_StopCh (bg_context bg) = rec_channels st"
    and new: "gget (rec_backgrounds st) key = None"
  shows "rec_inv (started key bg v st)"
proof (rule rec_invI)
  show "gm_wf (rec_backgrounds (started key bg v st))"
    using rec_invD(1) [OF inv] by (simp add: started_def gm_wf_gput)
next
  fix key' bg' assume "gget (rec_backgrounds (started key bg v st)) key' = Some bg'"
  then show "bg_ok key' bg' \<and> (ctx_StopCh (bg_context bg'), key') \<in> set (rec_running (started key bg v st)) \<and>
      ctx_StopCh (bg_context bg') \<notin> set (rec_closed (started key bg v st))"
    using bg rec_invD(2-4) [OF inv] rec_invD(8) [OF inv, of "rec_channels st"] by (auto simp: started_def split: if_splits)
next
  fix ch key' assume "(ch, key') \<in> set (rec_running (started key bg v st))" and "ch \<notin> set (rec_closed (started key bg v st))"
  then show "\<exists>bg'. gget (rec_backgrounds (started key bg v st)) key' = Some bg' \<and> ctx_StopCh (bg_context bg') = ch"
    using bg new rec_invD(5) [OF inv, of ch key'] by (auto simp: started_def)
next
  fix ch key1 key2
  assume "(ch, key1) \<in> set (rec_running (started key bg v st))" and "(ch, key2) \<in> set (rec_running (started key bg v st))"
  then show "key2 = key1"
    using rec_invD(6) [OF inv, of ch key1 key2] rec_invD(7) [OF inv, of ch] by (auto simp: started_def)
next
  fix ch key' assume "(ch, key') \<in> set (rec_running (started key bg v st))"
  then show "ch < rec_channels (started key bg v st)"
    using rec_invD(7) [OF inv] by (auto simp: started_def less_Suc_eq)
next
  fix ch assume "ch \<in> set (rec_closed (started key bg v st))"
  then show "ch < rec_channels (started key bg v st)"
    using rec_invD(8) [OF inv] by (auto simp: started_def less_Suc_eq)
qed

text \<open>A connector that is told to stop: its channel is closed and its entry deleted; it may still run.\<close>

lemma rec_inv_stopped:
  assumes inv: "rec_inv st" and bg: "gget (rec_backgrounds st) key = Some bg"
    and run: "rec_running st' = rec_running st \<or> rec_running st' = removeAll (ctx_StopCh (bg_context bg), key) (rec_running st)"
    and st': "rec_backgrounds st' = gdel key (rec_backgrounds st)" "rec_closed st' = ctx_StopCh (bg_context bg) # rec_closed st"
      "rec_channels st' = rec_channels st"
  shows "rec_inv st'"
proof (rule rec_invI)
  have sub: "x \<in> set (rec_running st)" if "x \<in> set (rec_running st')" for x
    using run that by auto
  show "gm_wf (rec_backgrounds st')"
    using rec_invD(1) [OF inv] by (simp add: st' gm_wf_gdel)
  show "bg_ok key' bg' \<and> (ctx_StopCh (bg_context bg'), key') \<in> set (rec_running st') \<and> ctx_StopCh (bg_context bg') \<notin> set (rec_closed st')"
    if "gget (rec_backgrounds st') key' = Some bg'" for key' bg'
  proof -
    from that have bg': "gget (rec_backgrounds st) key' = Some bg'" and "key' \<noteq> key"
      by (simp_all add: st' split: if_splits)
    moreover from this have "ctx_StopCh (bg_context bg') \<noteq> ctx_StopCh (bg_context bg)"
      using rec_invD(3) [OF inv bg] rec_invD(3) [OF inv bg'] rec_invD(6) [OF inv] by metis
    ultimately show ?thesis
      using rec_invD(2-4) [OF inv bg'] run by (auto simp: st')
  qed
  show "\<exists>bg'. gget (rec_backgrounds st') key' = Some bg' \<and> ctx_StopCh (bg_context bg') = ch"
    if "(ch, key') \<in> set (rec_running st')" "ch \<notin> set (rec_closed st')" for ch key'
    using rec_invD(5) [OF inv sub [OF that(1)]] that(2) bg by (auto simp: st')
  show "key2 = key1" if "(ch, key1) \<in> set (rec_running st')" "(ch, key2) \<in> set (rec_running st')" for ch key1 key2
    using rec_invD(6) [OF inv] sub that by blast
  show "ch < rec_channels st'" if "(ch, key') \<in> set (rec_running st')" for ch key'
    using rec_invD(7) [OF inv] sub [OF that] by (simp add: st')
  show "ch < rec_channels st'" if "ch \<in> set (rec_closed st')" for ch
    using that rec_invD(8) [OF inv] rec_invD(7) [OF inv rec_invD(3) [OF inv bg]] by (auto simp: st')
qed

lemma run_failed_inv:
  assumes inv: "rec_inv st" and run: "(ch, key) \<in> set (rec_running st)" and step: "run_failed ch key st = Inr st'"
  shows "rec_inv st'" and "gget (rec_backgrounds st') key = None"
proof -
  have "ch \<notin> set (rec_closed st)" and st': "st' = delete_background key
      (st\<lparr>rec_running := removeAll (ch, key) (rec_running st), rec_closed := ch # rec_closed st\<rparr>)"
    using step by (auto simp: run_failed_def close_channel_def split: if_splits)
  then obtain bg where bg: "gget (rec_backgrounds st) key = Some bg" "ctx_StopCh (bg_context bg) = ch"
    using rec_invD(5) [OF inv run] by blast
  show "rec_inv st'"
    by (rule rec_inv_stopped [OF inv bg(1)]) (simp_all add: st' bg(2) delete_background_def)
  show "gget (rec_backgrounds st') key = None"
    by (simp add: st' delete_background_def)
qed

lemma rec_inv_counters:
  "rec_inv st \<Longrightarrow> rec_channels st \<le> n \<Longrightarrow> rec_inv (st\<lparr>rec_channels := n, rec_ServerVersion := v\<rparr>)"
  by (rule rec_invI) (auto dest: rec_invD intro: less_le_trans)

lemma newConnector_inv:
  assumes "rec_inv st" and "gget (rec_backgrounds st) (Cluster_Key cluster) = None"
    and "newConnector env early cluster mc st w = Inr (res, st', w')"
  shows "rec_inv st'"
  using assms(3)
proof (cases rule: newConnector_cases)
  case (refused err n v)
  with assms(1) show ?thesis
    by (simp add: rec_inv_counters)
next
  case (started bg v)
  have inv: "rec_inv (started (Cluster_Key cluster) bg v st)"
    by (rule rec_inv_started [OF assms(1) started(1,2) assms(2)])
  have "(rec_channels st, Cluster_Key cluster) \<in> set (rec_running (started (Cluster_Key cluster) bg v st))"
    by (simp add: started_def)
  with run_failed_inv(1) [OF inv] inv started(4) show ?thesis
    by (auto split: option.splits)
qed

lemma stop_connector_inv:
  assumes inv: "rec_inv st" and bg: "gget (rec_backgrounds st) key = Some bg"
  obtains st1 where "close_channel (ctx_StopCh (bg_context bg)) st = Inr st1" and "rec_inv (delete_background key st1)"
    and "gget (rec_backgrounds (delete_background key st1)) key = None"
    and "\<And>key'. key' \<noteq> key \<Longrightarrow> gget (rec_backgrounds (delete_background key st1)) key' = gget (rec_backgrounds st) key'"
proof -
  let ?st = "st\<lparr>rec_closed := ctx_StopCh (bg_context bg) # rec_closed st\<rparr>"
  have "close_channel (ctx_StopCh (bg_context bg)) st = Inr ?st"
    using rec_invD(4) [OF inv bg] by (simp add: close_channel_def)
  moreover have "rec_inv (delete_background key ?st)"
    by (rule rec_inv_stopped [OF inv bg]) (simp_all add: delete_background_def)
  ultimately show ?thesis
    using that by (simp add: delete_background_def)
qed

lemma Reconcile_cases:
  assumes "rec_inv st" and "Cluster_Reconcile env early nm mesh st w = Inr (res, st', w')"
  obtains (deleted) "fst (ce_getCluster env nm w) = Inl NotFound" and "destroyConnector zero_Cluster st = Inr st'"
  | (unchanged) "st' = st" and "(\<exists>n err. res = (n, Inl err)) \<or>
        (\<exists>cluster bg. fst (ce_getCluster env nm w) = Inr cluster \<and> gget (rec_backgrounds st) (Cluster_Key cluster) = Some bg \<and>
           ctx_SpecHash (bg_context bg) = SimpleHash (ce_Hash env (cl_Spec cluster)))"
  | (new) cluster mc st1 w1 where "fst (ce_getCluster env nm w) = Inr cluster" and "rec_inv st1"
      and "gget (rec_backgrounds st1) (Cluster_Key cluster) = None"
      and "\<And>key. key \<noteq> Cluster_Key cluster \<Longrightarrow> gget (rec_backgrounds st1) key = gget (rec_backgrounds st) key"
      and "newConnector env early cluster mc st1 w1 = Inr (res, st', w')"
proof (cases "ce_getCluster env nm w")
  case (Pair r w1)
  show ?thesis
  proof (cases r)
    case (Inl err)
    with Pair assms(2) deleted unchanged show ?thesis
      by (auto simp: Cluster_Reconcile_def go_bind_Inr_iff split: if_splits)
  next
    case (Inr cluster)
    obtain mc where mc: "mesh = Inr mc"
      using assms(2) Pair Inr by (auto simp: Cluster_Reconcile_def go_bind_Inr_iff)
    obtain n d w2 where der: "deriveCodebases (ce_http env) mc w1 = ((n, d), w2)"
      by (cases "deriveCodebases (ce_http env) mc w1") auto
    note step = assms(2) [unfolded Cluster_Reconcile_def Pair Inr mc go_bind_simps, simplified, unfolded der, simplified]
    show ?thesis
    proof (cases d)
      case (Inl err)
      with step unchanged show ?thesis
        by auto
    next
      case ok: (Inr u)
      show ?thesis
      proof (cases "gget (rec_backgrounds st) (Cluster_Key cluster)")
        case None
        with step ok have "newConnector env early cluster mc st w2 = Inr (res, st', w')"
          by (simp add: createConnector_def)
        with Pair Inr None assms(1) show ?thesis
          by (intro new [of cluster st mc w2]) simp_all
      next
        case (Some bg)
        obtain st1 where st1: "close_channel (ctx_StopCh (bg_context bg)) st = Inr st1"
            "rec_inv (delete_background (Cluster_Key cluster) st1)"
            "gget (rec_backgrounds (delete_background (Cluster_Key cluster) st1)) (Cluster_Key cluster) = None"
            "\<And>key'. key' \<noteq> Cluster_Key cluster \<Longrightarrow>
               gget (rec_backgrounds (delete_background (Cluster_Key cluster) st1)) key' = gget (rec_backgrounds st) key'"
          by (rule stop_connector_inv [OF assms(1) Some]) blast
        with step ok Some have "st' = st \<and> ctx_SpecHash (bg_context bg) = SimpleHash (ce_Hash env (cl_Spec cluster)) \<or>
            newConnector env early cluster mc (delete_background (Cluster_Key cluster) st1) w2 = Inr (res, st', w')"
          by (auto simp: recreateConnector_def split: if_splits)
        then show ?thesis
          using unchanged new [of cluster "delete_background (Cluster_Key cluster) st1" mc w2] Pair Inr st1 Some by auto
      qed
    qed
  qed
qed

lemma destroyConnector_inv:
  assumes "rec_inv st" and "destroyConnector cluster st = Inr st'"
  shows "rec_inv st'"
proof (cases "gget (rec_backgrounds st) (Cluster_Key cluster)")
  case (Some bg)
  from stop_connector_inv [OF assms(1) Some] obtain st1 where "close_channel (ctx_StopCh (bg_context bg)) st = Inr st1"
      "rec_inv (delete_background (Cluster_Key cluster) st1)"
    by blast
  with assms(2) Some show ?thesis
    by (simp add: destroyConnector_def)
qed (use assms in \<open>simp add: destroyConnector_def\<close>)

lemma Reconcile_inv:
  assumes "rec_inv st" and "Cluster_Reconcile env early nm mesh st w = Inr (res, st', w')"
  shows "rec_inv st'"
  using assms
proof (cases rule: Reconcile_cases)
  case deleted
  then show ?thesis
    using destroyConnector_inv [OF assms(1)] by simp
next
  case (new cluster mc st1 w1)
  show ?thesis
    by (rule newConnector_inv [OF new(2,3,5)])
qed (use assms in simp)

lemma rec_reach_inv: "rec_reach env st \<Longrightarrow> rec_inv st"
  by (induction rule: rec_reach.induct) (blast intro: rec_inv_New Reconcile_inv run_failed_inv(1))+

section \<open>Properties\<close>

text \<open>A server of Clusters for which every connector can be made; the world counts the updates of the status.\<close>

definition demo_cluster :: "string \<Rightarrow> string \<Rightarrow> Cluster" where
  "demo_cluster nm host =
     \<lparr>cl_Meta = named_meta [] nm, cl_Generation = 1,
      cl_Spec = \<lparr>cls_IsInCluster = False, cls_Region = ''r'', cls_Zone = ''z'', cls_Group = ''g'', cls_GatewayHost = host,
        cls_GatewayPort = 80, cls_Kubeconfig = ''kubeconfig''\<rparr>,
      cl_Conditions = []\<rparr>"

text \<open>The Cluster named \<open>c1\<close> has a new gateway once its status has been written; there is no other.\<close>

definition demo_cluster_env :: "nat cluster_env" where
  "demo_cluster_env =
     \<lparr>ce_getCluster = (\<lambda>nm w. (if nm = ''c1'' then Inr (demo_cluster ''c1'' (if w = 0 then ''gw1'' else ''gw2''))
                              else Inl NotFound, w)),
      ce_updateStatus = (\<lambda>_ w. (Inr (), Suc w)), ce_http = (\<lambda>_ w. (Inr (ok_response 7), w)),
      ce_Hash = (\<lambda>spec. Inr (if cls_GatewayHost spec = ''gw1'' then 1 else 2)),
      ce_InClusterConfig = Inl NotFound, ce_LoadKubeconfig = Inr,
      ce_access = (\<lambda>_. \<lparr>ca_NewAPIForConfig = Inr (), ca_GitVersion = Inr ''v1.24.0'', ca_getManagerDeployment = Inr ()\<rparr>),
      ce_version = \<lparr>semver_MustParse = Inr, semver_GTE = (\<lambda>_ _. True)\<rparr>,
      ce_dns = \<lparr>IsValidIPv4Address = (\<lambda>_. [''no IP'']), dns_IsDNS1123Subdomain = (\<lambda>_. []), ResolveIPAddr = (\<lambda>_. Inr [10, 0, 0, 9])\<rparr>,
      ce_lib = demo_conn_lib\<rparr>"

definition demo_state :: "ClusterReconciler go \<times> nat \<Rightarrow> ClusterReconciler go \<times> nat" where
  "demo_state sw =
     (case go_bind (fst sw) (\<lambda>st. Cluster_Reconcile demo_cluster_env None ''c1'' (Inr demo_cfg) st (snd sw)) of
        Inl p \<Rightarrow> (Inl p, snd sw) | Inr (_, st, w) \<Rightarrow> (Inr st, w))"

lemma demo_states_reachable:
  "fst (demo_state (Inr New, 0)) = Inr st1 \<Longrightarrow> rec_reach demo_cluster_env st1"
  "fst (demo_state (demo_state (Inr New, 0))) = Inr st2 \<Longrightarrow> rec_reach demo_cluster_env st2"
proof -
  have step: "rec_reach demo_cluster_env st'" if "\<forall>st. fst sw = Inr st \<longrightarrow> rec_reach demo_cluster_env st" "fst (demo_state sw) = Inr st'" for sw st'
    using that reach_Reconcile by (auto simp: demo_state_def go_bind_Inr_iff split: sum.splits prod.splits)
  show one: "rec_reach demo_cluster_env st1" if "fst (demo_state (Inr New, 0)) = Inr st1" for st1
    using step [OF _ that] reach_New [of demo_cluster_env] by simp
  show "rec_reach demo_cluster_env st2" if "fst (demo_state (demo_state (Inr New, 0))) = Inr st2"
    using step [OF _ that] one by blast
qed

text \<open>C5. At every moment at most one connector per cluster runs without having been told to stop, and it is
  the one the map holds; every connector in the map runs under its own key with its stop channel open.\<close>

theorem live_connectors_in_map:
  assumes "rec_reach env st"
  shows "((ch, key) \<in> set (rec_running st) \<and> ch \<notin> set (rec_closed st) \<longleftrightarrow>
            (\<exists>bg. gget (rec_backgrounds st) key = Some bg \<and> ctx_StopCh (bg_context bg) = ch)) \<and>
         (\<forall>bg. gget (rec_backgrounds st) key = Some bg \<longrightarrow> ctx_ClusterKey (bg_context bg) = key)"
  using rec_invD(2-5) [OF rec_reach_inv [OF assms]] unfolding bg_ok_def by blast

definition demo_st1 :: ClusterReconciler where
  "demo_st1 = (case fst (demo_state (Inr New, 0)) of Inr st \<Rightarrow> st | Inl _ \<Rightarrow> New)"

definition demo_st2 :: ClusterReconciler where
  "demo_st2 = (case fst (demo_state (demo_state (Inr New, 0))) of Inr st \<Rightarrow> st | Inl _ \<Rightarrow> New)"

lemma demo_st_reach: "rec_reach demo_cluster_env demo_st1" "rec_reach demo_cluster_env demo_st2"
  using demo_states_reachable reach_New [of demo_cluster_env]
  by (auto simp: demo_st1_def demo_st2_def split: sum.splits)

theorem live_connectors_in_map_witness:
  "rec_running demo_st2 = [(1, ''r/z/g/c1''), (0, ''r/z/g/c1'')] \<and> rec_closed demo_st2 = [0] \<and>
   (\<exists>bg. gget (rec_backgrounds demo_st2) ''r/z/g/c1'' = Some bg \<and> ctx_StopCh (bg_context bg) = 1)"
proof -
  have "rec_running demo_st2 = [(1, ''r/z/g/c1''), (0, ''r/z/g/c1'')]" and "rec_closed demo_st2 = [0]"
    by code_simp+
  with live_connectors_in_map [OF demo_st_reach(2), of 1 "''r/z/g/c1''"] show ?thesis
    by simp
qed



lemma newConnector_other_keys:
  assumes "newConnector env early cluster mc st w = Inr (res, st', w')" and "key \<noteq> Cluster_Key cluster"
  shows "gget (rec_backgrounds st') key = gget (rec_backgrounds st) key"
  using assms(1)
proof (cases rule: newConnector_cases)
  case (started bg v)
  with assms(2) show ?thesis
    by (auto simp: started_def run_failed_def close_channel_def delete_background_def split: option.splits if_splits)
qed simp

lemma Cluster_Key_zero: "meta_Name (cl_Meta c) \<noteq> [] \<Longrightarrow> Cluster_Key zero_Cluster \<noteq> Cluster_Key c"
  by (auto dest: arg_cong [where f = length] simp: Cluster_Key_def zero_Cluster_def cluster_key_def)

lemma no_background_of_zero_Cluster:
  assumes "rec_reach env st" and named: "\<And>nm w c w'. ce_getCluster env nm w = (Inr c, w') \<Longrightarrow> meta_Name (cl_Meta c) \<noteq> []"
  shows "gget (rec_backgrounds st) (Cluster_Key zero_Cluster) = None"
  using assms(1)
proof induction
  case reach_New
  show ?case
    by (simp add: New_def)
next
  case (reach_Reconcile st early nm mesh w res st' w')
  from rec_reach_inv [OF reach_Reconcile.hyps(1)] reach_Reconcile.hyps(2) show ?case
  proof (cases rule: Reconcile_cases)
    case deleted
    with reach_Reconcile.IH show ?thesis
      by (simp add: destroyConnector_def)
  next
    case (new cluster mc st1 w1)
    then have "Cluster_Key zero_Cluster \<noteq> Cluster_Key cluster"
      using Cluster_Key_zero named by (metis prod.collapse)
    with newConnector_other_keys [OF new(5)] new(4) reach_Reconcile.IH show ?thesis
      by simp
  qed (use reach_Reconcile.IH in simp)
next
  case (reach_failed st ch key st')
  then show ?case
    by (auto simp: run_failed_def close_channel_def delete_background_def split: if_splits)
qed

text \<open>When a Cluster has been deleted its connector is not stopped: the reconciler looks for the
  connector of the empty object that the failed \<open>Get\<close> left behind, whose key is the key of no Cluster
  that has a name.\<close>

theorem deleted_cluster_keeps_connector:
  assumes "rec_reach env st" and "\<And>nm w c w'. ce_getCluster env nm w = (Inr c, w') \<Longrightarrow> meta_Name (cl_Meta c) \<noteq> []"
    and "ce_getCluster env nm w = (Inl NotFound, w')"
  shows "Cluster_Reconcile env early nm mesh st w = Inr ((0, Inr ()), st, w')"
  using no_background_of_zero_Cluster [OF assms(1,2)] assms(3)
  by (simp add: Cluster_Reconcile_def destroyConnector_def)

theorem deleted_cluster_keeps_connector_witness:
  "(\<exists>bg. gget (rec_backgrounds demo_st1) ''r/z/g/c1'' = Some bg) \<and>
   (\<exists>env :: nat cluster_env. rec_reach env demo_st1 \<and>
      Cluster_Reconcile env None ''gone'' (Inr demo_cfg) demo_st1 1 = Inr ((0, Inr ()), demo_st1, 1))"
proof
  have "map_option (ctx_StopCh \<circ> bg_context) (gget (rec_backgrounds demo_st1) ''r/z/g/c1'') = Some 0"
    by code_simp
  then show "\<exists>bg. gget (rec_backgrounds demo_st1) ''r/z/g/c1'' = Some bg"
    by auto
  have "Cluster_Reconcile demo_cluster_env None ''gone'' (Inr demo_cfg) demo_st1 1 = Inr ((0, Inr ()), demo_st1, 1)"
    by (rule deleted_cluster_keeps_connector [OF demo_st_reach(1)])
      (auto simp: demo_cluster_env_def demo_cluster_def split: if_splits)
  with demo_st_reach(1) show "\<exists>env :: nat cluster_env. rec_reach env demo_st1 \<and>
      Cluster_Reconcile env None ''gone'' (Inr demo_cfg) demo_st1 1 = Inr ((0, Inr ()), demo_st1, 1)"
    by blast
qed

text \<open>A connector that fails after its Cluster was changed brings the process down: the change has closed
  the stop channel and the goroutine of the old connector closes it again. In the demonstration the
  Cluster \<open>c1\<close> gets a new gateway, so its first connector is replaced, and then the first one fails.\<close>

theorem late_failure_panics:
  "rec_reach demo_cluster_env demo_st2 \<and> (0, ''r/z/g/c1'') \<in> set (rec_running demo_st2) \<and>
   run_failed 0 ''r/z/g/c1'' demo_st2 = Inl (Panicked ''close of closed channel'')"
proof -
  have "(0, ''r/z/g/c1'') \<in> set (rec_running demo_st2)"
    and "run_failed 0 ''r/z/g/c1'' demo_st2 = Inl (Panicked ''close of closed channel'')"
    by code_simp+
  with demo_st_reach(2) show ?thesis
    by simp
qed

end
