(* ===== verification/Federation.thy ===== *)
theory Federation
  imports Cluster_Controller
begin

text \<open>
  How the parts of the multi-cluster set work together: the handler of a remote cluster's cache puts an
  export into the broker, the controller accepts or rejects it, the broker publishes the decision, and
  every connector brings the imports of its cluster up to date.
\<close>

section \<open>The decision about an export\<close>

definition reads_only :: "'w conn_api \<Rightarrow> bool" where
  "reads_only api \<longleftrightarrow> (\<forall>ns nm w. snd (api_getImport api ns nm w) = w \<and> snd (api_getServiceNamed api ns nm w) = w)"

definition import_found :: "'w conn_api \<Rightarrow> ServiceExportEvent \<Rightarrow> 'w \<Rightarrow> bool" where
  "import_found api ev w \<longleftrightarrow> fst (api_getImport api (ev_ns ev) (ev_name ev) w) \<noteq> Inl NotFound"

definition same_service :: "'w conn_api \<Rightarrow> ServiceExportEvent \<Rightarrow> 'w \<Rightarrow> bool" where
  "same_service api ev w \<longleftrightarrow>
     (case fst (api_getServiceNamed api (ev_ns ev) (ev_name ev) w) of
        Inl err \<Rightarrow> err = NotFound
      | Inr svc \<Rightarrow> ssp_Type (svc_Spec (sev_Service ev)) = ssp_Type (svc_Spec svc) \<and>
                   ssp_Ports (svc_Spec (sev_Service ev)) = ssp_Ports (svc_Spec svc))"

definition remotes :: "(string \<times> connectorBackground) list \<Rightarrow> string set" where
  "remotes bgs = fst ` {e \<in> set bgs. \<not> bg_isInCluster (snd e)}"

lemma reads_onlyD:
  assumes "reads_only api"
  obtains r r' where "api_getImport api ns nm w = (r, w)" and "api_getServiceNamed api ns nm w = (r', w)"
  using assms unfolding reads_only_def by (metis prod.collapse)

lemma ServiceImportExists_read:
  assumes "reads_only api"
  shows "ServiceImportExists api (sev_ServiceExport ev) w = (import_found api ev w, w)"
proof -
  obtain r where "api_getImport api (ev_ns ev) (ev_name ev) w = (r, w)"
    by (rule reads_onlyD [OF assms])
  then show ?thesis
    by (cases r) (auto simp: ServiceImportExists_def import_found_def)
qed

lemma ValidateServiceExport_read:
  assumes "reads_only api"
  shows "\<exists>r. ValidateServiceExport lib api ctx (sev_ServiceExport ev) (sev_Service ev) w = (r, w) \<and> (r = Inr () \<longleftrightarrow> same_service api ev w)"
proof -
  obtain r where "api_getServiceNamed api (ev_ns ev) (ev_name ev) w = (r, w)"
    by (rule reads_onlyD [OF assms])
  then show ?thesis
    by (cases r) (auto simp: ValidateServiceExport_def same_service_def)
qed

lemma remotes_Cons: "remotes ((k, bg) # bgs) = (if bg_isInCluster bg then remotes bgs else insert k (remotes bgs))"
proof -
  have "{e \<in> set ((k, bg) # bgs). \<not> bg_isInCluster (snd e)} =
      {e \<in> {(k, bg)}. \<not> bg_isInCluster (snd e)} \<union> {e \<in> set bgs. \<not> bg_isInCluster (snd e)}"
    by auto
  then show ?thesis
    by (auto simp: remotes_def image_Un)
qed

lemma isFirstTimeExport_eq:
  assumes "\<forall>(k, bg)\<in>set bgs. bg_ok k bg" and "\<forall>k. reads_only (apis k)"
  shows "isFirstTimeExport apis ev bgs w = Inr (\<forall>k\<in>remotes bgs. \<not> import_found (apis k) ev w, w)"
  using assms(1)
proof (induction bgs)
  case (Cons e bgs)
  obtain k bg where e: "e = (k, bg)"
    by (cases e)
  from Cons assms(2) show ?case
    by (auto simp: e remotes_Cons bg_ok_def ServiceImportExists_read)
qed (simp add: remotes_def)

lemma isValidServiceExport_eq:
  assumes "\<forall>(k, bg)\<in>set bgs. bg_ok k bg" and "\<forall>k. reads_only (apis k)"
  shows "\<exists>r. isValidServiceExport lib apis ev bgs w = Inr (r, w) \<and>
             (r = Inr () \<longleftrightarrow> (\<forall>k\<in>remotes bgs - {ClusterKey ev}. same_service (apis k) ev w))"
  using assms(1)
proof (induction bgs)
  case (Cons e bgs)
  obtain k bg where e: "e = (k, bg)"
    by (cases e)
  obtain r where val: "ValidateServiceExport lib (apis k) (bg_context bg) (sev_ServiceExport ev) (sev_Service ev) w = (r, w)"
      "r = Inr () \<longleftrightarrow> same_service (apis k) ev w"
    using ValidateServiceExport_read [OF assms(2) [rule_format, of k], of lib "bg_context bg" ev w] by (elim exE conjE)
  from Cons obtain r' where IH: "isValidServiceExport lib apis ev bgs w = Inr (r', w)"
      "r' = Inr () \<longleftrightarrow> (\<forall>k\<in>remotes bgs - {ClusterKey ev}. same_service (apis k) ev w)"
    by auto
  have bg: "ctx_ClusterKey (bg_context bg) = k" "bg_connector bg = (if bg_isInCluster bg then LocalConnector else RemoteConnector) (bg_context bg)"
    using Cons.prems by (simp_all add: e bg_ok_def)
  show ?case
  proof (cases "bg_isInCluster bg \<or> k = ClusterKey ev")
    case True
    with IH bg show ?thesis
      by (auto simp: e remotes_Cons)
  next
    case False
    with IH bg val show ?thesis
      by (cases r) (auto simp: e remotes_Cons)
  qed
qed (simp add: remotes_def)

section \<open>The way of an export through the set of clusters\<close>

text \<open>The state of every cluster by its key; the API server of cluster \<open>c\<close> works on the state of \<open>c\<close>.\<close>

definition in_cluster :: "string \<Rightarrow> ('u \<Rightarrow> 'r \<times> 'u) \<Rightarrow> (string \<Rightarrow> 'u) \<Rightarrow> 'r \<times> (string \<Rightarrow> 'u)" where
  "in_cluster c f W = (case f (W c) of (r, u) \<Rightarrow> (r, W(c := u)))"

definition api_of :: "(string \<Rightarrow> 'u conn_api) \<Rightarrow> string \<Rightarrow> (string \<Rightarrow> 'u) conn_api" where
  "api_of apis c =
     \<lparr>api_createNamespace = (\<lambda>ns. in_cluster c (api_createNamespace (apis c) ns)),
      api_createImport = (\<lambda>imp. in_cluster c (api_createImport (apis c) imp)),
      api_getImport = (\<lambda>ns nm. in_cluster c (api_getImport (apis c) ns nm)),
      api_updateImport = (\<lambda>imp. in_cluster c (api_updateImport (apis c) imp)),
      api_deleteImport = (\<lambda>ns nm. in_cluster c (api_deleteImport (apis c) ns nm)),
      api_getServiceNamed = (\<lambda>ns nm. in_cluster c (api_getServiceNamed (apis c) ns nm)),
      api_getExport = (\<lambda>ns nm. in_cluster c (api_getExport (apis c) ns nm)),
      api_updateExportStatus = (\<lambda>exp. in_cluster c (api_updateExportStatus (apis c) exp)),
      api_warnExport = (\<lambda>exp reason text W. W(c := api_warnExport (apis c) exp reason text (W c)))\<rparr>"

text \<open>The bus hands a message to every subscriber; here it keeps what it has handed out.\<close>

definition log_bus :: "Message list publish" where
  "log_bus msg topic' bus = bus @ [msg]"

definition deliver :: "conn_lib \<Rightarrow> (string \<Rightarrow> 'u conn_api) \<Rightarrow> 'u retry_loop \<Rightarrow> (string, connectorBackground) gomap \<Rightarrow>
    Message list \<Rightarrow> (string \<Rightarrow> 'u) \<Rightarrow> string \<Rightarrow> 'u" where
  "deliver lib apis retry bgs msgs W c =
     (case gget bgs c of
        None \<Rightarrow> W c
      | Some bg \<Rightarrow> if bg_isInCluster bg then W c
                  else snd (process_messages lib (apis c) retry (bg_context bg) msgs (W c)))"

text \<open>A new export: the cache's message reaches the controller, the controller's decision is queued, the
  broker publishes it and every connector handles it.\<close>

definition federate ::
  "conn_lib \<Rightarrow> (string \<Rightarrow> 'u conn_api) \<Rightarrow> 'u retry_loop \<Rightarrow> MeshConfig go \<Rightarrow> (string, connectorBackground) gomap \<Rightarrow>
   ServiceExportEvent \<Rightarrow> (string \<Rightarrow> 'u) \<Rightarrow> (string \<Rightarrow> 'u) go"
where
  "federate lib apis retry mesh bgs ev W =
     go_bind (controller_processEvent lib (api_of apis) bgs bgs mesh
                (Some \<lparr>msg_Kind = ServiceExportCreated, msg_OldObj = None, msg_NewObj = Some ev\<rparr>) (NewBroker [], W)) (\<lambda>(b, W).
       let b = (if br_queue b = [] then b else snd (processNextItem log_bus (Some 0) b))
       in Inr (deliver lib apis retry bgs (br_messageBus b) W))"

fun federate_all ::
  "conn_lib \<Rightarrow> (string \<Rightarrow> 'u conn_api) \<Rightarrow> 'u retry_loop \<Rightarrow> MeshConfig go \<Rightarrow> (string, connectorBackground) gomap \<Rightarrow>
   ServiceExportEvent list \<Rightarrow> (string \<Rightarrow> 'u) \<Rightarrow> (string \<Rightarrow> 'u) go"
where
  "federate_all lib apis retry mesh bgs [] W = Inr W"
| "federate_all lib apis retry mesh bgs (ev # evs) W =
     go_bind (federate lib apis retry mesh bgs ev W) (federate_all lib apis retry mesh bgs evs)"

lemma reads_only_api_of: "reads_only (apis c) \<Longrightarrow> reads_only (api_of apis c)"
  by (auto simp: reads_only_def api_of_def in_cluster_def case_prod_beta)

lemma same_service_api_of: "same_service (api_of apis c) ev W = same_service (apis c) ev (W c)"
  by (simp add: same_service_def api_of_def in_cluster_def case_prod_beta)

lemma import_found_api_of: "import_found (api_of apis c) ev W = import_found (apis c) ev (W c)"
  by (simp add: import_found_def api_of_def in_cluster_def case_prod_beta)

lemma decision:
  assumes "\<forall>(k, bg)\<in>set ord1. bg_ok k bg" and "\<forall>(k, bg)\<in>set ord2. bg_ok k bg" and "\<forall>k. reads_only (apis k)"
    and "set ord2 = set ord1"
  shows "\<exists>err. processServiceExportCreatedEvent lib apis ord1 ord2 ev (b, w) =
     Inr (if (\<exists>k\<in>remotes ord1. import_found (apis k) ev w) \<and>
             (\<exists>k\<in>remotes ord1 - {ClusterKey ev}. \<not> same_service (apis k) ev w)
          then ctl_rejectServiceExport lib ev err b else acceptServiceExport ev b, w)"
proof -
  have "remotes ord2 = remotes ord1"
    using assms(4) by (simp add: remotes_def)
  moreover obtain r where "isValidServiceExport lib apis ev ord2 w = Inr (r, w)"
      "r = Inr () \<longleftrightarrow> (\<forall>k\<in>remotes ord2 - {ClusterKey ev}. same_service (apis k) ev w)"
    using isValidServiceExport_eq [OF assms(2,3), of lib ev w] by (elim exE conjE)
  ultimately show ?thesis
    using isFirstTimeExport_eq [OF assms(1,3), of ev w]
    by (cases r) (auto simp: processServiceExportCreatedEvent_def)
qed

section \<open>Properties\<close>

text \<open>C3. The controller decides about every export without a failing type assertion: it puts exactly one message
  into the broker. The export is rejected iff some managed cluster already imports the service and some
  cluster other than the exporter has a Service of that name with another type or other ports.\<close>

theorem export_decision:
  assumes "rec_reach env st" and "set ord1 = set (rec_backgrounds st)" and "set ord2 = set (rec_backgrounds st)"
    and "\<forall>k. reads_only (apis k)"
  shows "\<exists>b'. processServiceExportCreatedEvent lib apis ord1 ord2 ev (b, w) = Inr (b', w) \<and>
     (if (\<exists>k\<in>remotes (rec_backgrounds st). import_found (apis k) ev w) \<and>
         (\<exists>k\<in>remotes (rec_backgrounds st) - {ClusterKey ev}. \<not> same_service (apis k) ev w)
      then \<exists>err. br_queue b' = br_queue b @ [\<lparr>msg_Kind = ServiceExportRejected, msg_OldObj = None,
                                             msg_NewObj = Some (ev\<lparr>sev_Error := err\<rparr>)\<rparr>]
      else br_queue b' = br_queue b @ [accepted ev])"
proof -
  have ok: "\<forall>(k, bg)\<in>set (rec_backgrounds st). bg_ok k bg"
    using rec_invD(1,2) [OF rec_reach_inv [OF assms(1)]] by (auto simp: gget_set_iff)
  obtain err where "processServiceExportCreatedEvent lib apis ord1 ord2 ev (b, w) =
     Inr (if (\<exists>k\<in>remotes ord1. import_found (apis k) ev w) \<and>
             (\<exists>k\<in>remotes ord1 - {ClusterKey ev}. \<not> same_service (apis k) ev w)
          then ctl_rejectServiceExport lib ev err b else acceptServiceExport ev b, w)"
    using decision [of ord1 ord2 apis lib ev b w] ok assms(2-4) by auto
  moreover have "remotes ord1 = remotes (rec_backgrounds st)"
    using assms(2) by (simp add: remotes_def)
  ultimately show ?thesis
    by (auto simp: ctl_rejectServiceExport_def acceptServiceExport_def Enqueue_def accepted_def)
qed

lemma map_server_reads_only: "reads_only map_server"
  by (simp add: reads_only_def map_server_def)

theorem export_decision_witness:
  "\<exists>b'. processServiceExportCreatedEvent demo_conn_lib (\<lambda>_. map_server) (rec_backgrounds demo_st1) (rec_backgrounds demo_st1)
          (demo_event ''a'' [(80, ''/a'')]) (NewBroker (), Map.empty) = Inr (b', Map.empty) \<and>
        br_queue b' = [accepted (demo_event ''a'' [(80, ''/a'')])]"
proof -
  have "\<not> import_found map_server (demo_event ''a'' [(80, ''/a'')]) Map.empty"
    by (simp add: import_found_def map_server_def)
  with export_decision [OF demo_st_reach(1) refl refl, of "\<lambda>_. map_server" demo_conn_lib "demo_event ''a'' [(80, ''/a'')]"
      "NewBroker ()" Map.empty] map_server_reads_only
  show ?thesis
    by (simp add: NewBroker_def)
qed

lemma remotes_gget: "gm_wf bgs \<Longrightarrow> c \<in> remotes bgs \<longleftrightarrow> (\<exists>bg. gget bgs c = Some bg \<and> \<not> bg_isInCluster bg)"
  by (auto simp: remotes_def gget_set_iff image_iff)

text \<open>An export that no condition excludes and that conflicts with no Service is accepted and delivered.\<close>

definition admissible :: "conn_lib \<Rightarrow> (string \<Rightarrow> 'u conn_api) \<Rightarrow> ServiceExportEvent \<Rightarrow> bool" where
  "admissible lib apis ev \<longleftrightarrow>
     \<not> IsStatusConditionFalse lib (exp_Conditions (sev_ServiceExport ev)) ServiceExportValid \<and>
     \<not> IsStatusConditionTrue lib (exp_Conditions (sev_ServiceExport ev)) ServiceExportConflict \<and>
     (\<forall>c u. same_service (apis c) ev u)"

definition takes_care :: "MeshConfig \<Rightarrow> bool" where
  "takes_care mc \<longleftrightarrow> \<not> mc_IsManaged mc \<or> cc_ControlPlaneUID (mc_Cluster mc) = [] \<or>
     cc_UID (mc_Cluster mc) = cc_ControlPlaneUID (mc_Cluster mc)"

lemma federate_admissible:
  assumes "\<forall>(k, bg)\<in>set bgs. bg_ok k bg" and "\<forall>k. reads_only (apis k)" and "takes_care mc" and "admissible lib apis ev"
  shows "federate lib apis retry (Inr mc) bgs ev W = Inr (deliver lib apis retry bgs [accepted ev] W)"
proof -
  let ?b = "NewBroker [] :: Message list Broker"
  have "\<forall>c. same_service (api_of apis c) ev W"
    using assms(4) by (simp add: admissible_def same_service_api_of)
  moreover have "\<forall>k. reads_only (api_of apis k)"
    using assms(2) by (simp add: reads_only_api_of)
  ultimately have "processServiceExportCreatedEvent lib (api_of apis) bgs bgs ev (?b, W) =
      Inr (acceptServiceExport ev ?b, W)"
    using decision [OF assms(1,1), of "api_of apis" lib ev "?b" W] by auto
  then have "controller_processEvent lib (api_of apis) bgs bgs (Inr mc)
      (Some \<lparr>msg_Kind = ServiceExportCreated, msg_OldObj = None, msg_NewObj = Some ev\<rparr>) (?b, W) =
      Inr (acceptServiceExport ev ?b, W)"
    using assms(3,4) by (auto simp: controller_processEvent_def takes_care_def admissible_def)
  then show ?thesis
    by (simp add: federate_def acceptServiceExport_def accepted_def Enqueue_def NewBroker_def processNextItem_def
        broker_processEvent_def log_bus_def)
qed

text \<open>A connector handles the acceptance of an export with success, from whatever state.\<close>

definition handled :: "conn_lib \<Rightarrow> 'u conn_api \<Rightarrow> 'u retry_loop \<Rightarrow> ConnectorContext \<Rightarrow> ServiceExportEvent \<Rightarrow> bool" where
  "handled lib api retry ctx ev \<longleftrightarrow>
     (\<forall>u. \<forall>r\<in>set (fst (process_messages lib api retry ctx [accepted ev] u)). \<forall>err. r \<noteq> Some (Inl err))"

lemma deliver_reflects:
  assumes inv: "rec_inv st" and "any_order lib" and "retries retry" and "import_server (apis c) view"
    and ends: "\<And>bg. gget (rec_backgrounds st) c = Some bg \<Longrightarrow> handled lib (apis c) retry (bg_context bg) ev"
    and ev: "ev_nn ev = n" "exports_ports P ev" and c: "c \<in> remotes (rec_backgrounds st)" and A: "import_reflects P A (view (W c) n)"
  shows "import_reflects P (apply_message c (accepted ev) A) (view (deliver lib apis retry (rec_backgrounds st) [accepted ev] W c) n)"
proof -
  obtain bg where bg: "gget (rec_backgrounds st) c = Some bg" "\<not> bg_isInCluster bg"
    using c by (auto simp: remotes_gget [OF rec_invD(1) [OF inv]])
  then have own: "ctx_ClusterKey (bg_context bg) = c"
    using rec_invD(2) [OF inv] by (auto simp: bg_ok_def)
  obtain rs u where run: "process_messages lib (apis c) retry (bg_context bg) [accepted ev] (W c) = (rs, u)"
    by (cases "process_messages lib (apis c) retry (bg_context bg) [accepted ev] (W c)")
  have "\<forall>msg\<in>set [accepted ev]. message_about P n msg"
    using ev by (simp add: message_about_def msg_event_def accepted_def)
  moreover have "\<forall>r\<in>set rs. \<forall>err. r \<noteq> Some (Inl err)"
    using ends [OF bg(1)] run unfolding handled_def by (metis fst_conv)
  ultimately show ?thesis
    using process_messages_reflects [OF assms(3,4,2) _ A run] own bg run by (simp add: deliver_def)
qed


lemma map_server_upsert: "\<exists>u'. upsertServiceImport lib map_server ctx ev u = (Inr (), u')"
  by (simp add: upsertServiceImport_def getOrCreateServiceImport_def createServiceImport_def map_server_def split: option.splits)


end
