(* ===== verification/Worker_Pool.thy ===== *)
theory Worker_Pool
  imports K8s_Types "HOL-Library.Word"
begin

text \<open>
  \<open>pkg/workqueue/workqueue.go\<close>: a queue of object keys with a processing function, and a pool of
  workers, each with a bounded queue of jobs. The counters of the pool are 64-bit words and wrap. A send
  to a full channel blocks: the model then has no next state. A worker that finds both a job and the
  stop signal takes either, so its choice is an argument of the step.
\<close>

section \<open>Queues of keys\<close>

text \<open>The rate-limiting queue of client-go is a parameter: its operations on a state of any type.\<close>

record 'q rl_queue =
  rl_AddRateLimited :: "string \<Rightarrow> 'q \<Rightarrow> 'q"
  rl_Forget :: "string \<Rightarrow> 'q \<Rightarrow> 'q"
  rl_Done :: "string \<Rightarrow> 'q \<Rightarrow> 'q"
  rl_NumRequeues :: "string \<Rightarrow> 'q \<Rightarrow> int"
  rl_Get :: "'q \<Rightarrow> (string \<times> bool) \<times> 'q"

text \<open>\<open>keyFunc\<close> is the library function that computes the key of an object or of a tombstone.\<close>

definition q_Enqueue :: "'q rl_queue \<Rightarrow> ('o \<Rightarrow> string result) \<Rightarrow> 'o \<Rightarrow> 'q \<Rightarrow> 'q" where
  "q_Enqueue rl keyFunc obj q = (case keyFunc obj of Inl _ \<Rightarrow> q | Inr key \<Rightarrow> rl_AddRateLimited rl key q)"

definition q_NumRequeues :: "'q rl_queue \<Rightarrow> string \<Rightarrow> 'q \<Rightarrow> int" where
  "q_NumRequeues = rl_NumRequeues"

text \<open>\<open>split\<close> is the library function \<open>SplitMetaNamespaceKey\<close> and \<open>process\<close> the function the queue was started
  with: it says whether the key is to be tried again.\<close>

definition processNextWorkItem ::
  "'q rl_queue \<Rightarrow> (string \<Rightarrow> (string \<times> string) result) \<Rightarrow>
   (string \<Rightarrow> string \<Rightarrow> string \<Rightarrow> 'w \<Rightarrow> (bool \<times> go_error option) \<times> 'w) \<Rightarrow> 'q \<times> 'w \<Rightarrow> (bool \<times> 'q \<times> 'w) go"
where
  "processNextWorkItem rl split process qw =
     (case rl_Get rl (fst qw) of
        ((key, shutdown), q) \<Rightarrow>
          if shutdown then Inr (False, q, snd qw)
          else (case split key of
                  Inl err \<Rightarrow> Inl (Panicked ''unexpected key format'')
                | Inr (ns, nm) \<Rightarrow>
                    (case process key nm ns (snd qw) of
                       ((requeue, _), w) \<Rightarrow>
                         Inr (True, rl_Done rl key (if requeue then rl_AddRateLimited rl key q else rl_Forget rl key q), w))))"

section \<open>The pool\<close>

type_synonym uint64 = "64 word"

abbreviation maxJobPerWorker :: nat where "maxJobPerWorker \<equiv> 4096"

text \<open>A worker with its queue, the jobs it has run, whether a stop signal waits for it and whether it has returned.\<close>

record 'j worker =
  wk_id :: nat
  wk_jobs :: "'j list"
  wk_ran :: "'j list"
  wk_stop :: bool
  wk_stopped :: bool
  wk_jobsProcessed :: uint64

record 'j WorkerPool =
  wp_workerContext :: "'j worker list"
  wp_nWorkers :: uint64
  wp_rRobinCounter :: uint64

definition new_worker :: "nat \<Rightarrow> 'j worker" where
  "new_worker i = \<lparr>wk_id = i, wk_jobs = [], wk_ran = [], wk_stop = False, wk_stopped = False, wk_jobsProcessed = 0\<rparr>"

text \<open>The loop of \<open>NewWorkerPool\<close> runs for \<open>i\<close> below the number of workers, not at all if that is negative.\<close>

definition NewWorkerPool :: "nat \<Rightarrow> int \<Rightarrow> 'j WorkerPool" where
  "NewWorkerPool GOMAXPROCS nWorkers =
     (let n = nat (if nWorkers = 0 then int GOMAXPROCS else nWorkers)
      in fold (\<lambda>i wp. wp\<lparr>wp_workerContext := wp_workerContext wp @ [new_worker i], wp_nWorkers := wp_nWorkers wp + 1\<rparr>)
           [0..<n] \<lparr>wp_workerContext = [], wp_nWorkers = 0, wp_rRobinCounter = 0\<rparr>)"

text \<open>Posting a job: a panic, no next state because the queue is full, or the next state.\<close>

definition post :: "uint64 \<Rightarrow> 'j \<Rightarrow> 'j WorkerPool \<Rightarrow> 'j WorkerPool option go" where
  "post index job wp =
     (if wp_nWorkers wp = 0 then Inl DivideByZero
      else let i = unat (index mod wp_nWorkers wp)
           in if i \<ge> length (wp_workerContext wp) then Inl IndexRange
              else let wk = wp_workerContext wp ! i
                   in if length (wk_jobs wk) = maxJobPerWorker then Inr None
                      else Inr (Some (wp\<lparr>wp_workerContext := (wp_workerContext wp)[i := wk\<lparr>wk_jobs := wk_jobs wk @ [job]\<rparr>]\<rparr>)))"

definition AddJob :: "('j \<Rightarrow> uint64) \<Rightarrow> 'j \<Rightarrow> 'j WorkerPool \<Rightarrow> 'j WorkerPool option go" where
  "AddJob Hash job wp = post (Hash job) job wp"

definition AddJobRoundRobin :: "'j \<Rightarrow> 'j WorkerPool \<Rightarrow> 'j WorkerPool option go" where
  "AddJobRoundRobin job wp =
     (let added = wp_rRobinCounter wp + 1 in post added job (wp\<lparr>wp_rRobinCounter := added\<rparr>))"

definition GetWorkerNumber :: "'j WorkerPool \<Rightarrow> int" where
  "GetWorkerNumber wp = sint (wp_nWorkers wp)"

text \<open>\<open>Stop\<close> sends the signal to every worker; the channels hold one signal. It then waits until all workers
  have returned.\<close>

definition Stop_signal :: "'j WorkerPool \<Rightarrow> 'j WorkerPool option" where
  "Stop_signal wp =
     (if \<exists>wk\<in>set (wp_workerContext wp). wk_stop wk then None
      else Some (wp\<lparr>wp_workerContext := map (\<lambda>wk. wk\<lparr>wk_stop := True\<rparr>) (wp_workerContext wp)\<rparr>))"

definition Stop_returns :: "'j WorkerPool \<Rightarrow> bool" where
  "Stop_returns wp \<longleftrightarrow> (\<forall>wk\<in>set (wp_workerContext wp). wk_stopped wk)"

text \<open>One round of the loop of a worker.\<close>

definition work :: "bool \<Rightarrow> 'j worker \<Rightarrow> 'j worker option" where
  "work take_job wk =
     (if wk_stopped wk then None
      else if take_job
      then (case wk_jobs wk of
              [] \<Rightarrow> None
            | j # js \<Rightarrow> Some (wk\<lparr>wk_jobs := js, wk_ran := wk_ran wk @ [j], wk_jobsProcessed := wk_jobsProcessed wk + 1\<rparr>))
      else if wk_stop wk then Some (wk\<lparr>wk_stop := False, wk_stopped := True\<rparr>) else None)"

section \<open>Runs of the pool\<close>

datatype 'j pool_op = OpAdd 'j | OpAddRR 'j | OpWork nat bool | OpStop

text \<open>One step of the program; a step that panics or that is not enabled has no next state.\<close>

fun pool_step :: "('j \<Rightarrow> uint64) \<Rightarrow> 'j pool_op \<Rightarrow> 'j WorkerPool \<Rightarrow> 'j WorkerPool option" where
  "pool_step Hash (OpAdd job) wp = (case AddJob Hash job wp of Inl _ \<Rightarrow> None | Inr wp' \<Rightarrow> wp')"
| "pool_step Hash (OpAddRR job) wp = (case AddJobRoundRobin job wp of Inl _ \<Rightarrow> None | Inr wp' \<Rightarrow> wp')"
| "pool_step Hash (OpWork i take_job) wp =
     (if i < length (wp_workerContext wp)
      then map_option (\<lambda>wk. wp\<lparr>wp_workerContext := (wp_workerContext wp)[i := wk]\<rparr>) (work take_job (wp_workerContext wp ! i))
      else None)"
| "pool_step Hash OpStop wp = Stop_signal wp"

fun pool_run :: "('j \<Rightarrow> uint64) \<Rightarrow> 'j pool_op list \<Rightarrow> 'j WorkerPool \<Rightarrow> 'j WorkerPool option" where
  "pool_run Hash [] wp = Some wp"
| "pool_run Hash (op # ops) wp = Option.bind (pool_step Hash op wp) (pool_run Hash ops)"

text \<open>The specification of where jobs go: the number of the worker for each job, in the order in which they were posted.\<close>

fun assigned :: "('j \<Rightarrow> uint64) \<Rightarrow> uint64 \<Rightarrow> uint64 \<Rightarrow> 'j pool_op list \<Rightarrow> (nat \<times> 'j) list" where
  "assigned Hash n c [] = []"
| "assigned Hash n c (OpAdd j # ops) = (unat (Hash j mod n), j) # assigned Hash n c ops"
| "assigned Hash n c (OpAddRR j # ops) = (unat ((c + 1) mod n), j) # assigned Hash n (c + 1) ops"
| "assigned Hash n c (_ # ops) = assigned Hash n c ops"

section \<open>Invariant\<close>

definition pool_wf :: "'j WorkerPool \<Rightarrow> bool" where
  "pool_wf wp \<longleftrightarrow> length (wp_workerContext wp) = unat (wp_nWorkers wp) \<and>
     (\<forall>wk\<in>set (wp_workerContext wp). length (wk_jobs wk) \<le> maxJobPerWorker \<and> wk_jobsProcessed wk = of_nat (length (wk_ran wk)))"

lemma new_workers:
  "fold (\<lambda>i wp. wp\<lparr>wp_workerContext := wp_workerContext wp @ [new_worker i], wp_nWorkers := wp_nWorkers wp + 1\<rparr>)
     [0..<n] \<lparr>wp_workerContext = [], wp_nWorkers = 0, wp_rRobinCounter = 0\<rparr> =
   \<lparr>wp_workerContext = map new_worker [0..<n], wp_nWorkers = of_nat n, wp_rRobinCounter = 0\<rparr>"
  by (induction n) simp_all

lemma unat_of_nat_64: "n < 2 ^ 64 \<Longrightarrow> unat (of_nat n :: uint64) = n"
  by (simp add: unsigned_of_nat take_bit_nat_eq_self)

definition pool_size :: "nat \<Rightarrow> int \<Rightarrow> nat" where
  "pool_size GOMAXPROCS nWorkers = nat (if nWorkers = 0 then int GOMAXPROCS else nWorkers)"

lemma NewWorkerPool_eq:
  "NewWorkerPool g k = \<lparr>wp_workerContext = map new_worker [0..<pool_size g k], wp_nWorkers = of_nat (pool_size g k), wp_rRobinCounter = 0\<rparr>"
  by (simp only: NewWorkerPool_def Let_def pool_size_def new_workers)

lemma pool_wf_New: "pool_size g k < 2 ^ 64 \<Longrightarrow> pool_wf (NewWorkerPool g k)"
  by (simp add: NewWorkerPool_eq pool_wf_def unat_of_nat_64 new_worker_def)

lemma post_wf:
  assumes "pool_wf wp" and "post index job wp = Inr (Some wp')"
  shows "pool_wf wp' \<and> wp_nWorkers wp' = wp_nWorkers wp"
proof -
  let ?i = "unat (index mod wp_nWorkers wp)" and ?wks = "wp_workerContext wp"
  have i: "?i < length ?wks" and wp': "wp' = wp\<lparr>wp_workerContext := ?wks[?i := (?wks ! ?i)\<lparr>wk_jobs := wk_jobs (?wks ! ?i) @ [job]\<rparr>]\<rparr>"
    and full: "length (wk_jobs (?wks ! ?i)) \<noteq> maxJobPerWorker"
    using assms(2) by (simp_all add: post_def Let_def split: if_splits)
  have "?wks ! ?i \<in> set ?wks"
    using i by simp
  then show ?thesis
    using assms(1) full set_update_subset_insert [of ?wks ?i "(?wks ! ?i)\<lparr>wk_jobs := wk_jobs (?wks ! ?i) @ [job]\<rparr>"]
    by (fastforce simp: wp' pool_wf_def)
qed

lemma work_parts:
  assumes "work t wk = Some wk'"
  shows "wk_ran wk' @ wk_jobs wk' = wk_ran wk @ wk_jobs wk" and "length (wk_jobs wk') \<le> length (wk_jobs wk)"
    and "wk_jobsProcessed wk = of_nat (length (wk_ran wk)) \<Longrightarrow> wk_jobsProcessed wk' = of_nat (length (wk_ran wk'))"
  using assms by (auto simp: work_def split: if_splits list.splits)

lemma pool_step_wf:
  assumes "pool_wf wp" and "pool_step Hash op wp = Some wp'"
  shows "pool_wf wp' \<and> wp_nWorkers wp' = wp_nWorkers wp"
proof (cases op)
  case (OpAdd job)
  with assms post_wf [OF assms(1)] show ?thesis
    by (auto simp: AddJob_def split: sum.splits)
next
  case (OpAddRR job)
  have "pool_wf (wp\<lparr>wp_rRobinCounter := wp_rRobinCounter wp + 1\<rparr>)"
    using assms(1) by (simp add: pool_wf_def)
  from post_wf [OF this] OpAddRR assms(2) show ?thesis
    by (auto simp: AddJobRoundRobin_def Let_def split: sum.splits)
next
  case (OpWork i t)
  then obtain wk where i: "i < length (wp_workerContext wp)" and wk: "work t (wp_workerContext wp ! i) = Some wk"
      and wp': "wp' = wp\<lparr>wp_workerContext := (wp_workerContext wp)[i := wk]\<rparr>"
    using assms(2) by (auto split: if_splits)
  have "wp_workerContext wp ! i \<in> set (wp_workerContext wp)"
    using i by simp
  with assms(1) have "length (wk_jobs wk) \<le> maxJobPerWorker \<and> wk_jobsProcessed wk = of_nat (length (wk_ran wk))"
    using work_parts(2,3) [OF wk] by (auto simp: pool_wf_def)
  then show ?thesis
    using assms(1) set_update_subset_insert [of "wp_workerContext wp" i wk] by (auto simp: wp' pool_wf_def)
next
  case OpStop
  with assms show ?thesis
    by (auto simp: Stop_signal_def pool_wf_def split: if_splits)
qed

section \<open>Where jobs go\<close>

text \<open>The jobs of a worker, those it has run and those that wait.\<close>

definition jobs_of :: "'j WorkerPool \<Rightarrow> nat \<Rightarrow> 'j list" where
  "jobs_of wp i = wk_ran (wp_workerContext wp ! i) @ wk_jobs (wp_workerContext wp ! i)"

definition assigned_to :: "nat \<Rightarrow> (nat \<times> 'j) list \<Rightarrow> 'j list" where
  "assigned_to i log = map snd (filter (\<lambda>e. fst e = i) log)"

lemma assigned_to_Cons: "assigned_to i ((k, j) # log) = (if k = i then [j] else []) @ assigned_to i log"
  by (simp add: assigned_to_def)

lemma post_jobs:
  assumes "post index job wp = Inr (Some wp')" and "i < length (wp_workerContext wp)"
  shows "jobs_of wp' i = jobs_of wp i @ (if unat (index mod wp_nWorkers wp) = i then [job] else [])"
    and "wp_rRobinCounter wp' = wp_rRobinCounter wp"
  using assms by (auto simp: post_def Let_def jobs_of_def nth_list_update split: if_splits)

lemma pool_step_jobs:
  assumes "pool_step Hash op wp = Some wp'" and "i < length (wp_workerContext wp)"
  shows "jobs_of wp' i @ assigned_to i (assigned Hash (wp_nWorkers wp) (wp_rRobinCounter wp') ops) =
         jobs_of wp i @ assigned_to i (assigned Hash (wp_nWorkers wp) (wp_rRobinCounter wp) (op # ops))"
proof (cases op)
  case (OpAdd job)
  then have "post (Hash job) job wp = Inr (Some wp')"
    using assms(1) by (simp add: AddJob_def split: sum.splits)
  from post_jobs [OF this assms(2)] OpAdd show ?thesis
    by (simp add: assigned_to_Cons)
next
  case (OpAddRR job)
  then have "post (wp_rRobinCounter wp + 1) job (wp\<lparr>wp_rRobinCounter := wp_rRobinCounter wp + 1\<rparr>) = Inr (Some wp')"
    using assms(1) by (simp add: AddJobRoundRobin_def Let_def split: sum.splits)
  from post_jobs [OF this, of i] assms(2) OpAddRR show ?thesis
    by (simp add: assigned_to_Cons jobs_of_def)
next
  case (OpWork k t)
  then obtain wk where "k < length (wp_workerContext wp)" "work t (wp_workerContext wp ! k) = Some wk"
      "wp' = wp\<lparr>wp_workerContext := (wp_workerContext wp)[k := wk]\<rparr>"
    using assms(1) by (auto split: if_splits)
  with work_parts(1) OpWork show ?thesis
    by (auto simp: jobs_of_def nth_list_update)
next
  case OpStop
  with assms show ?thesis
    by (auto simp: Stop_signal_def jobs_of_def split: if_splits)
qed

lemma pool_run_jobs:
  assumes "pool_wf wp" and "pool_run Hash ops wp = Some wp'" and "i < unat (wp_nWorkers wp)"
  shows "jobs_of wp' i = jobs_of wp i @ assigned_to i (assigned Hash (wp_nWorkers wp) (wp_rRobinCounter wp) ops)"
    and "pool_wf wp' \<and> wp_nWorkers wp' = wp_nWorkers wp"
proof -
  have "jobs_of wp' i = jobs_of wp i @ assigned_to i (assigned Hash (wp_nWorkers wp) (wp_rRobinCounter wp) ops) \<and>
      pool_wf wp' \<and> wp_nWorkers wp' = wp_nWorkers wp"
    using assms
  proof (induction ops arbitrary: wp)
    case (Cons op ops)
    from Cons.prems(2) obtain wp1 where wp1: "pool_step Hash op wp = Some wp1" "pool_run Hash ops wp1 = Some wp'"
      by (auto simp: bind_eq_Some_conv)
    have wf: "pool_wf wp1" "wp_nWorkers wp1 = wp_nWorkers wp"
      using pool_step_wf [OF Cons.prems(1) wp1(1)] by simp_all
    have "i < length (wp_workerContext wp)"
      using Cons.prems(1,3) by (simp add: pool_wf_def)
    from Cons.IH [OF wf(1) wp1(2)] pool_step_jobs [OF wp1(1) this, of ops] wf(2) Cons.prems(3) show ?case
      by simp
  qed (simp add: assigned_to_def)
  then show "jobs_of wp' i = jobs_of wp i @ assigned_to i (assigned Hash (wp_nWorkers wp) (wp_rRobinCounter wp) ops)"
    and "pool_wf wp' \<and> wp_nWorkers wp' = wp_nWorkers wp"
    by simp_all
qed

section \<open>Properties\<close>

text \<open>C25. Every worker runs the jobs that were posted to it, each once and in the order in which they were
  posted, however the workers, the posts and a stop are interleaved. A job goes to the worker that its hash or the
  round-robin counter names, so jobs with the same hash are run in the order of their posts.\<close>

theorem workers_run_jobs_in_order:
  assumes "pool_size g k < 2 ^ 64" and "pool_run Hash ops (NewWorkerPool g k) = Some wp" and "i < pool_size g k"
  shows "wk_ran (wp_workerContext wp ! i) @ wk_jobs (wp_workerContext wp ! i) =
           assigned_to i (assigned Hash (of_nat (pool_size g k)) 0 ops) \<and>
         wk_jobsProcessed (wp_workerContext wp ! i) = of_nat (length (wk_ran (wp_workerContext wp ! i)))"
proof -
  have i: "i < unat (wp_nWorkers (NewWorkerPool g k :: 'a WorkerPool))"
    using assms(1,3) by (simp add: NewWorkerPool_eq unat_of_nat_64)
  note run = pool_run_jobs [OF pool_wf_New [OF assms(1)] assms(2) i]
  have "jobs_of (NewWorkerPool g k :: 'a WorkerPool) i = []"
    using assms(3) by (simp add: NewWorkerPool_eq jobs_of_def new_worker_def)
  moreover have "wp_workerContext wp ! i \<in> set (wp_workerContext wp)"
    using run(2) i by (simp add: pool_wf_def)
  ultimately show ?thesis
    using run by (simp add: jobs_of_def pool_wf_def NewWorkerPool_eq)
qed

theorem workers_run_jobs_in_order_witness:
  "let wp = the (pool_run (\<lambda>j. j) [OpAdd 5, OpAdd 7, OpAddRR 9, OpWork 1 True, OpAdd 6, OpStop, OpWork 1 False] (NewWorkerPool 8 2))
   in wk_ran (wp_workerContext wp ! 1) @ wk_jobs (wp_workerContext wp ! 1) = [5, 7, 9] \<and>
      wk_jobsProcessed (wp_workerContext wp ! 1) = 1 \<and> wk_stopped (wp_workerContext wp ! 1)"
proof -
  let ?ops = "[OpAdd 5, OpAdd 7, OpAddRR 9, OpWork 1 True, OpAdd 6, OpStop, OpWork 1 False] :: uint64 pool_op list"
  have "map_option (\<lambda>wp. (wk_ran (wp_workerContext wp ! 1), wk_stopped (wp_workerContext wp ! 1)))
      (pool_run (\<lambda>j. j) ?ops (NewWorkerPool 8 2)) = Some ([5], True)"
    by code_simp
  then obtain wp where wp: "pool_run (\<lambda>j. j) ?ops (NewWorkerPool 8 2) = Some wp"
      "wk_ran (wp_workerContext wp ! 1) = [5]" "wk_stopped (wp_workerContext wp ! 1)"
    by auto
  have "assigned_to 1 (assigned (\<lambda>j. j) (of_nat (pool_size 8 2)) 0 ?ops) = [5, 7, 9]"
    by code_simp
  with workers_run_jobs_in_order [of 8 2 "\<lambda>j. j" ?ops wp 1] wp show ?thesis
    by (simp add: pool_size_def)
qed

lemma unat_mod_less: "n \<noteq> 0 \<Longrightarrow> unat (x mod n :: uint64) < unat n"
  by (simp add: word_less_nat_alt [symmetric] word_mod_less_divisor word_gt_0)



lemma mod_window: "0 < n \<Longrightarrow> (\<lambda>i. (a + i) mod n) ` {..<n} = {..<n :: nat}"
proof -
  assume n: "0 < n"
  have "inj_on (\<lambda>i. (a + i) mod n) {..<n}"
  proof (rule inj_onI)
    fix x y assume "x \<in> {..<n}" "y \<in> {..<n}" "(a + x) mod n = (a + y) mod n"
    moreover from this obtain q q' where "a + x + n * q = a + y + n * q'"
      by (auto simp: nat_mod_eq_iff)
    then have "(x + n * q) mod n = (y + n * q') mod n"
      by simp
    ultimately show "x = y"
      by simp
  qed
  moreover have "(\<lambda>i. (a + i) mod n) ` {..<n} \<subseteq> {..<n}"
    using n by auto
  ultimately show ?thesis
    by (simp add: endo_inj_surj)
qed

lemma assigned_RR:
  "assigned Hash n c (map OpAddRR js) = map (\<lambda>i. (unat ((c + of_nat (Suc i)) mod n), js ! i)) [0..<length js]"
proof (induction js arbitrary: c)
  case (Cons j js)
  have "map (\<lambda>i. (unat ((c + of_nat (Suc i)) mod n), (j # js) ! i)) [0..<Suc (length js)] =
      (unat ((c + 1) mod n), j) # map (\<lambda>i. (unat ((c + 1 + of_nat (Suc i)) mod n), js ! i)) [0..<length js]"
    by (simp only: map_upt_Suc) (simp add: add.assoc)
  with Cons show ?case
    by simp
qed simp

lemma round_robin_once:
  assumes "length js = unat n" and "unat c + unat n < 2 ^ 64" and "i < unat n"
  shows "length (assigned_to i (assigned Hash n c (map OpAddRR js))) = 1"
proof -
  have idx: "unat ((c + of_nat (Suc k)) mod n) = (unat c + 1 + k) mod unat n" if "k < unat n" for k
  proof -
    have "unat (of_nat (Suc k) :: uint64) = Suc k"
      using that assms(2) by (intro unat_of_nat_64) simp
    then have "unat (c + of_nat (Suc k)) = unat c + Suc k"
      using that assms(2) by (subst unat_plus_if_size) (simp add: word_size)
    then show ?thesis
      by (simp add: unat_mod)
  qed
  have "assigned_to i (assigned Hash n c (map OpAddRR js)) = map ((!) js) (filter (\<lambda>k. (unat c + 1 + k) mod unat n = i) [0..<unat n])"
    using idx by (auto simp: assigned_RR assigned_to_def filter_map comp_def assms(1) intro!: map_cong filter_cong)
  moreover have "card {k \<in> {..<unat n}. (unat c + 1 + k) mod unat n = i} = 1"
  proof -
    have surj: "(\<lambda>k. (unat c + 1 + k) mod unat n) ` {..<unat n} = {..<unat n}"
      using assms(3) by (intro mod_window) simp
    then have "inj_on (\<lambda>k. (unat c + 1 + k) mod unat n) {..<unat n}"
      by (intro eq_card_imp_inj_on) simp_all
    moreover obtain k where "k < unat n" "(unat c + 1 + k) mod unat n = i"
      using surj assms(3) by (metis (no_types, lifting) imageE lessThan_iff)
    ultimately have "{k \<in> {..<unat n}. (unat c + 1 + k) mod unat n = i} = {k}"
      by (auto dest: inj_onD)
    then show ?thesis
      by simp
  qed
  ultimately show ?thesis
    by (simp add: distinct_length_filter lessThan_def Collect_conj_eq inf_commute atLeastLessThan_def flip: lessThan_atLeast0)
qed

lemma pool_run_wf: "pool_wf wp \<Longrightarrow> pool_run Hash ops wp = Some wp' \<Longrightarrow> pool_wf wp' \<and> wp_nWorkers wp' = wp_nWorkers wp"
  by (induction ops arbitrary: wp) (auto simp: bind_eq_Some_conv dest: pool_step_wf)

text \<open>Round robin is fair: of as many consecutive jobs as there are workers, each worker gets exactly one,
  wherever the counter stands, as long as it does not wrap around in between.\<close>

theorem round_robin_fair:
  assumes "pool_size g k < 2 ^ 64" and "pool_run Hash ops (NewWorkerPool g k) = Some wp" and "length js = pool_size g k"
    and "unat (wp_rRobinCounter wp) + pool_size g k < 2 ^ 64" and "pool_run Hash (map OpAddRR js) wp = Some wp'"
    and "i < pool_size g k"
  shows "length (jobs_of wp' i) = Suc (length (jobs_of wp i))"
proof -
  have wp: "pool_wf wp" and n: "unat (wp_nWorkers wp) = pool_size g k"
    using pool_run_wf [OF pool_wf_New [OF assms(1)] assms(2)] unat_of_nat_64 [OF assms(1)] by (simp_all add: NewWorkerPool_eq)
  from pool_run_jobs(1) [OF wp assms(5), of i] round_robin_once [of js "wp_nWorkers wp" "wp_rRobinCounter wp" i Hash] assms(3,4,6) n
  show ?thesis
    by simp
qed

theorem round_robin_fair_witness:
  "\<exists>wp wp'. pool_run (\<lambda>j. j) [OpAddRR 1, OpAdd 4] (NewWorkerPool 8 3) = Some wp \<and>
            pool_run (\<lambda>j. j) (map OpAddRR [10, 11, 12]) wp = Some wp' \<and>
            (\<forall>i\<in>{0, 1, 2}. length (jobs_of wp' i) = Suc (length (jobs_of wp i)))"
proof -
  let ?run = "\<lambda>ops wp. pool_run (\<lambda>j. j) (ops :: uint64 pool_op list) wp"
  have "map_option wp_rRobinCounter (?run [OpAddRR 1, OpAdd 4] (NewWorkerPool 8 3)) = Some 1"
    and "Option.bind (?run [OpAddRR 1, OpAdd 4] (NewWorkerPool 8 3)) (?run (map OpAddRR [10, 11, 12])) \<noteq> None"
    by code_simp+
  then obtain wp wp' where run: "?run [OpAddRR 1, OpAdd 4] (NewWorkerPool 8 3) = Some wp" "wp_rRobinCounter wp = 1"
      "?run (map OpAddRR [10, 11, 12]) wp = Some wp'"
    by (auto simp: bind_eq_None_conv)
  then have "length (jobs_of wp' i) = Suc (length (jobs_of wp i))" if "i < 3" for i
    using round_robin_fair [of 8 3 "\<lambda>j. j" "[OpAddRR 1, OpAdd 4]" wp "[10, 11, 12]" wp' i] that by (simp add: pool_size_def)
  with run show ?thesis
    by (intro exI [of _ wp] exI [of _ wp']) auto
qed

text \<open>Steps of the workers only, and whether one of them can take a step.\<close>

definition worker_op :: "'j pool_op \<Rightarrow> bool" where
  "worker_op op \<longleftrightarrow> (\<exists>i t. op = OpWork i t)"

definition at_rest :: "'j WorkerPool \<Rightarrow> bool" where
  "at_rest wp \<longleftrightarrow> (\<forall>wk\<in>set (wp_workerContext wp). \<forall>t. work t wk = None)"

definition pending :: "'j WorkerPool \<Rightarrow> nat" where
  "pending wp = sum_list (map (\<lambda>wk. length (wk_jobs wk) + (if wk_stop wk then 1 else 0)) (wp_workerContext wp))"

lemma work_pending:
  "work t wk = Some wk' \<Longrightarrow>
   length (wk_jobs wk) + (if wk_stop wk then 1 else 0) = Suc (length (wk_jobs wk') + (if wk_stop wk' then 1 else 0))"
  by (auto simp: work_def split: if_splits list.splits)

lemma worker_step_pending:
  assumes "worker_op op" and "pool_step Hash op wp = Some wp'"
  shows "pending wp = Suc (pending wp')"
proof -
  obtain i t wk where i: "i < length (wp_workerContext wp)" and wk: "work t (wp_workerContext wp ! i) = Some wk"
      and wp': "wp' = wp\<lparr>wp_workerContext := (wp_workerContext wp)[i := wk]\<rparr>"
    using assms by (auto simp: worker_op_def split: if_splits)
  let ?f = "\<lambda>wk. length (wk_jobs wk) + (if wk_stop wk then 1 else 0)"
  have "wp_workerContext wp = take i (wp_workerContext wp) @ wp_workerContext wp ! i # drop (Suc i) (wp_workerContext wp)"
    using i by (rule id_take_nth_drop)
  then have "sum_list (map ?f (wp_workerContext wp)) =
      sum_list (map ?f (take i (wp_workerContext wp))) + ?f (wp_workerContext wp ! i) + sum_list (map ?f (drop (Suc i) (wp_workerContext wp)))"
    by (metis (no_types, lifting) add.assoc list.simps(9) map_append sum_list.Cons sum_list_append)
  with work_pending [OF wk] i show ?thesis
    by (simp add: pending_def wp' upd_conv_take_nth_drop)
qed

definition no_stop :: "'j WorkerPool \<Rightarrow> bool" where
  "no_stop wp \<longleftrightarrow> (\<forall>wk\<in>set (wp_workerContext wp). \<not> wk_stop wk \<and> \<not> wk_stopped wk)"

lemma no_stop_update:
  assumes "no_stop wp" and "\<not> wk_stop wk \<and> \<not> wk_stopped wk"
  shows "no_stop (wp\<lparr>wp_workerContext := (wp_workerContext wp)[i := wk]\<rparr>)"
  using assms set_update_subset_insert [of "wp_workerContext wp" i wk] by (auto simp: no_stop_def)

lemma post_no_stop:
  assumes "no_stop wp" and "post index job wp = Inr (Some wp')"
  shows "no_stop wp'"
proof -
  let ?i = "unat (index mod wp_nWorkers wp)"
  have "?i < length (wp_workerContext wp)" and wp': "wp' = wp\<lparr>wp_workerContext := (wp_workerContext wp)[?i :=
      (wp_workerContext wp ! ?i)\<lparr>wk_jobs := wk_jobs (wp_workerContext wp ! ?i) @ [job]\<rparr>]\<rparr>"
    using assms(2) by (simp_all add: post_def Let_def split: if_splits)
  with assms(1) show ?thesis
    unfolding wp' by (intro no_stop_update) (simp_all add: no_stop_def)
qed

lemma pool_step_no_stop:
  assumes "no_stop wp" and "op \<noteq> OpStop" and "pool_step Hash op wp = Some wp'"
  shows "no_stop wp'"
proof (cases op)
  case (OpAdd job)
  with assms(3) post_no_stop [OF assms(1)] show ?thesis
    by (auto simp: AddJob_def split: sum.splits)
next
  case (OpAddRR job)
  have "no_stop (wp\<lparr>wp_rRobinCounter := wp_rRobinCounter wp + 1\<rparr>)"
    using assms(1) by (simp add: no_stop_def)
  from post_no_stop [OF this] OpAddRR assms(3) show ?thesis
    by (auto simp: AddJobRoundRobin_def Let_def split: sum.splits)
next
  case (OpWork i t)
  then obtain wk where i: "i < length (wp_workerContext wp)" and wk: "work t (wp_workerContext wp ! i) = Some wk"
      and wp': "wp' = wp\<lparr>wp_workerContext := (wp_workerContext wp)[i := wk]\<rparr>"
    using assms(3) by (auto split: if_splits)
  have "\<not> wk_stop (wp_workerContext wp ! i) \<and> \<not> wk_stopped (wp_workerContext wp ! i)"
    using assms(1) i by (simp add: no_stop_def)
  with wk have "\<not> wk_stop wk \<and> \<not> wk_stopped wk"
    by (auto simp: work_def split: if_splits list.splits)
  with assms(1) show ?thesis
    unfolding wp' by (rule no_stop_update)
qed (use assms(2) in simp)

lemma pool_run_no_stop: "no_stop wp \<Longrightarrow> OpStop \<notin> set ops \<Longrightarrow> pool_run Hash ops wp = Some wp' \<Longrightarrow> no_stop wp'"
proof (induction ops arbitrary: wp)
  case (Cons op ops)
  then obtain wp1 where wp1: "pool_step Hash op wp = Some wp1" "pool_run Hash ops wp1 = Some wp'"
    by (auto simp: bind_eq_Some_conv)
  show ?case
    by (rule Cons.IH [OF _ _ wp1(2)]) (use pool_step_no_stop [OF Cons.prems(1) _ wp1(1)] Cons.prems(2) in auto)
qed simp

lemma worker_run_pending:
  "\<forall>op\<in>set ops. worker_op op \<Longrightarrow> pool_run Hash ops wp = Some wp' \<Longrightarrow> pending wp = length ops + pending wp'"
  by (induction ops arbitrary: wp) (auto simp: bind_eq_Some_conv worker_step_pending)

lemma at_rest_iff:
  assumes "no_stop wp"
  shows "at_rest wp \<longleftrightarrow> (\<forall>wk\<in>set (wp_workerContext wp). wk_jobs wk = [])" and "at_rest wp \<longleftrightarrow> pending wp = 0"
proof -
  have "(\<forall>t. work t wk = None) \<longleftrightarrow> wk_jobs wk = []" if "wk \<in> set (wp_workerContext wp)" for wk
    using assms that by (cases "wk_jobs wk") (auto simp: no_stop_def work_def)
  then show *: "at_rest wp \<longleftrightarrow> (\<forall>wk\<in>set (wp_workerContext wp). wk_jobs wk = [])"
    by (simp add: at_rest_def)
  show "at_rest wp \<longleftrightarrow> pending wp = 0"
    using assms by (auto simp: * pending_def no_stop_def)
qed

lemma assigned_worker_ops: "\<forall>op\<in>set ops. worker_op op \<Longrightarrow> assigned Hash n c ops = []"
  by (induction ops) (auto simp: worker_op_def)

text \<open>C26. While nobody stops the pool, the workers finish: however their steps are interleaved, they take exactly
  one step for each waiting job and then come to rest, and at rest every worker has run all jobs that
  were waiting for it, in order, and its queue is empty.\<close>

theorem workers_drain_queues:
  assumes "pool_size g k < 2 ^ 64" and "pool_run Hash ops (NewWorkerPool g k) = Some wp" and "OpStop \<notin> set ops"
    and "\<forall>op\<in>set steps. worker_op op" and "pool_run Hash steps wp = Some wp'"
  shows "length steps \<le> (\<Sum>wk\<leftarrow>wp_workerContext wp. length (wk_jobs wk)) \<and>
         (at_rest wp' \<longleftrightarrow> length steps = (\<Sum>wk\<leftarrow>wp_workerContext wp. length (wk_jobs wk))) \<and>
         (at_rest wp' \<longrightarrow> (\<forall>i<pool_size g k. wk_jobs (wp_workerContext wp' ! i) = [] \<and>
            wk_ran (wp_workerContext wp' ! i) = wk_ran (wp_workerContext wp ! i) @ wk_jobs (wp_workerContext wp ! i)))"
proof -
  have "no_stop (NewWorkerPool g k :: 'a WorkerPool)"
    by (simp add: no_stop_def NewWorkerPool_eq new_worker_def)
  then have stop: "no_stop wp" "no_stop wp'"
    using pool_run_no_stop assms(2-5) by (auto simp: worker_op_def intro: pool_run_no_stop)
  have wf: "pool_wf wp" and n: "unat (wp_nWorkers wp) = pool_size g k"
    using pool_run_wf [OF pool_wf_New [OF assms(1)] assms(2)] unat_of_nat_64 [OF assms(1)] by (simp_all add: NewWorkerPool_eq)
  have wf': "pool_wf wp'" "wp_nWorkers wp' = wp_nWorkers wp"
    using pool_run_wf [OF wf assms(5)] by simp_all
  have total: "(\<Sum>wk\<leftarrow>wp_workerContext wp. length (wk_jobs wk)) = pending wp"
    using stop(1) unfolding pending_def no_stop_def by (intro arg_cong [of _ _ sum_list] map_cong) auto
  have jobs: "jobs_of wp' i = jobs_of wp i" if "i < pool_size g k" for i
    using pool_run_jobs(1) [OF wf assms(5), of i] that n assigned_worker_ops [OF assms(4)] by (simp add: assigned_to_def)
  have empty: "wk_jobs (wp_workerContext wp' ! i) = []" if "at_rest wp'" "i < pool_size g k" for i
    using that at_rest_iff(1) [OF stop(2)] wf' n by (simp add: pool_wf_def)
  show ?thesis
    using worker_run_pending [OF assms(4,5)] at_rest_iff(2) [OF stop(2)] empty jobs
    unfolding total by (auto simp: jobs_of_def)
qed

theorem workers_drain_queues_witness:
  "let run = pool_run (\<lambda>j. j :: uint64); wp = the (run [OpAdd 0, OpAdd 1, OpAdd 2] (NewWorkerPool 8 2));
       wp' = the (run [OpWork 1 True, OpWork 0 True, OpWork 0 True] wp)
   in at_rest wp' \<and> wk_ran (wp_workerContext wp' ! 0) = wk_ran (wp_workerContext wp ! 0) @ wk_jobs (wp_workerContext wp ! 0) \<and>
      wk_jobs (wp_workerContext wp ! 0) = [0, 2]"
proof -
  let ?run = "pool_run (\<lambda>j. j :: uint64)" and ?ops = "[OpAdd 0, OpAdd 1, OpAdd 2]"
  let ?steps = "[OpWork 1 True, OpWork 0 True, OpWork 0 True] :: uint64 pool_op list"
  have "map_option (\<lambda>wp. map wk_jobs (wp_workerContext wp)) (?run ?ops (NewWorkerPool 8 2)) = Some [[0, 2], [1]]"
    and "Option.bind (?run ?ops (NewWorkerPool 8 2)) (?run ?steps) \<noteq> None"
    by code_simp+
  then obtain wp wp' where run: "?run ?ops (NewWorkerPool 8 2) = Some wp" "map wk_jobs (wp_workerContext wp) = [[0, 2], [1]]"
      "?run ?steps wp = Some wp'"
    by (auto simp: bind_eq_None_conv)
  have queues: "(\<Sum>wk\<leftarrow>wp_workerContext wp. length (wk_jobs wk)) = 3" "wk_jobs (wp_workerContext wp ! 0) = [0, 2]"
    using run(2) by (auto simp: map_eq_Cons_conv)
  have rest: "at_rest wp'" and ran: "at_rest wp' \<Longrightarrow> i < 2 \<Longrightarrow>
      wk_ran (wp_workerContext wp' ! i) = wk_ran (wp_workerContext wp ! i) @ wk_jobs (wp_workerContext wp ! i)" for i
    using workers_drain_queues [OF _ run(1) _ _ run(3)] queues(1) by (auto simp: pool_size_def worker_op_def)
  from ran [OF rest, of 0] rest queues(2) run(1,3) show ?thesis
    by (simp del: pool_run.simps)
qed

end
