(* ===== verification/Go_Util.thy ===== *)
theory Go_Util
  imports Net_Addr "HOL-Library.Word" "HOL-Library.List_Lexorder" "HOL-Library.Char_ord"
begin

text \<open>
  Functions of \<open>pkg/util\<close> that the controllers share: comparing slices of strings, the pull policy of an
  image, collecting the messages of a list of errors, the FNV hash of a string and creating or
  patching an object. Strings are ordered by their bytes, as in Go.
\<close>

section \<open>Slices of strings\<close>

text \<open>The loop of \<open>StringsEqual\<close> at index \<open>i\<close>.\<close>

function strings_equal_from :: "nat \<Rightarrow> string list \<Rightarrow> string list \<Rightarrow> bool" where
  "strings_equal_from i left right =
     (if i < length left then (if left ! i \<noteq> right ! i then False else strings_equal_from (i + 1) left right) else True)"
  by pat_completeness auto
termination by (relation "measure (\<lambda>(i, left, right). length left - i)") auto

declare strings_equal_from.simps [simp del]

definition StringsEqual :: "string list \<Rightarrow> string list \<Rightarrow> bool" where
  "StringsEqual left right = (if length left \<noteq> length right then False else strings_equal_from 0 left right)"

lemma strings_equal_from_iff:
  "i \<le> length left \<Longrightarrow> length left = length right \<Longrightarrow> strings_equal_from i left right \<longleftrightarrow> drop i left = drop i right"
proof (induction i left right rule: strings_equal_from.induct)
  case (1 i left right)
  show ?case
  proof (cases "i < length left")
    case True
    then have "drop i left = left ! i # drop (Suc i) left" and "drop i right = right ! i # drop (Suc i) right"
      using 1(3) by (simp_all add: Cons_nth_drop_Suc)
    with 1 True show ?thesis
      by (simp add: strings_equal_from.simps [of i])
  next
    case False
    with 1(2,3) show ?thesis
      by (subst strings_equal_from.simps) simp
  qed
qed

lemma StringsEqual_iff: "StringsEqual left right \<longleftrightarrow> left = right"
  using strings_equal_from_iff [of 0 left right] by (auto simp: StringsEqual_def)

section \<open>Images\<close>

text \<open>The parser of image references is a parameter: it gives the name, the tag and the digest of a
  normalised reference, each empty if the reference has none.\<close>

type_synonym parse_reference = "string \<Rightarrow> (string \<times> string \<times> string) result"

definition ParseImageName :: "parse_reference \<Rightarrow> string \<Rightarrow> (string \<times> string \<times> string) result" where
  "ParseImageName parse img =
     (case parse img of
        Inl err \<Rightarrow> Inl (Errorf ''couldn't parse img name'')
      | Inr (repoToPull, tag, digest) \<Rightarrow>
          Inr (repoToPull, if length tag = 0 \<and> length digest = 0 then ''latest'' else tag, digest))"

abbreviation PullAlways :: string where "PullAlways \<equiv> ''Always''"
abbreviation PullIfNotPresent :: string where "PullIfNotPresent \<equiv> ''IfNotPresent''"

definition has_suffix :: "string \<Rightarrow> string \<Rightarrow> bool" where
  "has_suffix s suf \<longleftrightarrow> length suf \<le> length s \<and> drop (length s - length suf) s = suf"

definition ImagePullPolicyByTag :: "parse_reference \<Rightarrow> string \<Rightarrow> string" where
  "ImagePullPolicyByTag parse img =
     (let tag = (case ParseImageName parse img of Inl _ \<Rightarrow> [] | Inr (_, tag, _) \<Rightarrow> tag)
      in if tag = ''latest'' \<or> tag = ''dev'' \<or> tag = ''edge'' then PullAlways
         else if has_suffix tag ''dev'' \<or> has_suffix tag ''edge'' then PullAlways
         else PullIfNotPresent)"

section \<open>Errors\<close>

text \<open>\<open>ErrorListToError\<close> on the messages of the errors: a set keeps each message once and lists them in order.\<close>

definition ErrorListToError :: "string list option \<Rightarrow> go_error option" where
  "ErrorListToError errorList =
     (case errorList of
        None \<Rightarrow> None
      | Some msgs \<Rightarrow> if msgs = [] then None else Some (Errorf (str_join (sort (remdups msgs)) '', '')))"

section \<open>Hashes\<close>

text \<open>The 32-bit FNV-1a hash of Go's package \<open>hash/fnv\<close>; the sum is printed as its four bytes.\<close>

unbundle bit_operations_syntax

definition fnv32a :: "string \<Rightarrow> 32 word" where
  "fnv32a s = fold (\<lambda>c h. (h XOR of_char c) * 16777619) s 2166136261"

definition hex_byte :: "nat \<Rightarrow> string" where
  "hex_byte b = [hex_char (b div 16), hex_char (b mod 16)]"

definition HashFNV :: "string \<Rightarrow> string" where
  "HashFNV s = (let h = unat (fnv32a s) in concat (map (\<lambda>k. hex_byte (h div 256 ^ k mod 256)) [3, 2, 1, 0]))"

text \<open>\<open>GenerateRandom\<close>; \<open>b\<close> are the eight random bytes. Slicing beyond the end panics.\<close>

definition GenerateRandom :: "nat list \<Rightarrow> nat \<Rightarrow> string go" where
  "GenerateRandom b n = (let s = concat (map hex_byte b) in if n \<le> length s then Inr (take n s) else Inl IndexRange)"

section \<open>Creating or patching an object\<close>

record ('o, 'w) ctrl_client =
  cl_Get :: "'o \<Rightarrow> 'w \<Rightarrow> 'o result \<times> 'w"
  cl_Create :: "'o \<Rightarrow> 'w \<Rightarrow> unit result \<times> 'w"
  cl_MergeData :: "'o \<Rightarrow> string result"
  cl_Patch :: "'o \<Rightarrow> string \<Rightarrow> 'w \<Rightarrow> unit result \<times> 'w"

datatype OperationResult = OperationResultNone | OperationResultCreated | OperationResultUpdated

definition CreateOrUpdate :: "('o, 'w) ctrl_client \<Rightarrow> 'o \<Rightarrow> 'w \<Rightarrow> (OperationResult \<times> unit result) \<times> 'w" where
  "CreateOrUpdate c obj w =
     (case cl_Get c obj w of
        (Inl err, w1) \<Rightarrow>
          if err \<noteq> NotFound then ((OperationResultNone, Inl err), w1)
          else (case cl_Create c obj w1 of
                  (Inl err, w2) \<Rightarrow> ((OperationResultNone, Inl err), w2)
                | (Inr _, w2) \<Rightarrow> ((OperationResultCreated, Inr ()), w2))
      | (Inr found, w1) \<Rightarrow>
          if found \<noteq> obj
          then (case cl_MergeData c obj of
                  Inl err \<Rightarrow> ((OperationResultNone, Inl err), w1)
                | Inr patchData \<Rightarrow>
                    (case cl_Patch c found patchData w1 of
                       (Inl err, w2) \<Rightarrow> ((OperationResultNone, Inl err), w2)
                     | (Inr _, w2) \<Rightarrow> ((OperationResultUpdated, Inr ()), w2)))
          else ((OperationResultNone, Inr ()), w1))"

lemma HashFNV_length: "length (HashFNV s) = 8"
  by (simp add: HashFNV_def Let_def hex_byte_def)

lemma GenerateRandom_ok:
  assumes "length b = 8"
  shows "n \<le> 16 \<Longrightarrow> \<exists>s. GenerateRandom b n = Inr s \<and> length s = n" and "16 < n \<Longrightarrow> GenerateRandom b n = Inl IndexRange"
proof -
  have "length (concat (map hex_byte b)) = 2 * length b" for b
    by (induction b) (simp_all add: hex_byte_def)
  with assms show "n \<le> 16 \<Longrightarrow> \<exists>s. GenerateRandom b n = Inr s \<and> length s = n" and "16 < n \<Longrightarrow> GenerateRandom b n = Inl IndexRange"
    by (simp_all add: GenerateRandom_def Let_def)
qed

end
