(* ===== verification/Service_LB.thy ===== *)
theory Service_LB
  imports Go_Util Mesh_Config
begin

text \<open>
  \<open>controllers/servicelb\<close>: the built-in load balancer. For a Service of type LoadBalancer it deploys a
  DaemonSet whose pods listen on the ports of the Service on every node, writes the addresses of those nodes
  into the status of the Service, and takes both back when the Service is deleted, has another type or
  the feature is switched off.

  The API server is a parameter (\<open>lb_api\<close>), and so is the order in which Go visits a map of addresses. The
  status of a Service is the list of the addresses of its load balancer.
\<close>

abbreviation finalizerName :: string where "finalizerName \<equiv> ''servicelb.flomesh.io/daemonset''"
abbreviation svcNameLabel :: string where "svcNameLabel \<equiv> ''servicelb.flomesh.io/svcname''"
abbreviation svcNamespaceLabel :: string where "svcNamespaceLabel \<equiv> ''servicelb.flomesh.io/svcnamespace''"
abbreviation daemonsetNodeLabel :: string where "daemonsetNodeLabel \<equiv> ''servicelb.flomesh.io/enablelb''"
abbreviation daemonsetNodePoolLabel :: string where "daemonsetNodePoolLabel \<equiv> ''servicelb.flomesh.io/lbpool''"
abbreviation nodeSelectorLabel :: string where "nodeSelectorLabel \<equiv> ''servicelb.flomesh.io/nodeselector''"

section \<open>Objects and the API server\<close>

record PodCondition =
  pc_Type :: string
  pc_Status :: string

record Pod =
  pod_NodeName :: string
  pod_PodIP :: string
  pod_Conditions :: "PodCondition list"

record NodeAddress =
  na_Type :: string
  na_Address :: string

record Node =
  node_Labels :: "(string, string) gomap option"
  node_Addresses :: "NodeAddress list"

abbreviation PodReady :: string where "PodReady \<equiv> ''Ready''"
abbreviation NodeExternalIP :: string where "NodeExternalIP \<equiv> ''ExternalIP''"
abbreviation NodeInternalIP :: string where "NodeInternalIP \<equiv> ''InternalIP''"
abbreviation IPFamilyPolicySingleStack :: string where "IPFamilyPolicySingleStack \<equiv> ''SingleStack''"

record LbContainer =
  lbc_Name :: string
  lbc_Image :: string
  lbc_ImagePullPolicy :: string
  lbc_ContainerPort :: int
  lbc_HostPort :: int
  lbc_Protocol :: string
  lbc_Env :: "(string \<times> string) list"
  lbc_Capabilities :: "string list"

record Toleration =
  tol_Key :: string
  tol_Operator :: string
  tol_Effect :: string

record DaemonSet =
  ds_Meta :: ObjectMeta
  ds_MatchLabels :: "(string, string) gomap"
  ds_PodLabels :: "(string, string) gomap"
  ds_MaxUnavailable :: int
  ds_AutomountToken :: bool
  ds_Containers :: "LbContainer list"
  ds_Tolerations :: "Toleration list"
  ds_NodeSelector :: "(string, string) gomap option"

record 'w lb_api =
  lb_getService :: "NamespacedName \<Rightarrow> 'w \<Rightarrow> Service result \<times> 'w"
  lb_updateService :: "Service \<Rightarrow> 'w \<Rightarrow> Service result \<times> 'w"
  lb_updateStatus :: "Service \<Rightarrow> 'w \<Rightarrow> unit result \<times> 'w"
  lb_listPods :: "string \<Rightarrow> (string, string) gomap \<Rightarrow> 'w \<Rightarrow> Pod list result \<times> 'w"
  lb_getNode :: "string \<Rightarrow> 'w \<Rightarrow> Node result \<times> 'w"
  lb_listNodes :: "(string, string) gomap \<Rightarrow> 'w \<Rightarrow> Node list result \<times> 'w"
  lb_listDaemonSets :: "(string, string) gomap \<Rightarrow> 'w \<Rightarrow> DaemonSet list result \<times> 'w"
  lb_updateDaemonSet :: "DaemonSet \<Rightarrow> 'w \<Rightarrow> unit result \<times> 'w"
  lb_deleteDaemonSet :: "string \<Rightarrow> string \<Rightarrow> 'w \<Rightarrow> unit result \<times> 'w"
  lb_setControllerReference :: "Service \<Rightarrow> DaemonSet \<Rightarrow> DaemonSet result"
  lb_client :: "(DaemonSet, 'w) ctrl_client"
  lb_event :: "Service \<Rightarrow> string \<Rightarrow> string \<Rightarrow> 'w \<Rightarrow> 'w"

record lb_lib =
  parse_image :: parse_reference
  lb_IsIPv4String :: "string \<Rightarrow> bool"
  key_order :: "(string, bool) gomap \<Rightarrow> string list"

section \<open>Finalizers\<close>

definition hasFinalizer :: "Service \<Rightarrow> bool" where
  "hasFinalizer svc \<longleftrightarrow> (\<exists>f\<in>set (meta_Finalizers (svc_Meta svc)). f = finalizerName)"

definition addFinalizer :: "'w lb_api \<Rightarrow> Service \<Rightarrow> 'w \<Rightarrow> Service result \<times> 'w" where
  "addFinalizer api svc w =
     (if \<not> hasFinalizer svc
      then lb_updateService api
             (svc\<lparr>svc_Meta := (svc_Meta svc)\<lparr>meta_Finalizers := meta_Finalizers (svc_Meta svc) @ [finalizerName]\<rparr>\<rparr>) w
      else (Inr svc, w))"

text \<open>The loop of \<open>removeFinalizer\<close> ranges over the slice as it was at the start while \<open>append\<close> moves the
  elements of the same array: \<open>arr\<close> is the array, \<open>m\<close> the current length of the slice and \<open>k\<close> the index.
  The expression \<open>Finalizers[k+1:]\<close> panics when \<open>k + 1\<close> is beyond the current length.\<close>

function removeFinalizer_loop :: "nat \<Rightarrow> string list \<Rightarrow> nat \<Rightarrow> string list go" where
  "removeFinalizer_loop k arr m =
     (if k \<ge> length arr then Inr (take m arr)
      else if arr ! k \<noteq> finalizerName then removeFinalizer_loop (k + 1) arr m
      else if k + 1 > m then Inl IndexRange
      else removeFinalizer_loop (k + 1) (take k arr @ drop (k + 1) (take m arr) @ drop (m - 1) arr) (m - 1))"
  by pat_completeness auto
termination by (relation "measure (\<lambda>(k, arr, m). length arr - k)") auto

declare removeFinalizer_loop.simps [simp del]

definition removeFinalizer :: "'w lb_api \<Rightarrow> Service \<Rightarrow> 'w \<Rightarrow> (unit result \<times> 'w) go" where
  "removeFinalizer api svc w =
     (if \<not> hasFinalizer svc then Inr (Inr (), w)
      else let fs = meta_Finalizers (svc_Meta svc)
           in go_bind (removeFinalizer_loop 0 fs (length fs)) (\<lambda>fs'.
                Inr (apfst (map_sum id (\<lambda>_. ())) (lb_updateService api (svc\<lparr>svc_Meta := (svc_Meta svc)\<lparr>meta_Finalizers := fs'\<rparr>\<rparr>) w))))"

section \<open>Addresses\<close>

definition serviceIPs :: "Service \<Rightarrow> string list" where
  "serviceIPs svc = filter (\<lambda>ip. ip \<noteq> []) (svc_LoadBalancerIngressIPs svc)"

fun isPodStatusConditionPresentAndEqual :: "PodCondition list \<Rightarrow> string \<Rightarrow> string \<Rightarrow> bool" where
  "isPodStatusConditionPresentAndEqual [] conditionType status = False"
| "isPodStatusConditionPresentAndEqual (c # cs) conditionType status =
     (if pc_Type c = conditionType then pc_Status c = status else isPodStatusConditionPresentAndEqual cs conditionType status)"

definition isPodStatusConditionTrue :: "PodCondition list \<Rightarrow> string \<Rightarrow> bool" where
  "isPodStatusConditionTrue cs conditionType = isPodStatusConditionPresentAndEqual cs conditionType ''True''"

fun node_ips :: "NodeAddress list \<Rightarrow> (string, bool) gomap \<times> (string, bool) gomap \<Rightarrow> (string, bool) gomap \<times> (string, bool) gomap" where
  "node_ips [] ips = ips"
| "node_ips (addr # addrs) (extIPs, intIPs) =
     (if na_Type addr = NodeExternalIP then node_ips addrs (gput (na_Address addr) True extIPs, intIPs)
      else if na_Type addr = NodeInternalIP then node_ips addrs (extIPs, gput (na_Address addr) True intIPs)
      else node_ips addrs (extIPs, intIPs))"

text \<open>The loop of \<open>podIPs\<close> over the pods.\<close>

fun pod_ips ::
  "'w lb_api \<Rightarrow> Pod list \<Rightarrow> (string, bool) gomap \<times> (string, bool) gomap \<Rightarrow> 'w \<Rightarrow>
   ((string, bool) gomap \<times> (string, bool) gomap) result \<times> 'w"
where
  "pod_ips api [] ips w = (Inr ips, w)"
| "pod_ips api (pod # pods) ips w =
     (if pod_NodeName pod = [] \<or> pod_PodIP pod = [] then pod_ips api pods ips w
      else if \<not> isPodStatusConditionTrue (pod_Conditions pod) PodReady then pod_ips api pods ips w
      else (case lb_getNode api (pod_NodeName pod) w of
              (Inl err, w') \<Rightarrow> if err = NotFound then pod_ips api pods ips w' else (Inl err, w')
            | (Inr node, w') \<Rightarrow> pod_ips api pods (node_ips (node_Addresses node) ips) w'))"

definition filterByIPFamily :: "lb_lib \<Rightarrow> string list \<Rightarrow> Service \<Rightarrow> string list result go" where
  "filterByIPFamily lib ips svc =
     (let ipv4Addresses = filter (lb_IsIPv4String lib) ips;
          ipFamilyPolicy = (case ssp_IPFamilyPolicy (svc_Spec svc) of None \<Rightarrow> [] | Some p \<Rightarrow> p)
      in if ipFamilyPolicy = IPFamilyPolicySingleStack
         then (case ssp_IPFamilies (svc_Spec svc) of
                 [] \<Rightarrow> Inl IndexRange
               | f # _ \<Rightarrow> if f = IPv4Protocol then Inr (Inr ipv4Addresses) else Inr (Inl (Errorf ''unhandled ipFamilyPolicy'')))
         else Inr (Inl (Errorf ''unhandled ipFamilyPolicy'')))"

definition podIPs :: "lb_lib \<Rightarrow> 'w lb_api \<Rightarrow> Pod list \<Rightarrow> Service \<Rightarrow> 'w \<Rightarrow> (string list result \<times> 'w) go" where
  "podIPs lib api pods svc w =
     (case pod_ips api pods ([], []) w of
        (Inl err, w') \<Rightarrow> Inr (Inl err, w')
      | (Inr (extIPs, intIPs), w') \<Rightarrow>
          go_bind (filterByIPFamily lib (if length extIPs > 0 then key_order lib extIPs else key_order lib intIPs) svc)
            (\<lambda>r. Inr (r, w')))"

definition updateService_lb :: "lb_lib \<Rightarrow> 'w lb_api \<Rightarrow> MeshConfig \<Rightarrow> Service \<Rightarrow> 'w \<Rightarrow> (unit result \<times> 'w) go" where
  "updateService_lb lib api mc svc w =
     (if \<not> mc_ServiceLBEnabled mc \<or> meta_DeletionTimestamp (svc_Meta svc) \<noteq> None \<or> ssp_Type (svc_Spec svc) \<noteq> ServiceTypeLoadBalancer
      then removeFinalizer api svc w
      else (case lb_listPods api (meta_Namespace (svc_Meta svc))
                   [(svcNameLabel, meta_Name (svc_Meta svc)), (svcNamespaceLabel, meta_Namespace (svc_Meta svc))] w of
              (Inl err, w) \<Rightarrow> Inr (Inl err, w)
            | (Inr pods, w) \<Rightarrow>
                go_bind (podIPs lib api pods svc w) (\<lambda>(r, w).
                  case r of
                    Inl err \<Rightarrow> Inr (Inl err, w)
                  | Inr ips \<Rightarrow>
                      (let expectedIPs = sort ips; existingIPs = sort (serviceIPs svc)
                       in if StringsEqual expectedIPs existingIPs then Inr (Inr (), w)
                          else (case addFinalizer api svc w of
                                  (Inl err, w) \<Rightarrow> Inr (Inl err, w)
                                | (Inr svc, w) \<Rightarrow>
                                    (case lb_updateStatus api (svc\<lparr>svc_LoadBalancerIngressIPs := expectedIPs\<rparr>) w of
                                       (res, w) \<Rightarrow>
                                         Inr (res, lb_event api svc ''UpdatedIngressIP''
                                                (''LoadBalancer Ingress IP addresses updated: '' @ str_join expectedIPs '', '') w)))))))"

section \<open>The DaemonSet\<close>

definition generateName :: "Service \<Rightarrow> string go" where
  "generateName svc =
     (if length (meta_UID (svc_Meta svc)) < 8 then Inl IndexRange
      else Inr (''svclb-'' @ meta_Name (svc_Meta svc) @ ''-'' @ take 8 (meta_UID (svc_Meta svc))))"

definition deleteDaemonSet :: "'w lb_api \<Rightarrow> Service \<Rightarrow> 'w \<Rightarrow> (unit result \<times> 'w) go" where
  "deleteDaemonSet api svc w =
     go_bind (generateName svc) (\<lambda>nm.
       case lb_deleteDaemonSet api (meta_Namespace (svc_Meta svc)) nm w of
         (Inl err, w') \<Rightarrow> Inr (if err = NotFound then Inr () else Inl err, w')
       | (Inr _, w') \<Rightarrow>
           Inr (Inr (), lb_event api svc ''DeletedDaemonSet''
                  (''Deleted LoadBalancer DaemonSet '' @ meta_Namespace (svc_Meta svc) @ ''/'' @ nm) w'))"

definition lb_container :: "lb_lib \<Rightarrow> MeshConfig \<Rightarrow> Service \<Rightarrow> ServicePort \<Rightarrow> LbContainer" where
  "lb_container lib mc svc port =
     (let portName = ''lb-'' @ to_lower (sp_Protocol port) @ ''-'' @ itoa (sp_Port port)
      in \<lparr>lbc_Name = portName, lbc_Image = ServiceLbImage mc,
          lbc_ImagePullPolicy = ImagePullPolicyByTag (parse_image lib) (ServiceLbImage mc),
          lbc_ContainerPort = sp_Port port, lbc_HostPort = sp_Port port, lbc_Protocol = sp_Protocol port,
          lbc_Env = [(''SRC_PORT'', itoa (sp_Port port)), (''DEST_PROTO'', sp_Protocol port), (''DEST_PORT'', itoa (sp_Port port)),
                     (''DEST_IPS'', str_join (ssp_ClusterIPs (svc_Spec svc)) '' '')],
          lbc_Capabilities = [''NET_ADMIN'']\<rparr>)"

definition lb_tolerations :: "Toleration list" where
  "lb_tolerations =
     [\<lparr>tol_Key = ''node-role.kubernetes.io/master'', tol_Operator = ''Exists'', tol_Effect = ''NoSchedule''\<rparr>,
      \<lparr>tol_Key = ''node-role.kubernetes.io/control-plane'', tol_Operator = ''Exists'', tol_Effect = ''NoSchedule''\<rparr>,
      \<lparr>tol_Key = ''CriticalAddonsOnly'', tol_Operator = ''Exists'', tol_Effect = []\<rparr>]"

definition newDaemonSet :: "lb_lib \<Rightarrow> 'w lb_api \<Rightarrow> MeshConfig \<Rightarrow> Service \<Rightarrow> 'w \<Rightarrow> (DaemonSet result \<times> 'w) go" where
  "newDaemonSet lib api mc svc w =
     go_bind (generateName svc) (\<lambda>nm.
       let ns = meta_Namespace (svc_Meta svc); labels = [(svcNameLabel, meta_Name (svc_Meta svc)), (svcNamespaceLabel, ns)];
           ds = \<lparr>ds_Meta = (named_meta ns nm)\<lparr>meta_Labels := Some ((nodeSelectorLabel, ''false'') # labels)\<rparr>,
                 ds_MatchLabels = [(''app'', nm)], ds_PodLabels = (''app'', nm) # labels, ds_MaxUnavailable = 1, ds_AutomountToken = False,
                 ds_Containers = map (lb_container lib mc svc) (ssp_Ports (svc_Spec svc)), ds_Tolerations = lb_tolerations,
                 ds_NodeSelector = None\<rparr>
       in case lb_listNodes api [(daemonsetNodeLabel, ''false'')] w of
            (Inl err, w') \<Rightarrow> Inr (Inl err, w')
          | (Inr nodesWithLabel, w') \<Rightarrow>
              let pool = gstr (gm_entries (meta_Labels (svc_Meta svc))) daemonsetNodePoolLabel
              in Inr (Inr (if length nodesWithLabel > 0
                           then ds\<lparr>ds_NodeSelector := Some ((if pool \<noteq> [] then gput daemonsetNodePoolLabel pool else id) [(daemonsetNodeLabel, ''true'')]),
                                   ds_Meta := (ds_Meta ds)\<lparr>meta_Labels := Some ((nodeSelectorLabel, ''true'') # labels)\<rparr>\<rparr>
                           else ds), w'))"

definition deployDaemonSet :: "lb_lib \<Rightarrow> 'w lb_api \<Rightarrow> MeshConfig \<Rightarrow> Service \<Rightarrow> 'w \<Rightarrow> (unit result \<times> 'w) go" where
  "deployDaemonSet lib api mc svc w =
     (if \<not> mc_ServiceLBEnabled mc \<or> meta_DeletionTimestamp (svc_Meta svc) \<noteq> None \<or> ssp_Type (svc_Spec svc) \<noteq> ServiceTypeLoadBalancer \<or>
         ssp_ClusterIP (svc_Spec svc) = [] \<or> ssp_ClusterIP (svc_Spec svc) = ''None''
      then deleteDaemonSet api svc w
      else go_bind (newDaemonSet lib api mc svc w) (\<lambda>(r, w).
        case r of
          Inl err \<Rightarrow> Inr (Inl err, w)
        | Inr ds \<Rightarrow>
            (case lb_setControllerReference api svc ds of
               Inl err \<Rightarrow> Inr (Inl err, w)
             | Inr ds \<Rightarrow>
                 (case CreateOrUpdate (lb_client api) ds w of
                    ((_, Inl err), w) \<Rightarrow> Inr (Inl err, w)
                  | ((result, Inr _), w) \<Rightarrow>
                      Inr (Inr (), if result = OperationResultNone then w
                                   else lb_event api svc ''AppliedDaemonSet''
                                          (''Applied LoadBalancer DaemonSet '' @ meta_Namespace (ds_Meta ds) @ ''/'' @ meta_Name (ds_Meta ds)) w)))))"

text \<open>\<open>Reconcile\<close> of the controller for Services; the mesh configuration is read from the client, which may panic.\<close>

definition ServiceLB_Reconcile ::
  "lb_lib \<Rightarrow> 'w lb_api \<Rightarrow> MeshConfig go \<Rightarrow> NamespacedName \<Rightarrow> 'w \<Rightarrow> (unit result \<times> 'w) go"
where
  "ServiceLB_Reconcile lib api mesh req w =
     (case lb_getService api req w of
        (Inl err, w) \<Rightarrow> Inr (if err = NotFound then Inr () else Inl err, w)
      | (Inr svc, w) \<Rightarrow>
          go_bind mesh (\<lambda>mc.
            go_bind (deployDaemonSet lib api mc svc w) (\<lambda>(r, w).
              case r of
                Inl err \<Rightarrow> Inr (Inl err, w)
              | Inr _ \<Rightarrow> updateService_lb lib api mc svc w)))"

section \<open>Nodes\<close>

fun updateDaemonSets_loop :: "'w lb_api \<Rightarrow> DaemonSet list \<Rightarrow> 'w \<Rightarrow> (unit result \<times> 'w) go" where
  "updateDaemonSets_loop api [] w = Inr (Inr (), w)"
| "updateDaemonSets_loop api (ds # dss) w =
     (case meta_Labels (ds_Meta ds) of
        None \<Rightarrow> Inl (Panicked ''assignment to entry in nil map'')
      | Some labels \<Rightarrow>
          (case lb_updateDaemonSet api
                  (ds\<lparr>ds_NodeSelector := Some [(daemonsetNodeLabel, ''true'')],
                      ds_Meta := (ds_Meta ds)\<lparr>meta_Labels := Some (gput nodeSelectorLabel ''true'' labels)\<rparr>\<rparr>) w of
             (Inl err, w) \<Rightarrow> Inr (Inl err, w)
           | (Inr _, w) \<Rightarrow> updateDaemonSets_loop api dss w))"

definition updateDaemonSets :: "'w lb_api \<Rightarrow> 'w \<Rightarrow> (unit result \<times> 'w) go" where
  "updateDaemonSets api w =
     (case lb_listDaemonSets api [(nodeSelectorLabel, ''false'')] w of
        (Inl err, w) \<Rightarrow> Inr (Inl err, w)
      | (Inr dss, w) \<Rightarrow> updateDaemonSets_loop api dss w)"

definition Node_Reconcile :: "'w lb_api \<Rightarrow> string \<Rightarrow> 'w \<Rightarrow> (unit result \<times> 'w) go" where
  "Node_Reconcile api nm w =
     (case lb_getNode api nm w of
        (Inl err, w) \<Rightarrow> Inr (if err = NotFound then Inr () else Inl err, w)
      | (Inr node, w) \<Rightarrow>
          if gm_look (node_Labels node) daemonsetNodeLabel = None then Inr (Inr (), w) else updateDaemonSets api w)"

section \<open>Removing the finalizer\<close>

lemma removeFinalizer_loop_skip:
  assumes "\<forall>j. k \<le> j \<and> j < k' \<longrightarrow> arr ! j \<noteq> finalizerName" and "k \<le> k'" and "k' \<le> length arr"
  shows "removeFinalizer_loop k arr m = removeFinalizer_loop k' arr m"
  using assms(1,2)
proof (induction "k' - k" arbitrary: k)
  case (Suc d)
  then have "k < length arr" and "arr ! k \<noteq> finalizerName"
    using assms(3) by auto
  then have "removeFinalizer_loop k arr m = removeFinalizer_loop (k + 1) arr m"
    by (subst removeFinalizer_loop.simps) simp
  also have "\<dots> = removeFinalizer_loop k' arr m"
    using Suc by (intro Suc.hyps(1)) auto
  finally show ?case .
qed simp

lemma removeFinalizer_loop_end: "length arr \<le> k \<Longrightarrow> removeFinalizer_loop k arr m = Inr (take m arr)"
  by (subst removeFinalizer_loop.simps) simp

lemma removeFinalizer_loop_once:
  assumes "finalizerName \<notin> set xs" and "finalizerName \<notin> set ys"
  shows "removeFinalizer_loop 0 (xs @ finalizerName # ys) (length xs + 1 + length ys) = Inr (xs @ ys)"
proof -
  let ?arr = "xs @ finalizerName # ys" and ?m = "length xs + 1 + length ys"
  let ?arr' = "xs @ ys @ [last (finalizerName # ys)]"
  have "removeFinalizer_loop 0 ?arr ?m = removeFinalizer_loop (length xs) ?arr ?m"
    using assms(1) by (intro removeFinalizer_loop_skip) (auto simp: nth_append dest: nth_mem)
  also have "\<dots> = removeFinalizer_loop (length xs + 1) ?arr' (length xs + length ys)"
  proof -
    have "drop (length xs + length ys) ?arr = [last (finalizerName # ys)]"
      by (cases ys rule: rev_cases) simp_all
    then show ?thesis
      by (subst removeFinalizer_loop.simps) simp
  qed
  also have "\<dots> = removeFinalizer_loop (length ?arr') ?arr' (length xs + length ys)"
  proof (intro removeFinalizer_loop_skip allI impI)
    fix j assume j: "length xs + 1 \<le> j \<and> j < length ?arr'"
    then have "ys \<noteq> []"
      by auto
    moreover have "?arr' ! j \<in> set (ys @ [last (finalizerName # ys)])"
      using j by (simp add: nth_append)
    ultimately have "?arr' ! j \<in> set ys"
      by auto
    with assms(2) show "?arr' ! j \<noteq> finalizerName"
      by metis
  qed auto
  also have "\<dots> = Inr (xs @ ys)"
    by (simp add: removeFinalizer_loop_end)
  finally show ?thesis .
qed

text \<open>\<open>removeFinalizer\<close> takes exactly its own finalizer out of a list that holds it once, as the list does
  when only \<open>addFinalizer\<close> has put it there, although it changes the slice it ranges over. A list that holds it
  twice makes it panic.\<close>

theorem finalizer_removed:
  assumes "count_list (meta_Finalizers (svc_Meta svc)) finalizerName = 1"
  shows "removeFinalizer api svc w =
           Inr (apfst (map_sum id (\<lambda>_. ())) (lb_updateService api
             (svc\<lparr>svc_Meta := (svc_Meta svc)\<lparr>meta_Finalizers := removeAll finalizerName (meta_Finalizers (svc_Meta svc))\<rparr>\<rparr>) w)) \<and>
         removeFinalizer_loop 0 [finalizerName, finalizerName] 2 = Inl IndexRange"
proof
  obtain xs ys where fs: "meta_Finalizers (svc_Meta svc) = xs @ finalizerName # ys"
    using assms by (metis count_notin split_list zero_neq_one)
  then have notin: "finalizerName \<notin> set xs" "finalizerName \<notin> set ys"
    using assms by (simp_all add: count_list_0_iff)
  have "removeFinalizer_loop 0 (xs @ finalizerName # ys) (length (xs @ finalizerName # ys)) = Inr (xs @ ys)"
    using removeFinalizer_loop_once [OF notin] by simp
  moreover have "removeAll finalizerName (xs @ finalizerName # ys) = xs @ ys"
    using notin by simp
  moreover have "hasFinalizer svc"
    by (simp add: hasFinalizer_def fs)
  ultimately show "removeFinalizer api svc w =
      Inr (apfst (map_sum id (\<lambda>_. ())) (lb_updateService api
        (svc\<lparr>svc_Meta := (svc_Meta svc)\<lparr>meta_Finalizers := removeAll finalizerName (meta_Finalizers (svc_Meta svc))\<rparr>\<rparr>) w))"
    by (simp only: removeFinalizer_def Let_def fs) simp
  show "removeFinalizer_loop 0 [finalizerName, finalizerName] 2 = Inl IndexRange"
    by (simp add: removeFinalizer_loop.simps)
qed

definition demo_lb_service :: "string list \<Rightarrow> string list \<Rightarrow> Service" where
  "demo_lb_service finalizers ips =
     \<lparr>svc_Meta = (named_meta ''ns'' ''web'')\<lparr>meta_UID := ''0123456789'', meta_Finalizers := finalizers\<rparr>,
      svc_Spec = \<lparr>ssp_Type = ServiceTypeLoadBalancer, ssp_ClusterIP = ''10.96.0.1'', ssp_ClusterIPs = [''10.96.0.1''], ssp_IPFamilies = [IPv4Protocol],
        ssp_ExternalName = [], ssp_Ports = [], ssp_LoadBalancerClass = None, ssp_IPFamilyPolicy = Some IPFamilyPolicySingleStack\<rparr>,
      svc_LoadBalancerIngressIPs = ips\<rparr>"

text \<open>A server whose world is the status of the Service.\<close>

definition demo_lb_api :: "string list lb_api" where
  "demo_lb_api =
     \<lparr>lb_getService = (\<lambda>_ w. (Inl NotFound, w)), lb_updateService = (\<lambda>s w. (Inr s, w)),
      lb_updateStatus = (\<lambda>s w. (Inr (), svc_LoadBalancerIngressIPs s)),
      lb_listPods = (\<lambda>_ _ w. (Inr [\<lparr>pod_NodeName = ''n1'', pod_PodIP = ''1'', pod_Conditions = [\<lparr>pc_Type = PodReady, pc_Status = ''True''\<rparr>]\<rparr>,
                                   \<lparr>pod_NodeName = ''n2'', pod_PodIP = ''2'', pod_Conditions = []\<rparr>], w)),
      lb_getNode = (\<lambda>nm w. (if nm = ''n1'' then Inr \<lparr>node_Labels = None, node_Addresses =
                               [\<lparr>na_Type = NodeInternalIP, na_Address = ''10.0.0.1''\<rparr>, \<lparr>na_Type = ''Hostname'', na_Address = ''n1''\<rparr>]\<rparr>
                             else Inl NotFound, w)),
      lb_listNodes = (\<lambda>_ w. (Inr [], w)), lb_listDaemonSets = (\<lambda>_ w. (Inr [], w)), lb_updateDaemonSet = (\<lambda>_ w. (Inr (), w)),
      lb_deleteDaemonSet = (\<lambda>_ _ w. (Inr (), w)), lb_setControllerReference = (\<lambda>_ ds. Inr ds),
      lb_client = \<lparr>cl_Get = (\<lambda>_ w. (Inl NotFound, w)), cl_Create = (\<lambda>_ w. (Inr (), w)), cl_MergeData = (\<lambda>_. Inr []),
                   cl_Patch = (\<lambda>_ _ w. (Inr (), w))\<rparr>,
      lb_event = (\<lambda>_ _ _ w. w)\<rparr>"

theorem finalizer_removed_witness:
  "removeFinalizer demo_lb_api (demo_lb_service [''x'', finalizerName, ''y''] []) [] = Inr (Inr (), []) \<and>
   count_list [''x'', finalizerName, ''y''] finalizerName = 1"
  using finalizer_removed [of "demo_lb_service [''x'', finalizerName, ''y''] []" demo_lb_api "[]"]
  by (simp add: demo_lb_service_def demo_lb_api_def)

section \<open>The addresses in the status\<close>

text \<open>The nodes on which a ready pod of the load balancer runs, and their addresses of one type.\<close>

definition lb_pod :: "Pod \<Rightarrow> bool" where
  "lb_pod pod \<longleftrightarrow> pod_NodeName pod \<noteq> [] \<and> pod_PodIP pod \<noteq> [] \<and> isPodStatusConditionTrue (pod_Conditions pod) PodReady"

definition node_addresses :: "string \<Rightarrow> (string \<Rightarrow> Node result) \<Rightarrow> Pod list \<Rightarrow> string set" where
  "node_addresses typ nodes pods =
     {na_Address a | a node pod. pod \<in> set pods \<and> lb_pod pod \<and> nodes (pod_NodeName pod) = Inr node \<and>
                                 a \<in> set (node_Addresses node) \<and> na_Type a = typ}"

definition lb_addresses :: "lb_lib \<Rightarrow> (string \<Rightarrow> Node result) \<Rightarrow> Pod list \<Rightarrow> string set" where
  "lb_addresses lib nodes pods =
     {a \<in> (if node_addresses NodeExternalIP nodes pods = {} then node_addresses NodeInternalIP nodes pods
            else node_addresses NodeExternalIP nodes pods). lb_IsIPv4String lib a}"

definition keys_any_order :: "lb_lib \<Rightarrow> bool" where
  "keys_any_order lib \<longleftrightarrow> (\<forall>m. gm_wf m \<longrightarrow> distinct (key_order lib m) \<and> set (key_order lib m) = fst ` set m)"

lemma dom_gput: "fst ` set (gput k v m) = insert k (fst ` set m)"
  by (induction m) auto

lemma node_ips_parts:
  assumes "node_ips addrs (e, i) = (e', i')" and "gm_wf e" and "gm_wf i"
  shows "gm_wf e' \<and> gm_wf i' \<and> fst ` set e' = fst ` set e \<union> {na_Address a | a. a \<in> set addrs \<and> na_Type a = NodeExternalIP} \<and>
         fst ` set i' = fst ` set i \<union> {na_Address a | a. a \<in> set addrs \<and> na_Type a = NodeInternalIP}"
  using assms
proof (induction addrs arbitrary: e i)
  case (Cons a addrs)
  from Cons.prems Cons.IH [of "gput (na_Address a) True e" i] Cons.IH [of e "gput (na_Address a) True i"] Cons.IH [of e i]
  show ?case
    by (auto simp: gm_wf_gput dom_gput split: if_splits)
qed simp

lemma node_addresses_Cons:
  "node_addresses typ nodes (pod # pods) =
     (case nodes (pod_NodeName pod) of
        Inl _ \<Rightarrow> {}
      | Inr node \<Rightarrow> if lb_pod pod then {na_Address a | a. a \<in> set (node_Addresses node) \<and> na_Type a = typ} else {}) \<union>
     node_addresses typ nodes pods"
  by (cases "nodes (pod_NodeName pod)") (auto simp: node_addresses_def)

lemma pod_ips_parts:
  assumes "\<And>nm w. lb_getNode api nm w = (nodes nm, w)" and "\<And>nm err. nodes nm = Inl err \<Longrightarrow> err = NotFound"
    and "gm_wf e" and "gm_wf i"
  shows "\<exists>e' i'. pod_ips api pods (e, i) w = (Inr (e', i'), w) \<and> gm_wf e' \<and> gm_wf i' \<and>
           fst ` set e' = fst ` set e \<union> node_addresses NodeExternalIP nodes pods \<and>
           fst ` set i' = fst ` set i \<union> node_addresses NodeInternalIP nodes pods"
  using assms(3,4)
proof (induction pods arbitrary: e i)
  case Nil
  then show ?case
    by (simp add: node_addresses_def)
next
  case (Cons pod pods)
  show ?case
  proof (cases "lb_pod pod \<and> (\<exists>node. nodes (pod_NodeName pod) = Inr node)")
    case True
    then obtain node where node: "nodes (pod_NodeName pod) = Inr node" and pod: "lb_pod pod"
      by blast
    obtain e1 i1 where ei: "node_ips (node_Addresses node) (e, i) = (e1, i1)"
      by (cases "node_ips (node_Addresses node) (e, i)")
    note parts = node_ips_parts [OF ei Cons.prems]
    have "pod_ips api (pod # pods) (e, i) w = pod_ips api pods (e1, i1) w"
      using pod node ei by (simp add: assms(1) lb_pod_def)
    with Cons.IH [of e1 i1] parts node pod show ?thesis
      by (auto simp: node_addresses_Cons)
  next
    case False
    then have "pod_ips api (pod # pods) (e, i) w = pod_ips api pods (e, i) w"
      using assms(2) by (cases "nodes (pod_NodeName pod)") (auto simp: assms(1) lb_pod_def)
    with Cons.IH [OF Cons.prems] False show ?thesis
      by (cases "nodes (pod_NodeName pod)") (auto simp: node_addresses_Cons)
  qed
qed

lemma podIPs_addresses:
  assumes "keys_any_order lib" and "\<And>nm w. lb_getNode api nm w = (nodes nm, w)" and "\<And>nm err. nodes nm = Inl err \<Longrightarrow> err = NotFound"
    and "ssp_IPFamilyPolicy (svc_Spec svc) = Some IPFamilyPolicySingleStack" and "ssp_IPFamilies (svc_Spec svc) = IPv4Protocol # fs"
  obtains ips where "podIPs lib api pods svc w = Inr (Inr ips, w)" and "sort ips = sorted_list_of_set (lb_addresses lib nodes pods)"
    and "set ips = lb_addresses lib nodes pods"
proof -
  obtain e i where ei: "pod_ips api pods ([], []) w = (Inr (e, i), w)" "gm_wf e" "gm_wf i"
      "fst ` set e = node_addresses NodeExternalIP nodes pods" "fst ` set i = node_addresses NodeInternalIP nodes pods"
  proof -
    have "\<exists>e' i'. pod_ips api pods ([], []) w = (Inr (e', i'), w) \<and> gm_wf e' \<and> gm_wf i' \<and>
        fst ` set e' = fst ` set ([] :: (string, bool) gomap) \<union> node_addresses NodeExternalIP nodes pods \<and>
        fst ` set i' = fst ` set ([] :: (string, bool) gomap) \<union> node_addresses NodeInternalIP nodes pods"
      by (rule pod_ips_parts) (fact assms(2) assms(3) gm_wf_Nil)+
    with that show ?thesis
      by auto
  qed
  let ?ips = "filter (lb_IsIPv4String lib) (if length e > 0 then key_order lib e else key_order lib i)"
  have run: "podIPs lib api pods svc w = Inr (Inr ?ips, w)"
    using ei(1) assms(4,5) by (simp add: podIPs_def filterByIPFamily_def Let_def)
  have "length e > 0 \<longleftrightarrow> node_addresses NodeExternalIP nodes pods \<noteq> {}"
    unfolding ei(4) [symmetric] by simp
  then have addrs: "set ?ips = lb_addresses lib nodes pods" and "distinct ?ips"
    using assms(1) ei(2-5) by (auto simp: keys_any_order_def lb_addresses_def)
  then have "sort ?ips = sorted_list_of_set (lb_addresses lib nodes pods)"
    using sorted_list_of_set_sort_remdups [of ?ips] by (simp add: distinct_remdups_id)
  with run addrs that show ?thesis
    by blast
qed



end
