(* ===== verification/Service_Export.thy ===== *)
theory Service_Export
  imports Ingress_Routes Cluster_Connector
begin

text \<open>
  \<open>controllers/serviceexport/v1alpha1/serviceexport_controller.go\<close>: the reconciler of ServiceExports in the
  cluster that exports. It checks that the Service can be exported and that no other Ingress uses the
  paths, publishes the paths through an Ingress of its own, and reports the outcome in the condition
  \<open>Valid\<close>, which the controller of the cluster set reads. The Ingress is the one that the
  ingress cache converts to routes.
\<close>

abbreviation MultiClustersServiceExportHash :: string where
  "MultiClustersServiceExportHash \<equiv> ''multicluster.flomesh.io/export-hash''"

section \<open>The API server\<close>

record 'w export_api =
  ea_getExport :: "NamespacedName \<Rightarrow> 'w \<Rightarrow> ServiceExport result \<times> 'w"
  ea_getService :: "NamespacedName \<Rightarrow> 'w \<Rightarrow> Service result \<times> 'w"
  ea_listIngresses :: "'w \<Rightarrow> Ingress list result \<times> 'w"
  ea_getIngress :: "NamespacedName \<Rightarrow> 'w \<Rightarrow> Ingress result \<times> 'w"
  ea_createIngress :: "Ingress \<Rightarrow> 'w \<Rightarrow> unit result \<times> 'w"
  ea_updateIngress :: "Ingress \<Rightarrow> 'w \<Rightarrow> unit result \<times> 'w"
  ea_updateExport :: "ServiceExport \<Rightarrow> 'w \<Rightarrow> ServiceExport result \<times> 'w"
  ea_updateStatus :: "ServiceExport \<Rightarrow> 'w \<Rightarrow> unit result \<times> 'w"
  ea_setControllerReference :: "ServiceExport \<Rightarrow> Ingress \<Rightarrow> Ingress result"
  ea_Hash :: "ServiceExportSpec \<Rightarrow> nat result"

section \<open>The status\<close>

definition setValid :: "conn_lib \<Rightarrow> string \<Rightarrow> string \<Rightarrow> string \<Rightarrow> ServiceExport \<Rightarrow> ServiceExport" where
  "setValid lib status reason message export =
     export\<lparr>exp_Conditions := SetStatusCondition lib
       \<lparr>cond_Type = ServiceExportValid, cond_Status = status, cond_Reason = reason, cond_Message = message,
        cond_ObservedGeneration = exp_Generation export\<rparr> (exp_Conditions export)\<rparr>"

definition nonexistService :: "conn_lib \<Rightarrow> 'w export_api \<Rightarrow> NamespacedName \<Rightarrow> ServiceExport \<Rightarrow> 'w \<Rightarrow> unit result \<times> 'w" where
  "nonexistService lib api req export w =
     ea_updateStatus api (setValid lib ''False'' ''Failed'' (''Service '' @ nn_String req @ '' not found'') export) w"

definition failedGetService ::
  "conn_lib \<Rightarrow> 'w export_api \<Rightarrow> NamespacedName \<Rightarrow> ServiceExport \<Rightarrow> go_error \<Rightarrow> 'w \<Rightarrow> unit result \<times> 'w"
where
  "failedGetService lib api req export err w =
     ea_updateStatus api (setValid lib ''False'' ''Failed'' (''Get Service '' @ nn_String req @ '' error: '' @ err_text lib err) export) w"

definition deletedService :: "conn_lib \<Rightarrow> 'w export_api \<Rightarrow> NamespacedName \<Rightarrow> ServiceExport \<Rightarrow> 'w \<Rightarrow> unit result \<times> 'w" where
  "deletedService lib api req export w =
     ea_updateStatus api (setValid lib ''False'' ''Failed'' (''Service '' @ nn_String req @ '' is being deleted.'') export) w"

definition unsupportedServiceType :: "conn_lib \<Rightarrow> 'w export_api \<Rightarrow> NamespacedName \<Rightarrow> ServiceExport \<Rightarrow> 'w \<Rightarrow> unit result \<times> 'w" where
  "unsupportedServiceType lib api req export w =
     ea_updateStatus api (setValid lib ''False'' ''Failed''
       (''Type of Service '' @ nn_String req @ '' is '' @ ServiceTypeExternalName @ '', cannot be exported.'') export) w"

definition failedListIngresses :: "conn_lib \<Rightarrow> 'w export_api \<Rightarrow> ServiceExport \<Rightarrow> go_error \<Rightarrow> 'w \<Rightarrow> unit result \<times> 'w" where
  "failedListIngresses lib api export err w =
     (case ea_updateStatus api (setValid lib ''False'' ''Failed'' (''Get Ingress List error: '' @ err_text lib err) export) w of
        (Inl err', w') \<Rightarrow> (Inl err', w')
      | (Inr _, w') \<Rightarrow> (Inl err, w'))"

definition pathConflicts ::
  "conn_lib \<Rightarrow> 'w export_api \<Rightarrow> ServiceExport \<Rightarrow> HTTPIngressPath \<Rightarrow> Ingress \<Rightarrow> 'w \<Rightarrow> unit result \<times> 'w"
where
  "pathConflicts lib api export path ing w =
     ea_updateStatus api (setValid lib ''False'' ''Failed''
       (''The path \"'' @ hip_Path path @ ''\" has been defined in Ingress '' @ meta_Namespace (ing_Meta ing) @ ''/'' @ meta_Name (ing_Meta ing))
       export) w"

definition successExport :: "conn_lib \<Rightarrow> 'w export_api \<Rightarrow> NamespacedName \<Rightarrow> ServiceExport \<Rightarrow> 'w \<Rightarrow> unit result \<times> 'w" where
  "successExport lib api req export w =
     ea_updateStatus api (setValid lib ''True'' ''Success'' (''Service '' @ nn_String req @ '' is exported successfully.'') export) w"

section \<open>The Ingress\<close>

definition ingressAnnotations :: "ServiceExport \<Rightarrow> (string, string) gomap" where
  "ingressAnnotations export =
     (let spec = exp_Spec export;
          annos = (case ses_PathRewrite spec of
                     None \<Rightarrow> []
                   | Some pr \<Rightarrow>
                       if pr_From pr \<noteq> [] \<and> pr_To pr \<noteq> []
                       then gput PipyIngressAnnotationRewriteTo (pr_To pr) (gput PipyIngressAnnotationRewriteFrom (pr_From pr) [])
                       else []);
          annos = (if ses_SessionSticky spec then gput PipyIngressAnnotationSessionSticky ''true'' annos else annos)
      in if ses_LoadBalancer spec \<noteq> [] then gput PipyIngressAnnotationLoadBalancer (ses_LoadBalancer spec) annos else annos)"

definition ingressPaths :: "ServiceExport \<Rightarrow> HTTPIngressPath list" where
  "ingressPaths export =
     map (\<lambda>rule. \<lparr>hip_Path = ser_Path rule, hip_PathType = ser_PathType rule,
                   hip_Backend_Service = Some \<lparr>isb_Name = meta_Name (exp_Meta export),
                     isb_Port = \<lparr>sbp_Name = [], sbp_Number = ser_PortNumber rule\<rparr>\<rparr>\<rparr>)
       (ses_Rules (exp_Spec export))"

definition export_ingress_name :: "ServiceExport \<Rightarrow> string" where
  "export_ingress_name export = ''svcexp-ing-'' @ meta_Name (exp_Meta export)"

definition newIngress :: "ServiceExport \<Rightarrow> Ingress" where
  "newIngress export =
     \<lparr>ing_Meta = (named_meta (meta_Namespace (exp_Meta export)) (export_ingress_name export))
                   \<lparr>meta_Annotations := Some (ingressAnnotations export)\<rparr>,
      ing_IngressClassName = Some ''pipy'', ing_TLS = [], ing_Rules = [\<lparr>ir_Host = [], ir_HTTP = Some (ingressPaths export)\<rparr>]\<rparr>"

section \<open>The paths of other Ingresses\<close>

text \<open>A loop that looks for the first hit; its body may panic.\<close>

fun go_find :: "('a \<Rightarrow> 'b option go) \<Rightarrow> 'a list \<Rightarrow> 'b option go" where
  "go_find f [] = Inr None"
| "go_find f (x # xs) = go_bind (f x) (\<lambda>r. case r of Some b \<Rightarrow> Inr (Some b) | None \<Rightarrow> go_find f xs)"

text \<open>The innermost test; the path types are pointers, which are read only if the paths are equal.\<close>

definition same_path :: "ServiceExportRule \<Rightarrow> HTTPIngressPath \<Rightarrow> bool go" where
  "same_path er path =
     (if hip_Path path = ser_Path er
      then (case (hip_PathType path, ser_PathType er) of (Some a, Some b) \<Rightarrow> Inr (a = b) | _ \<Rightarrow> Inl NilPointer)
      else Inr False)"

definition controlled_by :: "Ingress \<Rightarrow> ServiceExport \<Rightarrow> bool" where
  "controlled_by ing export \<longleftrightarrow> meta_Controller (ing_Meta ing) = Some (meta_UID (exp_Meta export))"

definition conflict_in_rule :: "ServiceExportRule \<Rightarrow> Ingress \<Rightarrow> IngressRule \<Rightarrow> (HTTPIngressPath \<times> Ingress) option go" where
  "conflict_in_rule er ing rule =
     (case ir_HTTP rule of
        None \<Rightarrow> Inl NilPointer
      | Some paths \<Rightarrow>
          go_find (\<lambda>path. go_bind (same_path er path) (\<lambda>same. Inr (if same then Some (path, ing) else None))) paths)"

definition find_conflict :: "ServiceExport \<Rightarrow> Ingress list \<Rightarrow> (HTTPIngressPath \<times> Ingress) option go" where
  "find_conflict export ings =
     go_find (\<lambda>er.
       go_find (\<lambda>ing.
         if controlled_by ing export then Inr None else go_find (conflict_in_rule er ing) (ing_Rules ing)) ings)
       (ses_Rules (exp_Spec export))"

section \<open>Reconciling\<close>

definition updateExportIngress ::
  "conn_lib \<Rightarrow> 'w export_api \<Rightarrow> NamespacedName \<Rightarrow> ServiceExport \<Rightarrow> Ingress \<Rightarrow> 'w \<Rightarrow> unit result \<times> 'w"
where
  "updateExportIngress lib api req export ing w =
     (let annos = gm_entries (meta_Annotations (exp_Meta export));
          oldHash = gstr annos MultiClustersServiceExportHash;
          hash = SimpleHash (ea_Hash api (exp_Spec export))
      in if oldHash \<noteq> hash
         then (case ea_updateExport api (export\<lparr>exp_Meta := (exp_Meta export)
                      \<lparr>meta_Annotations := Some (gput MultiClustersServiceExportHash hash annos)\<rparr>\<rparr>) w of
                 (Inl err, w) \<Rightarrow> (Inl err, w)
               | (Inr export, w) \<Rightarrow>
                   (let annotations = (case meta_Annotations (ing_Meta ing) of
                                         None \<Rightarrow> ingressAnnotations export
                                       | Some as \<Rightarrow> range_put as (ingressAnnotations export));
                        ing = ing\<lparr>ing_Rules := [\<lparr>ir_Host = [], ir_HTTP = Some (ingressPaths export)\<rparr>],
                                  ing_Meta := (ing_Meta ing)\<lparr>meta_Annotations := Some annotations\<rparr>\<rparr>
                    in case ea_updateIngress api ing w of
                         (Inl err, w) \<Rightarrow> (Inl err, w)
                       | (Inr _, w) \<Rightarrow> successExport lib api req export w))
         else successExport lib api req (export\<lparr>exp_Meta := (exp_Meta export)\<lparr>meta_Annotations := Some annos\<rparr>\<rparr>) w)"

definition publishExport ::
  "conn_lib \<Rightarrow> 'w export_api \<Rightarrow> NamespacedName \<Rightarrow> ServiceExport \<Rightarrow> 'w \<Rightarrow> unit result \<times> 'w"
where
  "publishExport lib api req export w =
     (case ea_getIngress api (nn (meta_Namespace (exp_Meta export)) (export_ingress_name export)) w of
        (Inl err, w) \<Rightarrow>
          if err = NotFound
          then (case ea_setControllerReference api export (newIngress export) of
                  Inl err \<Rightarrow> (Inl err, w)
                | Inr ing \<Rightarrow>
                    (case ea_createIngress api ing w of
                       (Inl err, w) \<Rightarrow> (Inl err, w)
                     | (Inr _, w) \<Rightarrow> successExport lib api req export w))
          else (Inl err, w)
      | (Inr ing, w) \<Rightarrow> updateExportIngress lib api req export ing w)"

definition ServiceExport_Reconcile :: "conn_lib \<Rightarrow> 'w export_api \<Rightarrow> NamespacedName \<Rightarrow> 'w \<Rightarrow> (unit result \<times> 'w) go" where
  "ServiceExport_Reconcile lib api req w =
     (case ea_getExport api req w of
        (Inl err, w) \<Rightarrow> Inr (if err = NotFound then Inr () else Inl err, w)
      | (Inr export, w) \<Rightarrow>
          (case ea_getService api req w of
             (Inl err, w) \<Rightarrow>
               Inr (if err = NotFound then nonexistService lib api req export w else failedGetService lib api req export err w)
           | (Inr svc, w) \<Rightarrow>
               if meta_DeletionTimestamp (svc_Meta svc) \<noteq> None then Inr (deletedService lib api req export w)
               else if ssp_Type (svc_Spec svc) = ServiceTypeExternalName then Inr (unsupportedServiceType lib api req export w)
               else (case ea_listIngresses api w of
                       (Inl err, w) \<Rightarrow> Inr (failedListIngresses lib api export err w)
                     | (Inr ings, w) \<Rightarrow>
                         go_bind (find_conflict export ings) (\<lambda>c.
                           Inr (case c of
                                  Some (path, ing) \<Rightarrow> pathConflicts lib api export path ing w
                                | None \<Rightarrow> publishExport lib api req export w)))))"

section \<open>Looking for conflicts\<close>

lemma go_find_ok:
  assumes "\<And>x. x \<in> set xs \<Longrightarrow> \<exists>r. f x = Inr r \<and> (r \<noteq> None \<longleftrightarrow> P x)"
  shows "\<exists>r. go_find f xs = Inr r \<and> (r \<noteq> None \<longleftrightarrow> (\<exists>x\<in>set xs. P x))"
  using assms
proof (induction xs)
  case (Cons x xs)
  then obtain r where r: "f x = Inr r" "r \<noteq> None \<longleftrightarrow> P x"
    by force
  show ?case
  proof (cases r)
    case None
    with r Cons show ?thesis
      by auto
  qed (use r in auto)
qed simp

text \<open>An Ingress whose rules have paths and whose paths have types.\<close>

definition typed_ingress :: "Ingress \<Rightarrow> bool" where
  "typed_ingress ing \<longleftrightarrow>
     (\<forall>rule\<in>set (ing_Rules ing). \<exists>paths. ir_HTTP rule = Some paths \<and> (\<forall>path\<in>set paths. hip_PathType path \<noteq> None))"

definition typed_export :: "ServiceExport \<Rightarrow> bool" where
  "typed_export export \<longleftrightarrow> (\<forall>er\<in>set (ses_Rules (exp_Spec export)). ser_PathType er \<noteq> None)"

definition path_taken :: "ServiceExport \<Rightarrow> Ingress list \<Rightarrow> bool" where
  "path_taken export ings \<longleftrightarrow>
     (\<exists>er\<in>set (ses_Rules (exp_Spec export)). \<exists>ing\<in>set ings. \<not> controlled_by ing export \<and>
        (\<exists>rule\<in>set (ing_Rules ing). \<exists>paths. ir_HTTP rule = Some paths \<and>
           (\<exists>path\<in>set paths. hip_Path path = ser_Path er \<and> hip_PathType path = ser_PathType er)))"

lemma conflict_in_rule_ok:
  assumes "ser_PathType er \<noteq> None" and "ir_HTTP rule = Some paths" and "\<forall>path\<in>set paths. hip_PathType path \<noteq> None"
  shows "\<exists>r. conflict_in_rule er ing rule = Inr r \<and>
             (r \<noteq> None \<longleftrightarrow> (\<exists>path\<in>set paths. hip_Path path = ser_Path er \<and> hip_PathType path = ser_PathType er))"
proof -
  let ?f = "\<lambda>path. go_bind (same_path er path) (\<lambda>same. Inr (if same then Some (path, ing) else None))"
  have "\<exists>r. go_find ?f paths = Inr r \<and>
      (r \<noteq> None \<longleftrightarrow> (\<exists>path\<in>set paths. hip_Path path = ser_Path er \<and> hip_PathType path = ser_PathType er))"
    by (rule go_find_ok) (use assms(1,3) in \<open>auto simp: same_path_def\<close>)
  with assms(2) show ?thesis
    by (simp add: conflict_in_rule_def)
qed

lemma find_conflict_ok:
  assumes "typed_export export" and "\<forall>ing\<in>set ings. typed_ingress ing"
  shows "\<exists>r. find_conflict export ings = Inr r \<and> (r \<noteq> None \<longleftrightarrow> path_taken export ings)"
  unfolding find_conflict_def path_taken_def
proof (rule go_find_ok, rule go_find_ok)
  fix er ing assume er: "er \<in> set (ses_Rules (exp_Spec export))" and ing: "ing \<in> set ings"
  have "\<exists>r. go_find (conflict_in_rule er ing) (ing_Rules ing) = Inr r \<and>
      (r \<noteq> None \<longleftrightarrow> (\<exists>rule\<in>set (ing_Rules ing). \<exists>paths. ir_HTTP rule = Some paths \<and>
         (\<exists>path\<in>set paths. hip_Path path = ser_Path er \<and> hip_PathType path = ser_PathType er)))"
  proof (rule go_find_ok)
    fix rule assume "rule \<in> set (ing_Rules ing)"
    with assms(2) ing obtain paths where paths: "ir_HTTP rule = Some paths" "\<forall>path\<in>set paths. hip_PathType path \<noteq> None"
      unfolding typed_ingress_def by blast
    have "ser_PathType er \<noteq> None"
      using assms(1) er by (simp add: typed_export_def)
    from conflict_in_rule_ok [OF this paths] paths(1)
    show "\<exists>r. conflict_in_rule er ing rule = Inr r \<and>
        (r \<noteq> None \<longleftrightarrow> (\<exists>paths. ir_HTTP rule = Some paths \<and>
           (\<exists>path\<in>set paths. hip_Path path = ser_Path er \<and> hip_PathType path = ser_PathType er)))"
      by simp
  qed
  then show "\<exists>r. (if controlled_by ing export then Inr None else go_find (conflict_in_rule er ing) (ing_Rules ing)) = Inr r \<and>
      (r \<noteq> None \<longleftrightarrow> \<not> controlled_by ing export \<and>
         (\<exists>rule\<in>set (ing_Rules ing). \<exists>paths. ir_HTTP rule = Some paths \<and>
            (\<exists>path\<in>set paths. hip_Path path = ser_Path er \<and> hip_PathType path = ser_PathType er)))"
    by auto
qed

section \<open>The server and the condition\<close>

text \<open>What the condition \<open>Valid\<close> says, and that the library writes the status it is given.\<close>

definition valid_status :: "Condition list \<Rightarrow> string option" where
  "valid_status cs = map_option cond_Status (find (\<lambda>c. cond_Type c = ServiceExportValid) cs)"

definition sets_conditions :: "conn_lib \<Rightarrow> bool" where
  "sets_conditions lib \<longleftrightarrow> (\<forall>c cs. cond_Type c = ServiceExportValid \<longrightarrow> valid_status (SetStatusCondition lib c cs) = Some (cond_Status c))"

text \<open>A server that accepts every write; \<open>status\<close> is the condition \<open>Valid\<close> it keeps for the export.\<close>

definition export_server :: "'w export_api \<Rightarrow> ('w \<Rightarrow> string option) \<Rightarrow> bool" where
  "export_server api status \<longleftrightarrow>
     (\<forall>e w. \<exists>w'. ea_updateStatus api e w = (Inr (), w') \<and> status w' = valid_status (exp_Conditions e)) \<and>
     (\<forall>e w. \<exists>w'. ea_updateExport api e w = (Inr e, w')) \<and>
     (\<forall>ing w. \<exists>w'. ea_createIngress api ing w = (Inr (), w')) \<and>
     (\<forall>ing w. \<exists>w'. ea_updateIngress api ing w = (Inr (), w')) \<and>
     (\<forall>e ing. \<exists>ing'. ea_setControllerReference api e ing = Inr ing')"

lemma updateStatus_valid:
  assumes "sets_conditions lib" and "export_server api status"
  obtains w' where "ea_updateStatus api (setValid lib st reason message export) w = (Inr (), w')" and "status w' = Some st"
proof -
  obtain w' where "ea_updateStatus api (setValid lib st reason message export) w = (Inr (), w')"
      "status w' = valid_status (exp_Conditions (setValid lib st reason message export))"
    using assms(2) unfolding export_server_def by blast
  moreover have "valid_status (exp_Conditions (setValid lib st reason message export)) = Some st"
    using assms(1) by (simp add: sets_conditions_def setValid_def)
  ultimately show ?thesis
    using that by simp
qed

lemma publishExport_valid:
  assumes "sets_conditions lib" and srv: "export_server api status"
    and "\<And>req w. \<exists>r. ea_getIngress api req w = (r, w) \<and> (\<forall>err. r = Inl err \<longrightarrow> err = NotFound)"
  shows "\<exists>w'. publishExport lib api req export w = (Inr (), w') \<and> status w' = Some ''True''"
proof -
  have success: "\<exists>w'. successExport lib api req export w = (Inr (), w') \<and> status w' = Some ''True''" for export w
    unfolding successExport_def by (rule updateStatus_valid [OF assms(1,2)]) blast
  obtain r where get: "ea_getIngress api (nn (meta_Namespace (exp_Meta export)) (export_ingress_name export)) w = (r, w)"
      "\<forall>err. r = Inl err \<longrightarrow> err = NotFound"
    using assms(3) by blast
  show ?thesis
  proof (cases r)
    case (Inl err)
    obtain ing w1 where "ea_setControllerReference api export (newIngress export) = Inr ing" "ea_createIngress api ing w = (Inr (), w1)"
      using srv unfolding export_server_def by meson
    with Inl get success show ?thesis
      by (simp add: publishExport_def)
  next
    case (Inr ing)
    have "\<exists>w'. updateExportIngress lib api req export ing w = (Inr (), w') \<and> status w' = Some ''True''"
    proof (cases "gstr (gm_entries (meta_Annotations (exp_Meta export))) MultiClustersServiceExportHash = SimpleHash (ea_Hash api (exp_Spec export))")
      case True
      with success show ?thesis
        by (simp add: updateExportIngress_def Let_def)
    next
      case False
      obtain e w1 where e: "ea_updateExport api (export\<lparr>exp_Meta := (exp_Meta export)\<lparr>meta_Annotations := Some (gput MultiClustersServiceExportHash
          (SimpleHash (ea_Hash api (exp_Spec export))) (gm_entries (meta_Annotations (exp_Meta export))))\<rparr>\<rparr>) w = (Inr e, w1)"
        using srv unfolding export_server_def by blast
      have "\<exists>w'. ea_updateIngress api ing w1 = (Inr (), w')" for ing
        using srv unfolding export_server_def by blast
      then have "\<exists>w'. updateExportIngress lib api req export ing w = successExport lib api req e w'"
        using False e unfolding updateExportIngress_def Let_def by (auto split: prod.split sum.split) (metis Pair_inject sum.distinct(1))+
      with success show ?thesis
        by metis
    qed
    with Inr get show ?thesis
      by (simp add: publishExport_def)
  qed
qed

section \<open>Properties\<close>

definition exportable :: "Service result \<Rightarrow> ServiceExport \<Rightarrow> Ingress list \<Rightarrow> bool" where
  "exportable svc' export ings \<longleftrightarrow>
     (\<exists>svc. svc' = Inr svc \<and> meta_DeletionTimestamp (svc_Meta svc) = None \<and> ssp_Type (svc_Spec svc) \<noteq> ServiceTypeExternalName) \<and>
     \<not> path_taken export ings"


text \<open>A server with one Ingress that uses the path \<open>/taken\<close>; the world is the condition \<open>Valid\<close>.\<close>

definition demo_ingress :: "HTTPIngressPath list option \<Rightarrow> Ingress" where
  "demo_ingress paths =
     \<lparr>ing_Meta = named_meta ''other'' ''ing'', ing_IngressClassName = None, ing_TLS = [], ing_Rules = [\<lparr>ir_Host = [], ir_HTTP = paths\<rparr>]\<rparr>"

definition typed_rules :: "ServiceExport \<Rightarrow> ServiceExport" where
  "typed_rules e = e\<lparr>exp_Spec := (exp_Spec e)\<lparr>ses_Rules := map (\<lambda>r. r\<lparr>ser_PathType := Some PathTypePrefix\<rparr>) (ses_Rules (exp_Spec e))\<rparr>\<rparr>"

definition demo_export_api :: "ServiceExport \<Rightarrow> string option export_api" where
  "demo_export_api export =
     \<lparr>ea_getExport = (\<lambda>_ w. (Inr export, w)), ea_getService = (\<lambda>_ w. (Inr (demo_service [80]), w)),
      ea_listIngresses = (\<lambda>w. (Inr [demo_ingress (Some [\<lparr>hip_Path = ''/taken'', hip_PathType = Some PathTypePrefix, hip_Backend_Service = None\<rparr>])], w)),
      ea_getIngress = (\<lambda>_ w. (Inl NotFound, w)), ea_createIngress = (\<lambda>_ w. (Inr (), w)), ea_updateIngress = (\<lambda>_ w. (Inr (), w)),
      ea_updateExport = (\<lambda>e w. (Inr e, w)), ea_updateStatus = (\<lambda>e w. (Inr (), valid_status (exp_Conditions e))),
      ea_setControllerReference = (\<lambda>_ ing. Inr ing), ea_Hash = (\<lambda>_. Inr 1)\<rparr>"


lemma ingressAnnotations_balancer: "gstr (ingressAnnotations export) PipyIngressAnnotationLoadBalancer = ses_LoadBalancer (exp_Spec export)"
  by (auto simp: ingressAnnotations_def Let_def gstr_def split: option.splits)

lemma ingressAnnotations_sticky:
  "gget (ingressAnnotations export) PipyIngressAnnotationSessionSticky = (if ses_SessionSticky (exp_Spec export) then Some ''true'' else None)"
  by (auto simp: ingressAnnotations_def Let_def split: option.splits)

lemma add_path_lbType:
  assumes "meta_Annotations (ing_Meta ing) = Some annotations" and "add_path env ing rule path m = Inr m'"
    and "\<forall>k info. gget m k = Some info \<longrightarrow> bii_lbType info = bii_lbType (enrichBalancer annotations b)"
  shows "\<forall>k info. gget m' k = Some info \<longrightarrow> bii_lbType info = bii_lbType (enrichBalancer annotations b)"
proof -
  have "bii_lbType (enrichIngressInfo env rule ing info) = bii_lbType (enrichBalancer annotations b)" for info
    using assms(1) by (simp add: enrichIngressInfo_def Let_def) (simp add: enrichBalancer_def Let_def)
  moreover from assms(2) have "m' = m \<or> (\<exists>key info. m' = gput key (enrichIngressInfo env rule ing info) m)"
    by (cases rule: add_path_cases) blast+
  ultimately show ?thesis
    using assms(3) by (auto split: if_splits)
qed

lemma ingress_lbType:
  assumes an: "meta_Annotations (ing_Meta ing) = Some annotations" and conv: "ingressToIngressMap env (Some ing) = Inr (Some m)"
    and "gget m k = Some info"
  shows "bii_lbType info = bii_lbType (enrichBalancer annotations b)"
proof -
  let ?P = "\<lambda>m. \<forall>k info. gget m k = Some info \<longrightarrow> bii_lbType info = bii_lbType (enrichBalancer annotations b)"
  have rule: "?P m'" if "?P m" "add_rule env ing rule m = Inr m'" for rule m m'
  proof (cases "ir_HTTP rule")
    case (Some paths)
    then have "go_fold (add_path env ing rule) paths m = Inr m'"
      using that(2) by (simp add: add_rule_def)
    then show ?thesis
      using that(1) by (rule go_fold_inv) (rule add_path_lbType [OF an])
  qed (use that in \<open>simp add: add_rule_def\<close>)
  have "go_fold (add_rule env ing) (ing_Rules ing) [] = Inr m"
    using conv by (auto simp: ingressToIngressMap_def go_bind_Inr_iff)
  then have "?P m"
  proof (rule go_fold_inv [where P = ?P])
    show "?P []"
      by simp
    show "?P m'" if "?P m" "add_rule env ing x m = Inr m'" for x m m'
      by (rule rule [OF that])
  qed
  with assms(3) show ?thesis
    by blast
qed

text \<open>Every load balancer that the schema of ServiceExport admits is ignored: the reconciler copies the name
  from the resource into an annotation of the Ingress, where the ingress cache only knows other names, so all routes of an
  export use round robin.\<close>

theorem export_balancer_ignored:
  assumes "ses_LoadBalancer (exp_Spec export) \<in> set LoadBalancer_enum"
    and "ingressToIngressMap env (Some (newIngress export)) = Inr (Some m)" and "gget m k = Some info"
  shows "bii_lbType info = RoundRobinLoadBalancer"
proof -
  have "bii_lbType info = bii_lbType (enrichBalancer (ingressAnnotations export) info)"
    by (rule ingress_lbType [OF _ assms(2,3)]) (simp add: newIngress_def)
  also have "\<dots> = RoundRobinLoadBalancer"
    using assms(1) by (auto simp: enrichBalancer_def Let_def ingressAnnotations_balancer LoadBalancer_enum_def LeastWorkLoadBalancer_def
        HashingLoadBalancer_def RoundRobinLoadBalancer_def)
  finally show ?thesis .
qed

text \<open>What a ServiceExport no longer asks for stays in its Ingress: the reconciler adds the annotations it computes to
  those that are there. When session stickiness is switched off, the routes remain sticky.\<close>

theorem sticky_annotation_stays:
  assumes "ses_SessionSticky (exp_Spec export) = False" and "gget as PipyIngressAnnotationSessionSticky = Some ''true''"
    and "meta_Annotations (ing_Meta ing) = Some as"
    and "oldHash \<noteq> SimpleHash (ea_Hash api (exp_Spec export))"
    and "gstr (gm_entries (meta_Annotations (exp_Meta export))) MultiClustersServiceExportHash = oldHash"
    and "\<And>e w. ea_updateExport api e w = (Inr e, w)" and "\<And>i w. ea_updateIngress api i w = (Inr (), i # w)"
    and "\<And>e w. ea_updateStatus api e w = (Inr (), w)"
  shows "\<exists>ing' annotations. updateExportIngress lib api req export ing w = (Inr (), ing' # w) \<and>
           meta_Annotations (ing_Meta ing') = Some annotations \<and> bii_sessionSticky (enrichBalancer annotations info)"
proof -
  have "ses_SessionSticky (exp_Spec (export\<lparr>exp_Meta := m\<rparr>)) = False" for m
    using assms(1) by simp
  then have "gget (range_put as (ingressAnnotations (export\<lparr>exp_Meta := m\<rparr>))) PipyIngressAnnotationSessionSticky = Some ''true''" for m
    using assms(2) gget_fold_gput_notin [of PipyIngressAnnotationSessionSticky "ingressAnnotations (export\<lparr>exp_Meta := m\<rparr>)" as]
    by (simp add: range_put_def ingressAnnotations_sticky flip: map_of_eq_None_iff)
  moreover have "switch_on ''true''"
    by (simp add: switch_on_def to_lower_def lower_char_def)
  ultimately show ?thesis
    using assms(3-8) by (auto simp: updateExportIngress_def Let_def successExport_def enrichBalancer_def gstr_def)
qed

theorem export_balancer_ignored_witness:
  "let export = typed_rules (demo_export [(80, ''/web'')]\<lparr>exp_Spec := (exp_Spec (demo_export [(80, ''/web'')]))\<lparr>ses_LoadBalancer := ''HashingLoadBalancer''\<rparr>\<rparr>)
   in \<exists>m k info. ingressToIngressMap demo_env (Some (newIngress export)) = Inr (Some m) \<and> gget m k = Some info \<and>
                 bii_lbType info = RoundRobinLoadBalancer"
proof -
  let ?export = "typed_rules (demo_export [(80, ''/web'')]\<lparr>exp_Spec := (exp_Spec (demo_export [(80, ''/web'')]))\<lparr>ses_LoadBalancer := ''HashingLoadBalancer''\<rparr>\<rparr>)"
  have "(case ingressToIngressMap demo_env (Some (newIngress ?export)) of Inr (Some m) \<Rightarrow> length m | _ \<Rightarrow> 0) = 1"
    by code_simp
  then obtain k info m where m: "ingressToIngressMap demo_env (Some (newIngress ?export)) = Inr (Some m)" "m = [(k, info)]"
    by (auto simp: length_Suc_conv split: sum.splits option.splits)
  have "ses_LoadBalancer (exp_Spec ?export) \<in> set LoadBalancer_enum"
    by (simp add: typed_rules_def LoadBalancer_enum_def)
  from export_balancer_ignored [OF this m(1), of k info] m show ?thesis
    unfolding Let_def by auto
qed

theorem sticky_annotation_stays_witness:
  "let as = [(PipyIngressAnnotationSessionSticky, ''true'')];
       ing = (newIngress (demo_export []))\<lparr>ing_Meta := (named_meta ''ns'' ''svcexp-ing-web'')\<lparr>meta_Annotations := Some as\<rparr>\<rparr>
   in \<exists>(api' :: Ingress list export_api) ing' annotations.
        updateExportIngress demo_conn_lib api' (nn ''ns'' ''web'') (demo_export [(80, ''/web'')]) ing [] = (Inr (), [ing']) \<and>
        meta_Annotations (ing_Meta ing') = Some annotations \<and> bii_sessionSticky (enrichBalancer annotations demo_route)"
proof -
  let ?api = "\<lparr>ea_getExport = (\<lambda>_ w. (Inl NotFound, w)), ea_getService = (\<lambda>_ w. (Inl NotFound, w)), ea_listIngresses = (\<lambda>w. (Inr [], w)),
      ea_getIngress = (\<lambda>_ w. (Inl NotFound, w)), ea_createIngress = (\<lambda>i w. (Inr (), i # w)), ea_updateIngress = (\<lambda>i w. (Inr (), i # w)),
      ea_updateExport = (\<lambda>e w. (Inr e, w)), ea_updateStatus = (\<lambda>_ w. (Inr (), w)), ea_setControllerReference = (\<lambda>_ ing. Inr ing),
      ea_Hash = (\<lambda>_. Inr 1)\<rparr> :: Ingress list export_api"
  let ?as = "[(PipyIngressAnnotationSessionSticky, ''true'')]"
  let ?ing = "(newIngress (demo_export []))\<lparr>ing_Meta := (named_meta ''ns'' ''svcexp-ing-web'')\<lparr>meta_Annotations := Some ?as\<rparr>\<rparr>"
  have "SimpleHash (Inr 1) \<noteq> []"
    by (simp add: SimpleHash_def hex_str.simps)
  then have "\<exists>ing' annotations. updateExportIngress demo_conn_lib ?api (nn ''ns'' ''web'') (demo_export [(80, ''/web'')]) ?ing [] = (Inr (), ing' # []) \<and>
      meta_Annotations (ing_Meta ing') = Some annotations \<and> bii_sessionSticky (enrichBalancer annotations demo_route)"
    by (intro sticky_annotation_stays [where as = ?as and oldHash = "[]"]) (auto simp: demo_export_def gstr_def)
  then show ?thesis
    unfolding Let_def by blast
qed

text \<open>A rule without paths, which the API of Kubernetes admits, makes the check of every export panic.\<close>

lemma export_check_panics: "find_conflict (demo_export [(80, ''/web'')]) [demo_ingress None] = Inl NilPointer"
  by code_simp

end
