(* ===== verification/Informers.thy ===== *)
theory Informers
  imports Local_Run
begin

text \<open>
  \<open>pkg/controller\<close>: the adapters between the informers of client-go and the handlers of the caches. An informer hands
  over objects of type \<open>interface{}\<close>, and for a deletion it has missed a \<open>DeletedFinalStateUnknown\<close> around the last object it
  knew. The seven controllers are copies of one program, the generic operations of the first section at the type of
  their objects. The theory then runs the local cache through them.
\<close>

section \<open>The common program\<close>

datatype informer_object =
    IService Service | IEndpoints Endpoints | IIngress Ingress | IIngressClass IngressClass | ISecret Secret
  | IServiceExport ServiceExport | IServiceImport ServiceImport
  | DeletedFinalStateUnknown string informer_object | IUnknown string

text \<open>The handler interfaces; a controller may have no handler.\<close>

record ('o, 's) event_handler =
  OnAdd :: "'o \<Rightarrow> 's \<Rightarrow> 's go"
  OnUpdate :: "'o \<Rightarrow> 'o \<Rightarrow> 's \<Rightarrow> 's go"
  OnDelete :: "'o \<Rightarrow> 's \<Rightarrow> 's go"
  OnSynced :: "'s \<Rightarrow> 's go"

definition handleAdd ::
  "(informer_object \<Rightarrow> 'o option) \<Rightarrow> ('o, 's) event_handler option \<Rightarrow> informer_object \<Rightarrow> 's \<Rightarrow> 's go"
where
  "handleAdd cast eventHandler obj s =
     (case cast obj of
        None \<Rightarrow> Inr s
      | Some x \<Rightarrow> (case eventHandler of None \<Rightarrow> Inr s | Some h \<Rightarrow> OnAdd h x s))"

definition handleUpdate ::
  "(informer_object \<Rightarrow> 'o option) \<Rightarrow> ('o, 's) event_handler option \<Rightarrow> informer_object \<Rightarrow> informer_object \<Rightarrow> 's \<Rightarrow> 's go"
where
  "handleUpdate cast eventHandler oldObj newObj s =
     (case cast oldObj of
        None \<Rightarrow> Inr s
      | Some old \<Rightarrow>
          (case cast newObj of
             None \<Rightarrow> Inr s
           | Some x \<Rightarrow> (case eventHandler of None \<Rightarrow> Inr s | Some h \<Rightarrow> OnUpdate h old x s)))"

definition deleted_object :: "(informer_object \<Rightarrow> 'o option) \<Rightarrow> informer_object \<Rightarrow> 'o option" where
  "deleted_object cast obj =
     (case cast obj of
        Some x \<Rightarrow> Some x
      | None \<Rightarrow> (case obj of DeletedFinalStateUnknown _ lastKnown \<Rightarrow> cast lastKnown | _ \<Rightarrow> None))"

definition handleDelete ::
  "(informer_object \<Rightarrow> 'o option) \<Rightarrow> ('o, 's) event_handler option \<Rightarrow> informer_object \<Rightarrow> 's \<Rightarrow> 's go"
where
  "handleDelete cast eventHandler obj s =
     (case deleted_object cast obj of
        None \<Rightarrow> Inr s
      | Some x \<Rightarrow> (case eventHandler of None \<Rightarrow> Inr s | Some h \<Rightarrow> OnDelete h x s))"

text \<open>\<open>Run\<close>; \<open>synced\<close> is the answer of \<open>WaitForNamedCacheSync\<close>, false if the controller was stopped before.\<close>

definition controller_Run :: "('o, 's) event_handler option \<Rightarrow> bool \<Rightarrow> 's \<Rightarrow> 's go" where
  "controller_Run eventHandler synced s =
     (if \<not> synced then Inr s else case eventHandler of None \<Rightarrow> Inr s | Some h \<Rightarrow> OnSynced h s)"

text \<open>\<open>ByKey\<close> on the answer of \<open>GetByKey\<close>; the type assertion at its end panics.\<close>

definition store_ByKey ::
  "(informer_object \<Rightarrow> 'o option) \<Rightarrow> (string \<Rightarrow> informer_object option result) \<Rightarrow> string \<Rightarrow> 'o result go"
where
  "store_ByKey cast getByKey key =
     (case getByKey key of
        Inl err \<Rightarrow> Inr (Inl err)
      | Inr None \<Rightarrow> Inr (Inl (Errorf (''no object matching key '' @ key @ '' in local store'')))
      | Inr (Some obj) \<Rightarrow> (case cast obj of None \<Rightarrow> Inl (Panicked ''interface conversion'') | Some x \<Rightarrow> Inr (Inr x)))"

section \<open>The controllers\<close>

fun as_Service :: "informer_object \<Rightarrow> Service option" where
  "as_Service (IService x) = Some x"
| "as_Service _ = None"

definition handleAddService :: "(Service, 's) event_handler option \<Rightarrow> informer_object \<Rightarrow> 's \<Rightarrow> 's go" where
  "handleAddService = handleAdd as_Service"

definition handleUpdateService :: "(Service, 's) event_handler option \<Rightarrow> informer_object \<Rightarrow> informer_object \<Rightarrow> 's \<Rightarrow> 's go" where
  "handleUpdateService = handleUpdate as_Service"

definition handleDeleteService :: "(Service, 's) event_handler option \<Rightarrow> informer_object \<Rightarrow> 's \<Rightarrow> 's go" where
  "handleDeleteService = handleDelete as_Service"

definition ServiceController_Run :: "(Service, 's) event_handler option \<Rightarrow> bool \<Rightarrow> 's \<Rightarrow> 's go" where
  "ServiceController_Run = controller_Run"

definition ServiceStore_ByKey :: "(string \<Rightarrow> informer_object option result) \<Rightarrow> string \<Rightarrow> Service result go" where
  "ServiceStore_ByKey = store_ByKey as_Service"

fun as_Endpoints :: "informer_object \<Rightarrow> Endpoints option" where
  "as_Endpoints (IEndpoints x) = Some x"
| "as_Endpoints _ = None"

definition handleAddEndpoints :: "(Endpoints, 's) event_handler option \<Rightarrow> informer_object \<Rightarrow> 's \<Rightarrow> 's go" where
  "handleAddEndpoints = handleAdd as_Endpoints"

definition handleUpdateEndpoints :: "(Endpoints, 's) event_handler option \<Rightarrow> informer_object \<Rightarrow> informer_object \<Rightarrow> 's \<Rightarrow> 's go" where
  "handleUpdateEndpoints = handleUpdate as_Endpoints"

definition handleDeleteEndpoints :: "(Endpoints, 's) event_handler option \<Rightarrow> informer_object \<Rightarrow> 's \<Rightarrow> 's go" where
  "handleDeleteEndpoints = handleDelete as_Endpoints"

definition EndpointsController_Run :: "(Endpoints, 's) event_handler option \<Rightarrow> bool \<Rightarrow> 's \<Rightarrow> 's go" where
  "EndpointsController_Run = controller_Run"

definition EndpointsStore_ByKey :: "(string \<Rightarrow> informer_object option result) \<Rightarrow> string \<Rightarrow> Endpoints result go" where
  "EndpointsStore_ByKey = store_ByKey as_Endpoints"

fun as_Ingress :: "informer_object \<Rightarrow> Ingress option" where
  "as_Ingress (IIngress x) = Some x"
| "as_Ingress _ = None"

definition handleAddIngress :: "(Ingress, 's) event_handler option \<Rightarrow> informer_object \<Rightarrow> 's \<Rightarrow> 's go" where
  "handleAddIngress = handleAdd as_Ingress"

definition handleUpdateIngress :: "(Ingress, 's) event_handler option \<Rightarrow> informer_object \<Rightarrow> informer_object \<Rightarrow> 's \<Rightarrow> 's go" where
  "handleUpdateIngress = handleUpdate as_Ingress"

definition handleDeleteIngress :: "(Ingress, 's) event_handler option \<Rightarrow> informer_object \<Rightarrow> 's \<Rightarrow> 's go" where
  "handleDeleteIngress = handleDelete as_Ingress"

definition Ingressv1Controller_Run :: "(Ingress, 's) event_handler option \<Rightarrow> bool \<Rightarrow> 's \<Rightarrow> 's go" where
  "Ingressv1Controller_Run = controller_Run"

definition Ingressv1Store_ByKey :: "(string \<Rightarrow> informer_object option result) \<Rightarrow> string \<Rightarrow> Ingress result go" where
  "Ingressv1Store_ByKey = store_ByKey as_Ingress"

fun as_IngressClass :: "informer_object \<Rightarrow> IngressClass option" where
  "as_IngressClass (IIngressClass x) = Some x"
| "as_IngressClass _ = None"

definition handleAddIngressClass :: "(IngressClass, 's) event_handler option \<Rightarrow> informer_object \<Rightarrow> 's \<Rightarrow> 's go" where
  "handleAddIngressClass = handleAdd as_IngressClass"

definition handleUpdateIngressClass :: "(IngressClass, 's) event_handler option \<Rightarrow> informer_object \<Rightarrow> informer_object \<Rightarrow> 's \<Rightarrow> 's go" where
  "handleUpdateIngressClass = handleUpdate as_IngressClass"

definition handleDeleteIngressClass :: "(IngressClass, 's) event_handler option \<Rightarrow> informer_object \<Rightarrow> 's \<Rightarrow> 's go" where
  "handleDeleteIngressClass = handleDelete as_IngressClass"

definition IngressClassv1Controller_Run :: "(IngressClass, 's) event_handler option \<Rightarrow> bool \<Rightarrow> 's \<Rightarrow> 's go" where
  "IngressClassv1Controller_Run = controller_Run"

definition IngressClassv1Store_ByKey :: "(string \<Rightarrow> informer_object option result) \<Rightarrow> string \<Rightarrow> IngressClass result go" where
  "IngressClassv1Store_ByKey = store_ByKey as_IngressClass"

fun as_Secret :: "informer_object \<Rightarrow> Secret option" where
  "as_Secret (ISecret x) = Some x"
| "as_Secret _ = None"

definition handleAddSecret :: "(Secret, 's) event_handler option \<Rightarrow> informer_object \<Rightarrow> 's \<Rightarrow> 's go" where
  "handleAddSecret = handleAdd as_Secret"

definition handleUpdateSecret :: "(Secret, 's) event_handler option \<Rightarrow> informer_object \<Rightarrow> informer_object \<Rightarrow> 's \<Rightarrow> 's go" where
  "handleUpdateSecret = handleUpdate as_Secret"

definition handleDeleteSecret :: "(Secret, 's) event_handler option \<Rightarrow> informer_object \<Rightarrow> 's \<Rightarrow> 's go" where
  "handleDeleteSecret = handleDelete as_Secret"

definition SecretController_Run :: "(Secret, 's) event_handler option \<Rightarrow> bool \<Rightarrow> 's \<Rightarrow> 's go" where
  "SecretController_Run = controller_Run"

definition SecretStore_ByKey :: "(string \<Rightarrow> informer_object option result) \<Rightarrow> string \<Rightarrow> Secret result go" where
  "SecretStore_ByKey = store_ByKey as_Secret"

fun as_ServiceExport :: "informer_object \<Rightarrow> ServiceExport option" where
  "as_ServiceExport (IServiceExport x) = Some x"
| "as_ServiceExport _ = None"

definition handleAddServiceExport :: "(ServiceExport, 's) event_handler option \<Rightarrow> informer_object \<Rightarrow> 's \<Rightarrow> 's go" where
  "handleAddServiceExport = handleAdd as_ServiceExport"

definition handleUpdateServiceExport :: "(ServiceExport, 's) event_handler option \<Rightarrow> informer_object \<Rightarrow> informer_object \<Rightarrow> 's \<Rightarrow> 's go" where
  "handleUpdateServiceExport = handleUpdate as_ServiceExport"

definition handleDeleteServiceExport :: "(ServiceExport, 's) event_handler option \<Rightarrow> informer_object \<Rightarrow> 's \<Rightarrow> 's go" where
  "handleDeleteServiceExport = handleDelete as_ServiceExport"

definition ServiceExportController_Run :: "(ServiceExport, 's) event_handler option \<Rightarrow> bool \<Rightarrow> 's \<Rightarrow> 's go" where
  "ServiceExportController_Run = controller_Run"

definition ServiceExportStore_ByKey :: "(string \<Rightarrow> informer_object option result) \<Rightarrow> string \<Rightarrow> ServiceExport result go" where
  "ServiceExportStore_ByKey = store_ByKey as_ServiceExport"

fun as_ServiceImport :: "informer_object \<Rightarrow> ServiceImport option" where
  "as_ServiceImport (IServiceImport x) = Some x"
| "as_ServiceImport _ = None"

definition handleAddServiceImport :: "(ServiceImport, 's) event_handler option \<Rightarrow> informer_object \<Rightarrow> 's \<Rightarrow> 's go" where
  "handleAddServiceImport = handleAdd as_ServiceImport"

definition handleUpdateServiceImport :: "(ServiceImport, 's) event_handler option \<Rightarrow> informer_object \<Rightarrow> informer_object \<Rightarrow> 's \<Rightarrow> 's go" where
  "handleUpdateServiceImport = handleUpdate as_ServiceImport"

definition handleDeleteServiceImport :: "(ServiceImport, 's) event_handler option \<Rightarrow> informer_object \<Rightarrow> 's \<Rightarrow> 's go" where
  "handleDeleteServiceImport = handleDelete as_ServiceImport"

definition ServiceImportController_Run :: "(ServiceImport, 's) event_handler option \<Rightarrow> bool \<Rightarrow> 's \<Rightarrow> 's go" where
  "ServiceImportController_Run = controller_Run"

definition ServiceImportStore_ByKey :: "(string \<Rightarrow> informer_object option result) \<Rightarrow> string \<Rightarrow> ServiceImport result go" where
  "ServiceImportStore_ByKey = store_ByKey as_ServiceImport"

section \<open>The handlers of the local cache\<close>

definition service_handler :: "local_env \<Rightarrow> (Service, LocalCache) event_handler" where
  "service_handler env =
     \<lparr>OnAdd = (\<lambda>x c. Inr (OnServiceUpdate env None (Some x) c)),
      OnUpdate = (\<lambda>old x c. Inr (OnServiceUpdate env (Some old) (Some x) c)),
      OnDelete = (\<lambda>x c. Inr (OnServiceUpdate env (Some x) None c)),
      OnSynced = OnServiceSynced env\<rparr>"

definition endpoints_handler :: "local_env \<Rightarrow> (Endpoints, LocalCache) event_handler" where
  "endpoints_handler env =
     \<lparr>OnAdd = (\<lambda>x c. Inr (OnEndpointsUpdate env None (Some x) c)),
      OnUpdate = (\<lambda>old x c. Inr (OnEndpointsUpdate env (Some old) (Some x) c)),
      OnDelete = (\<lambda>x c. Inr (OnEndpointsUpdate env (Some x) None c)),
      OnSynced = OnEndpointsSynced env\<rparr>"

definition import_handler :: "local_env \<Rightarrow> (ServiceImport, LocalCache) event_handler" where
  "import_handler env =
     \<lparr>OnAdd = (\<lambda>x c. Inr (OnServiceImportUpdate env None (Some x) c)),
      OnUpdate = (\<lambda>old x c. Inr (OnServiceImportUpdate env (Some old) (Some x) c)),
      OnDelete = (\<lambda>x c. Inr (OnServiceImportUpdate env (Some x) None c)),
      OnSynced = OnServiceImportSynced env\<rparr>"

definition ingress_handler :: "local_env \<Rightarrow> (Ingress, LocalCache) event_handler" where
  "ingress_handler env =
     \<lparr>OnAdd = (\<lambda>x. onIngressUpdate env None (Some x)),
      OnUpdate = (\<lambda>old x. onIngressUpdate env (Some old) (Some x)),
      OnDelete = (\<lambda>x. onIngressUpdate env (Some x) None),
      OnSynced = OnIngressv1Synced env\<rparr>"

definition ingressclass_handler :: "local_env \<Rightarrow> (IngressClass, LocalCache) event_handler" where
  "ingressclass_handler env =
     \<lparr>OnAdd = (\<lambda>x c. Inr (OnIngressClassv1Add x c)),
      OnUpdate = (\<lambda>old x c. Inr (OnIngressClassv1Update old x c)),
      OnDelete = (\<lambda>x c. Inr (OnIngressClassv1Delete x c)),
      OnSynced = OnIngressClassv1Synced env\<rparr>"

lemmas local_handlers =
  service_handler_def endpoints_handler_def import_handler_def ingress_handler_def ingressclass_handler_def

section \<open>Notifications\<close>

text \<open>What an informer calls, and how it reports an event of its store; the object of a missed deletion comes wrapped.\<close>

datatype notification = NAdd informer_object | NUpdate informer_object informer_object | NDelete informer_object

fun dispatch :: "(informer_object \<Rightarrow> 'o option) \<Rightarrow> ('o, 's) event_handler option \<Rightarrow> notification \<Rightarrow> 's \<Rightarrow> 's go" where
  "dispatch cast h (NAdd obj) = handleAdd cast h obj"
| "dispatch cast h (NUpdate oldObj newObj) = handleUpdate cast h oldObj newObj"
| "dispatch cast h (NDelete obj) = handleDelete cast h obj"

fun reports :: "('o \<Rightarrow> informer_object) \<Rightarrow> 'o informer_event \<Rightarrow> notification \<Rightarrow> bool" where
  "reports wrap (Added x) n \<longleftrightarrow> n = NAdd (wrap x)"
| "reports wrap (Updated x y) n \<longleftrightarrow> n = NUpdate (wrap x) (wrap y)"
| "reports wrap (Deleted x) n \<longleftrightarrow> n = NDelete (wrap x) \<or> (\<exists>key. n = NDelete (DeletedFinalStateUnknown key (wrap x)))"
| "reports wrap Synced n \<longleftrightarrow> False"

fun stray :: "(informer_object \<Rightarrow> 'o option) \<Rightarrow> notification \<Rightarrow> bool" where
  "stray cast (NAdd obj) \<longleftrightarrow> cast obj = None"
| "stray cast (NUpdate oldObj newObj) \<longleftrightarrow> cast oldObj = None \<or> cast newObj = None"
| "stray cast (NDelete obj) \<longleftrightarrow> deleted_object cast obj = None"

fun handler_event :: "('o, 's) event_handler \<Rightarrow> 'o informer_event \<Rightarrow> 's \<Rightarrow> 's go" where
  "handler_event h (Added x) s = OnAdd h x s"
| "handler_event h (Updated x y) s = OnUpdate h x y s"
| "handler_event h (Deleted x) s = OnDelete h x s"
| "handler_event h Synced s = Inr s"

text \<open>The contract of an object type: a type assertion finds exactly the objects of that type.\<close>

locale typed_objects =
  fixes wrap :: "'o \<Rightarrow> informer_object" and cast :: "informer_object \<Rightarrow> 'o option"
  assumes cast_iff: "cast obj = Some x \<longleftrightarrow> obj = wrap x"
    and not_tombstone: "wrap x \<noteq> DeletedFinalStateUnknown key obj"
begin

lemma cast_wrap: "cast (wrap x) = Some x"
  by (simp add: cast_iff)

lemma cast_tombstone: "cast (DeletedFinalStateUnknown key obj) = None"
  using cast_iff not_tombstone by (metis not_None_eq)

lemma deleted_object_wrap:
  "deleted_object cast (wrap x) = Some x" "deleted_object cast (DeletedFinalStateUnknown key (wrap x)) = Some x"
  by (simp_all add: deleted_object_def cast_wrap cast_tombstone)

lemma dispatch_reported: "reports wrap e n \<Longrightarrow> dispatch cast (Some h) n s = handler_event h e s"
  by (cases e) (auto simp: handleAdd_def handleUpdate_def handleDelete_def cast_wrap deleted_object_wrap)

lemma dispatch_stray: "stray cast n \<Longrightarrow> dispatch cast h n s = Inr s"
  by (cases n) (auto simp: handleAdd_def handleUpdate_def handleDelete_def split: option.split)

lemma dispatch_no_handler: "dispatch cast None n s = Inr s"
  by (cases n) (auto simp: handleAdd_def handleUpdate_def handleDelete_def split: option.split)

lemma dispatched_event: "\<exists>e. dispatch cast (Some h) n s = handler_event h e s"
proof (cases "stray cast n")
  case True
  then have "dispatch cast (Some h) n s = handler_event h Synced s" by (simp add: dispatch_stray)
  then show ?thesis by blast
next
  case False
  then obtain e where "dispatch cast (Some h) n s = handler_event h e s"
  proof (cases n)
    case (NAdd obj)
    with False obtain x where "cast obj = Some x" by auto
    with NAdd that [of "Added x"] show ?thesis by (simp add: handleAdd_def)
  next
    case (NUpdate obj obj')
    with False obtain x y where "cast obj = Some x" "cast obj' = Some y" by auto
    with NUpdate that [of "Updated x y"] show ?thesis by (simp add: handleUpdate_def)
  next
    case (NDelete obj)
    with False obtain x where "deleted_object cast obj = Some x" by auto
    with NDelete that [of "Deleted x"] show ?thesis by (simp add: handleDelete_def)
  qed
  then show ?thesis by blast
qed

end

lemma as_Service_iff: "as_Service obj = Some x \<longleftrightarrow> obj = IService x"
  by (cases obj) auto

interpretation service_objects: typed_objects IService as_Service
  by unfold_locales (simp_all add: as_Service_iff)

lemma as_Endpoints_iff: "as_Endpoints obj = Some x \<longleftrightarrow> obj = IEndpoints x"
  by (cases obj) auto

interpretation endpoints_objects: typed_objects IEndpoints as_Endpoints
  by unfold_locales (simp_all add: as_Endpoints_iff)

lemma as_Ingress_iff: "as_Ingress obj = Some x \<longleftrightarrow> obj = IIngress x"
  by (cases obj) auto

interpretation ingress_objects: typed_objects IIngress as_Ingress
  by unfold_locales (simp_all add: as_Ingress_iff)

lemma as_IngressClass_iff: "as_IngressClass obj = Some x \<longleftrightarrow> obj = IIngressClass x"
  by (cases obj) auto

interpretation ingressclass_objects: typed_objects IIngressClass as_IngressClass
  by unfold_locales (simp_all add: as_IngressClass_iff)

lemma as_Secret_iff: "as_Secret obj = Some x \<longleftrightarrow> obj = ISecret x"
  by (cases obj) auto

interpretation secret_objects: typed_objects ISecret as_Secret
  by unfold_locales (simp_all add: as_Secret_iff)

lemma as_ServiceExport_iff: "as_ServiceExport obj = Some x \<longleftrightarrow> obj = IServiceExport x"
  by (cases obj) auto

interpretation serviceexport_objects: typed_objects IServiceExport as_ServiceExport
  by unfold_locales (simp_all add: as_ServiceExport_iff)

lemma as_ServiceImport_iff: "as_ServiceImport obj = Some x \<longleftrightarrow> obj = IServiceImport x"
  by (cases obj) auto

interpretation serviceimport_objects: typed_objects IServiceImport as_ServiceImport
  by unfold_locales (simp_all add: as_ServiceImport_iff)

section \<open>The local cache behind its informers\<close>

text \<open>
  \<open>lc_reach\<close> with notifications for events: the informers of Services, Endpoints and ServiceImports report what happens to
  their stores, those of Ingresses and classes anything, the one of Secrets has no handler, and any of them
  may hand over objects of another type. The controllers report the first synchronisation.
\<close>

inductive informed :: "k8s_lib \<Rightarrow> service_lister \<Rightarrow> stores \<Rightarrow> LocalCache \<Rightarrow> bool" for lib lister where
  init: "informed lib lister no_objects newLocalCache"
| service:
    "informed lib lister st c \<Longrightarrow> le_lib env = lib \<Longrightarrow>
     valid_event svc_nn (\<lambda>s. shouldSkipService (Some s)) e (st_services st) \<Longrightarrow> reports IService e n \<Longrightarrow>
     dispatch as_Service (Some (service_handler env)) n c = Inr c' \<Longrightarrow>
     informed lib lister (st\<lparr>st_services := store_step svc_nn e (st_services st)\<rparr>) c'"
| endpoints:
    "informed lib lister st c \<Longrightarrow> le_lib env = lib \<Longrightarrow>
     valid_event eps_nn (\<lambda>_. False) e (st_endpoints st) \<Longrightarrow> reports IEndpoints e n \<Longrightarrow>
     dispatch as_Endpoints (Some (endpoints_handler env)) n c = Inr c' \<Longrightarrow>
     informed lib lister (st\<lparr>st_endpoints := store_step eps_nn e (st_endpoints st)\<rparr>) c'"
| service_import:
    "informed lib lister st c \<Longrightarrow> le_lib env = lib \<Longrightarrow> le_serviceLister env = lister \<Longrightarrow>
     valid_event imp_nn (\<lambda>s. shouldSkipServiceImport (Some s)) e (st_imports st) \<Longrightarrow> reports IServiceImport e n \<Longrightarrow>
     dispatch as_ServiceImport (Some (import_handler env)) n c = Inr c' \<Longrightarrow>
     informed lib lister (st\<lparr>st_imports := store_step imp_nn e (st_imports st)\<rparr>) c'"
| ingress:
    "informed lib lister st c \<Longrightarrow> dispatch as_Ingress (Some (ingress_handler env)) n c = Inr c' \<Longrightarrow> informed lib lister st c'"
| ingress_class:
    "informed lib lister st c \<Longrightarrow> dispatch as_IngressClass (Some (ingressclass_handler env)) n c = Inr c' \<Longrightarrow>
     informed lib lister st c'"
| secret: "informed lib lister st c \<Longrightarrow> dispatch as_Secret None n c = Inr c' \<Longrightarrow> informed lib lister st c'"
| stray_service:
    "informed lib lister st c \<Longrightarrow> stray as_Service n \<Longrightarrow> dispatch as_Service (Some (service_handler env)) n c = Inr c' \<Longrightarrow>
     informed lib lister st c'"
| stray_endpoints:
    "informed lib lister st c \<Longrightarrow> stray as_Endpoints n \<Longrightarrow> dispatch as_Endpoints (Some (endpoints_handler env)) n c = Inr c' \<Longrightarrow>
     informed lib lister st c'"
| stray_import:
    "informed lib lister st c \<Longrightarrow> stray as_ServiceImport n \<Longrightarrow>
     dispatch as_ServiceImport (Some (import_handler env)) n c = Inr c' \<Longrightarrow> informed lib lister st c'"
| run_services: "informed lib lister st c \<Longrightarrow> ServiceController_Run (Some (service_handler env)) ok c = Inr c' \<Longrightarrow> informed lib lister st c'"
| run_endpoints: "informed lib lister st c \<Longrightarrow> EndpointsController_Run (Some (endpoints_handler env)) ok c = Inr c' \<Longrightarrow> informed lib lister st c'"
| run_imports: "informed lib lister st c \<Longrightarrow> ServiceImportController_Run (Some (import_handler env)) ok c = Inr c' \<Longrightarrow> informed lib lister st c'"
| run_ingresses: "informed lib lister st c \<Longrightarrow> Ingressv1Controller_Run (Some (ingress_handler env)) ok c = Inr c' \<Longrightarrow> informed lib lister st c'"
| run_classes: "informed lib lister st c \<Longrightarrow> IngressClassv1Controller_Run (Some (ingressclass_handler env)) ok c = Inr c' \<Longrightarrow> informed lib lister st c'"
| sync: "informed lib lister st c \<Longrightarrow> syncRoutes env (c\<lparr>lc_syncRequested := False\<rparr>) = Inr c' \<Longrightarrow> informed lib lister st c'"
| upload:
    "informed lib lister st c \<Longrightarrow> job \<in> set (lc_jobs c) \<Longrightarrow>
     finish_job (http :: (repo_content, nat) repo_http) job (c\<lparr>lc_jobs := remove1 job (lc_jobs c)\<rparr>, w) = (c', w') \<Longrightarrow>
     informed lib lister st c'"

lemma reports_not_Synced: "reports wrap e n \<Longrightarrow> e \<noteq> Synced"
  by auto

lemma tracked_handler_event:
  "handler_event (service_handler env) e c = Inr (on_event (OnServiceUpdate env) e c)"
  "handler_event (endpoints_handler env) e' c = Inr (on_event (OnEndpointsUpdate env) e' c)"
  "handler_event (import_handler env) e'' c = Inr (on_event (OnServiceImportUpdate env) e'' c)"
  by ((cases e; simp add: local_handlers), (cases e'; simp add: local_handlers), (cases e''; simp add: local_handlers))

lemma ingress_event_reach:
  "lc_reach lib lister st c \<Longrightarrow> handler_event (ingress_handler env) e c = Inr c' \<Longrightarrow> lc_reach lib lister st c'"
  by (cases e) (auto simp: local_handlers intro: lc_reach.ingress)

lemma class_event_reach:
  "lc_reach lib lister st c \<Longrightarrow> handler_event (ingressclass_handler env) e c = Inr c' \<Longrightarrow> lc_reach lib lister st c'"
  by (cases e) (auto simp: local_handlers intro: lc_reach.class_added lc_reach.class_updated lc_reach.class_deleted)

lemma run_reach:
  assumes "lc_reach lib lister st c" and "controller_Run (Some h) ok c = Inr c'" and "OnSynced h = f env" "f \<in> set synced_handlers"
  shows "lc_reach lib lister st c'"
  using assms by (cases ok) (auto simp: controller_Run_def intro: lc_reach.synced)

lemma informed_reach: "informed lib lister st c \<Longrightarrow> lc_reach lib lister st c"
proof (induction rule: informed.induct)
  case (service st c env e n c')
  have "c' = on_event (OnServiceUpdate env) e c"
    using service.hyps(5) by (simp add: service_objects.dispatch_reported [OF service.hyps(4)] tracked_handler_event)
  then show ?case
    using lc_reach.service [OF service.IH service.hyps(2) reports_not_Synced [OF service.hyps(4)] service.hyps(3)] by simp
next
  case (endpoints st c env e n c')
  have "c' = on_event (OnEndpointsUpdate env) e c"
    using endpoints.hyps(5) by (simp add: endpoints_objects.dispatch_reported [OF endpoints.hyps(4)] tracked_handler_event)
  then show ?case
    using lc_reach.endpoints [OF endpoints.IH endpoints.hyps(2) reports_not_Synced [OF endpoints.hyps(4)] endpoints.hyps(3)]
    by simp
next
  case (service_import st c env e n c')
  have "c' = on_event (OnServiceImportUpdate env) e c"
    using service_import.hyps(6)
    by (simp add: serviceimport_objects.dispatch_reported [OF service_import.hyps(5)] tracked_handler_event)
  then show ?case
    using lc_reach.service_import [OF service_import.IH service_import.hyps(2,3) reports_not_Synced [OF service_import.hyps(5)]
        service_import.hyps(4)] by simp
next
  case (ingress st c env n c')
  then show ?case using ingress_objects.dispatched_event ingress_event_reach by metis
next
  case (ingress_class st c env n c')
  then show ?case using ingressclass_objects.dispatched_event class_event_reach by metis
next
  case (run_services st c env ok c')
  then show ?case
    by (auto simp: ServiceController_Run_def local_handlers synced_handlers_def intro: run_reach [where f = OnServiceSynced])
next
  case (run_endpoints st c env ok c')
  then show ?case
    by (auto simp: EndpointsController_Run_def local_handlers synced_handlers_def intro: run_reach [where f = OnEndpointsSynced])
next
  case (run_imports st c env ok c')
  then show ?case
    by (auto simp: ServiceImportController_Run_def local_handlers synced_handlers_def intro: run_reach [where f = OnServiceImportSynced])
next
  case (run_ingresses st c env ok c')
  then show ?case
    by (auto simp: Ingressv1Controller_Run_def local_handlers synced_handlers_def intro: run_reach [where f = OnIngressv1Synced])
next
  case (run_classes st c env ok c')
  then show ?case
    by (auto simp: IngressClassv1Controller_Run_def local_handlers synced_handlers_def intro: run_reach [where f = OnIngressClassv1Synced])
next
  case (upload st c job http w c' w')
  then show ?case using lc_reach.upload by blast
qed (auto simp: service_objects.dispatch_stray endpoints_objects.dispatch_stray serviceimport_objects.dispatch_stray
    secret_objects.dispatch_no_handler intro: lc_reach.init lc_reach.sync)


text \<open>A Service that is added, and whose deletion the informer has missed.\<close>

abbreviation demo_web :: Service where
  "demo_web \<equiv> demo_svc ServiceTypeClusterIP [demo_port ''http'' 80]"

definition demo_missed :: LocalCache where
  "demo_missed = OnServiceUpdate demo_local_env (Some demo_web) None (OnServiceUpdate demo_local_env None (Some demo_web) newLocalCache)"

lemma demo_informed: "informed (le_lib demo_local_env) demo_lister no_objects demo_missed"
proof -
  let ?add = "Added demo_web" and ?del = "Deleted demo_web"
  let ?st = "no_objects\<lparr>st_services := store_step svc_nn ?add (st_services no_objects)\<rparr>"
  have "informed (le_lib demo_local_env) demo_lister ?st (OnServiceUpdate demo_local_env None (Some demo_web) newLocalCache)"
    by (rule informed.service [OF informed.init refl, where n = "NAdd (IService demo_web)"])
       (simp_all add: no_objects_def handleAdd_def local_handlers)
  then have "informed (le_lib demo_local_env) demo_lister (?st\<lparr>st_services := store_step svc_nn ?del (st_services ?st)\<rparr>) demo_missed"
    by (rule informed.service [OF _ refl, where n = "NDelete (DeletedFinalStateUnknown ''default/web'' (IService demo_web))"])
       (simp_all add: handleDelete_def deleted_object_def local_handlers demo_missed_def)
  moreover have "?st\<lparr>st_services := store_step svc_nn ?del (st_services ?st)\<rparr> = no_objects"
    by (simp add: no_objects_def fun_eq_iff)
  ultimately show ?thesis by simp
qed


end
