(* ===== verification/Admission.thy ===== *)
theory Admission
  imports Mesh_Config "HOL-Library.Multiset" "HOL-Library.List_Lexorder" "HOL-Library.Char_ord"
begin

text \<open>
  The admission webhooks as the API server sees them: \<open>pkg/admission\<close>, which collects the
  webhooks and builds the two webhook configurations, the function \<open>RegisterWebhooks\<close> of each
  package under \<open>pkg/webhooks\<close>, the handlers of \<open>pkg/webhooks/validator.go\<close> and
  \<open>defaulter.go\<close>, and the start-up code of \<open>cmd/manager/webhooks.go\<close>.

  The decoder of the controller library, the JSON encoder, the certificate manager, the file system
  and the API server are parameters. The handlers work on an object of any of the kinds that have a
  webhook; the objects of the Gateway API belong to that library and their content is the type
  parameter.
\<close>

section \<open>The configuration of a webhook\<close>

datatype Operation = Create | Update | Delete | Connect

record RuleWithOperations =
  rule_Operations :: "Operation list"
  rule_APIGroups :: "string list"
  rule_APIVersions :: "string list"
  rule_Resources :: "string list"

text \<open>The fields of the types \<open>MutatingWebhook\<close> and \<open>ValidatingWebhook\<close>, which have the same
  ones. A selector is the list of the labels it requires.\<close>

record Webhook =
  wh_Name :: string
  wh_ServiceNamespace :: string
  wh_ServiceName :: string
  wh_Path :: string
  wh_CABundle :: string
  wh_FailurePolicy :: string
  wh_MatchPolicy :: string
  wh_SideEffects :: string
  wh_AdmissionReviewVersions :: "string list"
  wh_Rules :: "RuleWithOperations list"
  wh_NamespaceSelector :: "(string \<times> string) list option"

record WebhookConfiguration =
  whc_Name :: string
  whc_Webhooks :: "Webhook list"

text \<open>The two global maps of the package.\<close>

record webhook_registry =
  mutatingWebhooks :: "(string, Webhook) gomap"
  validatingWebhooks :: "(string, Webhook) gomap"

definition no_webhooks :: webhook_registry where
  "no_webhooks = \<lparr>mutatingWebhooks = [], validatingWebhooks = []\<rparr>"

definition RegisterMutatingWebhook :: "string \<Rightarrow> Webhook \<Rightarrow> webhook_registry \<Rightarrow> webhook_registry" where
  "RegisterMutatingWebhook nm webhook r = r\<lparr>mutatingWebhooks := gput nm webhook (mutatingWebhooks r)\<rparr>"

definition RegisterValidatingWebhook :: "string \<Rightarrow> Webhook \<Rightarrow> webhook_registry \<Rightarrow> webhook_registry" where
  "RegisterValidatingWebhook nm webhook r = r\<lparr>validatingWebhooks := gput nm webhook (validatingWebhooks r)\<rparr>"

abbreviation DefaultMutatingWebhookConfigurationName :: string where
  "DefaultMutatingWebhookConfigurationName \<equiv> ''flomesh-mutating-webhook-configuration''"

abbreviation DefaultValidatingWebhookConfigurationName :: string where
  "DefaultValidatingWebhookConfigurationName \<equiv> ''flomesh-validating-webhook-configuration''"

definition NewMutatingWebhookConfiguration :: "webhook_registry \<Rightarrow> WebhookConfiguration option" where
  "NewMutatingWebhookConfiguration r =
     (if mutatingWebhooks r = [] then None
      else Some \<lparr>whc_Name = DefaultMutatingWebhookConfigurationName, whc_Webhooks = map snd (mutatingWebhooks r)\<rparr>)"

text \<open>The guard of the validating configuration looks at the mutating webhooks, as in the source.\<close>

definition NewValidatingWebhookConfiguration :: "webhook_registry \<Rightarrow> WebhookConfiguration option" where
  "NewValidatingWebhookConfiguration r =
     (if mutatingWebhooks r = [] then None
      else Some \<lparr>whc_Name = DefaultValidatingWebhookConfigurationName, whc_Webhooks = map snd (validatingWebhooks r)\<rparr>)"

definition NewMutatingWebhook ::
  "string \<Rightarrow> string \<Rightarrow> string \<Rightarrow> string \<Rightarrow> string \<Rightarrow> (string \<times> string) list option \<Rightarrow> RuleWithOperations list \<Rightarrow> Webhook"
where
  "NewMutatingWebhook nm svcNs svcName path caBundle namespaceSelector rules =
     \<lparr>wh_Name = nm, wh_ServiceNamespace = svcNs, wh_ServiceName = svcName, wh_Path = path, wh_CABundle = caBundle,
      wh_FailurePolicy = ''Fail'', wh_MatchPolicy = ''Exact'', wh_SideEffects = ''None'',
      wh_AdmissionReviewVersions = [''v1''], wh_Rules = rules, wh_NamespaceSelector = namespaceSelector\<rparr>"

definition NewValidatingWebhook ::
  "string \<Rightarrow> string \<Rightarrow> string \<Rightarrow> string \<Rightarrow> string \<Rightarrow> (string \<times> string) list option \<Rightarrow> RuleWithOperations list \<Rightarrow> Webhook"
where
  "NewValidatingWebhook nm svcNs svcName path caBundle namespaceSelector rules =
     \<lparr>wh_Name = nm, wh_ServiceNamespace = svcNs, wh_ServiceName = svcName, wh_Path = path, wh_CABundle = caBundle,
      wh_FailurePolicy = ''Fail'', wh_MatchPolicy = ''Exact'', wh_SideEffects = ''None'',
      wh_AdmissionReviewVersions = [''v1''], wh_Rules = rules, wh_NamespaceSelector = namespaceSelector\<rparr>"

definition NewRule :: "Operation list \<Rightarrow> string list \<Rightarrow> string list \<Rightarrow> string list \<Rightarrow> RuleWithOperations" where
  "NewRule operations apiGroups apiVersions resources =
     \<lparr>rule_Operations = operations, rule_APIGroups = apiGroups, rule_APIVersions = apiVersions,
      rule_Resources = resources\<rparr>"

section \<open>The webhooks of each kind\<close>

abbreviation ConfigMapMutatingWebhookPath :: string where "ConfigMapMutatingWebhookPath \<equiv> ''/mutate-core-v1-configmap''"
abbreviation ConfigMapValidatingWebhookPath :: string where "ConfigMapValidatingWebhookPath \<equiv> ''/validate-core-v1-configmap''"
abbreviation ClusterMutatingWebhookPath :: string where "ClusterMutatingWebhookPath \<equiv> ''/mutate-flomesh-io-v1alpha1-cluster''"
abbreviation ClusterValidatingWebhookPath :: string where "ClusterValidatingWebhookPath \<equiv> ''/validate-flomesh-io-v1alpha1-cluster''"
abbreviation NamespacedIngressMutatingWebhookPath :: string where
  "NamespacedIngressMutatingWebhookPath \<equiv> ''/mutate-flomesh-io-v1alpha1-namespacedingress''"
abbreviation NamespacedIngressValidatingWebhookPath :: string where
  "NamespacedIngressValidatingWebhookPath \<equiv> ''/validate-flomesh-io-v1alpha1-namespacedingress''"
abbreviation GatewayMutatingWebhookPath :: string where
  "GatewayMutatingWebhookPath \<equiv> ''/mutate-gateway-networking-k8s-io-v1beta1-gateway''"
abbreviation GatewayValidatingWebhookPath :: string where
  "GatewayValidatingWebhookPath \<equiv> ''/validate-gateway-networking-k8s-io-v1beta1-gateway''"
abbreviation GatewayClassMutatingWebhookPath :: string where
  "GatewayClassMutatingWebhookPath \<equiv> ''/mutate-gateway-networking-k8s-io-v1beta1-gatewayclass''"
abbreviation GatewayClassValidatingWebhookPath :: string where
  "GatewayClassValidatingWebhookPath \<equiv> ''/validate-gateway-networking-k8s-io-v1beta1-gatewayclass''"
abbreviation HTTPRouteMutatingWebhookPath :: string where
  "HTTPRouteMutatingWebhookPath \<equiv> ''/mutate-gateway-networking-k8s-io-v1beta1-httproute''"
abbreviation HTTPRouteValidatingWebhookPath :: string where
  "HTTPRouteValidatingWebhookPath \<equiv> ''/validate-gateway-networking-k8s-io-v1beta1-httproute''"
abbreviation ServiceImportMutatingWebhookPath :: string where
  "ServiceImportMutatingWebhookPath \<equiv> ''/mutate-flomesh-io-v1alpha1-serviceimport''"
abbreviation ServiceImportValidatingWebhookPath :: string where
  "ServiceImportValidatingWebhookPath \<equiv> ''/validate-flomesh-io-v1alpha1-serviceimport''"
abbreviation ServiceExportMutatingWebhookPath :: string where
  "ServiceExportMutatingWebhookPath \<equiv> ''/mutate-flomesh-io-v1alpha1-serviceexport''"
abbreviation ServiceExportValidatingWebhookPath :: string where
  "ServiceExportValidatingWebhookPath \<equiv> ''/validate-flomesh-io-v1alpha1-serviceexport''"
abbreviation GlobalTrafficPolicyMutatingWebhookPath :: string where
  "GlobalTrafficPolicyMutatingWebhookPath \<equiv> ''/mutate-flomesh-io-v1alpha1-globaltrafficpolicy''"
abbreviation GlobalTrafficPolicyValidatingWebhookPath :: string where
  "GlobalTrafficPolicyValidatingWebhookPath \<equiv> ''/validate-flomesh-io-v1alpha1-globaltrafficpolicy''"
abbreviation IngressMutatingWebhookPath :: string where "IngressMutatingWebhookPath \<equiv> ''/mutate-networking-v1-ingress''"
abbreviation IngressValidatingWebhookPath :: string where "IngressValidatingWebhookPath \<equiv> ''/validate-networking-v1-ingress''"
abbreviation FlomeshControlPlaneLabel :: string where "FlomeshControlPlaneLabel \<equiv> ''flomesh.io/control-plane''"

text \<open>The part that the packages have in common: one rule for creation and update, one webhook of
  either type with that rule, and the registration of both.\<close>

definition register_pair ::
  "string \<Rightarrow> string \<Rightarrow> string \<Rightarrow> string \<Rightarrow> string \<Rightarrow> string \<Rightarrow> string \<Rightarrow> (string \<times> string) list option \<Rightarrow>
   string \<Rightarrow> string \<Rightarrow> string \<Rightarrow> webhook_registry \<Rightarrow> webhook_registry"
where
  "register_pair groups versions resources mwName mwPath vwName vwPath nsSelector svcNs svcName caBundle r =
     (let rule = NewRule [Create, Update] [groups] [versions] [resources];
          mutatingWebhook = NewMutatingWebhook mwName svcNs svcName mwPath caBundle nsSelector [rule];
          validatingWebhook = NewValidatingWebhook vwName svcNs svcName vwPath caBundle nsSelector [rule]
      in RegisterValidatingWebhook vwName validatingWebhook (RegisterMutatingWebhook mwName mutatingWebhook r))"

definition cluster_RegisterWebhooks :: "string \<Rightarrow> string \<Rightarrow> string \<Rightarrow> webhook_registry \<Rightarrow> webhook_registry" where
  "cluster_RegisterWebhooks =
     register_pair ''flomesh.io'' ''v1alpha1'' ''clusters'' ''mcluster.kb.flomesh.io'' ClusterMutatingWebhookPath
       ''vcluster.kb.flomesh.io'' ClusterValidatingWebhookPath None"

definition cm_RegisterWebhooks :: "string \<Rightarrow> string \<Rightarrow> string \<Rightarrow> webhook_registry \<Rightarrow> webhook_registry" where
  "cm_RegisterWebhooks =
     register_pair [] ''v1'' ''configmaps'' ''mconfigmap.kb.flomesh.io'' ConfigMapMutatingWebhookPath
       ''vconfigmap.kb.flomesh.io'' ConfigMapValidatingWebhookPath (Some [(FlomeshControlPlaneLabel, ''true'')])"

definition namespacedingress_RegisterWebhooks :: "string \<Rightarrow> string \<Rightarrow> string \<Rightarrow> webhook_registry \<Rightarrow> webhook_registry" where
  "namespacedingress_RegisterWebhooks =
     register_pair ''flomesh.io'' ''v1alpha1'' ''namespacedingresses'' ''mnamespacedingress.kb.flomesh.io''
       NamespacedIngressMutatingWebhookPath ''vnamespacedingress.kb.flomesh.io'' NamespacedIngressValidatingWebhookPath None"

definition serviceexport_RegisterWebhooks :: "string \<Rightarrow> string \<Rightarrow> string \<Rightarrow> webhook_registry \<Rightarrow> webhook_registry" where
  "serviceexport_RegisterWebhooks =
     register_pair ''flomesh.io'' ''v1alpha1'' ''serviceexports'' ''mserviceexport.kb.flomesh.io''
       ServiceExportMutatingWebhookPath ''vserviceexport.kb.flomesh.io'' ServiceExportValidatingWebhookPath None"

definition serviceimport_RegisterWebhooks :: "string \<Rightarrow> string \<Rightarrow> string \<Rightarrow> webhook_registry \<Rightarrow> webhook_registry" where
  "serviceimport_RegisterWebhooks =
     register_pair ''flomesh.io'' ''v1alpha1'' ''serviceimports'' ''mserviceimport.kb.flomesh.io''
       ServiceImportMutatingWebhookPath ''vserviceimport.kb.flomesh.io'' ServiceImportValidatingWebhookPath None"

definition globaltrafficpolicy_RegisterWebhooks :: "string \<Rightarrow> string \<Rightarrow> string \<Rightarrow> webhook_registry \<Rightarrow> webhook_registry" where
  "globaltrafficpolicy_RegisterWebhooks =
     register_pair ''flomesh.io'' ''v1alpha1'' ''globaltrafficpolicies'' ''mglobaltrafficpolicy.kb.flomesh.io''
       GlobalTrafficPolicyMutatingWebhookPath ''vglobaltrafficpolicy.kb.flomesh.io''
       GlobalTrafficPolicyValidatingWebhookPath None"

definition ingress_RegisterWebhooks :: "string \<Rightarrow> string \<Rightarrow> string \<Rightarrow> webhook_registry \<Rightarrow> webhook_registry" where
  "ingress_RegisterWebhooks =
     register_pair ''networking.k8s.io'' ''v1'' ''ingresses'' ''mingress.kb.flomesh.io'' IngressMutatingWebhookPath
       ''vingress.kb.flomesh.io'' IngressValidatingWebhookPath None"

definition gateway_RegisterWebhooks :: "string \<Rightarrow> string \<Rightarrow> string \<Rightarrow> webhook_registry \<Rightarrow> webhook_registry" where
  "gateway_RegisterWebhooks =
     register_pair ''gateway.networking.k8s.io'' ''v1beta1'' ''gateways'' ''mgateway.kb.flomesh.io''
       GatewayMutatingWebhookPath ''vgateway.kb.flomesh.io'' GatewayValidatingWebhookPath None"

definition gatewayclass_RegisterWebhooks :: "string \<Rightarrow> string \<Rightarrow> string \<Rightarrow> webhook_registry \<Rightarrow> webhook_registry" where
  "gatewayclass_RegisterWebhooks =
     register_pair ''gateway.networking.k8s.io'' ''v1beta1'' ''gatewayclasses'' ''mgatewayclass.kb.flomesh.io''
       GatewayClassMutatingWebhookPath ''vgatewayclass.kb.flomesh.io'' GatewayClassValidatingWebhookPath None"

definition httproute_RegisterWebhooks :: "string \<Rightarrow> string \<Rightarrow> string \<Rightarrow> webhook_registry \<Rightarrow> webhook_registry" where
  "httproute_RegisterWebhooks =
     register_pair ''gateway.networking.k8s.io'' ''v1beta1'' ''httproutes'' ''mhttproute.kb.flomesh.io''
       HTTPRouteMutatingWebhookPath ''vhttproute.kb.flomesh.io'' HTTPRouteValidatingWebhookPath None"

definition RegisterWebhooks :: "string \<Rightarrow> string \<Rightarrow> string \<Rightarrow> webhook_registry \<Rightarrow> webhook_registry" where
  "RegisterWebhooks ns svcName caBundle r =
     (let r = cluster_RegisterWebhooks ns svcName caBundle r;
          r = cm_RegisterWebhooks ns svcName caBundle r;
          r = namespacedingress_RegisterWebhooks ns svcName caBundle r;
          r = serviceexport_RegisterWebhooks ns svcName caBundle r;
          r = serviceimport_RegisterWebhooks ns svcName caBundle r;
          r = globaltrafficpolicy_RegisterWebhooks ns svcName caBundle r
      in ingress_RegisterWebhooks ns svcName caBundle r)"

definition RegisterGatewayApiWebhooks :: "string \<Rightarrow> string \<Rightarrow> string \<Rightarrow> webhook_registry \<Rightarrow> webhook_registry" where
  "RegisterGatewayApiWebhooks ns svcName caBundle r =
     (let r = gateway_RegisterWebhooks ns svcName caBundle r;
          r = gatewayclass_RegisterWebhooks ns svcName caBundle r
      in httproute_RegisterWebhooks ns svcName caBundle r)"

section \<open>The handlers\<close>

datatype 'g k8s_object =
    OCluster Cluster
  | OConfigMap ConfigMap
  | ONamespacedIngress NamespacedIngress
  | OServiceExport ServiceExport
  | OServiceImport ServiceImport
  | OGlobalTrafficPolicy GlobalTrafficPolicy
  | OIngress Ingress
  | OGateway 'g
  | OGatewayClass 'g
  | OHTTPRoute 'g

record Request =
  req_Operation :: Operation
  req_Object :: string
  req_OldObject :: string

record 'g decoder =
  Decode :: "Request \<Rightarrow> 'g k8s_object \<Rightarrow> 'g k8s_object result"
  DecodeRaw :: "string \<Rightarrow> 'g k8s_object \<Rightarrow> 'g k8s_object result"

text \<open>The interfaces \<open>Validator\<close> and \<open>Defaulter\<close>. What an implementation reads (API server,
  configuration, name service) at the time of the request is its environment.\<close>

record ('g, 'e) Validator =
  v_RuntimeObject :: "'g k8s_object option"
  ValidateCreate :: "'e \<Rightarrow> 'g k8s_object \<Rightarrow> go_error option"
  ValidateUpdate :: "'e \<Rightarrow> 'g k8s_object \<Rightarrow> 'g k8s_object \<Rightarrow> go_error option"
  ValidateDelete :: "'e \<Rightarrow> 'g k8s_object \<Rightarrow> go_error option"

record ('g, 'e) Defaulter =
  d_RuntimeObject :: "'g k8s_object option"
  SetDefaults :: "'e \<Rightarrow> 'g k8s_object \<Rightarrow> 'g k8s_object go"

datatype Response =
    Allowed string
  | Denied go_error
  | Errored int go_error
  | StatusResponse bool go_error
  | PatchResponse string string

abbreviation StatusBadRequest :: int where "StatusBadRequest \<equiv> 400"
abbreviation StatusInternalServerError :: int where "StatusInternalServerError \<equiv> 500"

definition validationResponseFromStatus :: "bool \<Rightarrow> go_error \<Rightarrow> Response" where
  "validationResponseFromStatus allowed status = StatusResponse allowed status"

text \<open>The answer to an error of the validator: an error that carries the status of the API server is
  passed on, any other one is a denial.\<close>

definition validation_answer :: "(go_error \<Rightarrow> bool) \<Rightarrow> go_error option \<Rightarrow> Response" where
  "validation_answer isAPIStatus err' =
     (case err' of
        Some err \<Rightarrow> if isAPIStatus err then validationResponseFromStatus False err else Denied err
      | None \<Rightarrow> Allowed [])"

definition validating_Handle ::
  "(go_error \<Rightarrow> bool) \<Rightarrow> 'g decoder \<Rightarrow> ('g, 'e) Validator option \<Rightarrow> 'e \<Rightarrow> Request \<Rightarrow> Response go"
where
  "validating_Handle isAPIStatus dec validator' env req =
     (case validator' of
        None \<Rightarrow> Inl (Panicked ''validator should never be nil'')
      | Some validator \<Rightarrow> Inr
          (case v_RuntimeObject validator of
             None \<Rightarrow> Allowed ''Not supported Kind''
           | Some obj \<Rightarrow>
               (case Decode dec req obj of
                  Inl err \<Rightarrow> Errored StatusBadRequest err
                | Inr obj \<Rightarrow>
                    (case req_Operation req of
                       Create \<Rightarrow>
                         (case Decode dec req obj of
                            Inl err \<Rightarrow> Errored StatusBadRequest err
                          | Inr obj \<Rightarrow> validation_answer isAPIStatus (ValidateCreate validator env obj))
                     | Update \<Rightarrow>
                         (case DecodeRaw dec (req_Object req) obj of
                            Inl err \<Rightarrow> Errored StatusBadRequest err
                          | Inr new \<Rightarrow>
                              (case DecodeRaw dec (req_OldObject req) obj of
                                 Inl err \<Rightarrow> Errored StatusBadRequest err
                               | Inr old \<Rightarrow> validation_answer isAPIStatus (ValidateUpdate validator env old new)))
                     | Delete \<Rightarrow>
                         (case DecodeRaw dec (req_OldObject req) obj of
                            Inl err \<Rightarrow> Errored StatusBadRequest err
                          | Inr obj \<Rightarrow> validation_answer isAPIStatus (ValidateDelete validator env obj))
                     | Connect \<Rightarrow> Allowed []))))"

definition mutating_Handle ::
  "('g k8s_object \<Rightarrow> string result) \<Rightarrow> 'g decoder \<Rightarrow> ('g, 'e) Defaulter option \<Rightarrow> 'e \<Rightarrow> Request \<Rightarrow> Response go"
where
  "mutating_Handle Marshal dec defaulter' env req =
     (case defaulter' of
        None \<Rightarrow> Inl (Panicked ''defaulter should never be nil'')
      | Some defaulter \<Rightarrow>
          (case d_RuntimeObject defaulter of
             None \<Rightarrow> Inr (Allowed ''Not supported Kind'')
           | Some obj \<Rightarrow>
               (case Decode dec req obj of
                  Inl err \<Rightarrow> Inr (Errored StatusBadRequest err)
                | Inr obj \<Rightarrow>
                    go_bind (SetDefaults defaulter env obj) (\<lambda>obj.
                      Inr (case Marshal obj of
                             Inl err \<Rightarrow> Errored StatusInternalServerError err
                           | Inr marshalled \<Rightarrow> PatchResponse (req_Object req) marshalled)))))"

section \<open>Start-up\<close>

datatype hook =
    HCluster | HNamespacedIngress | HServiceExport | HServiceImport | HGlobalTrafficPolicy | HConfigMap | HIngress
  | HGateway | HGatewayClass | HHTTPRoute

datatype hook_handler = Defaulting hook | Validating hook

text \<open>The calls \<open>hookServer.Register(path, handler)\<close> of \<open>registerToWebhookServer\<close>, in order.\<close>

definition registerGatewayApiToWebhookServer :: "(string \<times> hook_handler) list" where
  "registerGatewayApiToWebhookServer =
     [(GatewayMutatingWebhookPath, Defaulting HGateway), (GatewayValidatingWebhookPath, Validating HGateway),
      (GatewayClassMutatingWebhookPath, Defaulting HGatewayClass),
      (GatewayClassValidatingWebhookPath, Validating HGatewayClass),
      (HTTPRouteMutatingWebhookPath, Defaulting HHTTPRoute), (HTTPRouteValidatingWebhookPath, Validating HHTTPRoute)]"

definition registerToWebhookServer :: "MeshConfig \<Rightarrow> (string \<times> hook_handler) list" where
  "registerToWebhookServer mc =
     [(ClusterMutatingWebhookPath, Defaulting HCluster), (ClusterValidatingWebhookPath, Validating HCluster),
      (NamespacedIngressMutatingWebhookPath, Defaulting HNamespacedIngress),
      (NamespacedIngressValidatingWebhookPath, Validating HNamespacedIngress),
      (ServiceExportMutatingWebhookPath, Defaulting HServiceExport),
      (ServiceExportValidatingWebhookPath, Validating HServiceExport),
      (ServiceImportMutatingWebhookPath, Defaulting HServiceImport),
      (ServiceImportValidatingWebhookPath, Validating HServiceImport),
      (GlobalTrafficPolicyMutatingWebhookPath, Defaulting HGlobalTrafficPolicy),
      (GlobalTrafficPolicyValidatingWebhookPath, Validating HGlobalTrafficPolicy),
      (ConfigMapMutatingWebhookPath, Defaulting HConfigMap), (ConfigMapValidatingWebhookPath, Validating HConfigMap),
      (IngressMutatingWebhookPath, Defaulting HIngress), (IngressValidatingWebhookPath, Validating HIngress)] @
     (if mc_GatewayApiEnabled mc then registerGatewayApiToWebhookServer else [])"

abbreviation os_Exit :: "'a go" where "os_Exit \<equiv> Inl (Panicked ''exit status 1'')"
abbreviation WebhookServerServingCertsPath :: string where
  "WebhookServerServingCertsPath \<equiv> ''/tmp/k8s-webhook-server/serving-certs''"

record 'w file_system =
  MkdirAll :: "string \<Rightarrow> 'w \<Rightarrow> unit result \<times> 'w"
  WriteFile :: "string \<Rightarrow> string \<Rightarrow> 'w \<Rightarrow> unit result \<times> 'w"

fun write_files :: "'w file_system \<Rightarrow> (string \<times> string) list \<Rightarrow> 'w \<Rightarrow> unit result \<times> 'w" where
  "write_files fs [] w = (Inr (), w)"
| "write_files fs ((file, data) # rest) w =
     (case WriteFile fs (WebhookServerServingCertsPath @ ''/'' @ file) data w of
        (Inl err, w) \<Rightarrow> (Inl err, w)
      | (Inr _, w) \<Rightarrow> write_files fs rest w)"

definition issueCertForWebhook ::
  "'w file_system \<Rightarrow> 'w cert_issuer \<Rightarrow> string \<Rightarrow> MeshConfig \<Rightarrow> 'w \<Rightarrow> IssuedCert result \<times> 'w"
where
  "issueCertForWebhook fs issue ns mc w =
     (let svc = mc_WebhookServiceName mc in
      case issue svc [svc, svc @ ''.'' @ ns @ ''.svc'', svc @ ''.'' @ ns @ ''.svc.cluster.local''] w of
        (Inl err, w) \<Rightarrow> (Inl err, w)
      | (Inr cert, w) \<Rightarrow>
          (case MkdirAll fs WebhookServerServingCertsPath w of
             (Inl err, w) \<Rightarrow> (Inl err, w)
           | (Inr _, w) \<Rightarrow>
               (case write_files fs [(''ca.crt'', ic_CA cert), (''tls.crt'', ic_CrtPEM cert), (''tls.key'', ic_KeyPEM cert)] w of
                  (Inl err, w) \<Rightarrow> (Inl err, w)
                | (Inr _, w) \<Rightarrow> (Inr cert, w))))"

record 'w whc_api =
  whc_create :: "WebhookConfiguration \<Rightarrow> 'w \<Rightarrow> unit result \<times> 'w"
  whc_get :: "string \<Rightarrow> 'w \<Rightarrow> WebhookConfiguration result \<times> 'w"
  whc_update :: "WebhookConfiguration \<Rightarrow> 'w \<Rightarrow> unit result \<times> 'w"

text \<open>Creating a configuration or bringing an existing one up to date; the process exits on an error.\<close>

definition apply_configuration :: "'w whc_api \<Rightarrow> WebhookConfiguration option \<Rightarrow> 'w \<Rightarrow> unit go \<times> 'w" where
  "apply_configuration api cfg w =
     (case cfg of
        None \<Rightarrow> (Inl NilPointer, w)
      | Some wc \<Rightarrow>
          (case whc_create api wc w of
             (Inr _, w) \<Rightarrow> (Inr (), w)
           | (Inl err, w) \<Rightarrow>
               if err = AlreadyExists
               then (case whc_get api (whc_Name wc) w of
                       (Inl _, w) \<Rightarrow> (os_Exit, w)
                     | (Inr existing, w) \<Rightarrow>
                         (case whc_update api (existing\<lparr>whc_Webhooks := whc_Webhooks wc\<rparr>) w of
                            (Inl _, w) \<Rightarrow> (os_Exit, w)
                          | (Inr _, w) \<Rightarrow> (Inr (), w)))
               else (os_Exit, w)))"

definition createWebhookConfigurations ::
  "'w file_system \<Rightarrow> 'w cert_issuer \<Rightarrow> 'w whc_api \<Rightarrow> 'w whc_api \<Rightarrow> string \<Rightarrow> MeshConfig \<Rightarrow> webhook_registry \<Rightarrow> 'w \<Rightarrow>
   unit go \<times> webhook_registry \<times> 'w"
where
  "createWebhookConfigurations fs issue mutating validating ns mc r w =
     (case issueCertForWebhook fs issue ns mc w of
        (Inl _, w) \<Rightarrow> (os_Exit, r, w)
      | (Inr cert, w) \<Rightarrow>
          (let svcName = mc_WebhookServiceName mc;
               r = RegisterWebhooks ns svcName (ic_CA cert) r;
               r = (if mc_GatewayApiEnabled mc then RegisterGatewayApiWebhooks ns svcName (ic_CA cert) r else r)
           in case apply_configuration mutating (NewMutatingWebhookConfiguration r) w of
                (Inl p, w) \<Rightarrow> (Inl p, r, w)
              | (Inr _, w) \<Rightarrow>
                  (case apply_configuration validating (NewValidatingWebhookConfiguration r) w of
                     (Inl p, w) \<Rightarrow> (Inl p, r, w)
                   | (Inr _, w) \<Rightarrow> (Inr (), r, w))))"

section \<open>Registered webhooks and served paths\<close>

text \<open>The webhooks of a process that runs with a given configuration.\<close>

definition registered :: "string \<Rightarrow> string \<Rightarrow> MeshConfig \<Rightarrow> webhook_registry" where
  "registered ns ca mc =
     (let r = RegisterWebhooks ns (mc_WebhookServiceName mc) ca no_webhooks
      in if mc_GatewayApiEnabled mc then RegisterGatewayApiWebhooks ns (mc_WebhookServiceName mc) ca r else r)"

text \<open>The resource whose objects the handlers of a kind decode.\<close>

fun hook_resource :: "hook \<Rightarrow> string" where
  "hook_resource HCluster = ''clusters''"
| "hook_resource HNamespacedIngress = ''namespacedingresses''"
| "hook_resource HServiceExport = ''serviceexports''"
| "hook_resource HServiceImport = ''serviceimports''"
| "hook_resource HGlobalTrafficPolicy = ''globaltrafficpolicies''"
| "hook_resource HConfigMap = ''configmaps''"
| "hook_resource HIngress = ''ingresses''"
| "hook_resource HGateway = ''gateways''"
| "hook_resource HGatewayClass = ''gatewayclasses''"
| "hook_resource HHTTPRoute = ''httproutes''"

text \<open>A webhook is served if the server has a handler at its path for the resource of its rules.\<close>

definition served :: "(string \<times> hook_handler) list \<Rightarrow> (hook \<Rightarrow> hook_handler) \<Rightarrow> Webhook \<Rightarrow> bool" where
  "served srv mk w \<longleftrightarrow>
     (case map_of srv (wh_Path w) of
        Some (Defaulting h) \<Rightarrow> mk h = Defaulting h \<and> map rule_Resources (wh_Rules w) = [[hook_resource h]]
      | Some (Validating h) \<Rightarrow> mk h = Validating h \<and> map rule_Resources (wh_Rules w) = [[hook_resource h]]
      | None \<Rightarrow> False)"

text \<open>The calls of \<open>register_pair\<close> as a table: the kind, the selector of its namespaces, the
  group, version and resource, and the names and paths of the two webhooks.\<close>

type_synonym hook_row =
  "hook \<times> (string \<times> string) list option \<times> string \<times> string \<times> string \<times> string \<times> string \<times> string \<times> string"

fun register_row :: "string \<Rightarrow> string \<Rightarrow> string \<Rightarrow> hook_row \<Rightarrow> webhook_registry \<Rightarrow> webhook_registry" where
  "register_row ns svc ca (h, sel, g, v, res, mn, mp, vn, vp) = register_pair g v res mn mp vn vp sel ns svc ca"

fun row_webhook :: "bool \<Rightarrow> string \<Rightarrow> string \<Rightarrow> string \<Rightarrow> hook_row \<Rightarrow> string \<times> Webhook" where
  "row_webhook mutating ns svc ca (h, sel, g, v, res, mn, mp, vn, vp) =
     (if mutating then (mn, NewMutatingWebhook mn ns svc mp ca sel [NewRule [Create, Update] [g] [v] [res]])
      else (vn, NewValidatingWebhook vn ns svc vp ca sel [NewRule [Create, Update] [g] [v] [res]]))"

fun row_name :: "bool \<Rightarrow> hook_row \<Rightarrow> string" where
  "row_name mutating (h, sel, g, v, res, mn, mp, vn, vp) = (if mutating then mn else vn)"

fun row_path :: "bool \<Rightarrow> hook_row \<Rightarrow> string" where
  "row_path mutating (h, sel, g, v, res, mn, mp, vn, vp) = (if mutating then mp else vp)"

fun row_served :: "(string \<times> hook_handler) list \<Rightarrow> hook_row \<Rightarrow> bool" where
  "row_served srv (h, sel, g, v, res, mn, mp, vn, vp) \<longleftrightarrow>
     map_of srv mp = Some (Defaulting h) \<and> map_of srv vp = Some (Validating h) \<and> res = hook_resource h"

definition hook_table :: "bool \<Rightarrow> hook_row list" where
  "hook_table gatewayApi =
     [(HCluster, None, ''flomesh.io'', ''v1alpha1'', ''clusters'', ''mcluster.kb.flomesh.io'', ClusterMutatingWebhookPath,
         ''vcluster.kb.flomesh.io'', ClusterValidatingWebhookPath),
      (HConfigMap, Some [(FlomeshControlPlaneLabel, ''true'')], [], ''v1'', ''configmaps'', ''mconfigmap.kb.flomesh.io'',
         ConfigMapMutatingWebhookPath, ''vconfigmap.kb.flomesh.io'', ConfigMapValidatingWebhookPath),
      (HNamespacedIngress, None, ''flomesh.io'', ''v1alpha1'', ''namespacedingresses'', ''mnamespacedingress.kb.flomesh.io'',
         NamespacedIngressMutatingWebhookPath, ''vnamespacedingress.kb.flomesh.io'', NamespacedIngressValidatingWebhookPath),
      (HServiceExport, None, ''flomesh.io'', ''v1alpha1'', ''serviceexports'', ''mserviceexport.kb.flomesh.io'',
         ServiceExportMutatingWebhookPath, ''vserviceexport.kb.flomesh.io'', ServiceExportValidatingWebhookPath),
      (HServiceImport, None, ''flomesh.io'', ''v1alpha1'', ''serviceimports'', ''mserviceimport.kb.flomesh.io'',
         ServiceImportMutatingWebhookPath, ''vserviceimport.kb.flomesh.io'', ServiceImportValidatingWebhookPath),
      (HGlobalTrafficPolicy, None, ''flomesh.io'', ''v1alpha1'', ''globaltrafficpolicies'', ''mglobaltrafficpolicy.kb.flomesh.io'',
         GlobalTrafficPolicyMutatingWebhookPath, ''vglobaltrafficpolicy.kb.flomesh.io'', GlobalTrafficPolicyValidatingWebhookPath),
      (HIngress, None, ''networking.k8s.io'', ''v1'', ''ingresses'', ''mingress.kb.flomesh.io'',
         IngressMutatingWebhookPath, ''vingress.kb.flomesh.io'', IngressValidatingWebhookPath)] @
     (if gatewayApi
      then [(HGateway, None, ''gateway.networking.k8s.io'', ''v1beta1'', ''gateways'', ''mgateway.kb.flomesh.io'',
               GatewayMutatingWebhookPath, ''vgateway.kb.flomesh.io'', GatewayValidatingWebhookPath),
            (HGatewayClass, None, ''gateway.networking.k8s.io'', ''v1beta1'', ''gatewayclasses'', ''mgatewayclass.kb.flomesh.io'',
               GatewayClassMutatingWebhookPath, ''vgatewayclass.kb.flomesh.io'', GatewayClassValidatingWebhookPath),
            (HHTTPRoute, None, ''gateway.networking.k8s.io'', ''v1beta1'', ''httproutes'', ''mhttproute.kb.flomesh.io'',
               HTTPRouteMutatingWebhookPath, ''vhttproute.kb.flomesh.io'', HTTPRouteValidatingWebhookPath)]
      else [])"

lemma hook_row_cases:
  fixes row :: hook_row
  obtains h sel g v res mn mp vn vp where "row = (h, sel, g, v, res, mn, mp, vn, vp)"
  by (metis surj_pair)

lemma registered_rows:
  "registered ns ca mc =
     fold (register_row ns (mc_WebhookServiceName mc) ca) (hook_table (mc_GatewayApiEnabled mc)) no_webhooks"
  by (simp add: registered_def hook_table_def Let_def RegisterWebhooks_def RegisterGatewayApiWebhooks_def
      cluster_RegisterWebhooks_def cm_RegisterWebhooks_def namespacedingress_RegisterWebhooks_def
      serviceexport_RegisterWebhooks_def serviceimport_RegisterWebhooks_def globaltrafficpolicy_RegisterWebhooks_def
      ingress_RegisterWebhooks_def gateway_RegisterWebhooks_def gatewayclass_RegisterWebhooks_def
      httproute_RegisterWebhooks_def)

lemma gput_fresh: "k \<notin> fst ` set m \<Longrightarrow> gput k v m = m @ [(k, v)]"
  by (induction m) auto

lemma row_webhook_name: "fst (row_webhook b ns svc ca row) = row_name b row"
  by (cases row rule: hook_row_cases) simp

lemma fold_register_row:
  assumes "distinct (map fst (mutatingWebhooks r) @ map (row_name True) rows)"
    and "distinct (map fst (validatingWebhooks r) @ map (row_name False) rows)"
  shows "fold (register_row ns svc ca) rows r =
     \<lparr>mutatingWebhooks = mutatingWebhooks r @ map (row_webhook True ns svc ca) rows,
      validatingWebhooks = validatingWebhooks r @ map (row_webhook False ns svc ca) rows\<rparr>"
  using assms
proof (induction rows arbitrary: r)
  case (Cons row rows)
  obtain h sel g v res mn mp vn vp where row: "row = (h, sel, g, v, res, mn, mp, vn, vp)"
    by (cases row rule: hook_row_cases)
  from Cons.prems have "mn \<notin> fst ` set (mutatingWebhooks r)" "vn \<notin> fst ` set (validatingWebhooks r)"
    by (auto simp: row)
  then have step: "register_row ns svc ca row r =
      \<lparr>mutatingWebhooks = mutatingWebhooks r @ [row_webhook True ns svc ca row],
       validatingWebhooks = validatingWebhooks r @ [row_webhook False ns svc ca row]\<rparr>"
    by (simp add: row register_pair_def Let_def RegisterMutatingWebhook_def RegisterValidatingWebhook_def gput_fresh)
  show ?case
    using Cons.prems Cons.IH [of "\<lparr>mutatingWebhooks = mutatingWebhooks r @ [row_webhook True ns svc ca row],
        validatingWebhooks = validatingWebhooks r @ [row_webhook False ns svc ca row]\<rparr>"]
    by (simp add: step row_webhook_name)
qed simp

lemma hook_table_names: "distinct (map (row_name True) (hook_table g))" "distinct (map (row_name False) (hook_table g))"
  by (cases g; simp add: hook_table_def)+

lemma registered_webhooks:
  "mutatingWebhooks (registered ns ca mc) =
     map (row_webhook True ns (mc_WebhookServiceName mc) ca) (hook_table (mc_GatewayApiEnabled mc))"
  "validatingWebhooks (registered ns ca mc) =
     map (row_webhook False ns (mc_WebhookServiceName mc) ca) (hook_table (mc_GatewayApiEnabled mc))"
  by (simp_all add: registered_rows fold_register_row no_webhooks_def hook_table_names)

lemma hook_table_served:
  "list_all (row_served (registerToWebhookServer mc)) (hook_table (mc_GatewayApiEnabled mc))"
  by (cases "mc_GatewayApiEnabled mc";
      simp add: hook_table_def registerToWebhookServer_def registerGatewayApiToWebhookServer_def)

lemma served_paths_distinct: "distinct (map fst (registerToWebhookServer mc))"
  by (cases "mc_GatewayApiEnabled mc"; simp add: registerToWebhookServer_def registerGatewayApiToWebhookServer_def)

lemma served_paths_announced:
  "mset (map fst (registerToWebhookServer mc)) =
     mset (map (row_path True) (hook_table (mc_GatewayApiEnabled mc)) @
           map (row_path False) (hook_table (mc_GatewayApiEnabled mc)))"
  by (cases "mc_GatewayApiEnabled mc";
      simp add: hook_table_def registerToWebhookServer_def registerGatewayApiToWebhookServer_def)

lemma row_served_webhooks:
  assumes "row_served srv row"
  shows "served srv Defaulting (snd (row_webhook True ns svc ca row))"
    and "served srv Validating (snd (row_webhook False ns svc ca row))"
  using assms by (cases row rule: hook_row_cases; simp add: served_def NewMutatingWebhook_def NewValidatingWebhook_def NewRule_def)+

lemma row_webhook_path [simp]: "wh_Path (snd (row_webhook b ns svc ca row)) = row_path b row"
  by (cases row rule: hook_row_cases) (simp add: NewMutatingWebhook_def NewValidatingWebhook_def)

text \<open>C30. Every webhook that is announced to the API server is served: the server has a handler at
  its path, a defaulting one for a mutating and a validating one for a validating webhook, for the
  resource its rule names. No path is registered twice and none is left without a webhook.\<close>

theorem webhooks_served:
  "list_all (served (registerToWebhookServer mc) Defaulting) (map snd (mutatingWebhooks (registered ns ca mc))) \<and>
   list_all (served (registerToWebhookServer mc) Validating) (map snd (validatingWebhooks (registered ns ca mc))) \<and>
   distinct (map fst (registerToWebhookServer mc)) \<and>
   mset (map fst (registerToWebhookServer mc)) =
     mset (map (wh_Path \<circ> snd) (mutatingWebhooks (registered ns ca mc)) @
           map (wh_Path \<circ> snd) (validatingWebhooks (registered ns ca mc)))"
  using hook_table_served [of mc] served_paths_distinct [of mc] served_paths_announced [of mc] row_served_webhooks
  by (simp add: registered_webhooks list_all_iff comp_def)

section \<open>What the handlers decide\<close>

lemma validation_answer_allowed [simp]: "validation_answer st err = Allowed m \<longleftrightarrow> err = None \<and> m = []"
  by (auto simp: validation_answer_def validationResponseFromStatus_def split: option.splits)

lemma create_allowed_iff:
  assumes "v_RuntimeObject v = Some zero" and "req_Operation req = Create"
  shows "validating_Handle st dec (Some v) env req = Inr (Allowed m) \<longleftrightarrow>
           m = [] \<and> (\<exists>o1 obj. Decode dec req zero = Inr o1 \<and> Decode dec req o1 = Inr obj \<and> ValidateCreate v env obj = None)"
  using assms by (auto simp: validating_Handle_def split: sum.splits)

lemma update_allowed_iff:
  assumes "v_RuntimeObject v = Some zero" and "req_Operation req = Update"
  shows "validating_Handle st dec (Some v) env req = Inr (Allowed m) \<longleftrightarrow>
           m = [] \<and> (\<exists>o1 new old. Decode dec req zero = Inr o1 \<and> DecodeRaw dec (req_Object req) o1 = Inr new \<and>
             DecodeRaw dec (req_OldObject req) o1 = Inr old \<and> ValidateUpdate v env old new = None)"
  using assms by (auto simp: validating_Handle_def split: sum.splits)

text \<open>The decoder of the controller library reports an error for a request without an object; the
  API server sends no object with a deletion.\<close>

definition needs_content :: "'g decoder \<Rightarrow> bool" where
  "needs_content dec \<longleftrightarrow> (\<forall>req obj. req_Object req = [] \<longrightarrow> (\<exists>e. Decode dec req obj = Inl e))"

lemma row_webhook_rules:
  "r \<in> set (wh_Rules (snd (row_webhook b ns svc ca row))) \<Longrightarrow> rule_Operations r = [Create, Update]"
  by (cases row rule: hook_row_cases) (auto simp: NewMutatingWebhook_def NewValidatingWebhook_def NewRule_def split: if_splits)

text \<open>\<open>ValidateDelete\<close> of a validator is never consulted. No webhook is registered for
  deletions; and if the handler is given one, it fails to decode the missing object and answers with
  a bad request before it looks at the operation, whatever the validator says.\<close>

theorem deletions_never_validated:
  assumes "needs_content dec" and "req_Operation req = Delete" and "req_Object req = []"
    and "v_RuntimeObject v = Some zero"
  shows "list_all (\<lambda>w. list_all (\<lambda>r. Delete \<notin> set (rule_Operations r)) (wh_Rules w))
           (map snd (validatingWebhooks (registered ns ca mc))) \<and>
         (\<exists>err. \<forall>answer. validating_Handle st dec (Some (v\<lparr>ValidateDelete := answer\<rparr>)) env req =
                  Inr (Errored StatusBadRequest err))"
proof
  show "list_all (\<lambda>w. list_all (\<lambda>r. Delete \<notin> set (rule_Operations r)) (wh_Rules w))
          (map snd (validatingWebhooks (registered ns ca mc)))"
    by (auto simp: registered_webhooks list_all_iff dest: row_webhook_rules)
  from assms(1,3) obtain err where "Decode dec req zero = Inl err"
    by (auto simp: needs_content_def)
  then show "\<exists>err. \<forall>answer. validating_Handle st dec (Some (v\<lparr>ValidateDelete := answer\<rparr>)) env req =
               Inr (Errored StatusBadRequest err)"
    using assms(4) by (simp add: validating_Handle_def)
qed

text \<open>A decoder that knows one object, and a validator that protects it.\<close>

definition demo_decoder :: "'g k8s_object \<Rightarrow> 'g decoder" where
  "demo_decoder obj =
     \<lparr>Decode = (\<lambda>req _. if req_Object req = [] then Inl (Errorf ''there is no content to decode'') else Inr obj),
      DecodeRaw = (\<lambda>raw _. if raw = [] then Inl (Errorf ''there is no content to decode'') else Inr obj)\<rparr>"

theorem deletions_never_validated_witness:
  "\<exists>err. \<forall>answer. validating_Handle (\<lambda>_. False) (demo_decoder (OConfigMap (demo_cm ''cfg'')))
     (Some (\<lparr>v_RuntimeObject = Some (OConfigMap (demo_cm [])), ValidateCreate = (\<lambda>_ _. None), ValidateUpdate = (\<lambda>_ _ _. None),
        ValidateDelete = (\<lambda>_ _. Some (Errorf ''cannot be deleted''))\<rparr>\<lparr>ValidateDelete := answer\<rparr>)) ()
     \<lparr>req_Operation = Delete, req_Object = [], req_OldObject = ''{}''\<rparr> = Inr (Errored StatusBadRequest err)"
  by (rule deletions_never_validated [THEN conjunct2]) (simp_all add: needs_content_def demo_decoder_def)

section \<open>The configurations of the API server\<close>

text \<open>A server for one of the two resources: what is stored under a name can be read, created and
  replaced, or the call fails and nothing changes; the calls leave the rest (seen by \<open>other\<close>) alone.\<close>

definition whc_server :: "('w \<Rightarrow> string \<Rightarrow> WebhookConfiguration option) \<Rightarrow> ('w \<Rightarrow> 'b) \<Rightarrow> 'w whc_api \<Rightarrow> bool" where
  "whc_server look other api \<longleftrightarrow>
     (\<forall>c w r w'. whc_create api c w = (r, w') \<longrightarrow> other w' = other w \<and>
        (case r of Inr _ \<Rightarrow> look w (whc_Name c) = None \<and> look w' = (look w)(whc_Name c \<mapsto> c)
                 | Inl e \<Rightarrow> look w' = look w \<and> (e = AlreadyExists \<longrightarrow> look w (whc_Name c) \<noteq> None))) \<and>
     (\<forall>n w r w'. whc_get api n w = (r, w') \<longrightarrow> other w' = other w \<and> look w' = look w \<and>
        (case r of Inr c \<Rightarrow> look w n = Some c \<and> whc_Name c = n | Inl _ \<Rightarrow> True)) \<and>
     (\<forall>c w r w'. whc_update api c w = (r, w') \<longrightarrow> other w' = other w \<and>
        (case r of Inr _ \<Rightarrow> look w' = (look w)(whc_Name c \<mapsto> c) | Inl _ \<Rightarrow> look w' = look w))"

lemma whc_serverD:
  assumes "whc_server look other api"
  shows "whc_create api c w = (r, w') \<Longrightarrow> other w' = other w \<and>
           (case r of Inr _ \<Rightarrow> look w (whc_Name c) = None \<and> look w' = (look w)(whc_Name c \<mapsto> c)
                    | Inl e \<Rightarrow> look w' = look w \<and> (e = AlreadyExists \<longrightarrow> look w (whc_Name c) \<noteq> None))"
    and "whc_get api n w = (r', w') \<Longrightarrow> other w' = other w \<and> look w' = look w \<and>
           (case r' of Inr c \<Rightarrow> look w n = Some c \<and> whc_Name c = n | Inl _ \<Rightarrow> True)"
    and "whc_update api c w = (r, w') \<Longrightarrow> other w' = other w \<and>
           (case r of Inr _ \<Rightarrow> look w' = (look w)(whc_Name c \<mapsto> c) | Inl _ \<Rightarrow> look w' = look w)"
  using assms unfolding whc_server_def by blast+

lemma apply_configuration_ok:
  assumes srv: "whc_server look other api" and run: "apply_configuration api (Some cfg) w = (Inr (), w')"
  shows "look w' (whc_Name cfg) = Some cfg" and "other w' = other w"
proof -
  obtain r1 w1 where c: "whc_create api cfg w = (r1, w1)"
    by force
  note c1 = whc_serverD(1) [OF srv c]
  show "look w' (whc_Name cfg) = Some cfg" "other w' = other w"
  proof (atomize (full), cases r1)
    case (Inr u)
    with c c1 run show "look w' (whc_Name cfg) = Some cfg \<and> other w' = other w"
      by (auto simp: apply_configuration_def)
  next
    case (Inl e)
    with c run have e: "e = AlreadyExists"
      by (auto simp: apply_configuration_def split: if_splits)
    obtain r2 w2 where g: "whc_get api (whc_Name cfg) w1 = (r2, w2)"
      by force
    with c Inl e run obtain ex where r2: "r2 = Inr ex"
      by (cases r2) (auto simp: apply_configuration_def)
    have g1: "other w2 = other w1" "look w1 (whc_Name cfg) = Some ex" "whc_Name ex = whc_Name cfg"
      using whc_serverD(2) [OF srv g] r2 by auto
    obtain r3 w3 where u: "whc_update api (ex\<lparr>whc_Webhooks := whc_Webhooks cfg\<rparr>) w2 = (r3, w3)"
      by force
    with c Inl e g r2 run obtain x where r3: "r3 = Inr x" and w': "w' = w3"
      by (cases r3) (auto simp: apply_configuration_def)
    have u1: "other w3 = other w2"
      "look w3 = (look w2)(whc_Name ex \<mapsto> ex\<lparr>whc_Webhooks := whc_Webhooks cfg\<rparr>)"
      using whc_serverD(3) [OF srv u] r3 by auto
    show "look w' (whc_Name cfg) = Some cfg \<and> other w' = other w"
      using u1 g1 c1 w' by (simp add: WebhookConfiguration.equality)
  qed
qed

text \<open>The only other outcome is that the process exits.\<close>

lemma apply_configuration_exits: "apply_configuration api (Some cfg) w = (res, w') \<Longrightarrow> res = Inr () \<or> res = os_Exit"
  by (auto simp: apply_configuration_def split: sum.splits prod.splits if_splits)

lemma hook_table_nonempty [simp]: "hook_table g \<noteq> []"
  by (simp add: hook_table_def)

lemma createWebhookConfigurations_run:
  assumes "issueCertForWebhook fs issue ns mc w = (Inr cert, w1)" and "r = registered ns (ic_CA cert) mc"
  shows "createWebhookConfigurations fs issue mutating validating ns mc no_webhooks w =
     (case apply_configuration mutating (Some \<lparr>whc_Name = DefaultMutatingWebhookConfigurationName,
             whc_Webhooks = map snd (mutatingWebhooks r)\<rparr>) w1 of
        (Inl p, w) \<Rightarrow> (Inl p, r, w)
      | (Inr _, w) \<Rightarrow>
          (case apply_configuration validating (Some \<lparr>whc_Name = DefaultValidatingWebhookConfigurationName,
                  whc_Webhooks = map snd (validatingWebhooks r)\<rparr>) w of
             (Inl p, w) \<Rightarrow> (Inl p, r, w)
           | (Inr _, w) \<Rightarrow> (Inr (), r, w)))"
proof -
  have reg: "(if mc_GatewayApiEnabled mc
      then RegisterGatewayApiWebhooks ns (mc_WebhookServiceName mc) (ic_CA cert)
             (RegisterWebhooks ns (mc_WebhookServiceName mc) (ic_CA cert) no_webhooks)
      else RegisterWebhooks ns (mc_WebhookServiceName mc) (ic_CA cert) no_webhooks) = r"
    by (simp add: assms(2) registered_def Let_def)
  have "mutatingWebhooks r \<noteq> []"
    by (simp add: assms(2) registered_webhooks)
  then show ?thesis
    by (simp only: createWebhookConfigurations_def Let_def assms(1) prod.case sum.case reg
        NewMutatingWebhookConfiguration_def NewValidatingWebhookConfiguration_def if_False)
qed

text \<open>C31. If the start-up code returns at all, the API server holds exactly the registered webhooks in
  both configurations, whatever it held before, and the CA bundle in them is the one of the
  certificate that has been written for the webhook server. In every other case the process has exited.\<close>

theorem webhook_configurations_current:
  assumes mut: "whc_server lm lv mutating" and val: "whc_server lv lm validating"
    and run: "createWebhookConfigurations fs issue mutating validating ns mc no_webhooks w = (res, r, w')"
  shows "res = os_Exit \<or>
         (\<exists>cert w1. issueCertForWebhook fs issue ns mc w = (Inr cert, w1) \<and> res = Inr () \<and>
            lm w' DefaultMutatingWebhookConfigurationName =
              Some \<lparr>whc_Name = DefaultMutatingWebhookConfigurationName,
                    whc_Webhooks = map snd (mutatingWebhooks (registered ns (ic_CA cert) mc))\<rparr> \<and>
            lv w' DefaultValidatingWebhookConfigurationName =
              Some \<lparr>whc_Name = DefaultValidatingWebhookConfigurationName,
                    whc_Webhooks = map snd (validatingWebhooks (registered ns (ic_CA cert) mc))\<rparr>)"
proof (cases "issueCertForWebhook fs issue ns mc w")
  case (Pair crt w1)
  show ?thesis
  proof (cases crt)
    case (Inl err)
    with Pair run show ?thesis
      by (simp add: createWebhookConfigurations_def)
  next
    case (Inr cert)
    let ?r = "registered ns (ic_CA cert) mc"
    let ?m = "\<lparr>whc_Name = DefaultMutatingWebhookConfigurationName, whc_Webhooks = map snd (mutatingWebhooks ?r)\<rparr>"
    let ?v = "\<lparr>whc_Name = DefaultValidatingWebhookConfigurationName, whc_Webhooks = map snd (validatingWebhooks ?r)\<rparr>"
    obtain m w2 where m: "apply_configuration mutating (Some ?m) w1 = (m, w2)"
      by force
    obtain v w3 where v: "apply_configuration validating (Some ?v) w2 = (v, w3)"
      by force
    have out: "res = (case m of Inl p \<Rightarrow> Inl p | Inr _ \<Rightarrow> v) \<and> w' = (case m of Inl p \<Rightarrow> w2 | Inr _ \<Rightarrow> w3)"
      using run m v createWebhookConfigurations_run [OF Pair [unfolded Inr] refl, of mutating validating]
      by (auto split: sum.splits)
    show ?thesis
    proof (cases "m = Inr () \<and> v = Inr ()")
      case True
      with m v apply_configuration_ok [OF mut, of ?m w1 w2] apply_configuration_ok [OF val, of ?v w2 w3] out Pair Inr
      show ?thesis
        by auto
    next
      case False
      with out apply_configuration_exits [OF m] apply_configuration_exits [OF v] show ?thesis
        by (auto split: sum.splits)
    qed
  qed
qed

text \<open>A server that keeps the configurations in two maps.\<close>

definition demo_whc_api ::
  "('w \<Rightarrow> string \<rightharpoonup> WebhookConfiguration) \<Rightarrow> ((string \<rightharpoonup> WebhookConfiguration) \<Rightarrow> 'w \<Rightarrow> 'w) \<Rightarrow> 'w whc_api" where
  "demo_whc_api look put =
     \<lparr>whc_create = (\<lambda>c w. if look w (whc_Name c) = None then (Inr (), put ((look w)(whc_Name c \<mapsto> c)) w) else (Inl AlreadyExists, w)),
      whc_get = (\<lambda>n w. (case look w n of Some c \<Rightarrow> if whc_Name c = n then Inr c else Inl NotFound | None \<Rightarrow> Inl NotFound, w)),
      whc_update = (\<lambda>c w. (Inr (), put ((look w)(whc_Name c \<mapsto> c)) w))\<rparr>"

lemma demo_whc_server:
  assumes "\<And>m w. look (put m w) = m" and "\<And>m w. other (put m w) = other w"
  shows "whc_server look other (demo_whc_api look put)"
  using assms by (auto simp: whc_server_def demo_whc_api_def split: if_splits option.splits)

theorem webhook_configurations_current_witness:
  "let fs = \<lparr>MkdirAll = (\<lambda>_ w. (Inr (), w)), WriteFile = (\<lambda>_ _ w. (Inr (), w))\<rparr>;
       issue = (\<lambda>_ _ w. (Inr \<lparr>ic_CrtPEM = ''crt'', ic_KeyPEM = ''key'', ic_CA = ''ca''\<rparr>, w));
       (res, r, w') = createWebhookConfigurations fs issue (demo_whc_api fst (\<lambda>m w. (m, snd w))) (demo_whc_api snd (\<lambda>m w. (fst w, m)))
                        ''erie-canal'' demo_cfg no_webhooks
                        ([DefaultMutatingWebhookConfigurationName \<mapsto>
                            \<lparr>whc_Name = DefaultMutatingWebhookConfigurationName, whc_Webhooks = []\<rparr>], Map.empty)
   in res = Inr () \<and>
      map_option whc_Webhooks (fst w' DefaultMutatingWebhookConfigurationName) =
        Some (map snd (mutatingWebhooks (registered ''erie-canal'' ''ca'' demo_cfg)))"
proof -
  let ?fs = "\<lparr>MkdirAll = (\<lambda>_ w. (Inr (), w)), WriteFile = (\<lambda>_ _ w. (Inr (), w))\<rparr> ::
    ((string \<rightharpoonup> WebhookConfiguration) \<times> (string \<rightharpoonup> WebhookConfiguration)) file_system"
  let ?issue = "(\<lambda>_ _ w. (Inr \<lparr>ic_CrtPEM = ''crt'', ic_KeyPEM = ''key'', ic_CA = ''ca''\<rparr>, w)) ::
    ((string \<rightharpoonup> WebhookConfiguration) \<times> (string \<rightharpoonup> WebhookConfiguration)) cert_issuer"
  let ?w = "([DefaultMutatingWebhookConfigurationName \<mapsto> \<lparr>whc_Name = DefaultMutatingWebhookConfigurationName, whc_Webhooks = []\<rparr>],
             Map.empty) :: (string \<rightharpoonup> WebhookConfiguration) \<times> (string \<rightharpoonup> WebhookConfiguration)"
  let ?run = "createWebhookConfigurations ?fs ?issue (demo_whc_api fst (\<lambda>m w. (m, snd w))) (demo_whc_api snd (\<lambda>m w. (fst w, m)))
                        ''erie-canal'' demo_cfg no_webhooks ?w"
  obtain res r w' where run: "?run = (res, r, w')"
    by (metis surj_pair)
  have cert: "issueCertForWebhook ?fs ?issue ''erie-canal'' demo_cfg ?w =
      (Inr \<lparr>ic_CrtPEM = ''crt'', ic_KeyPEM = ''key'', ic_CA = ''ca''\<rparr>, ?w)"
    by (simp add: issueCertForWebhook_def Let_def)
  have "res = Inr ()"
    using run unfolding createWebhookConfigurations_run [OF cert refl]
    by (simp add: apply_configuration_def demo_whc_api_def)
  moreover have "res = os_Exit \<or>
         (\<exists>cert w1. issueCertForWebhook ?fs ?issue ''erie-canal'' demo_cfg ?w = (Inr cert, w1) \<and> res = Inr () \<and>
            fst w' DefaultMutatingWebhookConfigurationName =
              Some \<lparr>whc_Name = DefaultMutatingWebhookConfigurationName,
                    whc_Webhooks = map snd (mutatingWebhooks (registered ''erie-canal'' (ic_CA cert) demo_cfg))\<rparr> \<and>
            snd w' DefaultValidatingWebhookConfigurationName =
              Some \<lparr>whc_Name = DefaultValidatingWebhookConfigurationName,
                    whc_Webhooks = map snd (validatingWebhooks (registered ''erie-canal'' (ic_CA cert) demo_cfg))\<rparr>)"
    by (rule webhook_configurations_current [OF _ _ run]) (simp_all add: demo_whc_server)
  ultimately show ?thesis
    unfolding Let_def run using cert by auto
qed

end
