(* ===== verification/Certificates.thy ===== *)
theory Certificates
  imports Mesh_Config
begin

text \<open>
  \<open>pkg/certificate\<close>: the certificate managers. Archon keeps a root CA in a secret that all replicas share and signs
  certificates itself (\<open>managers/archon\<close>); the other manager asks cert-manager to do both
  (\<open>managers/certmanager\<close>); \<open>config/config.go\<close> chooses between them.

  The functions of \<open>crypto\<close> and \<open>encoding/pem\<close>, the random source and the clock are the record \<open>crypto_lib\<close>; the
  API servers are \<open>secret_api\<close> and \<open>certmgr_api\<close>. A program is a function of the world that ends in a
  panic, an error or a value. Times and durations are in nanoseconds, as those of \<open>time\<close>. The text of an error that
  wraps another one is its constant part.
\<close>

section \<open>Programs\<close>

type_synonym ('a, 'w) io = "'w \<Rightarrow> 'a result go \<times> 'w"

definition io_return :: "'a \<Rightarrow> ('a, 'w) io" where
  "io_return a w = (Inr (Inr a), w)"

definition io_fail :: "go_error \<Rightarrow> ('a, 'w) io" where
  "io_fail err w = (Inr (Inl err), w)"

definition io_call :: "('w \<Rightarrow> 'a result \<times> 'w) \<Rightarrow> ('a, 'w) io" where
  "io_call f w = (case f w of (r, w) \<Rightarrow> (Inr r, w))"

definition io_result :: "'a result \<Rightarrow> ('a, 'w) io" where
  "io_result r w = (Inr r, w)"

definition io_go :: "'a result go \<Rightarrow> ('a, 'w) io" where
  "io_go r w = (r, w)"

definition io_bind :: "('a, 'w) io \<Rightarrow> ('a \<Rightarrow> ('b, 'w) io) \<Rightarrow> ('b, 'w) io" where
  "io_bind m f w =
     (case m w of
        (Inl p, w) \<Rightarrow> (Inl p, w)
      | (Inr (Inl err), w) \<Rightarrow> (Inr (Inl err), w)
      | (Inr (Inr a), w) \<Rightarrow> f a w)"

text \<open>An error with another text, \<open>fmt.Errorf\<close> around the error of a call.\<close>

definition io_wrap :: "string \<Rightarrow> ('a, 'w) io \<Rightarrow> ('a, 'w) io" where
  "io_wrap msg m w = (case m w of (Inr (Inl _), w) \<Rightarrow> (Inr (Inl (Errorf msg)), w) | rw \<Rightarrow> rw)"

lemma io_bind_iff [simp]:
  "io_bind m f w = (Inr (Inr b), w'') \<longleftrightarrow> (\<exists>a w'. m w = (Inr (Inr a), w') \<and> f a w' = (Inr (Inr b), w''))"
  by (auto simp: io_bind_def split: prod.splits sum.splits)

lemma io_simps [simp]:
  "io_return a w = (Inr (Inr b), w') \<longleftrightarrow> b = a \<and> w' = w"
  "io_fail err w = (Inr (Inr b), w') \<longleftrightarrow> False"
  "io_call f w = (Inr (Inr b), w') \<longleftrightarrow> f w = (Inr b, w')"
  "io_result r w = (Inr (Inr b), w') \<longleftrightarrow> r = Inr b \<and> w' = w"
  "io_go g w = (Inr (Inr b), w') \<longleftrightarrow> g = Inr (Inr b) \<and> w' = w"
  "io_wrap msg m w = (Inr (Inr b), w') \<longleftrightarrow> m w = (Inr (Inr b), w')"
  by (auto simp: io_return_def io_fail_def io_call_def io_result_def io_go_def io_wrap_def split: prod.splits sum.splits)

section \<open>Certificates and keys\<close>

record Certificate =
  ct_CommonName :: string
  ct_SerialNumber :: string
  ct_CA :: string
  ct_CrtPEM :: string
  ct_KeyPEM :: string
  ct_Expiration :: int

text \<open>The fields of an X.509 certificate that are set. A private key is of type \<open>rsa.PrivateKey\<close> or another one.\<close>

record x509_cert =
  x5_SerialNumber :: int
  x5_CommonName :: string
  x5_Country :: "string list"
  x5_Locality :: "string list"
  x5_Organization :: "string list"
  x5_DNSNames :: "string list"
  x5_NotBefore :: int
  x5_NotAfter :: int
  x5_IsCA :: bool
  x5_KeyUsage :: "string list"
  x5_ExtKeyUsage :: "string list"
  x5_BasicConstraintsValid :: bool

datatype private_key = RSAPrivateKey nat | OtherPrivateKey nat

record x509_csr =
  csr_CommonName :: string
  csr_Organization :: "string list"
  csr_DNSNames :: "string list"

record 'w crypto_lib =
  rand_Int :: "'w \<Rightarrow> int result \<times> 'w"
  time_Now :: "'w \<Rightarrow> int"
  rsa_GenerateKey :: "'w \<Rightarrow> nat result \<times> 'w"
  CreateCertificate :: "x509_cert \<Rightarrow> x509_cert \<Rightarrow> nat \<Rightarrow> nat \<Rightarrow> 'w \<Rightarrow> string result \<times> 'w"
  CreateCertificateRequest :: "x509_csr \<Rightarrow> nat \<Rightarrow> 'w \<Rightarrow> string result \<times> 'w"
  ParseCertificate :: "string \<Rightarrow> x509_cert result"
  ParsePKCS8PrivateKey :: "string \<Rightarrow> private_key result"
  MarshalPKCS8PrivateKey :: "private_key \<Rightarrow> string result"
  pem_Encode :: "string \<Rightarrow> string \<Rightarrow> string result"
  pem_Decode :: "string \<Rightarrow> string option"

definition cert_of_PEM :: "'w crypto_lib \<Rightarrow> string \<Rightarrow> x509_cert result" where
  "cert_of_PEM lib pemCrt =
     (case pem_Decode lib pemCrt of
        None \<Rightarrow> Inl (Errorf ''no valid certificate in PEM'')
      | Some bytes \<Rightarrow> ParseCertificate lib bytes)"

text \<open>The type assertion on the parsed key panics for a key of another type.\<close>

definition ConvertPEMPrivateKeyToX509 :: "'w crypto_lib \<Rightarrow> string \<Rightarrow> nat result go" where
  "ConvertPEMPrivateKeyToX509 lib pemKey =
     (case pem_Decode lib pemKey of
        None \<Rightarrow> Inr (Inl (Errorf ''no valid private key in PEM''))
      | Some bytes \<Rightarrow>
          (case ParsePKCS8PrivateKey lib bytes of
             Inl err \<Rightarrow> Inr (Inl err)
           | Inr (RSAPrivateKey key) \<Rightarrow> Inr (Inr key)
           | Inr (OtherPrivateKey _) \<Rightarrow> Inl (Panicked ''interface conversion'')))"

definition CertToPEM :: "'w crypto_lib \<Rightarrow> string \<Rightarrow> string result" where
  "CertToPEM lib caBytes =
     (case pem_Encode lib ''CERTIFICATE'' caBytes of Inl _ \<Rightarrow> Inl (Errorf ''encode cert'') | Inr pem \<Rightarrow> Inr pem)"

definition RSAKeyToPEM :: "'w crypto_lib \<Rightarrow> nat \<Rightarrow> string result" where
  "RSAKeyToPEM lib privateKey =
     (case MarshalPKCS8PrivateKey lib (RSAPrivateKey privateKey) of
        Inl _ \<Rightarrow> Inl (Errorf ''marshal private key'')
      | Inr privateBytes \<Rightarrow>
          (case pem_Encode lib ''PRIVATE KEY'' privateBytes of Inl _ \<Rightarrow> Inl (Errorf ''encode key'') | Inr pem \<Rightarrow> Inr pem))"

definition CsrToPEM :: "'w crypto_lib \<Rightarrow> string \<Rightarrow> string result" where
  "CsrToPEM lib csrBytes =
     (case pem_Encode lib ''CERTIFICATE REQUEST'' csrBytes of Inl _ \<Rightarrow> Inl (Errorf ''encode CSR'') | Inr pem \<Rightarrow> Inr pem)"

section \<open>Archon\<close>

abbreviation DefaultCAValidityPeriod :: int where "DefaultCAValidityPeriod \<equiv> 24 * 365 * 10 * 3600 * 1000000000"
abbreviation DefaultCACommonName :: string where "DefaultCACommonName \<equiv> ''flomesh.io''"
abbreviation DefaultCACountry :: string where "DefaultCACountry \<equiv> ''CN''"
abbreviation DefaultCALocality :: string where "DefaultCALocality \<equiv> ''Dalian''"
abbreviation DefaultCAOrganization :: string where "DefaultCAOrganization \<equiv> ''flomesh.io''"
abbreviation RootCACertName :: string where "RootCACertName \<equiv> ''ca.crt''"
abbreviation RootCAPrivateKeyName :: string where "RootCAPrivateKeyName \<equiv> ''ca.key''"
abbreviation TLSPrivateKeyName :: string where "TLSPrivateKeyName \<equiv> ''tls.key''"

definition archon_NewRootCA ::
  "'w crypto_lib \<Rightarrow> string \<Rightarrow> int \<Rightarrow> string \<Rightarrow> string \<Rightarrow> string \<Rightarrow> (Certificate, 'w) io"
where
  "archon_NewRootCA lib cn validityPeriod country locality organization =
     io_bind (io_wrap ''generate serial number'' (io_call (rand_Int lib))) (\<lambda>serialNumber.
     io_bind (\<lambda>w. io_return (time_Now lib w) w) (\<lambda>now.
     let ca = \<lparr>x5_SerialNumber = serialNumber, x5_CommonName = cn, x5_Country = [country], x5_Locality = [locality],
               x5_Organization = [organization], x5_DNSNames = [], x5_NotBefore = now, x5_NotAfter = now + validityPeriod,
               x5_IsCA = True, x5_KeyUsage = [''CertSign'', ''CRLSign''], x5_ExtKeyUsage = [], x5_BasicConstraintsValid = True\<rparr>
     in
     io_bind (io_call (rsa_GenerateKey lib)) (\<lambda>caPrivateKey.
     io_bind (io_wrap ''create cert'' (io_call (CreateCertificate lib ca ca caPrivateKey caPrivateKey))) (\<lambda>caBytes.
     io_bind (io_result (CertToPEM lib caBytes)) (\<lambda>pemCACrt.
     io_bind (io_result (RSAKeyToPEM lib caPrivateKey)) (\<lambda>pemCAKey.
     io_return \<lparr>ct_CommonName = cn, ct_SerialNumber = itoa serialNumber, ct_CA = pemCACrt, ct_CrtPEM = pemCACrt,
                ct_KeyPEM = pemCAKey, ct_Expiration = x5_NotAfter ca\<rparr>))))))"

record ArchonManager =
  am_ca :: Certificate
  am_certificates :: "(string, Certificate) gomap"

definition archon_NewManager :: "Certificate \<Rightarrow> ArchonManager" where
  "archon_NewManager ca = \<lparr>am_ca = ca, am_certificates = []\<rparr>"

definition archon_IssueCertificate ::
  "'w crypto_lib \<Rightarrow> string \<Rightarrow> int \<Rightarrow> string list \<Rightarrow> ArchonManager \<Rightarrow> (Certificate \<times> ArchonManager, 'w) io"
where
  "archon_IssueCertificate lib cn validityPeriod dnsNames m =
     io_bind (io_wrap ''generate serial number'' (io_call (rand_Int lib))) (\<lambda>serialNumber.
     io_bind (\<lambda>w. io_return (time_Now lib w) w) (\<lambda>now.
     let cert = \<lparr>x5_SerialNumber = serialNumber, x5_CommonName = cn, x5_Country = [], x5_Locality = [],
                 x5_Organization = [DefaultCAOrganization], x5_DNSNames = dnsNames, x5_NotBefore = now,
                 x5_NotAfter = now + validityPeriod, x5_IsCA = False, x5_KeyUsage = [''KeyEncipherment'', ''DigitalSignature''],
                 x5_ExtKeyUsage = [''ClientAuth'', ''ServerAuth''], x5_BasicConstraintsValid = True\<rparr>
     in
     io_bind (io_result (cert_of_PEM lib (ct_CrtPEM (am_ca m)))) (\<lambda>rootCert.
     io_bind (io_go (ConvertPEMPrivateKeyToX509 lib (ct_KeyPEM (am_ca m)))) (\<lambda>rootKey.
     io_bind (io_wrap ''generate private key'' (io_call (rsa_GenerateKey lib))) (\<lambda>tlsKey.
     io_bind (io_wrap ''create cert'' (io_call (CreateCertificate lib cert rootCert tlsKey rootKey))) (\<lambda>tlsBytes.
     io_bind (io_result (CertToPEM lib tlsBytes)) (\<lambda>pemTlsCert.
     io_bind (io_result (RSAKeyToPEM lib tlsKey)) (\<lambda>pemTlsKey.
     let issuedCert = \<lparr>ct_CommonName = cn, ct_SerialNumber = itoa serialNumber, ct_CA = ct_CrtPEM (am_ca m),
                       ct_CrtPEM = pemTlsCert, ct_KeyPEM = pemTlsKey, ct_Expiration = x5_NotAfter cert\<rparr>
     in io_return (issuedCert, m\<lparr>am_certificates := gput cn issuedCert (am_certificates m)\<rparr>)))))))))"

definition archon_GetCertificate :: "string \<Rightarrow> ArchonManager \<Rightarrow> Certificate result" where
  "archon_GetCertificate cn m =
     (if cn = [] then Inl (Errorf ''CN is empty'')
      else case gget (am_certificates m) cn of
             None \<Rightarrow> Inl (Errorf (''no certificate found for CN '' @ cn))
           | Some cert \<Rightarrow> Inr cert)"

definition archon_GetRootCertificate :: "ArchonManager \<Rightarrow> Certificate result" where
  "archon_GetRootCertificate m = Inr (am_ca m)"

section \<open>The root CA in a secret\<close>

record 'w secret_api =
  sec_create :: "Secret \<Rightarrow> 'w \<Rightarrow> unit result \<times> 'w"
  sec_get :: "NamespacedName \<Rightarrow> 'w \<Rightarrow> Secret result \<times> 'w"

text \<open>
  What \<open>getOrSaveCertificate\<close> and cert-manager's \<open>NewRootCA\<close> make of the secret they find: they differ in the key they
  read and in the error for a certificate that cannot be decoded.
\<close>

definition ca_of_secret :: "'w crypto_lib \<Rightarrow> string \<Rightarrow> (go_error \<Rightarrow> go_error) \<Rightarrow> Secret \<Rightarrow> Certificate result" where
  "ca_of_secret lib keyName wrapped secret =
     (case gget (secret_Data secret) RootCACertName of
        None \<Rightarrow> Inl (Errorf ''invalid secret data for cert'')
      | Some pemCACrt \<Rightarrow>
          (case gget (secret_Data secret) keyName of
             None \<Rightarrow> Inl (Errorf ''invalid secret data for cert'')
           | Some pemCAKey \<Rightarrow>
               (case cert_of_PEM lib pemCACrt of
                  Inl err \<Rightarrow> Inl (wrapped err)
                | Inr x509Cert \<Rightarrow>
                    Inr \<lparr>ct_CommonName = x5_CommonName x509Cert, ct_SerialNumber = itoa (x5_SerialNumber x509Cert),
                         ct_CA = pemCACrt, ct_CrtPEM = pemCACrt, ct_KeyPEM = pemCAKey,
                         ct_Expiration = x5_NotAfter x509Cert\<rparr>)))"

definition ca_secret :: "string \<Rightarrow> string \<Rightarrow> Certificate \<Rightarrow> Secret" where
  "ca_secret ns secretName cert =
     \<lparr>secret_Meta = named_meta ns secretName,
      secret_Data = [(RootCACertName, ct_CrtPEM cert), (RootCAPrivateKeyName, ct_KeyPEM cert)]\<rparr>"

definition getOrSaveCertificate ::
  "'w crypto_lib \<Rightarrow> 'w secret_api \<Rightarrow> string \<Rightarrow> string \<Rightarrow> Certificate \<Rightarrow> (Certificate, 'w) io"
where
  "getOrSaveCertificate lib api ns secretName cert =
     io_bind (\<lambda>w. case sec_create api (ca_secret ns secretName cert) w of
                     (Inl AlreadyExists, w) \<Rightarrow> io_return () w
                   | (Inl err, w) \<Rightarrow> io_fail err w
                   | (Inr _, w) \<Rightarrow> io_return () w) (\<lambda>_.
     io_bind (io_wrap ''CA bundle not found'' (io_call (sec_get api (nn ns secretName)))) (\<lambda>secret.
     io_result (ca_of_secret lib RootCAPrivateKeyName id secret)))"

definition getArchonCertificateManager ::
  "'w crypto_lib \<Rightarrow> 'w secret_api \<Rightarrow> string \<Rightarrow> MeshConfig \<Rightarrow> (ArchonManager, 'w) io"
where
  "getArchonCertificateManager lib api erieCanalNamespace mc =
     io_bind (io_wrap ''failed to generate root CA''
       (archon_NewRootCA lib DefaultCACommonName DefaultCAValidityPeriod DefaultCACountry DefaultCALocality DefaultCAOrganization))
       (\<lambda>rootCert.
     io_bind (io_wrap ''failed to get/create CA''
       (getOrSaveCertificate lib api (GetCaBundleNamespace erieCanalNamespace mc) (certc_CaBundleName (mc_Certificate mc)) rootCert))
       (\<lambda>rootCert. io_return (archon_NewManager rootCert)))"

section \<open>cert-manager\<close>

text \<open>Of the objects of cert-manager, the fields that are set or read.\<close>

record ObjectReference =
  or_Kind :: string
  or_Name :: string
  or_Group :: string

datatype IssuerConfig = SelfSignedIssuer | CAIssuer string

record Issuer =
  iss_Kind :: string
  iss_Group :: string
  iss_Meta :: ObjectMeta
  iss_Config :: IssuerConfig

record Condition =
  cond_Type :: string
  cond_Status :: string

record CmCertificate =
  cmcert_Meta :: ObjectMeta
  cmcert_IsCA :: bool
  cmcert_CommonName :: string
  cmcert_Duration :: int
  cmcert_Countries :: "string list"
  cmcert_Localities :: "string list"
  cmcert_Organizations :: "string list"
  cmcert_SerialNumber :: string
  cmcert_PrivateKey :: "int \<times> string \<times> string"
  cmcert_IssuerRef :: ObjectReference
  cmcert_SecretName :: string
  cmcert_Conditions :: "Condition list"

record CertificateRequest =
  cr_GenerateName :: string
  cr_Name :: string
  cr_Namespace :: string
  cr_Request :: string
  cr_IsCA :: bool
  cr_Duration :: int
  cr_Usages :: "string list"
  cr_IssuerRef :: ObjectReference
  cr_Conditions :: "Condition list"
  cr_Certificate :: "string option"
  cr_CA :: string

text \<open>The clients and listers of the \<open>Client\<close>; a lister reads the informer's store, which lags behind the API server.\<close>

record 'w certmgr_api =
  issuer_create :: "Issuer \<Rightarrow> 'w \<Rightarrow> Issuer result \<times> 'w"
  issuer_get :: "string \<Rightarrow> 'w \<Rightarrow> Issuer result \<times> 'w"
  cmcert_create :: "CmCertificate \<Rightarrow> 'w \<Rightarrow> CmCertificate result \<times> 'w"
  cmcert_list :: "string \<Rightarrow> 'w \<Rightarrow> CmCertificate result \<times> 'w"
  cr_create :: "CertificateRequest \<Rightarrow> 'w \<Rightarrow> CertificateRequest result \<times> 'w"
  cr_list :: "string \<Rightarrow> 'w \<Rightarrow> CertificateRequest result \<times> 'w"
  cr_delete :: "string \<Rightarrow> 'w \<Rightarrow> unit result \<times> 'w"

record certmgr_client =
  cl_ns :: string
  cl_mc :: MeshConfig

definition certmgr_NewClient :: "string \<Rightarrow> MeshConfig \<Rightarrow> certmgr_client" where
  "certmgr_NewClient erieCanalNamespace mc = \<lparr>cl_ns = GetCaBundleNamespace erieCanalNamespace mc, cl_mc = mc\<rparr>"

abbreviation CAIssuerName :: string where "CAIssuerName \<equiv> ''flomesh.io''"
abbreviation SelfSignedIssuerName :: string where "SelfSignedIssuerName \<equiv> ''self-signed.flomesh.io''"
abbreviation CertManagerRootCAName :: string where "CertManagerRootCAName \<equiv> ''flomesh-root-ca''"

text \<open>
  \<open>wait.PollImmediate\<close>: the condition is evaluated at once and then once per interval until it holds, fails or the time is
  over. The number of evaluations depends on the timer and is the argument \<open>polls\<close>; with an interval of one second
  and a timeout of sixty it is at most sixty-one.
\<close>

primrec PollImmediate :: "nat \<Rightarrow> ('a option, 'w) io \<Rightarrow> ('a, 'w) io" where
  "PollImmediate 0 condition = io_fail (Errorf ''timed out waiting for the condition'')"
| "PollImmediate (Suc polls) condition =
     io_bind condition (\<lambda>r. case r of Some a \<Rightarrow> io_return a | None \<Rightarrow> PollImmediate polls condition)"

definition ready :: "Condition \<Rightarrow> bool" where
  "ready condition \<longleftrightarrow> cond_Type condition = ''Ready'' \<and> cond_Status condition = ''True''"

text \<open>The closures that are polled: what they leave in the captured variable is the value of a finished poll.\<close>

definition ca_issued :: "'w certmgr_api \<Rightarrow> (CmCertificate option, 'w) io" where
  "ca_issued api w =
     (case cmcert_list api CertManagerRootCAName w of
        (Inl NotFound, w) \<Rightarrow> io_return None w
      | (Inl err, w) \<Rightarrow> io_fail err w
      | (Inr ca, w) \<Rightarrow> io_return (if \<exists>condition \<in> set (cmcert_Conditions ca). ready condition then Some ca else None) w)"

definition waitingForCAIssued :: "'w certmgr_api \<Rightarrow> nat \<Rightarrow> (CmCertificate, 'w) io" where
  "waitingForCAIssued api polls = PollImmediate polls (ca_issued api)"

definition request_issued :: "'w certmgr_api \<Rightarrow> string \<Rightarrow> (CertificateRequest option, 'w) io" where
  "request_issued api crName w =
     (case cr_list api crName w of
        (Inl NotFound, w) \<Rightarrow> io_return None w
      | (Inl err, w) \<Rightarrow> io_fail err w
      | (Inr cr, w) \<Rightarrow>
          io_return (if \<exists>condition \<in> set (cr_Conditions cr). ready condition \<and> cr_Certificate cr \<noteq> None
                     then Some cr else None) w)"

definition waitingForCertificateIssued :: "'w certmgr_api \<Rightarrow> nat \<Rightarrow> string \<Rightarrow> (CertificateRequest, 'w) io" where
  "waitingForCertificateIssued api polls crName = PollImmediate polls (request_issued api crName)"

definition create_issuer :: "'w certmgr_api \<Rightarrow> Issuer \<Rightarrow> (Issuer, 'w) io" where
  "create_issuer api issuer w =
     (case issuer_create api issuer w of
        (Inl AlreadyExists, w) \<Rightarrow> io_call (issuer_get api (meta_Name (iss_Meta issuer))) w
      | (Inl err, w) \<Rightarrow> io_fail err w
      | (Inr created, w) \<Rightarrow> io_return created w)"

definition selfSignedIssuer :: "'w certmgr_api \<Rightarrow> certmgr_client \<Rightarrow> (Issuer, 'w) io" where
  "selfSignedIssuer api c =
     create_issuer api \<lparr>iss_Kind = [], iss_Group = [], iss_Meta = named_meta (cl_ns c) SelfSignedIssuerName,
                        iss_Config = SelfSignedIssuer\<rparr>"

definition caIssuer :: "'w certmgr_api \<Rightarrow> certmgr_client \<Rightarrow> (Issuer, 'w) io" where
  "caIssuer api c =
     create_issuer api \<lparr>iss_Kind = [], iss_Group = [], iss_Meta = named_meta (cl_ns c) CAIssuerName,
                        iss_Config = CAIssuer (certc_CaBundleName (mc_Certificate (cl_mc c)))\<rparr>"

definition createCertManagerCertificate :: "'w certmgr_api \<Rightarrow> nat \<Rightarrow> CmCertificate \<Rightarrow> (CmCertificate, 'w) io" where
  "createCertManagerCertificate api polls cert w =
     (case cmcert_create api cert w of
        (Inl AlreadyExists, w) \<Rightarrow> waitingForCAIssued api polls w
      | (Inl err, w) \<Rightarrow> io_fail err w
      | (Inr _, w) \<Rightarrow> waitingForCAIssued api polls w)"

definition certmgr_NewRootCA ::
  "'w crypto_lib \<Rightarrow> 'w secret_api \<Rightarrow> 'w certmgr_api \<Rightarrow> nat \<Rightarrow> certmgr_client \<Rightarrow> string \<Rightarrow> int \<Rightarrow> string \<Rightarrow> string \<Rightarrow> string \<Rightarrow>
   (Certificate, 'w) io"
where
  "certmgr_NewRootCA lib sapi api polls client cn validityPeriod country locality organization =
     io_bind (selfSignedIssuer api client) (\<lambda>selfSigned.
     io_bind (io_wrap ''generate serial number'' (io_call (rand_Int lib))) (\<lambda>serialNumber.
     let secretName = certc_CaBundleName (mc_Certificate (cl_mc client));
         ca = \<lparr>cmcert_Meta = named_meta (cl_ns client) CertManagerRootCAName, cmcert_IsCA = True, cmcert_CommonName = cn,
               cmcert_Duration = validityPeriod, cmcert_Countries = [country], cmcert_Localities = [locality],
               cmcert_Organizations = [organization], cmcert_SerialNumber = itoa serialNumber,
               cmcert_PrivateKey = (2048, ''PKCS8'', ''RSA''),
               cmcert_IssuerRef = \<lparr>or_Kind = iss_Kind selfSigned, or_Name = meta_Name (iss_Meta selfSigned),
                                   or_Group = iss_Group selfSigned\<rparr>,
               cmcert_SecretName = secretName, cmcert_Conditions = []\<rparr>
     in
     io_bind (createCertManagerCertificate api polls ca) (\<lambda>_.
     io_bind (caIssuer api client) (\<lambda>_.
     io_bind (io_wrap ''failed to get cert-manager CA secret'' (io_call (sec_get sapi (nn (cl_ns client) secretName))))
       (\<lambda>secret.
     io_result (ca_of_secret lib TLSPrivateKeyName (\<lambda>_. Errorf ''failed to decoded root certificate'') secret))))))"

record CertManager =
  cmm_ca :: Certificate
  cmm_client :: certmgr_client
  cmm_issuerRef :: ObjectReference
  cmm_certificates :: "(string, Certificate) gomap"

definition certmgr_NewManager :: "Certificate \<Rightarrow> certmgr_client \<Rightarrow> CertManager" where
  "certmgr_NewManager ca client =
     \<lparr>cmm_ca = ca, cmm_client = client,
      cmm_issuerRef = \<lparr>or_Kind = ''Issuer'', or_Name = CAIssuerName, or_Group = ''cert-manager.io''\<rparr>,
      cmm_certificates = []\<rparr>"

definition createCertManagerCertificateRequest ::
  "'w certmgr_api \<Rightarrow> nat \<Rightarrow> CertificateRequest \<Rightarrow> (CertificateRequest, 'w) io"
where
  "createCertManagerCertificateRequest api polls certificateRequest =
     io_bind (io_call (cr_create api certificateRequest)) (\<lambda>cr. waitingForCertificateIssued api polls (cr_Name cr))"

definition certificate_request :: "CertManager \<Rightarrow> int \<Rightarrow> string \<Rightarrow> CertificateRequest" where
  "certificate_request m validityPeriod pemCSR =
     \<lparr>cr_GenerateName = ''cr-'', cr_Name = [], cr_Namespace = cl_ns (cmm_client m), cr_Request = pemCSR,
      cr_IsCA = False, cr_Duration = validityPeriod,
      cr_Usages = [''key encipherment'', ''digital signature'', ''client auth'', ''server auth''],
      cr_IssuerRef = cmm_issuerRef m, cr_Conditions = [], cr_Certificate = None, cr_CA = []\<rparr>"

definition certmgr_csr :: "string \<Rightarrow> string list \<Rightarrow> x509_csr" where
  "certmgr_csr cn dnsNames = \<lparr>csr_CommonName = cn, csr_Organization = [DefaultCAOrganization], csr_DNSNames = dnsNames\<rparr>"

text \<open>
  \<open>IssueCertificate\<close> from the answer to the request on. The deferred deletion runs on a normal return only, since it is
  registered after the last early return.
\<close>

definition after_request ::
  "'w crypto_lib \<Rightarrow> 'w certmgr_api \<Rightarrow> nat \<Rightarrow> CertManager \<Rightarrow> CertificateRequest \<Rightarrow> (Certificate \<times> CertManager, 'w) io"
where
  "after_request lib api tlsKey m cr =
     io_bind (io_result (RSAKeyToPEM lib tlsKey)) (\<lambda>pemTlsKey.
     let crt = (case cr_Certificate cr of None \<Rightarrow> [] | Some crt \<Rightarrow> crt) in
     io_bind (io_result (cert_of_PEM lib crt)) (\<lambda>cert.
     let issuedCert = \<lparr>ct_CommonName = x5_CommonName cert, ct_SerialNumber = itoa (x5_SerialNumber cert), ct_CA = cr_CA cr,
                       ct_CrtPEM = crt, ct_KeyPEM = pemTlsKey, ct_Expiration = x5_NotAfter cert\<rparr>
     in
     io_bind (\<lambda>w. case cr_delete api (cr_Name cr) w of (_, w) \<Rightarrow> io_return () w) (\<lambda>_.
     io_return (issuedCert,
                m\<lparr>cmm_certificates := gput (x5_CommonName cert) issuedCert (cmm_certificates m)\<rparr>))))"

definition certmgr_IssueCertificate ::
  "'w crypto_lib \<Rightarrow> 'w certmgr_api \<Rightarrow> nat \<Rightarrow> string \<Rightarrow> int \<Rightarrow> string list \<Rightarrow> CertManager \<Rightarrow>
   (Certificate \<times> CertManager, 'w) io"
where
  "certmgr_IssueCertificate lib api polls cn validityPeriod dnsNames m =
     io_bind (io_wrap ''generate private key'' (io_call (rsa_GenerateKey lib))) (\<lambda>tlsKey.
     io_bind (io_wrap ''error creating x509 certificate request'' (io_call (CreateCertificateRequest lib (certmgr_csr cn dnsNames) tlsKey)))
       (\<lambda>csrBytes.
     io_bind (io_wrap ''encode CSR'' (io_result (CsrToPEM lib csrBytes))) (\<lambda>pemCSR.
     io_bind (createCertManagerCertificateRequest api polls (certificate_request m validityPeriod pemCSR))
       (after_request lib api tlsKey m))))"
definition certmgr_GetCertificate :: "string \<Rightarrow> CertManager \<Rightarrow> Certificate result" where
  "certmgr_GetCertificate cn m =
     (if cn = [] then Inl (Errorf ''CN is empty'')
      else case gget (cmm_certificates m) cn of
             None \<Rightarrow> Inl (Errorf (''no certificate found for CN '' @ cn))
           | Some cert \<Rightarrow> Inr cert)"

definition certmgr_GetRootCertificate :: "CertManager \<Rightarrow> Certificate result" where
  "certmgr_GetRootCertificate m = Inr (cmm_ca m)"

section \<open>Choosing a manager\<close>

definition getCertManagerCertificateManager ::
  "'w crypto_lib \<Rightarrow> 'w secret_api \<Rightarrow> 'w certmgr_api \<Rightarrow> nat \<Rightarrow> string \<Rightarrow> MeshConfig \<Rightarrow> (CertManager, 'w) io"
where
  "getCertManagerCertificateManager lib sapi api polls erieCanalNamespace mc =
     (let client = certmgr_NewClient erieCanalNamespace mc in
      io_bind (io_wrap ''failed to create/get root CA''
        (certmgr_NewRootCA lib sapi api polls client
           DefaultCACommonName DefaultCAValidityPeriod DefaultCACountry DefaultCALocality DefaultCAOrganization))
        (\<lambda>rootCert. io_return (certmgr_NewManager rootCert client)))"

datatype cert_mgr = Archon ArchonManager | CertMgr CertManager

text \<open>The interface \<open>Manager\<close>.\<close>

fun mgr_IssueCertificate ::
  "'w crypto_lib \<Rightarrow> 'w certmgr_api \<Rightarrow> nat \<Rightarrow> string \<Rightarrow> int \<Rightarrow> string list \<Rightarrow> cert_mgr \<Rightarrow> (Certificate \<times> cert_mgr, 'w) io"
where
  "mgr_IssueCertificate lib api polls cn validityPeriod dnsNames (Archon m) =
     io_bind (archon_IssueCertificate lib cn validityPeriod dnsNames m) (\<lambda>(c, m). io_return (c, Archon m))"
| "mgr_IssueCertificate lib api polls cn validityPeriod dnsNames (CertMgr m) =
     io_bind (certmgr_IssueCertificate lib api polls cn validityPeriod dnsNames m) (\<lambda>(c, m). io_return (c, CertMgr m))"

fun mgr_GetCertificate :: "string \<Rightarrow> cert_mgr \<Rightarrow> Certificate result" where
  "mgr_GetCertificate cn (Archon m) = archon_GetCertificate cn m"
| "mgr_GetCertificate cn (CertMgr m) = certmgr_GetCertificate cn m"

fun mgr_GetRootCertificate :: "cert_mgr \<Rightarrow> Certificate result" where
  "mgr_GetRootCertificate (Archon m) = archon_GetRootCertificate m"
| "mgr_GetRootCertificate (CertMgr m) = certmgr_GetRootCertificate m"

definition getManualCertificateManager :: "(cert_mgr, 'w) io" where
  "getManualCertificateManager w = (Inl (Panicked ''Not implemented yet.''), w)"

definition GetCertificateManager ::
  "'w crypto_lib \<Rightarrow> 'w secret_api \<Rightarrow> 'w certmgr_api \<Rightarrow> nat \<Rightarrow> string \<Rightarrow> MeshConfig \<Rightarrow> (cert_mgr, 'w) io"
where
  "GetCertificateManager lib sapi api polls erieCanalNamespace mc =
     (let manager = certc_Manager (mc_Certificate mc) in
      if manager = ''manual'' then getManualCertificateManager
      else if manager = ''archon''
      then io_bind (getArchonCertificateManager lib sapi erieCanalNamespace mc) (\<lambda>m. io_return (Archon m))
      else if manager = ''cert-manager''
      then io_bind (getCertManagerCertificateManager lib sapi api polls erieCanalNamespace mc) (\<lambda>m. io_return (CertMgr m))
      else io_fail (Errorf (manager @ '' is not a valid certificate manager'')))"

section \<open>Specifications\<close>

text \<open>
  What \<open>crypto/x509\<close> and \<open>encoding/pem\<close> document: PEM and PKCS8 are read back, and a certificate that
  was created is parsed to its template with times cut to seconds, has the public key it was made for and is signed with
  the key it was given. \<open>pub\<close> is the public key in a certificate (named by its private key) and
  \<open>sgn_by\<close> tells which key a certificate is signed with.
\<close>

definition whole_seconds :: "int \<Rightarrow> int" where
  "whole_seconds t = t div 1000000000 * 1000000000"

definition as_parsed :: "x509_cert \<Rightarrow> x509_cert" where
  "as_parsed t = t\<lparr>x5_NotBefore := whole_seconds (x5_NotBefore t), x5_NotAfter := whole_seconds (x5_NotAfter t)\<rparr>"

definition crypto_laws :: "'w crypto_lib \<Rightarrow> (string \<Rightarrow> nat) \<Rightarrow> (string \<Rightarrow> nat \<Rightarrow> bool) \<Rightarrow> bool" where
  "crypto_laws lib pub sgn_by \<longleftrightarrow>
     (\<forall>ty b p. pem_Encode lib ty b = Inr p \<longrightarrow> pem_Decode lib p = Some b) \<and>
     (\<forall>k b. MarshalPKCS8PrivateKey lib k = Inr b \<longrightarrow> ParsePKCS8PrivateKey lib b = Inr k) \<and>
     (\<forall>t parent k sk w d w'. CreateCertificate lib t parent k sk w = (Inr d, w') \<longrightarrow>
        ParseCertificate lib d = Inr (as_parsed t) \<and> pub d = k \<and> sgn_by d sk)"

lemma crypto_lawsD:
  assumes "crypto_laws lib pub sgn_by"
  shows "pem_Encode lib ty b = Inr p \<Longrightarrow> pem_Decode lib p = Some b"
    and "MarshalPKCS8PrivateKey lib key = Inr b \<Longrightarrow> ParsePKCS8PrivateKey lib b = Inr key"
    and "CreateCertificate lib t parent k sk w = (Inr d, w') \<Longrightarrow>
           ParseCertificate lib d = Inr (as_parsed t) \<and> pub d = k \<and> sgn_by d sk"
  using assms unfolding crypto_laws_def by metis+

text \<open>A certificate and the private key for it; a certificate that may sign; a certificate that a CA has signed.\<close>

definition key_pair :: "'w crypto_lib \<Rightarrow> (string \<Rightarrow> nat) \<Rightarrow> string \<Rightarrow> string \<Rightarrow> bool" where
  "key_pair lib pub crtPEM keyPEM \<longleftrightarrow>
     (\<exists>d k. pem_Decode lib crtPEM = Some d \<and> ConvertPEMPrivateKeyToX509 lib keyPEM = Inr (Inr k) \<and> pub d = k)"

definition may_sign :: "'w crypto_lib \<Rightarrow> string \<Rightarrow> bool" where
  "may_sign lib crtPEM \<longleftrightarrow>
     (\<exists>c. cert_of_PEM lib crtPEM = Inr c \<and> x5_IsCA c \<and> x5_BasicConstraintsValid c \<and> ''CertSign'' \<in> set (x5_KeyUsage c))"

definition verifies :: "'w crypto_lib \<Rightarrow> (string \<Rightarrow> nat) \<Rightarrow> (string \<Rightarrow> nat \<Rightarrow> bool) \<Rightarrow> string \<Rightarrow> string \<Rightarrow> bool" where
  "verifies lib pub sgn_by crtPEM caPEM \<longleftrightarrow>
     may_sign lib caPEM \<and>
     (\<exists>d dca. pem_Decode lib crtPEM = Some d \<and> pem_Decode lib caPEM = Some dca \<and> sgn_by d (pub dca))"

definition good_ca :: "'w crypto_lib \<Rightarrow> (string \<Rightarrow> nat) \<Rightarrow> string \<Rightarrow> string \<Rightarrow> bool" where
  "good_ca lib pub crtPEM keyPEM \<longleftrightarrow> may_sign lib crtPEM \<and> key_pair lib pub crtPEM keyPEM"

lemma CertToPEM_decode:
  "crypto_laws lib pub sgn_by \<Longrightarrow> CertToPEM lib d = Inr p \<Longrightarrow> pem_Decode lib p = Some d"
  by (auto simp: CertToPEM_def dest: crypto_lawsD(1) split: sum.splits)

lemma RSAKeyToPEM_convert:
  "crypto_laws lib pub sgn_by \<Longrightarrow> RSAKeyToPEM lib k = Inr p \<Longrightarrow> ConvertPEMPrivateKeyToX509 lib p = Inr (Inr k)"
  by (auto simp: RSAKeyToPEM_def ConvertPEMPrivateKeyToX509_def crypto_lawsD(1,2) split: sum.splits)

lemma NewRootCA_good:
  assumes laws: "crypto_laws lib pub sgn_by"
    and new: "archon_NewRootCA lib cn v country locality org w = (Inr (Inr ca), w')"
  shows "good_ca lib pub (ct_CrtPEM ca) (ct_KeyPEM ca) \<and> ct_CA ca = ct_CrtPEM ca"
  using new
  by (auto simp: archon_NewRootCA_def Let_def good_ca_def may_sign_def key_pair_def cert_of_PEM_def as_parsed_def
      CertToPEM_decode [OF laws] RSAKeyToPEM_convert [OF laws] dest!: crypto_lawsD(3) [OF laws])

lemma archon_issued:
  assumes laws: "crypto_laws lib pub sgn_by" and ca: "good_ca lib pub (ct_CrtPEM (am_ca m)) (ct_KeyPEM (am_ca m))"
    and iss: "archon_IssueCertificate lib cn v dns m w = (Inr (Inr (c, m')), w')"
  shows "verifies lib pub sgn_by (ct_CrtPEM c) (ct_CA c)" "key_pair lib pub (ct_CrtPEM c) (ct_KeyPEM c)"
    and "ct_CA c = ct_CrtPEM (am_ca m)" "am_ca m' = am_ca m"
    and "\<exists>x. cert_of_PEM lib (ct_CrtPEM c) = Inr x \<and> x5_CommonName x = cn \<and> x5_DNSNames x = dns \<and> \<not> x5_IsCA x"
  using iss ca
  by (auto simp: archon_IssueCertificate_def Let_def good_ca_def verifies_def key_pair_def cert_of_PEM_def as_parsed_def
      CertToPEM_decode [OF laws] RSAKeyToPEM_convert [OF laws] dest!: crypto_lawsD(3) [OF laws])

section \<open>The shared root CA\<close>

text \<open>
  The API server seen by one replica while others run. \<open>later\<close> orders the worlds of one history and
  \<open>stored\<close> is the content of the secret at a key. A secret that is read is the one stored, and it is not overwritten
  later on: \<open>Create\<close> never overwrites and nobody else changes the bundle. The other participants create only bundles
  that pair a CA with its key, so a call keeps that if its own secret has it.
\<close>

definition bundle_ok :: "'w crypto_lib \<Rightarrow> (string \<Rightarrow> nat) \<Rightarrow> Secret \<Rightarrow> bool" where
  "bundle_ok lib pub secret \<longleftrightarrow>
     (\<forall>crtPEM keyPEM. gget (secret_Data secret) RootCACertName = Some crtPEM \<longrightarrow>
        gget (secret_Data secret) RootCAPrivateKeyName = Some keyPEM \<longrightarrow> good_ca lib pub crtPEM keyPEM)"

definition bundles_ok ::
  "'w crypto_lib \<Rightarrow> (string \<Rightarrow> nat) \<Rightarrow> ('w \<Rightarrow> NamespacedName \<Rightarrow> Secret option) \<Rightarrow> NamespacedName \<Rightarrow> 'w \<Rightarrow> bool"
where
  "bundles_ok lib pub stored key w \<longleftrightarrow> (\<forall>secret. stored w key = Some secret \<longrightarrow> bundle_ok lib pub secret)"

definition secret_server ::
  "'w crypto_lib \<Rightarrow> 'w secret_api \<Rightarrow> (string \<Rightarrow> nat) \<Rightarrow> ('w \<Rightarrow> NamespacedName \<Rightarrow> Secret option) \<Rightarrow> ('w \<Rightarrow> 'w \<Rightarrow> bool) \<Rightarrow> bool"
where
  "secret_server lib api pub stored later \<longleftrightarrow>
     (\<forall>w w' key secret. later w w' \<longrightarrow> stored w key = Some secret \<longrightarrow> stored w' key = Some secret) \<and>
     (\<forall>key w secret w'. sec_get api key w = (Inr secret, w') \<longrightarrow> stored w' key = Some secret) \<and>
     (\<forall>key k w. bundles_ok lib pub stored key w \<longrightarrow> bundles_ok lib pub stored key (snd (sec_get api k w))) \<and>
     (\<forall>key secret w. bundles_ok lib pub stored key w \<longrightarrow> bundle_ok lib pub secret \<longrightarrow>
        bundles_ok lib pub stored key (snd (sec_create api secret w))) \<and>
     (\<forall>key w. bundles_ok lib pub stored key w \<longrightarrow> bundles_ok lib pub stored key (snd (rand_Int lib w))) \<and>
     (\<forall>key w. bundles_ok lib pub stored key w \<longrightarrow> bundles_ok lib pub stored key (snd (rsa_GenerateKey lib w))) \<and>
     (\<forall>key t parent k sk w. bundles_ok lib pub stored key w \<longrightarrow>
        bundles_ok lib pub stored key (snd (CreateCertificate lib t parent k sk w)))"

lemma secret_serverD:
  assumes "secret_server lib api pub stored later"
  shows "later w w' \<Longrightarrow> stored w key = Some secret \<Longrightarrow> stored w' key = Some secret"
    and "sec_get api key w = (Inr secret, w') \<Longrightarrow> stored w' key = Some secret"
    and "sec_get api k w = (r, w') \<Longrightarrow> bundles_ok lib pub stored key w \<Longrightarrow> bundles_ok lib pub stored key w'"
    and "sec_create api secret w = (r', w') \<Longrightarrow> bundles_ok lib pub stored key w \<Longrightarrow> bundle_ok lib pub secret \<Longrightarrow>
           bundles_ok lib pub stored key w'"
    and "rand_Int lib w = (ri, w') \<Longrightarrow> bundles_ok lib pub stored key w \<Longrightarrow> bundles_ok lib pub stored key w'"
    and "rsa_GenerateKey lib w = (rk, w') \<Longrightarrow> bundles_ok lib pub stored key w \<Longrightarrow> bundles_ok lib pub stored key w'"
    and "CreateCertificate lib t parent j sk w = (rc, w') \<Longrightarrow> bundles_ok lib pub stored key w \<Longrightarrow>
           bundles_ok lib pub stored key w'"
  using assms unfolding secret_server_def by (metis snd_conv)+

lemma NewRootCA_world:
  assumes "secret_server lib api pub stored later" "bundles_ok lib pub stored key w"
    and "archon_NewRootCA lib cn v country locality org w = (Inr (Inr ca), w')"
  shows "bundles_ok lib pub stored key w'"
  using assms(2,3) by (auto simp: archon_NewRootCA_def Let_def dest: secret_serverD(5-7) [OF assms(1)])

lemma ca_secret_ok: "good_ca lib pub (ct_CrtPEM ca) (ct_KeyPEM ca) \<Longrightarrow> bundle_ok lib pub (ca_secret ns nm ca)"
  by (simp add: bundle_ok_def ca_secret_def)

lemma ca_of_secretD:
  "ca_of_secret lib keyName f secret = Inr ca \<Longrightarrow>
   gget (secret_Data secret) RootCACertName = Some (ct_CrtPEM ca) \<and> gget (secret_Data secret) keyName = Some (ct_KeyPEM ca)"
  by (auto simp: ca_of_secret_def split: option.splits sum.splits)

lemma ca_secret_meta: "secret_Meta (ca_secret ns nm cert) = named_meta ns nm"
  by (simp add: ca_secret_def)

lemma getOrSaveCertificateD:
  assumes "getOrSaveCertificate lib api ns nm cert w = (Inr (Inr ca), w')"
  shows "\<exists>r w1 secret. sec_create api (ca_secret ns nm cert) w = (r, w1) \<and> sec_get api (nn ns nm) w1 = (Inr secret, w') \<and>
           ca_of_secret lib RootCAPrivateKeyName id secret = Inr ca"
  using assms
  by (cases "sec_create api (ca_secret ns nm cert) w")
     (auto simp: getOrSaveCertificate_def split: sum.splits go_error.splits)

abbreviation bundle_key :: "string \<Rightarrow> MeshConfig \<Rightarrow> NamespacedName" where
  "bundle_key ens mc \<equiv> nn (GetCaBundleNamespace ens mc) (certc_CaBundleName (mc_Certificate mc))"

lemma archon_manager_root:
  assumes srv: "secret_server lib api pub stored later" and laws: "crypto_laws lib pub sgn_by"
    and ok: "bundles_ok lib pub stored (bundle_key ens mc) w"
    and run: "getArchonCertificateManager lib api ens mc w = (Inr (Inr m), w')"
  shows "\<exists>secret. stored w' (bundle_key ens mc) = Some secret \<and> ca_of_secret lib RootCAPrivateKeyName id secret = Inr (am_ca m)"
    and "good_ca lib pub (ct_CrtPEM (am_ca m)) (ct_KeyPEM (am_ca m))"
proof -
  let ?key = "bundle_key ens mc"
  obtain ca w1 r w2 secret root where
    ca: "archon_NewRootCA lib DefaultCACommonName DefaultCAValidityPeriod DefaultCACountry DefaultCALocality
           DefaultCAOrganization w = (Inr (Inr ca), w1)"
    and create: "sec_create api (ca_secret (GetCaBundleNamespace ens mc) (certc_CaBundleName (mc_Certificate mc)) ca) w1 = (r, w2)"
    and get: "sec_get api ?key w2 = (Inr secret, w')"
    and root: "ca_of_secret lib RootCAPrivateKeyName id secret = Inr root" "m = archon_NewManager root"
    using run by (auto simp: getArchonCertificateManager_def dest!: getOrSaveCertificateD)
  have "bundle_ok lib pub (ca_secret (GetCaBundleNamespace ens mc) (certc_CaBundleName (mc_Certificate mc)) ca)"
    using NewRootCA_good [OF laws ca] by (simp add: ca_secret_ok)
  then have "bundles_ok lib pub stored ?key w'"
    using secret_serverD(3) [OF srv get] secret_serverD(4) [OF srv create] NewRootCA_world [OF srv ok ca] by blast
  then have "bundle_ok lib pub secret"
    using secret_serverD(2) [OF srv get] by (simp add: bundles_ok_def)
  then show "good_ca lib pub (ct_CrtPEM (am_ca m)) (ct_KeyPEM (am_ca m))"
    using ca_of_secretD [OF root(1)] root(2) by (simp add: bundle_ok_def archon_NewManager_def)
  show "\<exists>secret. stored w' ?key = Some secret \<and> ca_of_secret lib RootCAPrivateKeyName id secret = Inr (am_ca m)"
    using secret_serverD(2) [OF srv get] root by (simp add: archon_NewManager_def)
qed

text \<open>C18. Two replicas that start at any time, also overlapping, have the same root CA. A certificate that one of them issues
  verifies with the root certificate of the other.
\<close>

theorem replicas_share_root:
  assumes srv: "secret_server lib api pub stored later" and laws: "crypto_laws lib pub sgn_by"
    and ok: "bundles_ok lib pub stored (bundle_key ens mc) wa" "bundles_ok lib pub stored (bundle_key ens mc) wb"
    and a: "getArchonCertificateManager lib api ens mc wa = (Inr (Inr ma), wa')"
    and b: "getArchonCertificateManager lib api ens mc wb = (Inr (Inr mb), wb')"
    and hist: "later wa' wb' \<or> later wb' wa'"
    and iss: "archon_IssueCertificate lib cn v dns ma w = (Inr (Inr (c, ma')), w')"
  shows "\<exists>root. archon_GetRootCertificate ma = Inr root \<and> archon_GetRootCertificate mb = Inr root \<and>
           verifies lib pub sgn_by (ct_CrtPEM c) (ct_CrtPEM root) \<and> key_pair lib pub (ct_CrtPEM c) (ct_KeyPEM c)"
proof -
  obtain sa sb where sa: "stored wa' (bundle_key ens mc) = Some sa" "ca_of_secret lib RootCAPrivateKeyName id sa = Inr (am_ca ma)"
    and sb: "stored wb' (bundle_key ens mc) = Some sb" "ca_of_secret lib RootCAPrivateKeyName id sb = Inr (am_ca mb)"
    using archon_manager_root(1) [OF srv laws ok(1) a] archon_manager_root(1) [OF srv laws ok(2) b] by blast
  have "sa = sb"
    using hist secret_serverD(1) [OF srv, of wa' wb', OF _ sa(1)] secret_serverD(1) [OF srv, of wb' wa', OF _ sb(1)] sa(1) sb(1)
    by auto
  then show ?thesis
    using sa sb archon_issued [OF laws archon_manager_root(2) [OF srv laws ok(1) a] iss]
    by (auto simp: archon_GetRootCertificate_def)
qed

text \<open>
  A library whose certificates spell out their keys and that knows two templates, and an API server with a map of
  secrets; the world also counts the keys that were generated.
\<close>

type_synonym demo_certs = "nat \<times> (NamespacedName \<rightharpoonup> Secret)"

definition demo_root_x509 :: x509_cert where
  "demo_root_x509 =
     \<lparr>x5_SerialNumber = 7, x5_CommonName = DefaultCACommonName, x5_Country = [DefaultCACountry],
      x5_Locality = [DefaultCALocality], x5_Organization = [DefaultCAOrganization], x5_DNSNames = [], x5_NotBefore = 0,
      x5_NotAfter = DefaultCAValidityPeriod, x5_IsCA = True, x5_KeyUsage = [''CertSign'', ''CRLSign''], x5_ExtKeyUsage = [],
      x5_BasicConstraintsValid = True\<rparr>"

definition demo_leaf_x509 :: x509_cert where
  "demo_leaf_x509 =
     \<lparr>x5_SerialNumber = 7, x5_CommonName = ''ingress-pipy'', x5_Country = [], x5_Locality = [],
      x5_Organization = [DefaultCAOrganization], x5_DNSNames = [], x5_NotBefore = 0,
      x5_NotAfter = DefaultCAValidityPeriod, x5_IsCA = False, x5_KeyUsage = [''KeyEncipherment'', ''DigitalSignature''],
      x5_ExtKeyUsage = [''ClientAuth'', ''ServerAuth''], x5_BasicConstraintsValid = True\<rparr>"

definition demo_der :: "char \<Rightarrow> nat \<Rightarrow> nat \<Rightarrow> string" where
  "demo_der kind k sk = kind # replicate k CHR ''p'' @ replicate sk CHR ''s''"

definition demo_pub :: "string \<Rightarrow> nat" where
  "demo_pub d = length (filter (\<lambda>c. c = CHR ''p'') (tl d))"

definition demo_sgn_by :: "string \<Rightarrow> nat \<Rightarrow> bool" where
  "demo_sgn_by d sk \<longleftrightarrow> length (filter (\<lambda>c. c = CHR ''s'') (tl d)) = sk"

definition demo_crypto :: "demo_certs crypto_lib" where
  "demo_crypto =
     \<lparr>rand_Int = (\<lambda>w. (Inr 7, w)),
      time_Now = (\<lambda>_. 0),
      rsa_GenerateKey = (\<lambda>(n, st). (Inr (Suc n), (Suc n, st))),
      CreateCertificate = (\<lambda>t parent k sk w.
        if as_parsed t = demo_root_x509 then (Inr (demo_der CHR ''R'' k sk), w)
        else if as_parsed t = demo_leaf_x509 then (Inr (demo_der CHR ''L'' k sk), w)
        else (Inl (Errorf ''unsupported''), w)),
      CreateCertificateRequest = (\<lambda>_ _ w. (Inl (Errorf ''unsupported''), w)),
      ParseCertificate = (\<lambda>d. case d of
          [] \<Rightarrow> Inl (Errorf ''malformed'')
        | c # _ \<Rightarrow> if c = CHR ''R'' then Inr demo_root_x509 else Inr demo_leaf_x509),
      ParsePKCS8PrivateKey = (\<lambda>b. case b of
          [] \<Rightarrow> Inl (Errorf ''malformed'')
        | c # ks \<Rightarrow> if c = CHR ''r'' then Inr (RSAPrivateKey (length ks)) else Inr (OtherPrivateKey (length ks))),
      MarshalPKCS8PrivateKey = (\<lambda>k. case k of
          RSAPrivateKey n \<Rightarrow> Inr (CHR ''r'' # replicate n CHR ''k'') | OtherPrivateKey n \<Rightarrow> Inr (CHR ''o'' # replicate n CHR ''k'')),
      pem_Encode = (\<lambda>_ b. Inr (CHR ''-'' # b)),
      pem_Decode = (\<lambda>p. case p of [] \<Rightarrow> None | _ # b \<Rightarrow> Some b)\<rparr>"

definition demo_secrets :: "demo_certs secret_api" where
  "demo_secrets =
     \<lparr>sec_create = (\<lambda>s (n, st).
        let key = nn (meta_Namespace (secret_Meta s)) (meta_Name (secret_Meta s)) in
        if st key = None then (Inr (), (n, st(key \<mapsto> s))) else (Inl AlreadyExists, (n, st))),
      sec_get = (\<lambda>key (n, st). case st key of None \<Rightarrow> (Inl NotFound, (n, st)) | Some s \<Rightarrow> (Inr s, (n, st)))\<rparr>"

lemma demo_crypto_laws: "crypto_laws demo_crypto demo_pub demo_sgn_by"
  by (auto simp: crypto_laws_def demo_crypto_def demo_der_def demo_pub_def demo_sgn_by_def split: private_key.splits if_splits)

lemma demo_secret_server:
  "secret_server demo_crypto demo_secrets demo_pub snd (\<lambda>w w'. snd w \<subseteq>\<^sub>m snd w')"
  by (auto simp: secret_server_def demo_secrets_def demo_crypto_def bundles_ok_def map_le_def dom_def Let_def
      split: option.splits if_splits)

definition demo_bundle_config :: MeshConfig where
  "demo_bundle_config = zero_MeshConfig\<lparr>mc_Certificate :=
     \<lparr>certc_Manager = ''archon'', certc_CaBundleName = ''bundle'', certc_CaBundleNamespace = ''ec''\<rparr>\<rparr>"

definition demo_root_ca :: Certificate where
  "demo_root_ca =
     \<lparr>ct_CommonName = DefaultCACommonName, ct_SerialNumber = itoa 7, ct_CA = ''-Rps'', ct_CrtPEM = ''-Rps'', ct_KeyPEM = ''-rk'',
      ct_Expiration = DefaultCAValidityPeriod\<rparr>"

abbreviation demo_bundle_store :: "NamespacedName \<rightharpoonup> Secret" where
  "demo_bundle_store \<equiv> [nn ''ec'' ''bundle'' \<mapsto> ca_secret ''ec'' ''bundle'' demo_root_ca]"

lemma demo_as_parsed:
  "as_parsed demo_root_x509 = demo_root_x509" "as_parsed demo_leaf_x509 = demo_leaf_x509" "demo_leaf_x509 \<noteq> demo_root_x509"
  by (simp_all add: as_parsed_def demo_root_x509_def demo_leaf_x509_def whole_seconds_def)

lemmas demo_run = io_bind_def io_return_def io_call_def io_result_def io_wrap_def io_go_def Let_def

lemma demo_NewRootCA:
  "archon_NewRootCA demo_crypto DefaultCACommonName DefaultCAValidityPeriod DefaultCACountry DefaultCALocality
     DefaultCAOrganization (n, st) =
   (Inr (Inr (demo_root_ca\<lparr>ct_CA := CHR ''-'' # demo_der CHR ''R'' (Suc n) (Suc n), ct_CrtPEM := CHR ''-'' # demo_der CHR ''R'' (Suc n) (Suc n),
                ct_KeyPEM := CHR ''-'' # CHR ''r'' # replicate (Suc n) CHR ''k''\<rparr>)), (Suc n, st))"
  using demo_as_parsed(1)
  by (simp add: archon_NewRootCA_def demo_run demo_crypto_def demo_root_x509_def CertToPEM_def RSAKeyToPEM_def demo_root_ca_def)

lemma demo_ca_of_secret:
  "ca_of_secret demo_crypto RootCAPrivateKeyName id (ca_secret ns nm demo_root_ca) = Inr demo_root_ca"
  by (simp add: ca_of_secret_def ca_secret_def demo_root_ca_def cert_of_PEM_def demo_crypto_def demo_root_x509_def)

lemma demo_first_replica:
  "getArchonCertificateManager demo_crypto demo_secrets ''ec'' demo_bundle_config (0, Map.empty) =
   (Inr (Inr (archon_NewManager demo_root_ca)), (1, demo_bundle_store))"
proof -
  have "demo_root_ca\<lparr>ct_CA := CHR ''-'' # demo_der CHR ''R'' (Suc 0) (Suc 0), ct_CrtPEM := CHR ''-'' # demo_der CHR ''R'' (Suc 0) (Suc 0),
          ct_KeyPEM := CHR ''-'' # CHR ''r'' # replicate (Suc 0) CHR ''k''\<rparr> = demo_root_ca"
    by (simp add: demo_root_ca_def demo_der_def)
  then show ?thesis
    by (simp add: getArchonCertificateManager_def getOrSaveCertificate_def demo_run demo_NewRootCA [simplified] demo_secrets_def
        demo_bundle_config_def GetCaBundleNamespace_def demo_ca_of_secret ca_secret_meta)
qed

lemma demo_second_replica:
  "getArchonCertificateManager demo_crypto demo_secrets ''ec'' demo_bundle_config (1, demo_bundle_store) =
   (Inr (Inr (archon_NewManager demo_root_ca)), (2, demo_bundle_store))"
  by (simp add: getArchonCertificateManager_def getOrSaveCertificate_def demo_run demo_NewRootCA [simplified] demo_secrets_def
      demo_bundle_config_def GetCaBundleNamespace_def demo_ca_of_secret ca_secret_meta)

lemma demo_issue:
  "archon_IssueCertificate demo_crypto ''ingress-pipy'' DefaultCAValidityPeriod [] (archon_NewManager demo_root_ca) (2, st) =
   (let c = \<lparr>ct_CommonName = ''ingress-pipy'', ct_SerialNumber = itoa 7, ct_CA = ''-Rps'', ct_CrtPEM = ''-Lppps'',
             ct_KeyPEM = ''-rkkk'', ct_Expiration = DefaultCAValidityPeriod\<rparr>
    in (Inr (Inr (c, \<lparr>am_ca = demo_root_ca, am_certificates = [(''ingress-pipy'', c)]\<rparr>)), (3, st)))"
  using demo_as_parsed(2,3)
  by (simp add: archon_IssueCertificate_def demo_run demo_crypto_def demo_leaf_x509_def CertToPEM_def RSAKeyToPEM_def
      demo_root_ca_def archon_NewManager_def cert_of_PEM_def ConvertPEMPrivateKeyToX509_def demo_der_def numeral_eq_Suc)

lemma demo_bundles_ok:
  "bundles_ok demo_crypto demo_pub snd (bundle_key ''ec'' demo_bundle_config) (0, Map.empty)"
  "bundles_ok demo_crypto demo_pub snd (bundle_key ''ec'' demo_bundle_config) (1, demo_bundle_store)"
  by (simp_all add: bundles_ok_def bundle_ok_def ca_secret_def demo_root_ca_def good_ca_def may_sign_def key_pair_def
      cert_of_PEM_def ConvertPEMPrivateKeyToX509_def demo_crypto_def demo_root_x509_def demo_pub_def demo_bundle_config_def
      GetCaBundleNamespace_def)

theorem replicas_share_root_witness:
  "verifies demo_crypto demo_pub demo_sgn_by ''-Lppps'' ''-Rps'' \<and> key_pair demo_crypto demo_pub ''-Lppps'' ''-rkkk''"
  using replicas_share_root [OF demo_secret_server demo_crypto_laws demo_bundles_ok demo_first_replica demo_second_replica _
      demo_issue [unfolded Let_def]]
  by (auto simp: archon_GetRootCertificate_def archon_NewManager_def demo_root_ca_def)

section \<open>Polling and certificate requests\<close>

text \<open>The world after a number of evaluations that have all found nothing yet.\<close>

primrec pending :: "nat \<Rightarrow> ('a option, 'w) io \<Rightarrow> 'w \<Rightarrow> 'w option" where
  "pending 0 condition w = Some w"
| "pending (Suc i) condition w = (case condition w of (Inr (Inr None), w) \<Rightarrow> pending i condition w | _ \<Rightarrow> None)"

lemma PollImmediate_iff:
  "PollImmediate polls condition w = (Inr (Inr a), w') \<longleftrightarrow>
   (\<exists>i<polls. \<exists>v. pending i condition w = Some v \<and> condition v = (Inr (Inr (Some a)), w'))"
proof (induction polls arbitrary: w)
  case (Suc polls)
  show ?case
  proof (cases "\<exists>v. condition w = (Inr (Inr None), v)")
    case True
    then obtain v where v: "condition w = (Inr (Inr None), v)" by blast
    have "(\<exists>i<Suc polls. P i) \<longleftrightarrow> P 0 \<or> (\<exists>i<polls. P (Suc i))" for P
      using less_Suc_eq_0_disj by auto
    then show ?thesis using v Suc.IH [of v] by (simp add: io_bind_def)
  next
    case False
    then have "pending (Suc i) condition w = None" for i
      by (auto split: prod.splits sum.splits option.splits)
    then have "(\<exists>i<Suc polls. \<exists>v. pending i condition w = Some v \<and> condition v = (Inr (Inr (Some a)), w')) \<longleftrightarrow>
               condition w = (Inr (Inr (Some a)), w')"
      by (metis not0_implies_Suc option.distinct(1) option.inject pending.simps(1) zero_less_Suc)
    then show ?thesis using False by (auto simp: io_bind_def io_return_def split: prod.splits sum.splits option.splits)
  qed
qed simp

text \<open>
  The requests of a manager at the API server: a name is generated that is not in use, deletions succeed, the lister
  returns an object under its name, and nothing else changes the requests.
\<close>

definition request_server :: "'w certmgr_api \<Rightarrow> ('w \<Rightarrow> string set) \<Rightarrow> bool" where
  "request_server api requests \<longleftrightarrow>
     (\<forall>req w cr w'. cr_create api req w = (Inr cr, w') \<longrightarrow>
        cr_Name cr \<notin> requests w \<and> requests w' = insert (cr_Name cr) (requests w)) \<and>
     (\<forall>name w. requests (snd (cr_delete api name w)) = requests w - {name}) \<and>
     (\<forall>name w. requests (snd (cr_list api name w)) = requests w) \<and>
     (\<forall>name w cr w'. cr_list api name w = (Inr cr, w') \<longrightarrow> cr_Name cr = name)"

lemma request_serverD:
  assumes "request_server api requests"
  shows "cr_create api req w = (Inr cr, w') \<Longrightarrow> cr_Name cr \<notin> requests w \<and> requests w' = insert (cr_Name cr) (requests w)"
    and "requests (snd (cr_delete api name w)) = requests w - {name}"
    and "requests (snd (cr_list api name w)) = requests w"
    and "cr_list api name w = (Inr cr, w') \<Longrightarrow> cr_Name cr = name"
  using assms unfolding request_server_def by blast+

lemma poll_keeps:
  assumes "\<And>w. f (snd (condition w)) = f w"
  shows "f (snd (PollImmediate polls condition w)) = f w"
proof (induction polls arbitrary: w)
  case (Suc polls)
  obtain r v where "condition w = (r, v)" by fastforce
  with assms [of w] Suc.IH [of v] show ?case
    by (auto simp: io_bind_def io_return_def split: sum.split option.split)
qed (simp add: io_fail_def)

lemma request_issued_world: "snd (request_issued api name w) = snd (cr_list api name w)"
  by (auto simp: request_issued_def io_return_def io_fail_def split: prod.split sum.split go_error.split)

lemma request_issuedD:
  "request_issued api name w = (Inr (Inr (Some cr)), w') \<Longrightarrow>
   cr_list api name w = (Inr cr, w') \<and> (\<exists>c \<in> set (cr_Conditions cr). ready c) \<and> cr_Certificate cr \<noteq> None"
  by (auto simp: request_issued_def split: prod.splits sum.splits go_error.splits if_splits)

lemma waiting_keeps_requests:
  "request_server api requests \<Longrightarrow> requests (snd (waitingForCertificateIssued api polls name w)) = requests w"
  unfolding waitingForCertificateIssued_def
  by (rule poll_keeps) (simp add: request_issued_world request_serverD(3))

lemma waiting_finds_ready:
  assumes "waitingForCertificateIssued api polls name w = (Inr (Inr cr), w')"
  shows "(\<exists>v. cr_list api name v = (Inr cr, w')) \<and> (\<exists>c \<in> set (cr_Conditions cr). ready c) \<and> cr_Certificate cr \<noteq> None"
  using assms by (auto simp: waitingForCertificateIssued_def PollImmediate_iff dest!: request_issuedD)

lemma after_request_outcome:
  "after_request lib api k m cr w = (r, w') \<Longrightarrow>
   (\<exists>c m'. r = Inr (Inr (c, m'))) \<and> w' = snd (cr_delete api (cr_Name cr) w) \<or> (\<forall>c m'. r \<noteq> Inr (Inr (c, m'))) \<and> w' = w"
  by (cases "RSAKeyToPEM lib k"; cases "cert_of_PEM lib (case cr_Certificate cr of None \<Rightarrow> [] | Some crt \<Rightarrow> crt)";
      cases "cr_delete api (cr_Name cr) w")
     (auto simp: after_request_def io_bind_def io_result_def io_return_def Let_def)

lemma after_request_manager:
  "after_request lib api k m cr w = (Inr (Inr (c, m')), w') \<Longrightarrow>
   m' = m\<lparr>cmm_certificates := gput (ct_CommonName c) c (cmm_certificates m)\<rparr>"
  by (cases "cr_delete api (cr_Name cr) w") (auto simp: after_request_def Let_def io_return_def)


section \<open>The contract of a manager\<close>

inductive issues :: "(string \<Rightarrow> int \<Rightarrow> string list \<Rightarrow> 'm \<Rightarrow> (Certificate \<times> 'm, 'w) io) \<Rightarrow> 'm \<Rightarrow> Certificate list \<Rightarrow> 'm \<Rightarrow> bool"
  for issue where
  none: "issues issue m [] m"
| more: "issues issue m cs m' \<Longrightarrow> issue cn v dns m' w = (Inr (Inr (c, m'')), w') \<Longrightarrow> issues issue m (c # cs) m''"

locale cert_manager =
  fixes issue :: "string \<Rightarrow> int \<Rightarrow> string list \<Rightarrow> 'm \<Rightarrow> (Certificate \<times> 'm, 'w) io"
    and get :: "string \<Rightarrow> 'm \<Rightarrow> Certificate result"
    and root :: "'m \<Rightarrow> Certificate result"
  assumes get_issue: "issue cn v dns m w = (Inr (Inr (c, m')), w') \<Longrightarrow> n \<noteq> [] \<Longrightarrow>
      get n m' = (if ct_CommonName c = n then Inr c else get n m)"
    and root_issue: "issue cn v dns m w = (Inr (Inr (c, m')), w') \<Longrightarrow> root m' = root m"
begin

lemma get_issues:
  "issues issue m cs m' \<Longrightarrow> n \<noteq> [] \<Longrightarrow>
   get n m' = (case find (\<lambda>c. ct_CommonName c = n) cs of Some c \<Rightarrow> Inr c | None \<Rightarrow> get n m)"
  by (induction rule: issues.induct) (auto simp: get_issue)

lemma root_issues: "issues issue m cs m' \<Longrightarrow> root m' = root m"
  by (induction rule: issues.induct) (auto simp: root_issue)

end

lemma archon_manager_laws: "cert_manager (archon_IssueCertificate lib) archon_GetCertificate archon_GetRootCertificate"
  by unfold_locales
     (auto simp: archon_IssueCertificate_def Let_def archon_GetCertificate_def archon_GetRootCertificate_def update_conv')

lemma certmgr_issued:
  "certmgr_IssueCertificate lib api polls cn v dns m w = (Inr (Inr (c, m')), w') \<Longrightarrow>
   m' = m\<lparr>cmm_certificates := gput (ct_CommonName c) c (cmm_certificates m)\<rparr>"
  by (auto simp: certmgr_IssueCertificate_def dest!: after_request_manager)

lemma certmgr_manager_laws:
  "cert_manager (certmgr_IssueCertificate lib api polls) certmgr_GetCertificate certmgr_GetRootCertificate"
  by unfold_locales
     (auto simp: certmgr_GetCertificate_def certmgr_GetRootCertificate_def update_conv' dest!: certmgr_issued)

interpretation archon: cert_manager "archon_IssueCertificate lib" archon_GetCertificate archon_GetRootCertificate for lib
  by (rule archon_manager_laws)

interpretation certmgr: cert_manager "certmgr_IssueCertificate lib api polls" certmgr_GetCertificate certmgr_GetRootCertificate
  for lib api polls
  by (rule certmgr_manager_laws)

interpretation mgr: cert_manager "mgr_IssueCertificate lib api polls" mgr_GetCertificate mgr_GetRootCertificate for lib api polls
proof unfold_locales
  fix cn v dns m w c m' w' and n :: string
  assume iss: "mgr_IssueCertificate lib api polls cn v dns m w = (Inr (Inr (c, m')), w')"
  show "mgr_GetRootCertificate m' = mgr_GetRootCertificate m"
    using iss by (cases m) (auto dest: archon.root_issue certmgr.root_issue)
  assume "n \<noteq> []"
  then show "mgr_GetCertificate n m' = (if ct_CommonName c = n then Inr c else mgr_GetCertificate n m)"
    using iss by (cases m) (auto dest: archon.get_issue certmgr.get_issue)
qed

lemma new_manager_empty:
  assumes "GetCertificateManager lib sapi api polls ens mc w = (Inr (Inr m), w')"
  shows "\<exists>err. mgr_GetCertificate n m = Inl err"
  using assms
  by (auto simp: GetCertificateManager_def getManualCertificateManager_def getArchonCertificateManager_def
      getCertManagerCertificateManager_def archon_NewManager_def certmgr_NewManager_def archon_GetCertificate_def
      certmgr_GetCertificate_def Let_def split: if_splits)

text \<open>C24. Whichever manager the configuration selects: after any sequence of successful requests the manager returns,
  for every common name, the certificate last issued for it and an error if there is none, and its root certificate is still
  the first one.
\<close>

theorem issued_certificates_found:
  assumes new: "GetCertificateManager lib sapi api polls ens mc w = (Inr (Inr m), w')"
    and run: "issues (mgr_IssueCertificate lib api polls) m cs m'" and n: "n \<noteq> []"
  shows "(mgr_GetCertificate n m' = Inr c \<longleftrightarrow> find (\<lambda>c. ct_CommonName c = n) cs = Some c) \<and>
         mgr_GetRootCertificate m' = mgr_GetRootCertificate m"
  using mgr.get_issues [OF run n] mgr.root_issues [OF run] new_manager_empty [OF new, of n]
  by (auto split: option.split)

definition demo_certmgr :: "'w certmgr_api" where
  "demo_certmgr =
     \<lparr>issuer_create = (\<lambda>iss w. (Inr iss, w)), issuer_get = (\<lambda>_ w. (Inl NotFound, w)),
      cmcert_create = (\<lambda>c w. (Inr c, w)), cmcert_list = (\<lambda>_ w. (Inl NotFound, w)),
      cr_create = (\<lambda>_ w. (Inl NotFound, w)), cr_list = (\<lambda>_ w. (Inl NotFound, w)), cr_delete = (\<lambda>_ w. (Inl NotFound, w))\<rparr>"

definition demo_leaf :: Certificate where
  "demo_leaf =
     \<lparr>ct_CommonName = ''ingress-pipy'', ct_SerialNumber = itoa 7, ct_CA = ''-Rps'', ct_CrtPEM = ''-Lppps'', ct_KeyPEM = ''-rkkk'',
      ct_Expiration = DefaultCAValidityPeriod\<rparr>"

theorem issued_certificates_found_witness:
  "mgr_GetCertificate ''ingress-pipy''
     (Archon \<lparr>am_ca = demo_root_ca, am_certificates = [(''ingress-pipy'', demo_leaf)]\<rparr>) = Inr demo_leaf"
proof -
  let ?m = "Archon (archon_NewManager demo_root_ca)"
  let ?m' = "Archon \<lparr>am_ca = demo_root_ca, am_certificates = [(''ingress-pipy'', demo_leaf)]\<rparr>"
  have new: "GetCertificateManager demo_crypto demo_secrets demo_certmgr 61 ''ec'' demo_bundle_config (0, Map.empty) =
      (Inr (Inr ?m), (1, demo_bundle_store))"
    using demo_first_replica by (simp add: GetCertificateManager_def demo_bundle_config_def)
  have "mgr_IssueCertificate demo_crypto demo_certmgr 61 ''ingress-pipy'' DefaultCAValidityPeriod [] ?m (2, Map.empty) =
      (Inr (Inr (demo_leaf, ?m')), (3, Map.empty))"
    unfolding mgr_IssueCertificate.simps by (simp only: io_bind_iff demo_issue) (simp add: demo_leaf_def Let_def)
  then have "issues (mgr_IssueCertificate demo_crypto demo_certmgr 61) ?m [demo_leaf] ?m'"
    by (rule issues.more [OF issues.none])
  from issued_certificates_found [OF new this, of "''ingress-pipy''" demo_leaf] show ?thesis
    by (simp add: demo_leaf_def)
qed

text \<open>A cert-manager that accepts every request and never issues: the world is the list of requests.\<close>

definition silent_certmgr :: "string list certmgr_api" where
  "silent_certmgr = demo_certmgr
     \<lparr>cr_create := (\<lambda>req rs. let cr = req\<lparr>cr_Name := concat rs @ ''cr-''\<rparr> in (Inr cr, cr_Name cr # rs)),
      cr_delete := (\<lambda>name rs. (Inr (), removeAll name rs))\<rparr>"

definition silent_crypto :: "string list crypto_lib" where
  "silent_crypto =
     \<lparr>rand_Int = (\<lambda>w. (Inr 7, w)), time_Now = (\<lambda>_. 0), rsa_GenerateKey = (\<lambda>w. (Inr 2, w)),
      CreateCertificate = (\<lambda>_ _ _ _ w. (Inl NotFound, w)), CreateCertificateRequest = (\<lambda>_ _ w. (Inr ''csr'', w)),
      ParseCertificate = (\<lambda>_. Inl NotFound), ParsePKCS8PrivateKey = (\<lambda>_. Inl NotFound),
      MarshalPKCS8PrivateKey = (\<lambda>_. Inl NotFound), pem_Encode = (\<lambda>_ b. Inr b), pem_Decode = Some\<rparr>"

lemma concat_longer: "x \<in> set rs \<Longrightarrow> length x \<le> length (concat rs)"
  by (induction rs) auto

lemma silent_request_server: "request_server silent_certmgr set"
  by (auto simp: request_server_def silent_certmgr_def demo_certmgr_def Let_def dest: concat_longer)

lemma silent_waits:
  "waitingForCertificateIssued silent_certmgr polls name w = (Inr (Inl (Errorf ''timed out waiting for the condition'')), w)"
  unfolding waitingForCertificateIssued_def
  by (induction polls) (simp_all add: io_fail_def io_bind_def io_return_def request_issued_def silent_certmgr_def demo_certmgr_def)


end
