(* ===== verification/Repo_Init.thy ===== *)
theory Repo_Init
  imports Admission Certificates
begin

text \<open>
  \<open>cmd/manager/repo.go\<close>, \<open>http.go\<close> and \<open>tls.go\<close>: how the manager fills the Pipy repository when it starts. It
  waits for the repository, uploads the scripts found in two directories of its image as the base codebases and
  edits the configuration file of the ingress codebase.

  The file system is a tree of \<open>node\<close>s; \<open>walk\<close> is \<open>filepath.Walk\<close>, which calls a function at every
  node, a directory before its entries and the entries in the order they are listed in, and stops at the first
  error. A symbolic link to a file is a file here, and one to a directory a file that cannot be read. The repository is the HTTP server of \<open>Repo_Client\<close>.
\<close>

section \<open>The file system\<close>

datatype node =
    FileNode "string result"
  | DirNode "(string \<times> node) list"
  | Unreadable go_error

fun node_at :: "node \<Rightarrow> string \<Rightarrow> node option"
and node_in :: "(string \<times> node) list \<Rightarrow> string \<Rightarrow> node option" where
  "node_at n [] = Some n"
| "node_at (DirNode es) (c # cs) = node_in es (c # cs)"
| "node_at (FileNode r) (c # cs) = None"
| "node_at (Unreadable e) (c # cs) = None"
| "node_in [] path = None"
| "node_in ((name, n) # es) path =
     (let rest = drop (Suc (length name)) path in
      if prefix (CHR ''/'' # name) path \<and> take 1 rest \<in> {[], ''/''} then node_at n rest else node_in es path)"

definition ReadFile :: "node \<Rightarrow> string \<Rightarrow> string result" where
  "ReadFile root path = (case node_at root path of Some (FileNode r) \<Rightarrow> r | _ \<Rightarrow> Inl NotFound)"

text \<open>The function \<open>fn\<close> is called with the path, whether it is a directory, and the error met there.\<close>

type_synonym 's walk_fn = "string \<Rightarrow> bool \<Rightarrow> go_error option \<Rightarrow> 's \<Rightarrow> go_error option \<times> 's"

fun walk :: "'s walk_fn \<Rightarrow> string \<Rightarrow> node \<Rightarrow> 's \<Rightarrow> go_error option \<times> 's"
and walk_entries :: "'s walk_fn \<Rightarrow> string \<Rightarrow> (string \<times> node) list \<Rightarrow> 's \<Rightarrow> go_error option \<times> 's" where
  "walk fn path (FileNode r) s = fn path False None s"
| "walk fn path (Unreadable e) s = fn path False (Some e) s"
| "walk fn path (DirNode es) s =
     (case fn path True None s of (Some e, s) \<Rightarrow> (Some e, s) | (None, s) \<Rightarrow> walk_entries fn path es s)"
| "walk_entries fn path [] s = (None, s)"
| "walk_entries fn path ((name, n) # es) s =
     (case walk fn (path @ ''/'' @ name) n s of (Some e, s) \<Rightarrow> (Some e, s) | (None, s) \<Rightarrow> walk_entries fn path es s)"

text \<open>\<open>filepath.Dir\<close> and \<open>filepath.Base\<close> on paths that are clean already.\<close>

definition path_Base :: "string \<Rightarrow> string" where
  "path_Base path = (if path = [] then ''.'' else if path = ''/'' then ''/'' else rev (takeWhile (\<lambda>c. c \<noteq> CHR ''/'') (rev path)))"

definition path_Dir :: "string \<Rightarrow> string" where
  "path_Dir path =
     (let d = rev (dropWhile (\<lambda>c. c \<noteq> CHR ''/'') (rev path)) in
      if d = [] then ''.'' else if d = ''/'' then ''/'' else butlast d)"

section \<open>The scripts\<close>

definition visit :: "string list walk_fn" where
  "visit path isDir err files =
     (case err of Some e \<Rightarrow> (Some e, files) | None \<Rightarrow> (None, if \<not> isDir then files @ [path] else files))"

definition listFiles :: "node \<Rightarrow> string \<Rightarrow> string list go" where
  "listFiles fs root =
     (case walk visit root (case node_at fs root of None \<Rightarrow> Unreadable NotFound | Some n \<Rightarrow> n) [] of
        (Some _, _) \<Rightarrow> Inl (Panicked ''walk'')
      | (None, files) \<Rightarrow> Inr files)"

fun batch_items :: "node \<Rightarrow> string \<Rightarrow> string list \<Rightarrow> repo_content BatchItem list go" where
  "batch_items fs scriptsDir [] = Inr []"
| "batch_items fs scriptsDir (file # files) =
     (case ReadFile fs file of
        Inl _ \<Rightarrow> Inl (Panicked ''read file'')
      | Inr content \<Rightarrow>
          go_bind (batch_items fs scriptsDir files) (\<lambda>items.
            Inr (\<lparr>bi_Path = trim_prefix (path_Dir file) scriptsDir, bi_Filename = path_Base file,
                  bi_Content = ContentText content\<rparr> # items)))"

definition createBatch :: "node \<Rightarrow> string \<Rightarrow> string \<Rightarrow> repo_content Batch go" where
  "createBatch fs repoPath scriptsDir =
     go_bind (listFiles fs scriptsDir) (\<lambda>files.
       go_bind (batch_items fs scriptsDir files) (\<lambda>items. Inr \<lparr>ba_Basepath = repoPath, ba_Items = items\<rparr>))"

abbreviation ScriptsRoot :: string where "ScriptsRoot \<equiv> ''/repo/scripts''"

definition ingressBatch :: "node \<Rightarrow> repo_content Batch go" where
  "ingressBatch fs = createBatch fs ''/base/ingress'' (ScriptsRoot @ ''/ingress'')"

definition servicesBatch :: "node \<Rightarrow> repo_content Batch go" where
  "servicesBatch fs = createBatch fs ''/base/services'' (ScriptsRoot @ ''/services'')"

section \<open>Filling the repository\<close>

text \<open>The condition that is polled, every 5 seconds for 300 seconds; \<open>polls\<close> is how often it is evaluated at most.\<close>

definition repo_ready :: "('c, 'w) repo_http \<Rightarrow> (unit option, 'w) io" where
  "repo_ready http w = (case IsRepoUp http w of (up, w) \<Rightarrow> (Inr (Inr (if up then Some () else None)), w))"

definition initRepo :: "nat \<Rightarrow> (repo_content, 'w) repo_http \<Rightarrow> node \<Rightarrow> 'w \<Rightarrow> unit go \<times> 'w" where
  "initRepo polls http fs w =
     (case PollImmediate polls (repo_ready http) w of
        (Inl p, w) \<Rightarrow> (Inl p, w)
      | (Inr (Inl _), w) \<Rightarrow> (os_Exit, w)
      | (Inr (Inr _), w) \<Rightarrow>
          (case go_bind (ingressBatch fs) (\<lambda>b1. go_bind (servicesBatch fs) (\<lambda>b2. Inr [b1, b2])) of
             Inl p \<Rightarrow> (Inl p, w)
           | Inr batches \<Rightarrow>
               (case repo_Batch http batches w of
                  (Inl _, w) \<Rightarrow> (os_Exit, w)
                | (Inr _, w) \<Rightarrow> (Inr (), w))))"

definition setupHTTP :: "(repo_content, 'w) repo_http \<Rightarrow> sjson_set \<Rightarrow> MeshConfig \<Rightarrow> 'w \<Rightarrow> unit go \<times> 'w" where
  "setupHTTP http sjson mc w =
     (case UpdateIngressHTTPConfig http sjson DefaultIngressBasePath mc w of
        (Inl _, w) \<Rightarrow> (os_Exit, w)
      | (Inr _, w) \<Rightarrow> (Inr (), w))"

definition setupTLS ::
  "(repo_content, 'w) repo_http \<Rightarrow> sjson_set \<Rightarrow> 'w cert_issuer \<Rightarrow> MeshConfig \<Rightarrow> 'w \<Rightarrow> unit go \<times> 'w"
where
  "setupTLS http sjson issue mc w =
     (let tls = ingc_TLS (mc_Ingress mc) in
      if tlsc_Enabled tls
      then (if sp_Enabled (tlsc_SSLPassthrough tls)
            then (case UpdateSSLPassthrough http sjson DefaultIngressBasePath
                         (sp_Enabled (tlsc_SSLPassthrough tls)) (sp_UpstreamPort (tlsc_SSLPassthrough tls)) w of
                    (Inl _, w) \<Rightarrow> (os_Exit, w)
                  | (Inr _, w) \<Rightarrow> (Inr (), w))
            else (case IssueCertForIngress http sjson issue DefaultIngressBasePath mc w of
                    (Inl _, w) \<Rightarrow> (os_Exit, w)
                  | (Inr _, w) \<Rightarrow> (Inr (), w)))
      else (Inr (), w))"

section \<open>A batch mirrors its directory\<close>

text \<open>The files below a node, with their paths from there and what reading them gives.\<close>

fun rel_files :: "node \<Rightarrow> (string \<times> string result) list"
and rel_entries :: "(string \<times> node) list \<Rightarrow> (string \<times> string result) list" where
  "rel_files (FileNode r) = [([], r)]"
| "rel_files (DirNode es) = rel_entries es"
| "rel_files (Unreadable e) = []"
| "rel_entries [] = []"
| "rel_entries ((name, n) # es) = map (\<lambda>(p, r). (CHR ''/'' # name @ p, r)) (rel_files n) @ rel_entries es"

fun readable :: "node \<Rightarrow> bool"
and readables :: "(string \<times> node) list \<Rightarrow> bool" where
  "readable (FileNode r) \<longleftrightarrow> True"
| "readable (DirNode es) \<longleftrightarrow> readables es"
| "readable (Unreadable e) \<longleftrightarrow> False"
| "readables [] \<longleftrightarrow> True"
| "readables ((name, n) # es) \<longleftrightarrow> readable n \<and> readables es"

text \<open>Names in a directory are different, not empty and have no separator.\<close>

fun tree_wf :: "node \<Rightarrow> bool"
and entries_wf :: "(string \<times> node) list \<Rightarrow> bool" where
  "tree_wf (FileNode r) \<longleftrightarrow> True"
| "tree_wf (DirNode es) \<longleftrightarrow> entries_wf es"
| "tree_wf (Unreadable e) \<longleftrightarrow> True"
| "entries_wf [] \<longleftrightarrow> True"
| "entries_wf ((name, n) # es) \<longleftrightarrow>
     name \<noteq> [] \<and> CHR ''/'' \<notin> set name \<and> name \<notin> fst ` set es \<and> tree_wf n \<and> entries_wf es"

lemma walk_visit_readable:
  "readable n \<Longrightarrow> walk visit path n fs = (None, fs @ map (\<lambda>f. path @ fst f) (rel_files n))"
  "readables es \<Longrightarrow> walk_entries visit path es fs = (None, fs @ map (\<lambda>f. path @ fst f) (rel_entries es))"
  by (induction n and es arbitrary: path fs and path fs rule: rel_files_rel_entries.induct)
    (auto simp: visit_def case_prod_beta comp_def)

lemma walk_visit_unreadable:
  "\<not> readable n \<Longrightarrow> \<exists>e. fst (walk visit path n fs) = Some e"
  "\<not> readables es \<Longrightarrow> \<exists>e. fst (walk_entries visit path es fs) = Some e"
proof (induction n and es arbitrary: path fs and path fs rule: rel_files_rel_entries.induct)
  case (5 name n es)
  show ?case
  proof (cases "readable n")
    case True
    with 5 show ?thesis by (simp add: walk_visit_readable)
  next
    case False
    from "5.IH"(1) [OF this, of "path @ CHR ''/'' # name" fs] show ?thesis by (auto split: prod.splits option.splits)
  qed
qed (auto simp: visit_def)

lemma entry_path_head: "p \<in> fst ` set (rel_files n) \<Longrightarrow> p = [] \<or> hd p = CHR ''/''"
  "p \<in> fst ` set (rel_entries es) \<Longrightarrow> p \<noteq> [] \<and> hd p = CHR ''/''"
  by (induction n and es rule: rel_files_rel_entries.induct) auto

lemma node_in_other:
  assumes "name \<notin> fst ` set es" and "CHR ''/'' \<notin> set name" and "entries_wf es" and "take 1 p \<in> {[], ''/''}"
  shows "node_in es (CHR ''/'' # name @ p) = None"
  using assms
proof (induction es)
  case (Cons e es)
  obtain other n where e: "e = (other, n)" by force
  have "\<not> (prefix other (name @ p) \<and> take 1 (drop (length other) (name @ p)) \<in> {[], ''/''})"
  proof
    assume a: "prefix other (name @ p) \<and> take 1 (drop (length other) (name @ p)) \<in> {[], ''/''}"
    then obtain r where r: "name @ p = other @ r" by (auto simp: prefix_def)
    then obtain us where "name = other @ us \<and> us @ p = r \<or> name @ us = other \<and> p = us @ r"
      by (auto simp: append_eq_append_conv2)
    moreover have "us = []" using calculation Cons.prems a r e by (cases us) auto
    ultimately show False using Cons.prems e by auto
  qed
  then have "node_in (e # es) (CHR ''/'' # name @ p) = node_in es (CHR ''/'' # name @ p)"
    unfolding e node_in.simps Let_def by (auto simp del: drop_append take_append)
  with Cons e show ?case by simp
qed simp

lemma node_at_file:
  "tree_wf n \<Longrightarrow> (p, r) \<in> set (rel_files n) \<Longrightarrow> node_at n p = Some (FileNode r)"
  "entries_wf es \<Longrightarrow> (p, r) \<in> set (rel_entries es) \<Longrightarrow> node_in es p = Some (FileNode r)"
proof (induction n and es arbitrary: p and p rule: rel_files_rel_entries.induct)
  case (2 es)
  then show ?case using entry_path_head(2) [of p es] by (cases p) force+
next
  case (5 name n es)
  show ?case
  proof (cases "\<exists>q. (q, r) \<in> set (rel_files n) \<and> p = CHR ''/'' # name @ q")
    case True
    then obtain q where q: "(q, r) \<in> set (rel_files n)" "p = CHR ''/'' # name @ q" by blast
    then have "q = [] \<or> hd q = CHR ''/''" using entry_path_head(1) [of q n] by force
    moreover have "node_at n q = Some (FileNode r)" using 5 q by simp
    ultimately show ?thesis using q by (cases q) auto
  next
    case False
    with "5.prems" have m: "(p, r) \<in> set (rel_entries es)" by auto
    with 5 have "node_in es p = Some (FileNode r)" by simp
    moreover have "\<not> (prefix (CHR ''/'' # name) p \<and> take 1 (drop (Suc (length name)) p) \<in> {[], ''/''})"
    proof
      assume a: "prefix (CHR ''/'' # name) p \<and> take 1 (drop (Suc (length name)) p) \<in> {[], ''/''}"
      then obtain q where "p = CHR ''/'' # name @ q" by (auto simp: prefix_def)
      then show False using node_in_other [of name es q] a "5.prems"(1) calculation by auto
    qed
    ultimately show ?thesis by (auto simp: Let_def)
  qed
qed auto

text \<open>Whether a path leads to an entry or below it, and extending it.\<close>

abbreviation under :: "string \<Rightarrow> string \<Rightarrow> bool" where
  "under name path \<equiv> prefix (CHR ''/'' # name) path \<and> take 1 (drop (Suc (length name)) path) \<in> {[], ''/''}"

lemma under_append:
  assumes "CHR ''/'' \<notin> set name" and "d \<noteq> []" and "take 1 p \<in> {[], ''/''}"
  shows "under name (d @ p) \<longleftrightarrow> under name d"
proof
  assume "under name d"
  then obtain r where "d = CHR ''/'' # name @ r" by (auto simp: prefix_def)
  then show "under name (d @ p)" using \<open>under name d\<close> assms by (cases r) auto
next
  assume u: "under name (d @ p)"
  then obtain r where r: "d @ p = (CHR ''/'' # name) @ r" by (auto simp: prefix_def)
  then obtain us where "d = (CHR ''/'' # name) @ us \<and> us @ p = r \<or> d @ us = CHR ''/'' # name \<and> p = us @ r"
    unfolding append_eq_append_conv2 by blast
  then show "under name d"
  proof
    assume "d = (CHR ''/'' # name) @ us \<and> us @ p = r"
    then show ?thesis using u by (cases us) auto
  next
    assume d: "d @ us = CHR ''/'' # name \<and> p = us @ r"
    then have "us = []" using assms by (cases us; cases d) auto
    with d show ?thesis by simp
  qed
qed

lemma node_at_append:
  "tree_wf n \<Longrightarrow> node_at n d = Some m \<Longrightarrow> take 1 p \<in> {[], ''/''} \<Longrightarrow> node_at n (d @ p) = node_at m p"
  "entries_wf es \<Longrightarrow> node_in es d = Some m \<Longrightarrow> d \<noteq> [] \<Longrightarrow> take 1 p \<in> {[], ''/''} \<Longrightarrow> node_in es (d @ p) = node_at m p"
proof (induction n d and es d rule: node_at_node_in.induct)
  case (6 name n es path)
  then have u: "under name (path @ p) \<longleftrightarrow> under name path" by (intro under_append) auto
  show ?case
  proof (cases "under name path")
    case True
    then have "drop (Suc (length name)) (path @ p) = drop (Suc (length name)) path @ p" by (auto simp: prefix_def)
    with True u 6 show ?thesis by (auto simp: Let_def simp del: drop_append take_append)
  next
    case False
    with u 6 show ?thesis by (auto simp: Let_def simp del: drop_append take_append)
  qed
qed auto

lemma path_split:
  assumes "CHR ''/'' \<notin> set name" and "name \<noteq> []" and "d \<noteq> []"
  shows "path_Dir (d @ CHR ''/'' # name) = d" and "path_Base (d @ CHR ''/'' # name) = name"
proof -
  have "dropWhile (\<lambda>c. c \<noteq> CHR ''/'') (rev (d @ CHR ''/'' # name)) = CHR ''/'' # rev d"
    and "takeWhile (\<lambda>c. c \<noteq> CHR ''/'') (rev (d @ CHR ''/'' # name)) = rev name"
    using assms dropWhile_append2 [of "rev name" "\<lambda>c. c \<noteq> CHR ''/''" "CHR ''/'' # rev d"]
      takeWhile_append2 [of "rev name" "\<lambda>c. c \<noteq> CHR ''/''" "CHR ''/'' # rev d"] by auto
  then show "path_Dir (d @ CHR ''/'' # name) = d" and "path_Base (d @ CHR ''/'' # name) = name"
    using assms by (auto simp: path_Dir_def path_Base_def Let_def append_eq_Cons_conv)
qed

lemma entry_path_split:
  "tree_wf n \<Longrightarrow> p \<in> fst ` set (rel_files n) \<Longrightarrow>
     p = [] \<or> (\<exists>q name. p = q @ CHR ''/'' # name \<and> CHR ''/'' \<notin> set name \<and> name \<noteq> [])"
  "entries_wf es \<Longrightarrow> p \<in> fst ` set (rel_entries es) \<Longrightarrow>
     \<exists>q name. p = q @ CHR ''/'' # name \<and> CHR ''/'' \<notin> set name \<and> name \<noteq> []"
proof (induction n and es arbitrary: p and p rule: rel_files_rel_entries.induct)
  case (5 name n es)
  show ?case
  proof (cases "p \<in> fst ` set (rel_entries es)")
    case True
    with 5 show ?thesis by simp
  next
    case False
    with "5.prems"(2) have "p \<in> (\<lambda>f. CHR ''/'' # name @ fst f) ` set (rel_files n)"
      by (simp add: image_Un image_image case_prod_beta)
    then obtain q where q: "p = CHR ''/'' # name @ q" "q \<in> fst ` set (rel_files n)" by blast
    have "tree_wf n" using "5.prems"(1) by simp
    from "5.IH"(1) [OF this q(2)] consider "q = []"
      | q' name' where "q = q' @ CHR ''/'' # name'" "CHR ''/'' \<notin> set name'" "name' \<noteq> []" by blast
    then show ?thesis
    proof cases
      case 1
      with q "5.prems" show ?thesis by (intro exI [of _ "[]"] exI [of _ name]) simp
    next
      case 2
      with q show ?thesis by (intro exI [of _ "CHR ''/'' # name @ q'"] exI [of _ name']) simp
    qed
  qed
qed auto

text \<open>Reading the files that were listed, and the path under which the repository gets each of them.\<close>

lemma batch_items_files:
  assumes "\<forall>(p, r) \<in> set fs. ReadFile root (dir @ p) = r \<and>
      (\<exists>q name. p = q @ CHR ''/'' # name \<and> CHR ''/'' \<notin> set name \<and> name \<noteq> [])" and "dir \<noteq> []"
  shows "if \<exists>f \<in> set fs. \<exists>e. snd f = Inl e then \<exists>x. batch_items root dir (map (\<lambda>f. dir @ fst f) fs) = Inl x
    else \<exists>items. batch_items root dir (map (\<lambda>f. dir @ fst f) fs) = Inr items \<and>
       map (\<lambda>i. (bi_Path i @ ''/'' @ bi_Filename i, bi_Content i)) items = map (apsnd (ContentText \<circ> projr)) fs"
  using assms(1)
proof (induction fs)
  case (Cons f fs)
  obtain p r where f: "f = (p, r)" by force
  with Cons.prems obtain q name where q: "p = q @ CHR ''/'' # name" "CHR ''/'' \<notin> set name" "name \<noteq> []"
    and read: "ReadFile root (dir @ p) = r" by auto
  from q(2,3) have "path_Dir (dir @ p) = dir @ q" "path_Base (dir @ p) = name"
    using path_split [of name "dir @ q"] \<open>dir \<noteq> []\<close> q(1) by simp_all
  with Cons f q(1) read show ?case by (cases r) (auto split: if_splits)
qed simp

lemma node_at_wf:
  "tree_wf n \<Longrightarrow> node_at n d = Some m \<Longrightarrow> tree_wf m"
  "entries_wf es \<Longrightarrow> node_in es d = Some m \<Longrightarrow> tree_wf m"
  by (induction n d and es d rule: node_at_node_in.induct) (auto simp: Let_def split: if_splits)

lemma ReadFile_below:
  assumes "tree_wf root" and "node_at root dir = Some (DirNode es)" and "(p, r) \<in> set (rel_entries es)"
  shows "ReadFile root (dir @ p) = r"
proof -
  have "entries_wf es" using node_at_wf(1) [OF assms(1,2)] by simp
  moreover have "p \<noteq> [] \<and> hd p = CHR ''/''" using entry_path_head(2) assms(3) by force
  ultimately have "node_at (DirNode es) p = Some (FileNode r)" "take 1 p \<in> {[], ''/''}"
    using node_at_file(2) assms(3) by (cases p; simp)+
  then show ?thesis using node_at_append(1) [OF assms(1,2)] by (simp add: ReadFile_def)
qed

text \<open>The files of a directory that is uploaded as the codebase \<open>repoPath\<close>.\<close>

definition mirror :: "string \<Rightarrow> (string \<times> node) list \<Rightarrow> (string \<times> repo_content) list" where
  "mirror repoPath es = map (\<lambda>f. (repoPath @ fst f, ContentText (projr (snd f)))) (rel_entries es)"

definition uploads :: "'c Batch \<Rightarrow> (string \<times> 'c) list" where
  "uploads batch = map (\<lambda>i. (item_path batch i, bi_Content i)) (ba_Items batch)"

lemma createBatch_mirrors:
  assumes "tree_wf root" and "node_at root dir = Some (DirNode es)" and "dir \<noteq> []"
  shows "if readables es \<and> (\<forall>f \<in> set (rel_entries es). \<exists>c. snd f = Inr c)
    then \<exists>b. createBatch root repoPath dir = Inr b \<and> ba_Basepath b = repoPath \<and> uploads b = mirror repoPath es
    else \<exists>x. createBatch root repoPath dir = Inl x"
proof (cases "readables es")
  case True
  then have list: "listFiles root dir = Inr (map (\<lambda>f. dir @ fst f) (rel_entries es))"
    using assms walk_visit_readable(1) [of "DirNode es" dir "[]"] by (simp add: listFiles_def)
  have "entries_wf es" using node_at_wf(1) [OF assms(1,2)] by simp
  then have "\<exists>q name. fst f = q @ CHR ''/'' # name \<and> CHR ''/'' \<notin> set name \<and> name \<noteq> []" if "f \<in> set (rel_entries es)" for f
    using entry_path_split(2) [of es "fst f"] that by simp
  then have "\<forall>(p, r) \<in> set (rel_entries es). ReadFile root (dir @ p) = r \<and>
      (\<exists>q name. p = q @ CHR ''/'' # name \<and> CHR ''/'' \<notin> set name \<and> name \<noteq> [])"
    using ReadFile_below [OF assms(1,2)] by fastforce
  note items = batch_items_files [OF this assms(3)]
  show ?thesis
  proof (cases "\<exists>f \<in> set (rel_entries es). \<exists>e. snd f = Inl e")
    case True
    with items list show ?thesis by (auto simp: createBatch_def)
  next
    case False
    with items obtain is' where is': "batch_items root dir (map (\<lambda>f. dir @ fst f) (rel_entries es)) = Inr is'"
      "map (\<lambda>i. (bi_Path i @ ''/'' @ bi_Filename i, bi_Content i)) is' = map (apsnd (ContentText \<circ> projr)) (rel_entries es)"
      by auto
    from arg_cong [OF is'(2), of "map (apfst ((@) repoPath))"]
    have "uploads \<lparr>ba_Basepath = repoPath, ba_Items = is'\<rparr> = mirror repoPath es"
      by (simp add: uploads_def mirror_def item_path_def comp_def apfst_def map_prod_def apsnd_def case_prod_beta)
    moreover have "\<forall>f \<in> set (rel_entries es). \<exists>c. snd f = Inr c" using False by (metis sum.exhaust)
    ultimately show ?thesis using is'(1) list \<open>readables es\<close> by (simp add: createBatch_def)
  qed
next
  case False
  then have "\<exists>e. fst (walk visit dir (DirNode es) []) = Some e" by (intro walk_visit_unreadable(1)) simp
  then have "\<exists>x. listFiles root dir = Inl x" using assms by (auto simp: listFiles_def split: prod.splits)
  with False show ?thesis by (auto simp: createBatch_def)
qed

section \<open>What the repository holds afterwards\<close>

text \<open>
  The files in the repository, \<open>look w\<close> in the world \<open>w\<close>: an upload that succeeds stores the content under the path, a
  file that is there is answered with its content, and reading, creating and committing codebases leave the files as they are.
\<close>

definition file_server :: "(repo_content, 'w) repo_http \<Rightarrow> ('w \<Rightarrow> string \<rightharpoonup> repo_content) \<Rightarrow> bool" where
  "file_server http look \<longleftrightarrow>
     (\<forall>p t c w resp w'. http (FilePost p t c) w = (Inr resp, w') \<and> rsp_IsSuccess resp \<longrightarrow> look w' = (look w)(p \<mapsto> c)) \<and>
     (\<forall>p w resp w' s. http (FileGet p) w = (Inr resp, w') \<and> look w p = Some (ContentText s) \<longrightarrow> rsp_Body resp = s) \<and>
     (\<forall>p w. look (snd (http (FileGet p) w)) = look w) \<and>
     (\<forall>p w. look (snd (http (RepoGet p) w)) = look w) \<and>
     (\<forall>p c w. look (snd (http (RepoPost p c) w)) = look w) \<and>
     (\<forall>p c w. look (snd (http (RepoPatch p c) w)) = look w)"

lemma file_serverD:
  assumes "file_server http look"
  shows "http (FilePost p t c) w = (Inr resp, w') \<Longrightarrow> rsp_IsSuccess resp \<Longrightarrow> look w' = (look w)(p \<mapsto> c)"
    and "http (FileGet p) w = (Inr resp, w') \<Longrightarrow> look w p = Some (ContentText s) \<Longrightarrow> rsp_Body resp = s"
    and "http (FileGet p) w = (r, w') \<Longrightarrow> look w' = look w"
    and "http (RepoGet p) w = (r, w') \<Longrightarrow> look w' = look w"
    and "http (RepoPost p cb) w = (r, w') \<Longrightarrow> look w' = look w"
    and "http (RepoPatch p cb) w = (r, w') \<Longrightarrow> look w' = look w"
  using assms unfolding file_server_def by (metis snd_conv)+

abbreviation stored :: "string \<Rightarrow> string" where "stored path \<equiv> fullFileApiPath path"

definition store_all :: "(string \<times> repo_content) list \<Rightarrow> (string \<rightharpoonup> repo_content) \<Rightarrow> (string \<rightharpoonup> repo_content)" where
  "store_all fs m = fold (\<lambda>(p, c) m. m(stored p \<mapsto> c)) fs m"

lemma store_all_simps [simp]: "store_all [] m = m" "store_all ((p, c) # fs) m = store_all fs (m(stored p \<mapsto> c))"
  by (simp_all add: store_all_def)

lemma stored_inject [simp]: "stored p = stored q \<longleftrightarrow> p = q"
  by (simp add: fullFileApiPath_def)

lemma store_all_other: "p \<notin> fst ` set fs \<Longrightarrow> store_all fs m (stored p) = m (stored p)"
  by (induction fs arbitrary: m) (auto simp: store_all_def)

text \<open>A path that is stored more than once with the same content is no problem.\<close>

lemma store_all_at:
  assumes "(p, c) \<in> set fs" and "\<And>c'. (p, c') \<in> set fs \<Longrightarrow> c' = c"
  shows "store_all fs m (stored p) = Some c"
  using assms
proof (induction fs arbitrary: m)
  case (Cons f fs)
  show ?case
  proof (cases "p \<in> fst ` set fs")
    case True
    then obtain c' where "(p, c') \<in> set fs" by auto
    moreover then have "c' = c" using Cons.prems(2) [of c'] by simp
    ultimately have "(p, c) \<in> set fs" by simp
    then have "store_all fs m (stored p) = Some c" for m by (rule Cons.IH) (auto intro: Cons.prems(2))
    then show ?thesis by (cases f) (simp add: store_all_def)
  next
    case False
    then have "(p, c) \<notin> set fs" by (metis fst_conv imageI)
    with Cons.prems(1) have "f = (p, c)" by simp
    with False show ?thesis using store_all_other [of p fs] by (simp add: store_all_def)
  qed
qed simp

lemma upload_items_stores:
  assumes "file_server http look" and "upload_items http batch items w = (Inr u, w')"
  shows "look w' = store_all (map (\<lambda>i. (item_path batch i, bi_Content i)) items) (look w)"
  using assms(2)
proof (induction items arbitrary: w)
  case (Cons item items)
  then obtain v where "upsertFile http (item_path batch item) (bi_Content item) w = (Inr (), v)"
    and rest: "upload_items http batch items v = (Inr u, w')"
    by (auto split: prod.splits sum.splits)
  then have v: "look v = (look w)(stored (item_path batch item) \<mapsto> bi_Content item)"
    by (auto simp: upsertFile_def split: prod.splits sum.splits if_splits dest!: file_serverD(1) [OF assms(1)])
  show ?case using Cons.IH [OF rest] unfolding v by (simp del: fun_upd_apply)
qed simp

lemma batch_version_keeps:
  assumes "file_server http look" and "batch_version http batch w = (r, w')"
  shows "look w' = look w"
  using assms(2)
  by (auto simp: batch_version_def isCodebaseExists_def createCodebase_def repo_get_def
      split: prod.splits sum.splits option.splits if_splits dest!: file_serverD(4,5) [OF assms(1)])

lemma repo_Batch_stores:
  assumes "file_server http look" and "repo_Batch http batches w = (Inr u, w')"
  shows "look w' = fold (\<lambda>b. store_all (uploads b)) batches (look w)"
  using assms(2)
proof (induction batches arbitrary: w)
  case (Cons b batches)
  then obtain v where "batch_one http b w = (Inr (), v)" and rest: "repo_Batch http batches v = (Inr u, w')"
    by (auto split: prod.splits sum.splits)
  then obtain version w1 w2 where "batch_version http b w = (Inr version, w1)"
      "upload_items http b (ba_Items b) w1 = (Inr (), w2)" "repo_commit http (ba_Basepath b) version w2 = (Inr (), v)"
    by (auto simp: batch_one_def split: prod.splits sum.splits if_splits)
  moreover then have "look v = look w2"
    by (auto simp: repo_commit_def split: prod.splits sum.splits if_splits dest!: file_serverD(6) [OF assms(1)])
  ultimately have "look v = store_all (uploads b) (look w)"
    using upload_items_stores [OF assms(1)] batch_version_keeps [OF assms(1)] by (simp add: uploads_def)
  with Cons.IH [OF rest] show ?case by simp
qed simp

abbreviation main_json :: string where "main_json \<equiv> getPathOfMainJson DefaultIngressBasePath"

lemma editMainJson_stores:
  assumes "file_server http look" and "look w (stored (getPathOfMainJson base)) = Some (ContentText json)"
    and "editMainJson http sjson base edits w = (Inr u, w')"
  shows "\<exists>json'. set_all sjson edits json = Inr json' \<and>
    look w' = (look w)(stored (getPathOfMainJson base) \<mapsto> ContentText json')"
proof -
  from assms(3) obtain body v json' where "GetFile http (getPathOfMainJson base) w = (Inr body, v)"
      and set: "set_all sjson edits body = Inr json'" and up: "updateMainJson http base json' v = (Inr u, w')"
    by (auto simp: editMainJson_def getMainJson_def split: prod.splits sum.splits)
  then have v: "look v = look w" "body = json"
    using file_serverD(2,3) [OF assms(1)] assms(2) by (auto simp: GetFile_def split: prod.splits sum.splits)
  from repo_Batch_stores [OF assms(1) up [unfolded updateMainJson_def]]
  have "look w' = (look v)(stored (getPathOfMainJson base) \<mapsto> ContentText json')"
    by (simp add: uploads_def item_path_def getPathOfMainJson_def)
  with v set show ?thesis by auto
qed

lemma initRepo_stores:
  assumes "file_server http look" and "initRepo polls http root w = (Inr u, w')"
  shows "\<exists>b1 b2. ingressBatch root = Inr b1 \<and> servicesBatch root = Inr b2 \<and>
    look w' = store_all (uploads b2) (store_all (uploads b1) (look w))"
proof -
  have ready: "look (snd (repo_ready http w)) = look w" for w
    using file_serverD(4) [OF assms(1)]
    by (auto simp: repo_ready_def IsRepoUp_def repo_get_def split: prod.splits sum.splits)
  have poll: "look (snd (PollImmediate n (repo_ready http) w)) = look w" for n w
    by (rule poll_keeps) (rule ready)
  from assms(2) obtain a v b1 b2 where "PollImmediate polls (repo_ready http) w = (a, v)"
      "ingressBatch root = Inr b1" "servicesBatch root = Inr b2" "repo_Batch http [b1, b2] v = (Inr (), w')"
    by (auto simp: initRepo_def go_bind_def split: prod.splits sum.splits)
  then show ?thesis using repo_Batch_stores [OF assms(1), of "[b1, b2]"] poll [of polls w] by auto
qed

text \<open>The values that the manager sets in the configuration file of the ingress codebase.\<close>

definition http_edits :: "MeshConfig \<Rightarrow> (string \<times> json_value) list" where
  "http_edits mc =
     [(''http'', JObject [(''enabled'', JBool (http_Enabled (ingc_HTTP (mc_Ingress mc)))),
                          (''listen'', JInt (http_Listen (ingc_HTTP (mc_Ingress mc))))])]"

definition tls_edits :: "MeshConfig \<Rightarrow> IssuedCert \<Rightarrow> (string \<times> json_value) list" where
  "tls_edits mc crt =
     (let tls = ingc_TLS (mc_Ingress mc); pass = tlsc_SSLPassthrough tls in
      if \<not> tlsc_Enabled tls then []
      else if sp_Enabled pass
      then [(''sslPassthrough'', JObject [(''enabled'', JBool True), (''upstreamPort'', JInt (sp_UpstreamPort pass))])]
      else [(''tls'', JObject [(''enabled'', JBool True), (''listen'', JInt (tlsc_Listen tls)), (''mTLS'', JBool (tlsc_MTLS tls)),
               (''certificate'', JObject [(''cert'', JString (ic_CrtPEM crt)), (''key'', JString (ic_KeyPEM crt)),
                                          (''ca'', JString (ic_CA crt))])])])"

definition offloads_tls :: "MeshConfig \<Rightarrow> bool" where
  "offloads_tls mc \<longleftrightarrow> tlsc_Enabled (ingc_TLS (mc_Ingress mc)) \<and> \<not> sp_Enabled (tlsc_SSLPassthrough (ingc_TLS (mc_Ingress mc)))"

lemma set_all_append: "set_all sjson (xs @ ys) json = (case set_all sjson xs json of Inl e \<Rightarrow> Inl e | Inr j \<Rightarrow> set_all sjson ys j)"
  by (induction sjson xs json rule: set_all.induct) (auto split: sum.splits)

lemma setupHTTP_stores:
  assumes "file_server http look" and "look w (stored main_json) = Some (ContentText json)"
    and "setupHTTP http sjson mc w = (Inr u, w')"
  shows "\<exists>json'. set_all sjson (http_edits mc) json = Inr json' \<and> look w' = (look w)(stored main_json \<mapsto> ContentText json')"
proof -
  from assms(3) have "editMainJson http sjson DefaultIngressBasePath (http_edits mc) w = (Inr (), w')"
    by (auto simp: setupHTTP_def UpdateIngressHTTPConfig_def http_edits_def split: prod.splits sum.splits)
  from editMainJson_stores [OF assms(1,2) this] show ?thesis .
qed

lemma setupTLS_stores:
  assumes "file_server http look" and "look w (stored main_json) = Some (ContentText json)"
    and "\<And>cn dns w. look (snd (issue cn dns w)) = look w"
    and "setupTLS http sjson issue mc w = (Inr u, w')"
  shows "\<exists>crt json'. (offloads_tls mc \<longrightarrow> fst (issue ''ingress-pipy'' [] w) = Inr crt) \<and>
    set_all sjson (tls_edits mc crt) json = Inr json' \<and> look w' = (look w)(stored main_json \<mapsto> ContentText json')"
proof (cases "offloads_tls mc")
  case True
  with assms(4) obtain crt v where crt: "issue ''ingress-pipy'' [] w = (Inr crt, v)"
    and edit: "editMainJson http sjson DefaultIngressBasePath (tls_edits mc crt) v = (Inr (), w')"
    by (auto simp: setupTLS_def offloads_tls_def IssueCertForIngress_def tls_edits_def Let_def split: prod.splits sum.splits)
  then have "look v = look w" using assms(3) [of "''ingress-pipy''" "[]" w] by simp
  with crt editMainJson_stores [OF assms(1) _ edit] assms(2) show ?thesis by auto
next
  case False
  show ?thesis
  proof (cases "tlsc_Enabled (ingc_TLS (mc_Ingress mc))")
    case True
    with False assms(4) have "editMainJson http sjson DefaultIngressBasePath (tls_edits mc crt) w = (Inr (), w')" for crt
      by (auto simp: setupTLS_def offloads_tls_def UpdateSSLPassthrough_def tls_edits_def Let_def split: prod.splits sum.splits)
    from editMainJson_stores [OF assms(1,2) this] False show ?thesis by auto
  next
    case False
    with assms(2,4) show ?thesis by (auto simp: setupTLS_def offloads_tls_def tls_edits_def Let_def)
  qed
qed

text \<open>Every file of the two directories is in the repository, the configuration file with the content \<open>json\<close>.\<close>

definition published ::
  "('w \<Rightarrow> string \<rightharpoonup> repo_content) \<Rightarrow> (string \<times> node) list \<Rightarrow> (string \<times> node) list \<Rightarrow> string \<Rightarrow> 'w \<Rightarrow> bool"
where
  "published look ing svc json w \<longleftrightarrow>
     (\<forall>(p, c) \<in> set (mirror ''/base/ingress'' ing @ mirror ''/base/services'' svc).
        look w (stored p) = Some (if p = main_json then ContentText json else c))"

lemma mirror_functional:
  assumes "tree_wf root" and "node_at root dir = Some (DirNode es)" and "(p, c) \<in> set (mirror base es)" "(p, c') \<in> set (mirror base es)"
  shows "c = c'"
  using assms(3,4) ReadFile_below [OF assms(1,2)] by (auto simp: mirror_def) metis

lemma batch_uploads:
  assumes "tree_wf root" and "node_at root dir = Some (DirNode es)" and "dir \<noteq> []" and "createBatch root repoPath dir = Inr b"
  shows "uploads b = mirror repoPath es"
  using createBatch_mirrors [OF assms(1-3), of repoPath] assms(4) by (auto split: if_splits)

lemma repo_filled:
  assumes "file_server http look" and "tree_wf root"
    and "node_at root (ScriptsRoot @ ''/ingress'') = Some (DirNode ing)"
    and "node_at root (ScriptsRoot @ ''/services'') = Some (DirNode svc)"
    and "(''/config/main.json'', Inr json) \<in> set (rel_entries ing)"
    and "\<And>cn dns w. look (snd (issue cn dns w)) = look w"
    and "initRepo polls http root w = (Inr u, w1)" and "setupHTTP http sjson mc w1 = (Inr u', w2)"
    and "setupTLS http sjson issue mc w2 = (Inr u'', w3)"
  shows "\<exists>crt json'. (offloads_tls mc \<longrightarrow> fst (issue ''ingress-pipy'' [] w2) = Inr crt) \<and>
    set_all sjson (http_edits mc @ tls_edits mc crt) json = Inr json' \<and> published look ing svc json' w3"
proof -
  let ?ing = "mirror ''/base/ingress'' ing" and ?svc = "mirror ''/base/services'' svc"
  have w1: "look w1 = store_all ?svc (store_all ?ing (look w))"
    using initRepo_stores [OF assms(1,7)] batch_uploads [OF assms(2,3)] batch_uploads [OF assms(2,4)]
    by (auto simp: ingressBatch_def servicesBatch_def)
  have apart: "p \<notin> fst ` set ?svc" if "(p, c) \<in> set ?ing" for p c using that by (auto simp: mirror_def)
  have at1: "look w1 (stored p) = Some c" if "(p, c) \<in> set ?ing" for p c
    using store_all_other [OF apart [OF that]] store_all_at [OF that] mirror_functional [OF assms(2,3)] that w1 by metis
  have at2: "look w1 (stored p) = Some c" if "(p, c) \<in> set ?svc" for p c
    using store_all_at [OF that] mirror_functional [OF assms(2,4)] that w1 by metis
  have "(main_json, ContentText json) \<in> set ?ing"
    using assms(5) by (force simp: mirror_def getPathOfMainJson_def)
  then have main: "look w1 (stored main_json) = Some (ContentText json)" by (rule at1)
  from setupHTTP_stores [OF assms(1) main assms(8)] obtain j1 where
    j1: "set_all sjson (http_edits mc) json = Inr j1" "look w2 = (look w1)(stored main_json \<mapsto> ContentText j1)" by blast
  then have "look w2 (stored main_json) = Some (ContentText j1)" by simp
  from setupTLS_stores [OF assms(1) this assms(6,9)] obtain crt j2 where
    j2: "offloads_tls mc \<longrightarrow> fst (issue ''ingress-pipy'' [] w2) = Inr crt" "set_all sjson (tls_edits mc crt) j1 = Inr j2"
      "look w3 = (look w2)(stored main_json \<mapsto> ContentText j2)" by blast
  have "look w3 (stored p) = Some (if p = main_json then ContentText j2 else c)" if "(p, c) \<in> set (?ing @ ?svc)" for p c
    using at1 at2 that j1(2) j2(3) by auto
  then have "published look ing svc j2 w3" unfolding published_def by blast
  then show ?thesis using j1(1) j2(1,2) by (auto simp: set_all_append)
qed

end
