(* ===== verification/Startup.thy ===== *)
theory Startup
  imports Repo_Init Cluster_Connector
begin

text \<open>
  \<open>cmd/manager/main.go\<close>, \<open>reconcilers.go\<close> and \<open>eventhandlers.go\<close>: the start of the manager, in the order of
  \<open>main\<close>. Every error ends the process, with \<open>os.Exit(1)\<close> or with \<open>klog.Fatal\<close>, whose status is 255; both are
  values of type \<open>panic\<close> here, so a step that returns \<open>Inr\<close> has left the process running.

  The state has two parts that belong to different servers: the API server and the rest of the cluster with the lister's copy
  of the configuration, and the Pipy repository. The calls to controller-runtime, which registers controllers, webhooks and
  checks, are parameters.
\<close>

section \<open>Steps that may end the process\<close>

type_synonym ('c, 'r) start_state = "'c cfg_state \<times> 'r"
type_synonym ('a, 's) step_of = "'s \<Rightarrow> 'a go \<times> 's"

definition andThen :: "('a, 's) step_of \<Rightarrow> ('a \<Rightarrow> ('b, 's) step_of) \<Rightarrow> ('b, 's) step_of" where
  "andThen m f s = (case m s of (Inl p, s) \<Rightarrow> (Inl p, s) | (Inr a, s) \<Rightarrow> f a s)"

definition or_exit :: "('s \<Rightarrow> 'a result \<times> 's) \<Rightarrow> ('a, 's) step_of" where
  "or_exit call s = (case call s of (Inl _, s) \<Rightarrow> (os_Exit, s) | (Inr a, s) \<Rightarrow> (Inr a, s))"

definition or_fatal :: "('s \<Rightarrow> 'a result \<times> 's) \<Rightarrow> ('a, 's) step_of" where
  "or_fatal call s = (case call s of (Inl _, s) \<Rightarrow> (Inl (Panicked ''exit status 255''), s) | (Inr a, s) \<Rightarrow> (Inr a, s))"

definition io_or_exit :: "('a, 's) io \<Rightarrow> ('a, 's) step_of" where
  "io_or_exit m s = (case m s of (Inl p, s) \<Rightarrow> (Inl p, s) | (Inr (Inl _), s) \<Rightarrow> (os_Exit, s) | (Inr (Inr a), s) \<Rightarrow> (Inr a, s))"

definition on_config :: "('c cfg_state \<Rightarrow> 'a \<times> 'c cfg_state) \<Rightarrow> ('c, 'r) start_state \<Rightarrow> 'a \<times> ('c, 'r) start_state" where
  "on_config f s = (case f (fst s) of (a, s1) \<Rightarrow> (a, (s1, snd s)))"

definition on_cluster :: "('c \<Rightarrow> 'a \<times> 'c) \<Rightarrow> ('c, 'r) start_state \<Rightarrow> 'a \<times> ('c, 'r) start_state" where
  "on_cluster f s = (case f (cfg_world (fst s)) of (a, w) \<Rightarrow> (a, ((fst s)\<lparr>cfg_world := w\<rparr>, snd s)))"

definition on_repo :: "('d, 'r) repo_http \<Rightarrow> ('d, ('c, 'r) start_state) repo_http" where
  "on_repo http req s = (case http req (snd s) of (a, r) \<Rightarrow> (a, (fst s, r)))"

section \<open>The environment of the process\<close>

record ('c, 'r) manager_env =
  me_options :: "unit result"
  me_kubeconfig :: "unit result"
  me_NewAPI :: "unit result"
  me_version :: version_lib
  me_GitVersion :: "string result"
  me_mesh :: mesh_lib
  me_config :: "'c cfg_api"
  me_namespaceUID :: "string \<Rightarrow> 'c \<Rightarrow> string result \<times> 'c"
  me_crypto :: "'c crypto_lib"
  me_secrets :: "'c secret_api"
  me_certmgr :: "'c certmgr_api"
  me_http :: "(repo_content, 'r) repo_http"
  me_sjson :: sjson_set
  me_root :: node
  me_repo_polls :: nat
  me_cert_polls :: nat
  me_files :: "'c file_system"
  me_mutating :: "'c whc_api"
  me_validating :: "'c whc_api"
  me_NewManager :: "'c \<Rightarrow> unit result \<times> 'c"
  me_SetupWithManager :: "string \<Rightarrow> 'c \<Rightarrow> unit result \<times> 'c"
  me_Register :: "string \<times> hook_handler \<Rightarrow> 'c \<Rightarrow> unit go \<times> 'c"
  me_GetInformer :: "'c \<Rightarrow> unit result \<times> 'c"
  me_RegisterConfigurationHandler :: "'c \<Rightarrow> unit go \<times> 'c"
  me_AddCheck :: "string \<Rightarrow> 'c \<Rightarrow> unit result \<times> 'c"
  me_Start :: "'c \<Rightarrow> unit result \<times> 'c"

text \<open>
  The certificate manager as the function that \<open>Mesh_Config\<close> and \<open>Admission\<close> expect. The certificates it remembers are
  never asked for in the program. A panic of the manager ends the process, as an error does in the callers, and is an error here.
\<close>

definition issuer :: "('c, 'r) manager_env \<Rightarrow> cert_mgr \<Rightarrow> 'c cert_issuer" where
  "issuer env m cn dnsNames w =
     (case mgr_IssueCertificate (me_crypto env) (me_certmgr env) (me_cert_polls env) cn DefaultCAValidityPeriod dnsNames m w of
        (Inr (Inr (c, _)), w) \<Rightarrow> (Inr \<lparr>ic_CrtPEM = ct_CrtPEM c, ic_KeyPEM = ct_KeyPEM c, ic_CA = ct_CA c\<rparr>, w)
      | (Inr (Inl err), w) \<Rightarrow> (Inl err, w)
      | (Inl _, w) \<Rightarrow> (Inl (Errorf ''panic''), w))"

section \<open>Registering\<close>

definition registerCluster :: "('c, 'r) manager_env \<Rightarrow> (unit, ('c, 'r) start_state) step_of" where
  "registerCluster env = or_fatal (on_cluster (me_SetupWithManager env ''Cluster''))"

definition registerServiceExport :: "('c, 'r) manager_env \<Rightarrow> (unit, ('c, 'r) start_state) step_of" where
  "registerServiceExport env = or_fatal (on_cluster (me_SetupWithManager env ''ServiceExport''))"

definition registerServiceImport :: "('c, 'r) manager_env \<Rightarrow> (unit, ('c, 'r) start_state) step_of" where
  "registerServiceImport env = or_fatal (on_cluster (me_SetupWithManager env ''ServiceImport''))"

definition registerNamespacedIngress :: "('c, 'r) manager_env \<Rightarrow> (unit, ('c, 'r) start_state) step_of" where
  "registerNamespacedIngress env = or_fatal (on_cluster (me_SetupWithManager env ''NamespacedIngress''))"

definition registerGatewayAPIs :: "('c, 'r) manager_env \<Rightarrow> (unit, ('c, 'r) start_state) step_of" where
  "registerGatewayAPIs env =
     andThen (or_fatal (on_cluster (me_SetupWithManager env ''Gateway''))) (\<lambda>_.
     andThen (or_fatal (on_cluster (me_SetupWithManager env ''GatewayClass''))) (\<lambda>_.
     or_fatal (on_cluster (me_SetupWithManager env ''HTTPRoute''))))"

definition registerServiceLB :: "('c, 'r) manager_env \<Rightarrow> (unit, ('c, 'r) start_state) step_of" where
  "registerServiceLB env =
     andThen (or_fatal (on_cluster (me_SetupWithManager env ''ServiceLB(Service)''))) (\<lambda>_.
     or_fatal (on_cluster (me_SetupWithManager env ''ServiceLB(Node)'')))"

definition when_set :: "bool \<Rightarrow> (unit, 's) step_of \<Rightarrow> (unit, 's) step_of" where
  "when_set b m s = (if b then m s else (Inr (), s))"

definition readConfig :: "('c, 'r) manager_env \<Rightarrow> (MeshConfig, ('c, 'r) start_state) step_of" where
  "readConfig env = on_config (GetConfig (me_mesh env) (me_config env))"

definition registerReconcilers :: "('c, 'r) manager_env \<Rightarrow> (unit, ('c, 'r) start_state) step_of" where
  "registerReconcilers env =
     andThen (registerCluster env) (\<lambda>_.
     andThen (registerServiceExport env) (\<lambda>_.
     andThen (registerServiceImport env) (\<lambda>_.
     andThen (readConfig env) (\<lambda>mc.
     andThen (when_set (mc_GatewayApiEnabled mc) (registerGatewayAPIs env)) (\<lambda>_.
     andThen (when_set (ingc_Namespaced (mc_Ingress mc)) (registerNamespacedIngress env)) (\<lambda>_.
     when_set (mc_ServiceLBEnabled mc) (registerServiceLB env)))))))"

fun register_all :: "(string \<times> hook_handler \<Rightarrow> 's \<Rightarrow> unit go \<times> 's) \<Rightarrow> (string \<times> hook_handler) list \<Rightarrow> (unit, 's) step_of" where
  "register_all Register [] s = (Inr (), s)"
| "register_all Register (h # hs) s = andThen (Register h) (\<lambda>_. register_all Register hs) s"

definition registerEventHandler :: "('c, 'r) manager_env \<Rightarrow> (unit, ('c, 'r) start_state) step_of" where
  "registerEventHandler env =
     andThen (or_exit (on_cluster (me_GetInformer env))) (\<lambda>_. on_cluster (me_RegisterConfigurationHandler env))"

definition addLivenessAndReadinessCheck :: "('c, 'r) manager_env \<Rightarrow> (unit, ('c, 'r) start_state) step_of" where
  "addLivenessAndReadinessCheck env =
     andThen (or_exit (on_cluster (me_AddCheck env ''healthz''))) (\<lambda>_. or_exit (on_cluster (me_AddCheck env ''readyz'')))"

section \<open>The main function\<close>

definition getClusterUID :: "('c, 'r) manager_env \<Rightarrow> (string, ('c, 'r) start_state) step_of" where
  "getClusterUID env = or_exit (on_cluster (me_namespaceUID env (ErieCanalNamespace (me_mesh env))))"

text \<open>Up to the configuration: the options, the client, the version of the cluster and its UID.\<close>

definition check_version :: "('c, 'r) manager_env \<Rightarrow> unit go" where
  "check_version env =
     (if isl (me_options env) \<or> isl (me_kubeconfig env) \<or> isl (me_NewAPI env) then os_Exit
      else go_bind (IsSupportedK8sVersion (me_version env) (me_GitVersion env) zeroVersion) (\<lambda>(supported, _).
             if supported then Inr () else os_Exit))"

definition configure :: "('c, 'r) manager_env \<Rightarrow> (MeshConfig, ('c, 'r) start_state) step_of" where
  "configure env =
     andThen (\<lambda>s. (check_version env, s)) (\<lambda>_.
     andThen (readConfig env) (\<lambda>mc.
     andThen (getClusterUID env) (\<lambda>uid.
     io_or_exit (on_config (UpdateConfig (me_mesh env) (me_config env)
       (Some (mc\<lparr>mc_Cluster := (mc_Cluster mc)\<lparr>cc_UID := uid\<rparr>\<rparr>)))))))"

text \<open>The webhook configurations; the registry of webhooks starts empty.\<close>

definition createWebhooks :: "('c, 'r) manager_env \<Rightarrow> cert_mgr \<Rightarrow> (unit, ('c, 'r) start_state) step_of" where
  "createWebhooks env certMgr =
     andThen (readConfig env) (\<lambda>mc.
     on_cluster (\<lambda>w. case createWebhookConfigurations (me_files env) (issuer env certMgr) (me_mutating env) (me_validating env)
                            (ErieCanalNamespace (me_mesh env)) mc no_webhooks w of (res, _, w) \<Rightarrow> (res, w)))"

text \<open>What \<open>main\<close> does before it starts the manager.\<close>

definition prepare :: "('c, 'r) manager_env \<Rightarrow> (MeshConfig, ('c, 'r) start_state) step_of" where
  "prepare env =
     andThen (configure env) (\<lambda>mc.
     andThen (io_or_exit (on_cluster (GetCertificateManager (me_crypto env) (me_secrets env) (me_certmgr env) (me_cert_polls env)
       (ErieCanalNamespace (me_mesh env)) mc))) (\<lambda>certMgr.
     andThen (initRepo (me_repo_polls env) (on_repo (me_http env)) (me_root env)) (\<lambda>_.
     andThen (setupHTTP (on_repo (me_http env)) (me_sjson env) mc) (\<lambda>_.
     andThen (setupTLS (on_repo (me_http env)) (me_sjson env) (\<lambda>cn dns. on_cluster (issuer env certMgr cn dns)) mc) (\<lambda>_.
     andThen (or_exit (on_cluster (me_NewManager env))) (\<lambda>_.
     andThen (createWebhooks env certMgr) (\<lambda>_.
     andThen (registerReconcilers env) (\<lambda>_.
     andThen (readConfig env) (\<lambda>hookConfig.
     andThen (on_cluster (register_all (me_Register env) (registerToWebhookServer hookConfig))) (\<lambda>_.
     andThen (registerEventHandler env) (\<lambda>_.
     andThen (addLivenessAndReadinessCheck env) (\<lambda>_ s. (Inr mc, s)))))))))))))"

definition startManager :: "('c, 'r) manager_env \<Rightarrow> (unit, ('c, 'r) start_state) step_of" where
  "startManager env = or_fatal (on_cluster (me_Start env))"

definition manager_main :: "('c, 'r) manager_env \<Rightarrow> (unit, ('c, 'r) start_state) step_of" where
  "manager_main env = andThen (prepare env) (\<lambda>_. startManager env)"

section \<open>What a successful start leaves behind\<close>

lemma andThen_iff [simp]:
  "andThen m f s = (Inr b, s'') \<longleftrightarrow> (\<exists>a s'. m s = (Inr a, s') \<and> f a s' = (Inr b, s''))"
  by (auto simp: andThen_def split: prod.splits sum.splits)

lemma step_simps [simp]:
  "or_exit call s = (Inr a, s') \<longleftrightarrow> call s = (Inr a, s')"
  "or_fatal call s = (Inr a, s') \<longleftrightarrow> call s = (Inr a, s')"
  "io_or_exit m s = (Inr a, s') \<longleftrightarrow> m s = (Inr (Inr a), s')"
  by (auto simp: or_exit_def or_fatal_def io_or_exit_def split: prod.splits sum.splits)

text \<open>Steps that do not touch the repository.\<close>

named_theorems repo_kept

definition keeps_repo :: "('a, ('c, 'r) start_state) step_of \<Rightarrow> bool" where
  "keeps_repo m \<longleftrightarrow> (\<forall>s. snd (snd (m s)) = snd s)"

lemma keeps_repoD: "keeps_repo m \<Longrightarrow> m s = (a, s') \<Longrightarrow> snd s' = snd s"
  by (metis keeps_repo_def snd_conv)

lemma keeps_repo_andThen [repo_kept]:
  "keeps_repo m \<Longrightarrow> (\<And>a. keeps_repo (f a)) \<Longrightarrow> keeps_repo (andThen m f)"
  unfolding keeps_repo_def andThen_def
  by (auto split: prod.split sum.split) (metis snd_conv)+

lemma keeps_repo_calls [repo_kept]:
  "keeps_repo (or_exit (on_cluster f))" "keeps_repo (or_fatal (on_cluster f'))" "keeps_repo (on_cluster f'')"
  "keeps_repo (io_or_exit (on_cluster g))" "keeps_repo (on_config h)" "keeps_repo (io_or_exit (on_config h'))"
  "keeps_repo (\<lambda>s. (r, s))"
  by (auto simp: keeps_repo_def or_exit_def or_fatal_def io_or_exit_def on_cluster_def on_config_def split: prod.split sum.split)

lemma keeps_repo_when_set [repo_kept]: "keeps_repo m \<Longrightarrow> keeps_repo (when_set b m)"
  by (simp add: keeps_repo_def when_set_def)

lemma register_keeps_repo:
  "keeps_repo (configure env)" "keeps_repo (createWebhooks env certMgr)" "keeps_repo (registerReconcilers env)"
  "keeps_repo (registerEventHandler env)" "keeps_repo (addLivenessAndReadinessCheck env)" "keeps_repo (readConfig env)"
  unfolding configure_def getClusterUID_def createWebhooks_def registerReconcilers_def registerCluster_def
    registerServiceExport_def registerServiceImport_def registerGatewayAPIs_def registerNamespacedIngress_def
    registerServiceLB_def registerEventHandler_def addLivenessAndReadinessCheck_def readConfig_def
  by (intro repo_kept)+

lemma on_repo_iff: "on_repo http req s = (a, s') \<longleftrightarrow> http req (snd s) = (a, snd s') \<and> fst s' = fst s"
  by (auto simp: on_repo_def prod_eq_iff split: prod.splits)

lemma snd_on_repo: "snd (snd (on_repo http req s)) = snd (http req (snd s))"
  by (simp add: on_repo_def split: prod.splits)

lemma file_server_on_repo:
  assumes "file_server http look"
  shows "file_server (on_repo http) (\<lambda>s. look (snd s))"
  using assms unfolding file_server_def on_repo_iff snd_on_repo by (elim conjE, intro conjI) meson+

text \<open>The configuration client: the API server returns what it was sent, and a valid configuration survives JSON.\<close>

definition config_kept :: "mesh_lib \<Rightarrow> 'c cfg_api \<Rightarrow> bool" where
  "config_kept lib api \<longleftrightarrow>
     (\<forall>cm w cm' w'. api_updateConfigMap api cm w = (Inr cm', w') \<longrightarrow> cm' = cm) \<and>
     (\<forall>cfg. validate_Struct lib cfg = None \<longrightarrow> json_roundtrip lib cfg)"

lemma UpdateConfig_returns:
  assumes "config_kept lib api" and "UpdateConfig lib api (Some cfg) s = (Inr (Inr mc), s')"
  shows "mc = cfg"
proof -
  from assms(2) obtain cm data w cm' w' where valid: "validate_Struct lib cfg = None"
    and upd: "api_updateConfigMap api (cm\<lparr>cm_Data := Some (gput MeshConfigJsonName (ToJson lib cfg) data)\<rparr>) w = (Inr cm', w')"
    and parse: "ParseMeshConfig lib cm' = Inr mc"
    by (auto simp: UpdateConfig_def Let_def split: option.splits prod.splits sum.splits)
  have "cm' = cm\<lparr>cm_Data := Some (gput MeshConfigJsonName (ToJson lib cfg) data)\<rparr>" "json_roundtrip lib cfg"
    using assms(1) upd valid unfolding config_kept_def by blast+
  with parse ParseMeshConfig_ToJson [of lib cfg] valid show ?thesis by simp
qed

abbreviation with_UID :: "MeshConfig \<Rightarrow> string \<Rightarrow> MeshConfig" where
  "with_UID cfg uid \<equiv> cfg\<lparr>mc_Cluster := (mc_Cluster cfg)\<lparr>cc_UID := uid\<rparr>\<rparr>"

lemma configure_returns:
  assumes "config_kept (me_mesh env) (me_config env)" and "configure env s = (Inr mc, s')"
  shows "\<exists>cfg uid s1 s2. readConfig env s = (Inr cfg, s1) \<and> getClusterUID env s1 = (Inr uid, s2) \<and> mc = with_UID cfg uid"
proof -
  from assms(2) obtain cfg s1 uid s2 where "readConfig env s = (Inr cfg, s1)" "getClusterUID env s1 = (Inr uid, s2)"
    and "on_config (UpdateConfig (me_mesh env) (me_config env) (Some (with_UID cfg uid))) s2 = (Inr (Inr mc), s')"
    by (auto simp: configure_def)
  moreover then have "mc = with_UID cfg uid"
    using UpdateConfig_returns [OF assms(1)] by (auto simp: on_config_def split: prod.splits)
  ultimately show ?thesis by blast
qed

lemma on_cluster_keeps: "on_cluster f s = (a, s') \<Longrightarrow> snd s' = snd s"
  by (auto simp: on_cluster_def split: prod.splits)

lemma issuer_keeps_repo: "snd (snd (on_cluster (issuer env m cn dns) s)) = snd s"
  by (simp add: on_cluster_def split: prod.splits)

text \<open>C11. When the manager has started up, which it does with the stored configuration and the UID of its namespace in it,
  the repository has every file of the two script directories under the base codebases, unchanged but for the
  configuration file of the ingress codebase: that one is the file from the image with the HTTP settings and, if TLS is enabled,
  the pass-through settings or a certificate that the certificate manager has issued. Otherwise the process has ended.\<close>

theorem manager_publishes_scripts:
  assumes files: "file_server (me_http env) look" and kept: "config_kept (me_mesh env) (me_config env)"
    and root: "tree_wf (me_root env)"
      "node_at (me_root env) (ScriptsRoot @ ''/ingress'') = Some (DirNode ing)"
      "node_at (me_root env) (ScriptsRoot @ ''/services'') = Some (DirNode svc)"
      "(''/config/main.json'', Inr json) \<in> set (rel_entries ing)"
    and run: "prepare env s = (Inr mc, s')"
  shows "\<exists>cfg uid crt json'. fst (readConfig env s) = Inr cfg \<and> (\<exists>s1. fst (getClusterUID env s1) = Inr uid) \<and> mc = with_UID cfg uid \<and>
     (offloads_tls mc \<longrightarrow> (\<exists>m v w. fst (GetCertificateManager (me_crypto env) (me_secrets env) (me_certmgr env) (me_cert_polls env)
          (ErieCanalNamespace (me_mesh env)) mc v) = Inr (Inr m) \<and> fst (issuer env m ''ingress-pipy'' [] w) = Inr crt)) \<and>
     set_all (me_sjson env) (http_edits mc @ tls_edits mc crt) json = Inr json' \<and> published look ing svc json' (snd s')"
proof -
  let ?http = "on_repo (me_http env)" and ?issue = "\<lambda>m cn dns. on_cluster (issuer env m cn dns)"
  let ?mgr = "GetCertificateManager (me_crypto env) (me_secrets env) (me_certmgr env) (me_cert_polls env) (ErieCanalNamespace (me_mesh env)) mc"
  from run obtain s1 m s2 s3 s4 s5 s6 s7 s8 hookConfig s9 s10 s11 where conf: "configure env s = (Inr mc, s1)"
    and mgr: "on_cluster ?mgr s1 = (Inr (Inr m), s2)"
    and fill: "initRepo (me_repo_polls env) ?http (me_root env) s2 = (Inr (), s3)"
      "setupHTTP ?http (me_sjson env) mc s3 = (Inr (), s4)" "setupTLS ?http (me_sjson env) (?issue m) mc s4 = (Inr (), s5)"
    and rest: "on_cluster (me_NewManager env) s5 = (Inr (), s6)" "createWebhooks env m s6 = (Inr (), s7)"
      "registerReconcilers env s7 = (Inr (), s8)" "readConfig env s8 = (Inr hookConfig, s9)"
      "on_cluster (register_all (me_Register env) (registerToWebhookServer hookConfig)) s9 = (Inr (), s10)"
      "registerEventHandler env s10 = (Inr (), s11)" "addLivenessAndReadinessCheck env s11 = (Inr (), s')"
    unfolding prepare_def andThen_iff step_simps by auto
  have rest: "snd s' = snd s5"
    using on_cluster_keeps [OF rest(1)] keeps_repoD [OF register_keeps_repo(2) rest(2)] keeps_repoD [OF register_keeps_repo(3) rest(3)]
      keeps_repoD [OF register_keeps_repo(6) rest(4)] on_cluster_keeps [OF rest(5)]
      keeps_repoD [OF register_keeps_repo(4) rest(6)] keeps_repoD [OF register_keeps_repo(5) rest(7)] by simp
  from repo_filled [OF file_server_on_repo [OF files] root _ fill] issuer_keeps_repo
  obtain crt json' where "offloads_tls mc \<longrightarrow> fst (?issue m ''ingress-pipy'' [] s4) = Inr crt"
    "set_all (me_sjson env) (http_edits mc @ tls_edits mc crt) json = Inr json'"
    "published (\<lambda>s. look (snd s)) ing svc json' s5" by metis
  moreover then have "published look ing svc json' (snd s')" by (simp add: published_def rest)
  moreover have "fst (?mgr (cfg_world (fst s1))) = Inr (Inr m)" using mgr by (auto simp: on_cluster_def split: prod.splits)
  moreover have "fst (?issue m ''ingress-pipy'' [] s4) = fst (issuer env m ''ingress-pipy'' [] (cfg_world (fst s4)))"
    by (simp add: on_cluster_def split: prod.splits)
  moreover obtain cfg uid s6 s7 where "readConfig env s = (Inr cfg, s6)" "getClusterUID env s6 = (Inr uid, s7)" "mc = with_UID cfg uid"
    using configure_returns [OF kept conf] by blast
  moreover then have "fst (readConfig env s) = Inr cfg" "fst (getClusterUID env s6) = Inr uid" by simp_all
  ultimately show ?thesis by metis
qed

text \<open>An image with three scripts, a repository that keeps files in a map and a cluster where every call succeeds.\<close>

definition demo_ing :: "(string \<times> node) list" where
  "demo_ing = [(''config'', DirNode [(''main.json'', FileNode (Inr ''{}''))]), (''main.js'', FileNode (Inr ''i''))]"

definition demo_svc :: "(string \<times> node) list" where
  "demo_svc = [(''main.js'', FileNode (Inr ''s''))]"

definition demo_image :: node where
  "demo_image = DirNode [(''repo'', DirNode [(''scripts'', DirNode [(''ingress'', DirNode demo_ing), (''services'', DirNode demo_svc)])])]"

definition ok_response :: "string \<Rightarrow> repo_response" where
  "ok_response body = \<lparr>rsp_StatusCode = 200, rsp_Status = ''200 OK'', rsp_IsSuccess = True, rsp_IsError = False,
     rsp_Result = mk_Codebase 1 [], rsp_Body = body\<rparr>"

definition demo_repo :: "(repo_content, string \<rightharpoonup> repo_content) repo_http" where
  "demo_repo req m =
     (case req of
        FilePost p t c \<Rightarrow> (Inr (ok_response []), m(p \<mapsto> c))
      | FileGet p \<Rightarrow> (Inr (ok_response (case m p of Some (ContentText s) \<Rightarrow> s | _ \<Rightarrow> [])), m)
      | _ \<Rightarrow> (Inr (ok_response []), m))"

lemma demo_repo_files: "file_server demo_repo id"
  by (auto simp: file_server_def demo_repo_def ok_response_def)

definition demo_start_cfg :: "string \<Rightarrow> MeshConfig" where
  "demo_start_cfg uid = zero_MeshConfig\<lparr>
     mc_Ingress := (mc_Ingress zero_MeshConfig)\<lparr>ingc_TLS := (ingc_TLS (mc_Ingress zero_MeshConfig))\<lparr>tlsc_Enabled := True\<rparr>\<rparr>,
     mc_Certificate := \<lparr>certc_Manager = ''archon'', certc_CaBundleName = ''bundle'', certc_CaBundleNamespace = ''ec''\<rparr>,
     mc_Cluster := (mc_Cluster zero_MeshConfig)\<lparr>cc_UID := uid\<rparr>\<rparr>"

definition demo_start_lib :: mesh_lib where
  "demo_start_lib = \<lparr>Unmarshal = (\<lambda>s. Inr (demo_start_cfg s)), MarshalIndent = (\<lambda>c. Inr (cc_UID (mc_Cluster c))),
     validate_Struct = (\<lambda>c. if c = demo_start_cfg (cc_UID (mc_Cluster c)) then None else Some NotFound), ErieCanalNamespace = ''ec''\<rparr>"

definition demo_start_crypto :: "unit crypto_lib" where
  "demo_start_crypto =
     \<lparr>rand_Int = Pair (Inr 7), time_Now = (\<lambda>_. 0), rsa_GenerateKey = Pair (Inr 1),
      CreateCertificate = (\<lambda>_ _ _ _. Pair (Inr ''crt'')), CreateCertificateRequest = (\<lambda>_ _. Pair (Inr ''csr'')),
      ParseCertificate = (\<lambda>_. Inr demo_root_x509), ParsePKCS8PrivateKey = (\<lambda>_. Inr (RSAPrivateKey 1)),
      MarshalPKCS8PrivateKey = (\<lambda>_. Inr ''key''), pem_Encode = (\<lambda>_. Inr), pem_Decode = Some\<rparr>"

definition demo_env :: "(unit, string \<rightharpoonup> repo_content) manager_env" where
  "demo_env =
     \<lparr>me_options = Inr (), me_kubeconfig = Inr (), me_NewAPI = Inr (),
      me_version = \<lparr>semver_MustParse = Inr, semver_GTE = (\<lambda>_ _. True)\<rparr>, me_GitVersion = Inr ''v1.21.0'',
      me_mesh = demo_start_lib,
      me_config = \<lparr>api_getConfigMap = (\<lambda>_. Pair (Inl NotFound)), api_updateConfigMap = (\<lambda>cm. Pair (Inr cm))\<rparr>,
      me_namespaceUID = (\<lambda>_. Pair (Inr ''uid'')), me_crypto = demo_start_crypto,
      me_secrets = \<lparr>sec_create = (\<lambda>_. Pair (Inr ())), sec_get = (\<lambda>_. Pair (Inr (ca_secret ''ec'' ''bundle'' demo_root_ca)))\<rparr>,
      me_certmgr = \<lparr>issuer_create = (\<lambda>_. Pair (Inl NotFound)), issuer_get = (\<lambda>_. Pair (Inl NotFound)),
        cmcert_create = (\<lambda>_. Pair (Inl NotFound)), cmcert_list = (\<lambda>_. Pair (Inl NotFound)), cr_create = (\<lambda>_. Pair (Inl NotFound)),
        cr_list = (\<lambda>_. Pair (Inl NotFound)), cr_delete = (\<lambda>_. Pair (Inl NotFound))\<rparr>,
      me_http = demo_repo, me_sjson = (\<lambda>json path _. Inr (json @ path)), me_root = demo_image, me_repo_polls = 61, me_cert_polls = 61,
      me_files = \<lparr>MkdirAll = (\<lambda>_. Pair (Inr ())), WriteFile = (\<lambda>_ _. Pair (Inr ()))\<rparr>,
      me_mutating = \<lparr>whc_create = (\<lambda>_. Pair (Inr ())), whc_get = (\<lambda>_. Pair (Inl NotFound)), whc_update = (\<lambda>_. Pair (Inr ()))\<rparr>,
      me_validating = \<lparr>whc_create = (\<lambda>_. Pair (Inr ())), whc_get = (\<lambda>_. Pair (Inl NotFound)), whc_update = (\<lambda>_. Pair (Inr ()))\<rparr>,
      me_NewManager = Pair (Inr ()), me_SetupWithManager = (\<lambda>_. Pair (Inr ())), me_Register = (\<lambda>_. Pair (Inr ())),
      me_GetInformer = Pair (Inr ()), me_RegisterConfigurationHandler = Pair (Inr ()), me_AddCheck = (\<lambda>_. Pair (Inr ())),
      me_Start = Pair (Inr ())\<rparr>"

definition demo_start :: "string \<Rightarrow> (string \<rightharpoonup> repo_content) \<Rightarrow> (unit, string \<rightharpoonup> repo_content) start_state" where
  "demo_start json m = (\<lparr>cfg_cache = Inr (demo_cm json), cfg_world = ()\<rparr>, m)"

lemma demo_config_kept: "config_kept (me_mesh demo_env) (me_config demo_env)"
  by (auto simp: config_kept_def demo_env_def demo_start_lib_def json_roundtrip_def split: if_splits)

lemma demo_readConfig: "readConfig demo_env (demo_start u m) = (Inr (demo_start_cfg u), demo_start u m)"
  by (simp add: readConfig_def on_config_def demo_start_def GetConfig_def getConfigMap_def demo_cm_def ParseMeshConfig_def demo_env_def
      demo_start_lib_def) (simp add: demo_start_cfg_def zero_MeshConfig_def)

lemma demo_configure: "configure demo_env (demo_start [] m) = (Inr (demo_start_cfg ''uid''), demo_start ''uid'' m)"
proof -
  have "with_UID (demo_start_cfg []) ''uid'' = demo_start_cfg ''uid''" by (simp add: demo_start_cfg_def)
  moreover have "cc_UID (mc_Cluster (demo_start_cfg u)) = u" for u by (simp add: demo_start_cfg_def)
  moreover have "check_version demo_env = Inr ()"
    by (simp add: check_version_def demo_env_def IsSupportedK8sVersion_def detectServerVersion_def getServerVersion_def)
  ultimately show ?thesis
    using demo_readConfig [of "[]" m]
    by (simp add: configure_def getClusterUID_def on_cluster_def on_config_def)
       (simp add: demo_env_def demo_start_def UpdateConfig_def getConfigMap_def demo_cm_def ParseMeshConfig_def ToJson_def
         demo_start_lib_def)
qed

lemmas demo_repo_run = on_repo_def demo_repo_def demo_start_def ok_response_def

lemma demo_upload: "\<exists>m'. upload_items (on_repo demo_repo) b items (demo_start u m) = (Inr (), demo_start u m')"
proof (induction items arbitrary: m)
  case (Cons item items)
  have "\<exists>m'. upsertFile (on_repo demo_repo) path c (demo_start u m) = (Inr (), demo_start u m')" for path c
    by (simp add: upsertFile_def demo_repo_run)
  then obtain m' where "upsertFile (on_repo demo_repo) (item_path b item) (bi_Content item) (demo_start u m) = (Inr (), demo_start u m')"
    by blast
  with Cons.IH [of m'] show ?case by simp
qed auto

lemma demo_Batch: "\<exists>m'. repo_Batch (on_repo demo_repo) bs (demo_start u m) = (Inr (), demo_start u m')"
proof (induction bs arbitrary: m)
  case (Cons b bs)
  have "batch_version (on_repo demo_repo) b (demo_start u m) = (Inr 1, demo_start u m)" for m
    by (simp add: batch_version_def isCodebaseExists_def demo_repo_run mk_Codebase_def)
  moreover have "repo_commit (on_repo demo_repo) path v (demo_start u m) = (Inr (), demo_start u m)" for path v m
    by (simp add: repo_commit_def demo_repo_run)
  moreover obtain m' where "upload_items (on_repo demo_repo) b (ba_Items b) (demo_start u m) = (Inr (), demo_start u m')"
    using demo_upload by blast
  ultimately have "batch_one (on_repo demo_repo) b (demo_start u m) = (Inr (), demo_start u m')"
    by (simp add: batch_one_def)
  with Cons.IH [of m'] show ?case by simp
qed auto

lemma demo_edit: "\<exists>m'. editMainJson (on_repo demo_repo) (me_sjson demo_env) base edits (demo_start u m) = (Inr (), demo_start u m')"
proof -
  have "\<exists>json'. set_all (me_sjson demo_env) edits json = Inr json'" for json
    by (induction edits arbitrary: json) (auto simp: demo_env_def)
  moreover have "\<exists>json. getMainJson (on_repo demo_repo) base (demo_start u m) = (Inr json, demo_start u m)"
    by (simp add: getMainJson_def GetFile_def demo_repo_run)
  ultimately obtain json json' where "getMainJson (on_repo demo_repo) base (demo_start u m) = (Inr json, demo_start u m)"
    "set_all (me_sjson demo_env) edits json = Inr json'" by metis
  then show ?thesis using demo_Batch by (simp add: editMainJson_def updateMainJson_def del: repo_Batch.simps)
qed

lemma demo_initRepo: "\<exists>m'. initRepo (me_repo_polls demo_env) (on_repo demo_repo) demo_image (demo_start u m) = (Inr (), demo_start u m')"
proof -
  have "repo_ready (on_repo demo_repo) (demo_start u m) = (Inr (Inr (Some ())), demo_start u m)"
    by (simp add: repo_ready_def IsRepoUp_def repo_get_def demo_repo_run)
  then have poll: "PollImmediate (me_repo_polls demo_env) (repo_ready (on_repo demo_repo)) (demo_start u m) = (Inr (Inr ()), demo_start u m)"
    by (simp add: demo_env_def numeral_eq_Suc io_bind_def io_return_def)
  have "\<exists>b. ingressBatch demo_image = Inr b" "\<exists>b. servicesBatch demo_image = Inr b"
    by (simp_all add: ingressBatch_def servicesBatch_def createBatch_def listFiles_def demo_image_def demo_ing_def demo_svc_def
        visit_def ReadFile_def)
  then obtain b1 b2 where "ingressBatch demo_image = Inr b1" "servicesBatch demo_image = Inr b2" by blast
  moreover obtain m' where "repo_Batch (on_repo demo_repo) [b1, b2] (demo_start u m) = (Inr (), demo_start u m')"
    using demo_Batch by blast
  ultimately show ?thesis using poll by (auto simp: initRepo_def simp del: repo_Batch.simps)
qed

abbreviation demo_mgr :: cert_mgr where "demo_mgr \<equiv> Archon (archon_NewManager \<lparr>ct_CommonName = x5_CommonName demo_root_x509,
  ct_SerialNumber = itoa (x5_SerialNumber demo_root_x509), ct_CA = ''-Rps'', ct_CrtPEM = ''-Rps'', ct_KeyPEM = ''-rk'',
  ct_Expiration = x5_NotAfter demo_root_x509\<rparr>)"

lemma demo_certMgr:
  "io_or_exit (on_cluster (GetCertificateManager (me_crypto demo_env) (me_secrets demo_env) (me_certmgr demo_env)
     (me_cert_polls demo_env) (ErieCanalNamespace (me_mesh demo_env)) (demo_start_cfg u))) (demo_start v m) = (Inr demo_mgr, demo_start v m)"
proof -
  have "GetCertificateManager (me_crypto demo_env) (me_secrets demo_env) (me_certmgr demo_env)
     (me_cert_polls demo_env) (ErieCanalNamespace (me_mesh demo_env)) (demo_start_cfg u) () = (Inr (Inr demo_mgr), ())"
    by (simp add: GetCertificateManager_def getArchonCertificateManager_def archon_NewRootCA_def getOrSaveCertificate_def Let_def
        demo_env_def demo_start_crypto_def demo_start_cfg_def CertToPEM_def RSAKeyToPEM_def ca_of_secret_def ca_secret_def
        demo_root_ca_def cert_of_PEM_def)
  then show ?thesis by (simp add: on_cluster_def demo_start_def)
qed

lemma demo_issue_any: "\<exists>crt. issuer demo_env demo_mgr cn dns () = (Inr crt, ())"
  by (simp add: issuer_def demo_env_def archon_IssueCertificate_def demo_run demo_start_crypto_def archon_NewManager_def
      CertToPEM_def RSAKeyToPEM_def cert_of_PEM_def ConvertPEMPrivateKeyToX509_def)

lemma demo_setup:
  "\<exists>m'. setupHTTP (on_repo demo_repo) (me_sjson demo_env) mc (demo_start u m) = (Inr (), demo_start u m')"
  "\<exists>m'. setupTLS (on_repo demo_repo) (me_sjson demo_env) (\<lambda>cn dns. on_cluster (issuer demo_env demo_mgr cn dns)) (demo_start_cfg v)
     (demo_start u m) = (Inr (), demo_start u m')"
proof -
  obtain m' where "UpdateIngressHTTPConfig (on_repo demo_repo) (me_sjson demo_env) DefaultIngressBasePath mc (demo_start u m) =
      (Inr (), demo_start u m')"
    using demo_edit unfolding UpdateIngressHTTPConfig_def by blast
  then show "\<exists>m'. setupHTTP (on_repo demo_repo) (me_sjson demo_env) mc (demo_start u m) = (Inr (), demo_start u m')"
    by (auto simp: setupHTTP_def)
  obtain crt where "on_cluster (issuer demo_env demo_mgr ''ingress-pipy'' []) (demo_start u m) = (Inr crt, demo_start u m)"
    using demo_issue_any [of "''ingress-pipy''" "[]"] by (auto simp: on_cluster_def demo_start_def)
  moreover obtain m' where "editMainJson (on_repo demo_repo) (me_sjson demo_env) DefaultIngressBasePath
      (tls_edits (demo_start_cfg v) crt) (demo_start u m) = (Inr (), demo_start u m')"
    using demo_edit by blast
  ultimately show "\<exists>m'. setupTLS (on_repo demo_repo) (me_sjson demo_env) (\<lambda>cn dns. on_cluster (issuer demo_env demo_mgr cn dns))
      (demo_start_cfg v) (demo_start u m) = (Inr (), demo_start u m')"
    by (auto simp: setupTLS_def IssueCertForIngress_def tls_edits_def demo_start_cfg_def zero_MeshConfig_def)
qed

lemma demo_createWebhooks: "createWebhooks demo_env demo_mgr (demo_start u m) = (Inr (), demo_start u m)"
proof -
  let ?cfg = "demo_start_cfg u" and ?ns = "ErieCanalNamespace (me_mesh demo_env)"
  have "\<exists>crt. issueCertForWebhook (me_files demo_env) (issuer demo_env demo_mgr) ?ns ?cfg () = (Inr crt, ())"
    unfolding issueCertForWebhook_def Let_def
    using demo_issue_any [of "mc_WebhookServiceName ?cfg" "[mc_WebhookServiceName ?cfg, mc_WebhookServiceName ?cfg @ ''.'' @ ?ns @ ''.svc'',
      mc_WebhookServiceName ?cfg @ ''.'' @ ?ns @ ''.svc.cluster.local'']"]
    by (auto simp: demo_env_def)
  then obtain crt where crt: "issueCertForWebhook (me_files demo_env) (issuer demo_env demo_mgr) ?ns ?cfg () = (Inr crt, ())" by blast
  have "\<exists>r. createWebhookConfigurations (me_files demo_env) (issuer demo_env demo_mgr) (me_mutating demo_env) (me_validating demo_env)
      ?ns ?cfg no_webhooks () = (Inr (), r, ())"
    unfolding createWebhookConfigurations_run [OF crt refl] by (simp add: apply_configuration_def demo_env_def)
  then show ?thesis
    using demo_readConfig [of u m] by (auto simp: createWebhooks_def on_cluster_def) (simp add: demo_start_def)
qed

lemma demo_register:
  "registerReconcilers demo_env (demo_start u m) = (Inr (), demo_start u m)"
  "on_cluster (register_all (me_Register demo_env) hooks) (demo_start u m) = (Inr (), demo_start u m)"
  "registerEventHandler demo_env (demo_start u m) = (Inr (), demo_start u m)"
  "addLivenessAndReadinessCheck demo_env (demo_start u m) = (Inr (), demo_start u m)"
  "or_exit (on_cluster (me_NewManager demo_env)) (demo_start u m) = (Inr (), demo_start u m)"
proof -
  have calls: "or_fatal (on_cluster (me_SetupWithManager demo_env n)) (demo_start u m) = (Inr (), demo_start u m)" for n
    by (simp add: demo_env_def on_cluster_def demo_start_def)
  show "registerReconcilers demo_env (demo_start u m) = (Inr (), demo_start u m)"
    by (simp add: registerReconcilers_def demo_readConfig registerCluster_def registerServiceExport_def registerServiceImport_def
        when_set_def demo_start_cfg_def zero_MeshConfig_def calls andThen_def del: step_simps andThen_iff)
  have "register_all (me_Register demo_env) hooks () = (Inr (), ())" by (induction hooks) (auto simp: demo_env_def)
  then show "on_cluster (register_all (me_Register demo_env) hooks) (demo_start u m) = (Inr (), demo_start u m)"
    by (simp add: on_cluster_def demo_start_def)
  show "registerEventHandler demo_env (demo_start u m) = (Inr (), demo_start u m)"
    "addLivenessAndReadinessCheck demo_env (demo_start u m) = (Inr (), demo_start u m)"
    "or_exit (on_cluster (me_NewManager demo_env)) (demo_start u m) = (Inr (), demo_start u m)"
    by (simp_all add: registerEventHandler_def addLivenessAndReadinessCheck_def demo_env_def on_cluster_def demo_start_def)
qed

theorem manager_publishes_scripts_witness:
  "\<exists>m. fst (prepare demo_env (demo_start [] Map.empty)) = Inr (demo_start_cfg ''uid'') \<and>
       snd (snd (prepare demo_env (demo_start [] Map.empty))) = m \<and>
       m (stored ''/base/ingress/config/main.json'') = Some (ContentText ''{}httptls'') \<and>
       m (stored ''/base/ingress/main.js'') = Some (ContentText ''i'') \<and> m (stored ''/base/services/main.js'') = Some (ContentText ''s'')"
proof -
  obtain m1 where m1: "initRepo (me_repo_polls demo_env) (on_repo demo_repo) demo_image (demo_start ''uid'' Map.empty) = (Inr (), demo_start ''uid'' m1)"
    using demo_initRepo by blast
  obtain m2 where m2: "setupHTTP (on_repo demo_repo) (me_sjson demo_env) (demo_start_cfg ''uid'') (demo_start ''uid'' m1) = (Inr (), demo_start ''uid'' m2)"
    using demo_setup(1) by blast
  obtain m3 where m3: "setupTLS (on_repo demo_repo) (me_sjson demo_env) (\<lambda>cn dns. on_cluster (issuer demo_env demo_mgr cn dns))
      (demo_start_cfg ''uid'') (demo_start ''uid'' m2) = (Inr (), demo_start ''uid'' m3)"
    using demo_setup(2) by blast
  have sel: "me_http demo_env = demo_repo" "me_root demo_env = demo_image" by (simp_all add: demo_env_def)
  have run: "prepare demo_env (demo_start [] Map.empty) = (Inr (demo_start_cfg ''uid''), demo_start ''uid'' m3)"
    using m1 m2 m3 by (simp add: prepare_def andThen_def sel demo_configure demo_certMgr demo_createWebhooks demo_register demo_readConfig
        del: step_simps andThen_iff)
  have "\<exists>cfg uid crt json'. fst (readConfig demo_env (demo_start [] Map.empty)) = Inr cfg \<and>
     (\<exists>s1. fst (getClusterUID demo_env s1) = Inr uid) \<and> demo_start_cfg ''uid'' = with_UID cfg uid \<and>
     (offloads_tls (demo_start_cfg ''uid'') \<longrightarrow>
       (\<exists>m v w. fst (GetCertificateManager (me_crypto demo_env) (me_secrets demo_env) (me_certmgr demo_env) (me_cert_polls demo_env)
          (ErieCanalNamespace (me_mesh demo_env)) (demo_start_cfg ''uid'') v) = Inr (Inr m) \<and>
          fst (issuer demo_env m ''ingress-pipy'' [] w) = Inr crt)) \<and>
     set_all (me_sjson demo_env) (http_edits (demo_start_cfg ''uid'') @ tls_edits (demo_start_cfg ''uid'') crt) ''{}'' = Inr json' \<and>
     published id demo_ing demo_svc json' (snd (demo_start ''uid'' m3))"
    by (rule manager_publishes_scripts [OF _ demo_config_kept _ _ _ _ run])
       (simp_all add: sel demo_repo_files demo_image_def demo_ing_def demo_svc_def)
  then obtain crt json' where
    "set_all (me_sjson demo_env) (http_edits (demo_start_cfg ''uid'') @ tls_edits (demo_start_cfg ''uid'') crt) ''{}'' = Inr json'"
    "published id demo_ing demo_svc json' m3" by (auto simp: demo_start_def)
  then show ?thesis unfolding run
    by (auto simp: demo_env_def http_edits_def tls_edits_def demo_start_cfg_def zero_MeshConfig_def published_def mirror_def demo_ing_def
        demo_svc_def demo_start_def getPathOfMainJson_def)
qed

end
