(* ===== verification/Webhooks.thy ===== *)
theory Webhooks
  imports Admission Ingress_Cache Go_Util
begin

text \<open>
  The defaulters and validators under \<open>pkg/webhooks\<close>, one group of definitions per kind of object.
  What they read is the record \<open>webhook_env\<close>: the mesh configuration as \<open>GetConfig\<close> returns it (or
  its panic), the lists and secrets of the API server at the time of the request, the name service, and the
  validation functions of the libraries. An implementation that gets an object of another kind, for which
  its type assertion fails, leaves it alone or accepts it. The messages of the errors are shortened.

  The locale \<open>stable_defaulter\<close> is the contract of a defaulter and \<open>guarded_store\<close> the one of a validator
  that protects a property of the stored objects; the implementations interpret them.
\<close>

record 'g webhook_env =
  we_GetConfig :: "MeshConfig go"
  we_lib :: mesh_lib
  we_k8s :: k8s_lib
  we_dns :: dns_lib
  we_IsValidPortNum :: "int \<Rightarrow> string list"
  we_DefaultIngressClass :: string
  we_listClusters :: "Cluster list result"
  we_listNamespacedIngresses :: "string \<Rightarrow> NamespacedIngress list result"
  we_getSecret :: "string \<Rightarrow> string \<Rightarrow> Secret result"
  we_ValidateGateway :: "'g \<Rightarrow> string list"
  we_ValidateGatewayClassUpdate :: "'g \<Rightarrow> 'g \<Rightarrow> string list"
  we_ValidateHTTPRoute :: "'g \<Rightarrow> string list"

section \<open>Cluster\<close>

abbreviation MultiClustersConnectorMode :: string where
  "MultiClustersConnectorMode \<equiv> ''multicluster.flomesh.io/connector-mode''"

definition cluster_SetDefaults :: "'g webhook_env \<Rightarrow> 'g k8s_object \<Rightarrow> 'g k8s_object go" where
  "cluster_SetDefaults env obj =
     (case obj of
        OCluster c \<Rightarrow>
          go_bind (we_GetConfig env) (\<lambda>meshConfig.
            let labels = gm_entries (meta_Labels (cl_Meta c));
                labels = gput MultiClustersConnectorMode (if cls_IsInCluster (cl_Spec c) then ''local'' else ''remote'') labels
            in Inr (OCluster (c\<lparr>cl_Meta := (cl_Meta c)\<lparr>meta_Labels := Some labels\<rparr>\<rparr>)))
      | _ \<Rightarrow> Inr obj)"

definition gateway_check :: "'g webhook_env \<Rightarrow> Cluster \<Rightarrow> go_error option" where
  "gateway_check env c =
     (let host = cls_GatewayHost (cl_Spec c); dns = we_dns env;
          isIP = (IsValidIPv4Address dns host = []); dnsErrs = dns_IsDNS1123Subdomain dns host
      in if \<not> isIP \<and> dnsErrs \<noteq> [] then Some (Errorf (''invalid DNS name '' @ host))
         else
           (case (if isIP then Inr (ParseIP host) else map_sum id Some (ResolveIPAddr dns host)) of
              Inl _ \<Rightarrow> Some (Errorf (host @ '' cannot be resolved to IP''))
            | Inr ipAddr \<Rightarrow>
                (case Option.bind ipAddr To4 of
                   None \<Rightarrow> Some (Errorf (host @ '' cannot be resolved to a IPv4 address''))
                 | Some gwIPv4 \<Rightarrow>
                     if IsLoopback gwIPv4 \<or> IsUnspecified gwIPv4
                     then Some (Errorf (''gateway Host '' @ host @ '' is resolved to Loopback IP or Unspecified''))
                     else if we_IsValidPortNum env (cls_GatewayPort (cl_Spec c)) \<noteq> []
                     then Some (Errorf (''invalid port number '' @ itoa (cls_GatewayPort (cl_Spec c))))
                     else None)))"

definition cluster_doValidation :: "'g webhook_env \<Rightarrow> 'g k8s_object \<Rightarrow> go_error option" where
  "cluster_doValidation env obj =
     (case obj of
        OCluster c \<Rightarrow>
          (let connectorMode = gstr (gm_entries (meta_Labels (cl_Meta c))) MultiClustersConnectorMode in
           if connectorMode = [] then Some (Errorf ''missing required label'')
           else if connectorMode \<noteq> ''local'' \<and> connectorMode \<noteq> ''remote''
           then Some (Errorf (''invalid value '' @ connectorMode))
           else if cls_IsInCluster (cl_Spec c)
           then (if connectorMode = ''remote'' then Some (Errorf ''label and spec do not match'') else None)
           else if connectorMode = ''local'' then Some (Errorf ''label and spec do not match'')
           else if cls_GatewayHost (cl_Spec c) = [] then Some (Errorf ''GatewayHost is required in OutCluster mode'')
           else if cls_Kubeconfig (cl_Spec c) = [] then Some (Errorf ''kubeconfig must be set in OutCluster mode'')
           else gateway_check env c)
      | _ \<Rightarrow> None)"

definition cluster_ValidateCreate :: "'g webhook_env \<Rightarrow> 'g k8s_object \<Rightarrow> go_error option" where
  "cluster_ValidateCreate env obj =
     (case obj of
        OCluster cluster \<Rightarrow>
          if cls_IsInCluster (cl_Spec cluster)
          then (case we_listClusters env of
                  Inl err \<Rightarrow> Some err
                | Inr items \<Rightarrow>
                    (let numOfInCluster = length (filter (\<lambda>c. cls_IsInCluster (cl_Spec c)) items) in
                     if numOfInCluster \<ge> 1
                     then Some (Errorf (''there are '' @ itoa (int numOfInCluster) @ '' InCluster resources''))
                     else cluster_doValidation env obj))
          else cluster_doValidation env obj
      | _ \<Rightarrow> None)"

definition cluster_ValidateUpdate :: "'g webhook_env \<Rightarrow> 'g k8s_object \<Rightarrow> 'g k8s_object \<Rightarrow> go_error option" where
  "cluster_ValidateUpdate env oldObj obj =
     (case (oldObj, obj) of
        (OCluster oldCluster, OCluster cluster) \<Rightarrow>
          if cls_IsInCluster (cl_Spec oldCluster) \<noteq> cls_IsInCluster (cl_Spec cluster)
          then Some (Errorf ''cannot update an immutable field: spec.IsInCluster'')
          else cluster_doValidation env obj
      | _ \<Rightarrow> None)"

section \<open>ConfigMap\<close>

definition isNotWatchedConfigmap :: "ConfigMap \<Rightarrow> string \<Rightarrow> bool" where
  "isNotWatchedConfigmap cm erieCanalNamespace \<longleftrightarrow>
     meta_Namespace (cm_Meta cm) \<noteq> erieCanalNamespace \<or> meta_Name (cm_Meta cm) \<notin> set [MeshConfigName]"

abbreviation DefaultWebhookServiceName :: string where "DefaultWebhookServiceName \<equiv> ''erie-canal-webhook-service''"

text \<open>The default values of the mesh configuration.\<close>

definition config_defaults :: "MeshConfig \<Rightarrow> MeshConfig" where
  "config_defaults cfg =
     (let or_default = (\<lambda>s d. if s = [] then d else s :: string);
          img = mc_Images cfg;
          img = \<lparr>img_Repository = or_default (img_Repository img) ''flomesh'',
                 img_PipyImage = or_default (img_PipyImage img) ''pipy:latest'',
                 img_ProxyInitImage = or_default (img_ProxyInitImage img) ''erie-canal-proxy-init:latest'',
                 img_KlipperLbImage = or_default (img_KlipperLbImage img) ''mirrored-klipper-lb:v0.3.5''\<rparr>;
          url = (if suffix ''/'' (mc_RepoRootURL cfg) then trim_suffix (mc_RepoRootURL cfg) ''/'' else mc_RepoRootURL cfg);
          certificate = (mc_Certificate cfg)\<lparr>certc_Manager := or_default (certc_Manager (mc_Certificate cfg)) ''archon''\<rparr>
      in cfg\<lparr>mc_Images := img, mc_RepoRootURL := url, mc_Certificate := certificate,
             mc_WebhookServiceName := or_default (mc_WebhookServiceName cfg) DefaultWebhookServiceName\<rparr>)"

definition cm_SetDefaults :: "'g webhook_env \<Rightarrow> 'g k8s_object \<Rightarrow> 'g k8s_object go" where
  "cm_SetDefaults env obj =
     (case obj of
        OConfigMap cm \<Rightarrow>
          if isNotWatchedConfigmap cm (ErieCanalNamespace (we_lib env)) then Inr obj
          else if meta_Name (cm_Meta cm) = MeshConfigName
          then (case ParseMeshConfig (we_lib env) cm of
                  Inl _ \<Rightarrow> Inr obj
                | Inr cfg \<Rightarrow>
                    Inr (OConfigMap (cm\<lparr>cm_Data := Some (gput MeshConfigJsonName
                      (ToJson (we_lib env) (config_defaults cfg)) (gm_entries (cm_Data cm)))\<rparr>)))
          else Inr obj
      | _ \<Rightarrow> Inr obj)"

definition cm_doValidation :: "'g webhook_env \<Rightarrow> 'g k8s_object \<Rightarrow> go_error option" where
  "cm_doValidation env obj =
     (case obj of
        OConfigMap cm \<Rightarrow>
          if isNotWatchedConfigmap cm (ErieCanalNamespace (we_lib env)) then None
          else if meta_Name (cm_Meta cm) = MeshConfigName
          then (case ParseMeshConfig (we_lib env) cm of
                  Inl err \<Rightarrow> Some err
                | Inr cfg \<Rightarrow>
                    if ingc_Enabled (mc_Ingress cfg) \<and> \<not> http_Enabled (ingc_HTTP (mc_Ingress cfg)) \<and>
                       \<not> tlsc_Enabled (ingc_TLS (mc_Ingress cfg))
                    then Some (Errorf ''ingress.http.enabled and ingress.tls.enabled are both false'')
                    else None)
          else None
      | _ \<Rightarrow> None)"

definition cm_ValidateDelete :: "'g webhook_env \<Rightarrow> 'g k8s_object \<Rightarrow> go_error option" where
  "cm_ValidateDelete env obj =
     (case obj of
        OConfigMap cm \<Rightarrow>
          if isNotWatchedConfigmap cm (ErieCanalNamespace (we_lib env)) then None
          else if meta_Name (cm_Meta cm) = MeshConfigName
          then Some (Errorf (''ConfigMap '' @ nn_String (nn_of_meta (cm_Meta cm)) @ '' cannot be deleted''))
          else None
      | _ \<Rightarrow> None)"

section \<open>NamespacedIngress\<close>

text \<open>Filling in a pointer that is nil.\<close>

fun pointer_or :: "'a option \<Rightarrow> 'a \<Rightarrow> 'a option" where
  "pointer_or None d = Some d"
| "pointer_or (Some v) d = Some v"

definition nsig_defaults :: "NamespacedIngress \<Rightarrow> NamespacedIngress" where
  "nsig_defaults c =
     (let passthrough = ntls_SSLPassthrough (nsig_TLS c);
          passthrough = passthrough\<lparr>sslp_UpstreamPort := pointer_or (sslp_UpstreamPort passthrough) 443\<rparr>
      in c\<lparr>nsig_ServiceAccountName :=
             (if nsig_ServiceAccountName c = [] then ''erie-canal-namespaced-ingress'' else nsig_ServiceAccountName c),
           nsig_LogLevel := pointer_or (nsig_LogLevel c) 2,
           nsig_Replicas := pointer_or (nsig_Replicas c) 1,
           nsig_TLS := (nsig_TLS c)\<lparr>ntls_SSLPassthrough := passthrough\<rparr>,
           nsig_PodSecurityContext := pointer_or (nsig_PodSecurityContext c)
             \<lparr>psc_RunAsNonRoot = Some True, psc_RunAsUser = Some 65532, psc_RunAsGroup = Some 65532,
              psc_SeccompProfileType = Some ''RuntimeDefault''\<rparr>,
           nsig_SecurityContext := pointer_or (nsig_SecurityContext c) \<lparr>sc_AllowPrivilegeEscalation = Some False\<rparr>\<rparr>)"

definition nsig_SetDefaults :: "'g webhook_env \<Rightarrow> 'g k8s_object \<Rightarrow> 'g k8s_object go" where
  "nsig_SetDefaults env obj =
     (case obj of
        ONamespacedIngress c \<Rightarrow> go_bind (we_GetConfig env) (\<lambda>meshConfig. Inr (ONamespacedIngress (nsig_defaults c)))
      | _ \<Rightarrow> Inr obj)"

definition nsig_doValidation :: "'g k8s_object \<Rightarrow> go_error option" where
  "nsig_doValidation obj = None"

definition nsig_ValidateCreate :: "'g webhook_env \<Rightarrow> 'g k8s_object \<Rightarrow> go_error option" where
  "nsig_ValidateCreate env obj =
     (case obj of
        ONamespacedIngress nsig \<Rightarrow>
          (case we_listNamespacedIngresses env (meta_Namespace (nsig_Meta nsig)) of
             Inl err \<Rightarrow> Some err
           | Inr items \<Rightarrow>
               if length items > 0
               then Some (Errorf (''There is already '' @ itoa (int (length items)) @ '' in namespace '' @
                                  meta_Namespace (nsig_Meta nsig)))
               else nsig_doValidation (ONamespacedIngress nsig :: 'g k8s_object))
      | _ \<Rightarrow> None)"

definition nsig_ValidateUpdate :: "'g webhook_env \<Rightarrow> 'g k8s_object \<Rightarrow> 'g k8s_object \<Rightarrow> go_error option" where
  "nsig_ValidateUpdate env oldObj obj = nsig_doValidation obj"

section \<open>ServiceExport and ServiceImport\<close>

definition export_SetDefaults :: "'g webhook_env \<Rightarrow> 'g k8s_object \<Rightarrow> 'g k8s_object go" where
  "export_SetDefaults env obj = Inr obj"

definition export_doValidation :: "'g webhook_env \<Rightarrow> 'g k8s_object \<Rightarrow> go_error option" where
  "export_doValidation env obj = None"

definition import_SetDefaults :: "'g webhook_env \<Rightarrow> 'g k8s_object \<Rightarrow> 'g k8s_object go" where
  "import_SetDefaults env obj =
     (case obj of
        OServiceImport i \<Rightarrow>
          go_bind (we_GetConfig env) (\<lambda>meshConfig.
            Inr (OServiceImport
              (if sis_Type (imp_Spec i) = [] then i\<lparr>imp_Spec := (imp_Spec i)\<lparr>sis_Type := ClusterSetIP\<rparr>\<rparr> else i)))
      | _ \<Rightarrow> Inr obj)"

definition import_doValidation :: "'g webhook_env \<Rightarrow> 'g k8s_object \<Rightarrow> go_error option" where
  "import_doValidation env obj = None"

section \<open>GlobalTrafficPolicy\<close>

definition gtp_SetDefaults :: "'g webhook_env \<Rightarrow> 'g k8s_object \<Rightarrow> 'g k8s_object go" where
  "gtp_SetDefaults env obj =
     (case obj of
        OGlobalTrafficPolicy policy \<Rightarrow>
          go_bind (we_GetConfig env) (\<lambda>meshConfig.
            Inr (OGlobalTrafficPolicy (if gtp_LbType policy = [] then policy\<lparr>gtp_LbType := LocalityLbType\<rparr> else policy)))
      | _ \<Rightarrow> Inr obj)"

fun negative_weight :: "TrafficTarget list \<Rightarrow> go_error option" where
  "negative_weight [] = None"
| "negative_weight (t # ts) =
     (case tt_Weight t of
        Some weight \<Rightarrow>
          if weight < 0 then Some (Errorf (''weight of '' @ tt_ClusterKey t @ '' is invalid for active-active load balancing''))
          else negative_weight ts
      | None \<Rightarrow> negative_weight ts)"

definition gtp_doValidation :: "'g webhook_env \<Rightarrow> 'g k8s_object \<Rightarrow> go_error option" where
  "gtp_doValidation env obj =
     (case obj of
        OGlobalTrafficPolicy policy \<Rightarrow>
          if gtp_LbType policy = LocalityLbType
          then (if length (gtp_Targets policy) > 1 then Some (Errorf ''the traffic can only be sticky to exact one cluster'') else None)
          else if gtp_LbType policy = FailOverLbType
          then (if length (gtp_Targets policy) = 0 then Some (Errorf ''requires at least one cluster for failover'') else None)
          else if gtp_LbType policy = ActiveActiveLbType then negative_weight (gtp_Targets policy)
          else None
      | _ \<Rightarrow> None)"

section \<open>Ingress\<close>

definition ingress_SetDefaults :: "'g webhook_env \<Rightarrow> 'g k8s_object \<Rightarrow> 'g k8s_object go" where
  "ingress_SetDefaults env obj = Inr obj"

definition secretExists :: "'g webhook_env \<Rightarrow> string \<Rightarrow> Ingress \<Rightarrow> go_error option" where
  "secretExists env secretName ing =
     (case SecretNamespaceAndName (we_k8s env) secretName ing of
        (_, _, Some err) \<Rightarrow> Some err
      | (ns, nm, None) \<Rightarrow>
          if nm = [] then Some (Errorf (''secret name of Ingress '' @ nn_String (ing_nn ing) @ '' is empty or invalid''))
          else (case we_getSecret env ns nm of Inl err \<Rightarrow> Some err | Inr _ \<Rightarrow> None))"

fun tls_secrets_exist :: "'g webhook_env \<Rightarrow> Ingress \<Rightarrow> IngressTLS list \<Rightarrow> go_error option" where
  "tls_secrets_exist env ing [] = None"
| "tls_secrets_exist env ing (t # ts) =
     (if tls_SecretName t = [] then tls_secrets_exist env ing ts
      else case secretExists env (tls_SecretName t) ing of
             Some _ \<Rightarrow> Some (Errorf (''TLS secret '' @ tls_SecretName t @ '' of Ingress '' @ nn_String (ing_nn ing) @ '' does not exist''))
           | None \<Rightarrow> tls_secrets_exist env ing ts)"

definition ingress_doValidation :: "'g webhook_env \<Rightarrow> 'g k8s_object \<Rightarrow> go_error option" where
  "ingress_doValidation env obj =
     (case obj of
        OIngress ing \<Rightarrow>
          if \<not> IsValidPipyIngress (we_DefaultIngressClass env) ing then None
          else
            (let annotations = gm_entries (meta_Annotations (ing_Meta ing));
                 upstreamSSLSecret = gstr annotations PipyIngressAnnotationUpstreamSSLSecret;
                 trustedCASecret = gstr annotations PipyIngressAnnotationTLSTrustedCASecret
             in if upstreamSSLSecret \<noteq> [] \<and> secretExists env upstreamSSLSecret ing \<noteq> None
                then Some (Errorf (''secret '' @ upstreamSSLSecret @ '' does not exist''))
                else if trustedCASecret \<noteq> [] \<and> secretExists env trustedCASecret ing \<noteq> None
                then Some (Errorf (''secret '' @ trustedCASecret @ '' does not exist''))
                else tls_secrets_exist env ing (ing_TLS ing))
      | _ \<Rightarrow> None)"

section \<open>The Gateway API\<close>

definition gateway_SetDefaults :: "'g webhook_env \<Rightarrow> 'g k8s_object \<Rightarrow> 'g k8s_object go" where
  "gateway_SetDefaults env obj =
     (case obj of OGateway g \<Rightarrow> go_bind (we_GetConfig env) (\<lambda>meshConfig. Inr obj) | _ \<Rightarrow> Inr obj)"

definition gateway_doValidation :: "'g webhook_env \<Rightarrow> 'g k8s_object \<Rightarrow> go_error option" where
  "gateway_doValidation env obj =
     (case obj of
        OGateway g \<Rightarrow>
          (let errorList = we_ValidateGateway env g in
           if length errorList > 0 then ErrorListToError (Some errorList) else None)
      | _ \<Rightarrow> None)"

definition gatewayclass_SetDefaults :: "'g webhook_env \<Rightarrow> 'g k8s_object \<Rightarrow> 'g k8s_object go" where
  "gatewayclass_SetDefaults env obj =
     (case obj of OGatewayClass g \<Rightarrow> go_bind (we_GetConfig env) (\<lambda>meshConfig. Inr obj) | _ \<Rightarrow> Inr obj)"

definition gatewayclass_doValidation :: "'g webhook_env \<Rightarrow> 'g k8s_object \<Rightarrow> go_error option" where
  "gatewayclass_doValidation env obj = None"

definition gatewayclass_ValidateUpdate :: "'g webhook_env \<Rightarrow> 'g k8s_object \<Rightarrow> 'g k8s_object \<Rightarrow> go_error option" where
  "gatewayclass_ValidateUpdate env oldObj obj =
     (case (oldObj, obj) of
        (OGatewayClass oldGatewayClass, OGatewayClass gatewayClass) \<Rightarrow>
          (let errorList = we_ValidateGatewayClassUpdate env oldGatewayClass gatewayClass in
           if length errorList > 0 then ErrorListToError (Some errorList) else None)
      | _ \<Rightarrow> None)"

definition httproute_SetDefaults :: "'g webhook_env \<Rightarrow> 'g k8s_object \<Rightarrow> 'g k8s_object go" where
  "httproute_SetDefaults env obj =
     (case obj of OHTTPRoute g \<Rightarrow> go_bind (we_GetConfig env) (\<lambda>meshConfig. Inr obj) | _ \<Rightarrow> Inr obj)"

definition httproute_doValidation :: "'g webhook_env \<Rightarrow> 'g k8s_object \<Rightarrow> go_error option" where
  "httproute_doValidation env obj =
     (case obj of
        OHTTPRoute r \<Rightarrow>
          (let errorList = we_ValidateHTTPRoute env r in
           if length errorList > 0 then ErrorListToError (Some errorList) else None)
      | _ \<Rightarrow> None)"

section \<open>The implementations of the two interfaces\<close>

abbreviation zero_meta :: ObjectMeta where "zero_meta \<equiv> named_meta [] []"

text \<open>\<open>RuntimeObject\<close> returns the zero value of the kind; \<open>z\<close> is the one of a type of the Gateway API.\<close>

fun hook_RuntimeObject :: "'g \<Rightarrow> hook \<Rightarrow> 'g k8s_object" where
  "hook_RuntimeObject z HCluster =
     OCluster \<lparr>cl_Meta = zero_meta, cl_Generation = 0,
       cl_Spec = \<lparr>cls_IsInCluster = False, cls_Region = [], cls_Zone = [], cls_Group = [], cls_GatewayHost = [],
                  cls_GatewayPort = 0, cls_Kubeconfig = []\<rparr>, cl_Conditions = []\<rparr>"
| "hook_RuntimeObject z HConfigMap = OConfigMap \<lparr>cm_Meta = zero_meta, cm_Data = None\<rparr>"
| "hook_RuntimeObject z HNamespacedIngress =
     ONamespacedIngress \<lparr>nsig_Meta = zero_meta, nsig_ServiceAccountName = [], nsig_LogLevel = None, nsig_Replicas = None,
       nsig_TLS = \<lparr>ntls_Enabled = False, ntls_SSLPassthrough = \<lparr>sslp_Enabled = False, sslp_UpstreamPort = None\<rparr>\<rparr>,
       nsig_PodSecurityContext = None, nsig_SecurityContext = None\<rparr>"
| "hook_RuntimeObject z HServiceExport =
     OServiceExport \<lparr>exp_Meta = zero_meta, exp_Generation = 0,
       exp_Spec = \<lparr>ses_PathRewrite = None, ses_SessionSticky = False, ses_LoadBalancer = [], ses_Rules = [],
                   ses_TargetClusters = [], ses_ServiceAccountName = []\<rparr>, exp_Conditions = []\<rparr>"
| "hook_RuntimeObject z HServiceImport =
     OServiceImport \<lparr>imp_Meta = zero_meta, imp_Spec = \<lparr>sis_Ports = [], sis_Type = [], sis_ServiceAccountName = []\<rparr>\<rparr>"
| "hook_RuntimeObject z HGlobalTrafficPolicy = OGlobalTrafficPolicy \<lparr>gtp_Meta = zero_meta, gtp_LbType = [], gtp_Targets = []\<rparr>"
| "hook_RuntimeObject z HIngress = OIngress \<lparr>ing_Meta = zero_meta, ing_IngressClassName = None, ing_TLS = [], ing_Rules = []\<rparr>"
| "hook_RuntimeObject z HGateway = OGateway z"
| "hook_RuntimeObject z HGatewayClass = OGatewayClass z"
| "hook_RuntimeObject z HHTTPRoute = OHTTPRoute z"

fun hook_SetDefaults :: "hook \<Rightarrow> 'g webhook_env \<Rightarrow> 'g k8s_object \<Rightarrow> 'g k8s_object go" where
  "hook_SetDefaults HCluster = cluster_SetDefaults"
| "hook_SetDefaults HConfigMap = cm_SetDefaults"
| "hook_SetDefaults HNamespacedIngress = nsig_SetDefaults"
| "hook_SetDefaults HServiceExport = export_SetDefaults"
| "hook_SetDefaults HServiceImport = import_SetDefaults"
| "hook_SetDefaults HGlobalTrafficPolicy = gtp_SetDefaults"
| "hook_SetDefaults HIngress = ingress_SetDefaults"
| "hook_SetDefaults HGateway = gateway_SetDefaults"
| "hook_SetDefaults HGatewayClass = gatewayclass_SetDefaults"
| "hook_SetDefaults HHTTPRoute = httproute_SetDefaults"

definition hook_Defaulter :: "'g \<Rightarrow> hook \<Rightarrow> ('g, 'g webhook_env) Defaulter" where
  "hook_Defaulter z h = \<lparr>d_RuntimeObject = Some (hook_RuntimeObject z h), SetDefaults = hook_SetDefaults h\<rparr>"

definition no_delete_check :: "'g webhook_env \<Rightarrow> 'g k8s_object \<Rightarrow> go_error option" where
  "no_delete_check env obj = None"

text \<open>A validator whose three methods call one function for creation and update.\<close>

definition uniform_Validator ::
  "'g k8s_object \<Rightarrow> ('g webhook_env \<Rightarrow> 'g k8s_object \<Rightarrow> go_error option) \<Rightarrow> ('g, 'g webhook_env) Validator" where
  "uniform_Validator zero doValidation =
     \<lparr>v_RuntimeObject = Some zero, ValidateCreate = doValidation, ValidateUpdate = (\<lambda>env oldObj. doValidation env),
      ValidateDelete = no_delete_check\<rparr>"

fun hook_Validator :: "'g \<Rightarrow> hook \<Rightarrow> ('g, 'g webhook_env) Validator" where
  "hook_Validator z HCluster =
     \<lparr>v_RuntimeObject = Some (hook_RuntimeObject z HCluster), ValidateCreate = cluster_ValidateCreate,
      ValidateUpdate = cluster_ValidateUpdate, ValidateDelete = no_delete_check\<rparr>"
| "hook_Validator z HConfigMap =
     (uniform_Validator (hook_RuntimeObject z HConfigMap) cm_doValidation)\<lparr>ValidateDelete := cm_ValidateDelete\<rparr>"
| "hook_Validator z HNamespacedIngress =
     \<lparr>v_RuntimeObject = Some (hook_RuntimeObject z HNamespacedIngress), ValidateCreate = nsig_ValidateCreate,
      ValidateUpdate = nsig_ValidateUpdate, ValidateDelete = no_delete_check\<rparr>"
| "hook_Validator z HServiceExport = uniform_Validator (hook_RuntimeObject z HServiceExport) export_doValidation"
| "hook_Validator z HServiceImport = uniform_Validator (hook_RuntimeObject z HServiceImport) import_doValidation"
| "hook_Validator z HGlobalTrafficPolicy = uniform_Validator (hook_RuntimeObject z HGlobalTrafficPolicy) gtp_doValidation"
| "hook_Validator z HIngress = uniform_Validator (hook_RuntimeObject z HIngress) ingress_doValidation"
| "hook_Validator z HGateway = uniform_Validator (hook_RuntimeObject z HGateway) gateway_doValidation"
| "hook_Validator z HGatewayClass =
     (uniform_Validator (hook_RuntimeObject z HGatewayClass) gatewayclass_doValidation)
       \<lparr>ValidateUpdate := gatewayclass_ValidateUpdate\<rparr>"
| "hook_Validator z HHTTPRoute = uniform_Validator (hook_RuntimeObject z HHTTPRoute) httproute_doValidation"

section \<open>Defaulting converges\<close>

text \<open>What the codec of the handlers promises: an encoded object is read back.\<close>

definition reads_back :: "('g k8s_object \<Rightarrow> string result) \<Rightarrow> 'g decoder \<Rightarrow> bool" where
  "reads_back Marshal dec \<longleftrightarrow> (\<forall>obj m req zero. Marshal obj = Inr m \<longrightarrow> req_Object req = m \<longrightarrow> Decode dec req zero = Inr obj)"

lemma patched_iff:
  assumes "d_RuntimeObject D = Some zero"
  shows "mutating_Handle Marshal dec (Some D) env req = Inr (PatchResponse raw m) \<longleftrightarrow>
           raw = req_Object req \<and>
           (\<exists>obj obj'. Decode dec req zero = Inr obj \<and> SetDefaults D env obj = Inr obj' \<and> Marshal obj' = Inr m)"
  using assms by (auto simp: mutating_Handle_def go_bind_def split: sum.split sum.split_asm)

locale stable_defaulter =
  fixes D :: "('g, 'e) Defaulter" and good :: "'e \<Rightarrow> 'g k8s_object \<Rightarrow> bool"
  assumes kind: "d_RuntimeObject D \<noteq> None"
    and stable: "good env obj \<Longrightarrow> SetDefaults D env obj = Inr obj' \<Longrightarrow> SetDefaults D env obj' = Inr obj'"
begin

lemma patch_is_fixpoint:
  assumes codec: "reads_back Marshal dec" and good: "\<And>zero obj. Decode dec req zero = Inr obj \<Longrightarrow> good env obj"
    and first: "mutating_Handle Marshal dec (Some D) env req = Inr (PatchResponse raw m)"
  shows "mutating_Handle Marshal dec (Some D) env (req\<lparr>req_Object := m\<rparr>) = Inr (PatchResponse m m)"
proof -
  obtain zero where zero: "d_RuntimeObject D = Some zero"
    using kind by auto
  with first obtain obj obj' where run: "Decode dec req zero = Inr obj" "SetDefaults D env obj = Inr obj'" "Marshal obj' = Inr m"
    unfolding patched_iff [OF zero] by blast
  have "Decode dec (req\<lparr>req_Object := m\<rparr>) zero = Inr obj'"
    using codec run(3) by (simp add: reads_back_def)
  moreover have "SetDefaults D env obj' = Inr obj'"
    using stable [OF good [OF run(1)] run(2)] .
  ultimately show ?thesis
    using run(3) unfolding patched_iff [OF zero] by simp
qed

end

text \<open>A mesh configuration for which the defaults are stable: its repository URL ends in at most one slash,
  and the configuration with defaults is valid and survives encoding.\<close>

definition good_config :: "'g webhook_env \<Rightarrow> 'g k8s_object \<Rightarrow> bool" where
  "good_config env obj \<longleftrightarrow>
     (case obj of
        OConfigMap cm \<Rightarrow>
          (case ParseMeshConfig (we_lib env) cm of
             Inl _ \<Rightarrow> True
           | Inr cfg \<Rightarrow> \<not> suffix ''//'' (mc_RepoRootURL cfg) \<and> json_roundtrip (we_lib env) (config_defaults cfg) \<and>
               validate_Struct (we_lib env) (config_defaults cfg) = None)
      | _ \<Rightarrow> True)"

lemma trim_slash_stable: "\<not> suffix ''//'' url \<Longrightarrow> \<not> suffix ''/'' (trim_suffix url ''/'')"
  by (auto simp: trim_suffix_def suffix_def)

lemma config_defaults_stable:
  assumes "\<not> suffix ''//'' (mc_RepoRootURL cfg)"
  shows "config_defaults (config_defaults cfg) = config_defaults cfg"
  using trim_slash_stable [OF assms] by (simp add: config_defaults_def Let_def)

text \<open>With two slashes at the end each pass removes one more.\<close>

lemma config_defaults_not_stable:
  "config_defaults (config_defaults (demo_cfg\<lparr>mc_RepoRootURL := ''http://repo//''\<rparr>)) \<noteq>
   config_defaults (demo_cfg\<lparr>mc_RepoRootURL := ''http://repo//''\<rparr>)"
proof -
  have "suffix ''/'' ''http://repo//''" "suffix ''/'' ''http://repo/''"
    by (simp_all add: suffix_def)
  then have "mc_RepoRootURL (config_defaults (demo_cfg\<lparr>mc_RepoRootURL := ''http://repo//''\<rparr>)) = ''http://repo/''"
    "mc_RepoRootURL (config_defaults (config_defaults (demo_cfg\<lparr>mc_RepoRootURL := ''http://repo//''\<rparr>))) = ''http://repo''"
    by (simp_all add: config_defaults_def Let_def trim_suffix_def)
  then show ?thesis
    by (metis list.inject not_Cons_self2)
qed

text \<open>The struct validator has already insisted on the fields that carry the tag \<open>required\<close> when the
  defaults are set, so only the repository URL is ever changed.\<close>

lemma required_defaults_unreachable:
  assumes "\<And>cfg. validate_Struct lib cfg = None \<Longrightarrow>
      img_Repository (mc_Images cfg) \<noteq> [] \<and> img_PipyImage (mc_Images cfg) \<noteq> [] \<and> img_ProxyInitImage (mc_Images cfg) \<noteq> [] \<and>
      img_KlipperLbImage (mc_Images cfg) \<noteq> [] \<and> certc_Manager (mc_Certificate cfg) \<noteq> [] \<and> mc_WebhookServiceName cfg \<noteq> []"
    and "ParseMeshConfig lib cm = Inr cfg"
  shows "\<exists>url. config_defaults cfg = cfg\<lparr>mc_RepoRootURL := url\<rparr>"
proof -
  have "validate_Struct lib cfg = None"
    using assms(2) by (auto simp: ParseMeshConfig_def split: option.splits sum.splits)
  from assms(1) [OF this] show ?thesis
    by (intro exI [of _ "mc_RepoRootURL (config_defaults cfg)"]) (simp add: config_defaults_def Let_def)
qed

lemma cm_SetDefaults_stable:
  assumes "good_config env obj" and "cm_SetDefaults env obj = Inr obj'"
  shows "cm_SetDefaults env obj' = Inr obj'"
proof (cases obj)
  case (OConfigMap cm)
  show ?thesis
  proof (cases "isNotWatchedConfigmap cm (ErieCanalNamespace (we_lib env)) \<or> meta_Name (cm_Meta cm) \<noteq> MeshConfigName")
    case True
    with assms(2) OConfigMap have "obj' = obj"
      by (auto simp: cm_SetDefaults_def split: if_splits)
    with assms(2) show ?thesis
      by simp
  next
    case False
    show ?thesis
    proof (cases "ParseMeshConfig (we_lib env) cm")
      case (Inl err)
      with assms(2) OConfigMap False have "obj' = obj"
        by (auto simp: cm_SetDefaults_def)
      with assms(2) show ?thesis
        by simp
    next
      case (Inr cfg)
      let ?data = "gput MeshConfigJsonName (ToJson (we_lib env) (config_defaults cfg)) (gm_entries (cm_Data cm))"
      from assms(1) OConfigMap Inr have good: "\<not> suffix ''//'' (mc_RepoRootURL cfg)"
        "json_roundtrip (we_lib env) (config_defaults cfg)" "validate_Struct (we_lib env) (config_defaults cfg) = None"
        by (simp_all add: good_config_def)
      have obj': "obj' = OConfigMap (cm\<lparr>cm_Data := Some ?data\<rparr>)"
        using assms(2) OConfigMap False Inr by (simp add: cm_SetDefaults_def)
      have "ParseMeshConfig (we_lib env) (cm\<lparr>cm_Data := Some ?data\<rparr>) = Inr (config_defaults cfg)"
        using ParseMeshConfig_ToJson [OF good(2,3)] .
      with False obj' config_defaults_stable [OF good(1)] show ?thesis
        by (simp add: cm_SetDefaults_def isNotWatchedConfigmap_def gm_entries_def)
    qed
  qed
qed (use assms in \<open>auto simp: cm_SetDefaults_def\<close>)

lemma pointer_or_stable [simp]: "pointer_or (pointer_or p d) d' = pointer_or p d"
  by (cases p) simp_all

lemma nsig_defaults_stable [simp]: "nsig_defaults (nsig_defaults c) = nsig_defaults c"
  by (simp add: nsig_defaults_def Let_def)

lemma nsig_SetDefaults_stable: "nsig_SetDefaults env obj = Inr obj' \<Longrightarrow> nsig_SetDefaults env obj' = Inr obj'"
  by (cases obj) (auto simp: nsig_SetDefaults_def go_bind_def split: sum.splits)

lemma gput_twice: "gput k v (gput k v m) = gput k v m"
  by (induction m) auto

lemma cluster_SetDefaults_stable: "cluster_SetDefaults env obj = Inr obj' \<Longrightarrow> cluster_SetDefaults env obj' = Inr obj'"
  by (cases obj) (auto simp: cluster_SetDefaults_def go_bind_def Let_def gm_entries_def gput_twice split: sum.splits)

lemma SetDefaults_stable:
  assumes "h \<noteq> HConfigMap" and "hook_SetDefaults h env obj = Inr obj'"
  shows "hook_SetDefaults h env obj' = Inr obj'"
proof (cases "h = HCluster \<or> h = HNamespacedIngress")
  case True
  with assms show ?thesis
    by (auto intro: cluster_SetDefaults_stable nsig_SetDefaults_stable)
next
  case False
  with assms show ?thesis
    by (cases h; cases obj)
      (auto simp: export_SetDefaults_def import_SetDefaults_def gtp_SetDefaults_def ingress_SetDefaults_def
        gateway_SetDefaults_def gatewayclass_SetDefaults_def httproute_SetDefaults_def go_bind_def split: sum.splits)
qed

interpretation cm_defaulter: stable_defaulter "hook_Defaulter z HConfigMap" good_config for z
  by unfold_locales (auto simp: hook_Defaulter_def intro: cm_SetDefaults_stable)

interpretation other_defaulter: stable_defaulter "hook_Defaulter z h" "\<lambda>_ _. h \<noteq> HConfigMap" for z h
  by unfold_locales (auto simp: hook_Defaulter_def intro: SetDefaults_stable)

text \<open>C38. Defaulting converges. Whatever kind of object a request carries, a second pass of the same
  defaulter over the object that the patch of the first pass gives leaves it as it is, as the API server expects
  of a webhook that it may call again. For the mesh configuration this needs a repository URL that does not end in
  two slashes and a configuration that stays valid with the defaults.\<close>

theorem defaulting_converges:
  assumes "reads_back Marshal dec"
    and "h = HConfigMap \<Longrightarrow> \<forall>zero obj. Decode dec req zero = Inr obj \<longrightarrow> good_config env obj"
    and "mutating_Handle Marshal dec (Some (hook_Defaulter z h)) env req = Inr (PatchResponse raw m)"
  shows "mutating_Handle Marshal dec (Some (hook_Defaulter z h)) env (req\<lparr>req_Object := m\<rparr>) = Inr (PatchResponse m m)"
proof (cases "h = HConfigMap")
  case True
  show ?thesis
    using assms(2,3) True
    by (auto intro!: cm_defaulter.patch_is_fixpoint [OF assms(1), where env = env and req = req])
next
  case False
  show ?thesis
    using assms(3) False by (intro other_defaulter.patch_is_fixpoint [OF assms(1), where req = req]) auto
qed

text \<open>A codec that knows two objects.\<close>

definition demo_policy :: "string \<Rightarrow> GlobalTrafficPolicy" where
  "demo_policy lb = \<lparr>gtp_Meta = named_meta ''ns'' ''p'', gtp_LbType = lb, gtp_Targets = []\<rparr>"

definition demo_Marshal :: "unit k8s_object \<Rightarrow> string result" where
  "demo_Marshal obj =
     (if obj = OGlobalTrafficPolicy (demo_policy []) then Inr ''plain''
      else if obj = OGlobalTrafficPolicy (demo_policy LocalityLbType) then Inr ''locality'' else Inl (Errorf ''unknown''))"

definition demo_codec :: "unit decoder" where
  "demo_codec =
     \<lparr>Decode = (\<lambda>req _. if req_Object req = ''plain'' then Inr (OGlobalTrafficPolicy (demo_policy []))
                       else if req_Object req = ''locality'' then Inr (OGlobalTrafficPolicy (demo_policy LocalityLbType))
                       else Inl (Errorf ''unknown'')),
      DecodeRaw = (\<lambda>_ _. Inl (Errorf ''unknown''))\<rparr>"

definition demo_webhook_env :: "unit webhook_env" where
  "demo_webhook_env =
     \<lparr>we_GetConfig = Inr demo_cfg, we_lib = demo_mesh_lib,
      we_k8s = \<lparr>GetClusterIPByFamily = (\<lambda>_ _. []), IntValue = (\<lambda>_. 0), IsDNS1123Subdomain = (\<lambda>_. []),
                IsWildcardDNS1123Subdomain = (\<lambda>_. []), IsIPv4String = (\<lambda>_. True), IPPart = id, PortPart = (\<lambda>_. Inr 0),
                SplitMetaNamespaceKey = (\<lambda>s. ([], s, None))\<rparr>,
      we_dns = \<lparr>IsValidIPv4Address = (\<lambda>_. [''not an address'']), dns_IsDNS1123Subdomain = (\<lambda>_. []),
                ResolveIPAddr = (\<lambda>_. Inr (replicate 10 0 @ [255, 255, 10, 0, 0, 1]))\<rparr>,
      we_IsValidPortNum = (\<lambda>p. if 1 \<le> p \<and> p \<le> 65535 then [] else [''must be between 1 and 65535'']),
      we_DefaultIngressClass = [], we_listClusters = Inr [], we_listNamespacedIngresses = (\<lambda>_. Inr []),
      we_getSecret = (\<lambda>_ _. Inl NotFound), we_ValidateGateway = (\<lambda>_. []), we_ValidateGatewayClassUpdate = (\<lambda>_ _. []),
      we_ValidateHTTPRoute = (\<lambda>_. [])\<rparr>"

theorem defaulting_converges_witness:
  "let handle = mutating_Handle demo_Marshal demo_codec (Some (hook_Defaulter () HGlobalTrafficPolicy)) demo_webhook_env
   in handle \<lparr>req_Operation = Create, req_Object = ''plain'', req_OldObject = []\<rparr> = Inr (PatchResponse ''plain'' ''locality'') \<and>
      handle \<lparr>req_Operation = Create, req_Object = ''locality'', req_OldObject = []\<rparr> = Inr (PatchResponse ''locality'' ''locality'')"
proof -
  let ?handle = "mutating_Handle demo_Marshal demo_codec (Some (hook_Defaulter () HGlobalTrafficPolicy)) demo_webhook_env"
  let ?req = "\<lparr>req_Operation = Create, req_Object = ''plain'', req_OldObject = []\<rparr>"
  have first: "?handle ?req = Inr (PatchResponse ''plain'' ''locality'')"
    by (simp add: mutating_Handle_def hook_Defaulter_def demo_codec_def demo_Marshal_def demo_webhook_env_def
        gtp_SetDefaults_def demo_policy_def go_bind_def)
  have "reads_back demo_Marshal demo_codec"
    by (auto simp: reads_back_def demo_Marshal_def demo_codec_def split: if_splits)
  from defaulting_converges [OF this _ first] first show ?thesis
    by (simp add: Let_def)
qed

section \<open>Validation of a Cluster\<close>

lemma gateway_check_iff:
  "gateway_check env c = None \<longleftrightarrow>
     we_IsValidPortNum env (cls_GatewayPort (cl_Spec c)) = [] \<and>
     (\<exists>con. NewConnectorConfig (we_dns env) region zone grp nm (cls_GatewayHost (cl_Spec c)) port False uid = Inr con)"
  by (auto simp: gateway_check_def NewConnectorConfig_def Let_def split: sum.splits option.splits if_splits)

text \<open>C22. The validating webhook and the connector check the gateway of a Cluster by two copies of the same code, and they
  agree: a Cluster is valid iff its label names its mode and, unless it is the local cluster, it has a gateway host and a
  kubeconfig, the port is a port number, and the configuration of a connector can be made from it.\<close>

theorem cluster_validation_agrees:
  "cluster_doValidation env (OCluster c) = None \<longleftrightarrow>
     gstr (gm_entries (meta_Labels (cl_Meta c))) MultiClustersConnectorMode =
       (if cls_IsInCluster (cl_Spec c) then ''local'' else ''remote'') \<and>
     (cls_IsInCluster (cl_Spec c) \<or>
      cls_GatewayHost (cl_Spec c) \<noteq> [] \<and> cls_Kubeconfig (cl_Spec c) \<noteq> [] \<and>
      we_IsValidPortNum env (cls_GatewayPort (cl_Spec c)) = [] \<and>
      (\<exists>con. NewConnectorConfig (we_dns env) (cls_Region (cl_Spec c)) (cls_Zone (cl_Spec c)) (cls_Group (cl_Spec c))
               (meta_Name (cl_Meta c)) (cls_GatewayHost (cl_Spec c)) (cls_GatewayPort (cl_Spec c))
               (cls_IsInCluster (cl_Spec c)) uid = Inr con))"
proof (cases "cls_IsInCluster (cl_Spec c)")
  case False
  then show ?thesis
    by (auto simp: cluster_doValidation_def Let_def gateway_check_iff)
qed (auto simp: cluster_doValidation_def Let_def)

section \<open>What validation protects\<close>

fun obj_meta :: "'g k8s_object \<Rightarrow> ObjectMeta option" where
  "obj_meta (OCluster c) = Some (cl_Meta c)"
| "obj_meta (OConfigMap c) = Some (cm_Meta c)"
| "obj_meta (ONamespacedIngress n) = Some (nsig_Meta n)"
| "obj_meta (OServiceExport e) = Some (exp_Meta e)"
| "obj_meta (OServiceImport i) = Some (imp_Meta i)"
| "obj_meta (OGlobalTrafficPolicy p) = Some (gtp_Meta p)"
| "obj_meta (OIngress i) = Some (ing_Meta i)"
| "obj_meta _ = None"

fun kind_of :: "'g k8s_object \<Rightarrow> hook" where
  "kind_of (OCluster _) = HCluster"
| "kind_of (OConfigMap _) = HConfigMap"
| "kind_of (ONamespacedIngress _) = HNamespacedIngress"
| "kind_of (OServiceExport _) = HServiceExport"
| "kind_of (OServiceImport _) = HServiceImport"
| "kind_of (OGlobalTrafficPolicy _) = HGlobalTrafficPolicy"
| "kind_of (OIngress _) = HIngress"
| "kind_of (OGateway _) = HGateway"
| "kind_of (OGatewayClass _) = HGatewayClass"
| "kind_of (OHTTPRoute _) = HHTTPRoute"

text \<open>The decoder returns the object that the raw bytes stand for, of the type of the object it is given.\<close>

definition decodes :: "(string \<Rightarrow> 'g k8s_object) \<Rightarrow> 'g decoder \<Rightarrow> bool" where
  "decodes obj_of dec \<longleftrightarrow>
     (\<forall>req zero obj. Decode dec req zero = Inr obj \<longrightarrow> obj = obj_of (req_Object req) \<and> kind_of obj = kind_of zero) \<and>
     (\<forall>raw zero obj. DecodeRaw dec raw zero = Inr obj \<longrightarrow> obj = obj_of raw \<and> kind_of obj = kind_of zero)"

text \<open>The objects of one kind in an API server that asks a validator about creations and updates, one request
  after the other. An update keeps the name of the object. The validator may read the
  stored objects; \<open>env_of\<close> says what it sees, and everything else it reads may change between requests.\<close>

inductive store_reach ::
  "(go_error \<Rightarrow> bool) \<Rightarrow> (string \<Rightarrow> 'g k8s_object) \<Rightarrow> 'g decoder \<Rightarrow> ('g, 'e) Validator \<Rightarrow> ('g k8s_object list \<Rightarrow> 'x \<Rightarrow> 'e) \<Rightarrow>
   'g k8s_object list \<Rightarrow> bool"
  for st obj_of dec V env_of
where
  start: "store_reach st obj_of dec V env_of []"
| create: "store_reach st obj_of dec V env_of (S @ [obj_of (req_Object req)])"
    if "store_reach st obj_of dec V env_of S" and "req_Operation req = Create"
      and "validating_Handle st dec (Some V) (env_of S x) req = Inr (Allowed m)"
| update: "store_reach st obj_of dec V env_of (S[i := obj_of (req_Object req)])"
    if "store_reach st obj_of dec V env_of S" and "req_Operation req = Update" and "i < length S"
      and "S ! i = obj_of (req_OldObject req)"
      and "map_option nn_of_meta (obj_meta (obj_of (req_Object req))) = map_option nn_of_meta (obj_meta (S ! i))"
      and "validating_Handle st dec (Some V) (env_of S x) req = Inr (Allowed m)"
| delete: "store_reach st obj_of dec V env_of (take i S @ drop (Suc i) S)"
    if "store_reach st obj_of dec V env_of S" and "i < length S"

lemma first_object:
  assumes "validating_Handle st dec (Some V) (env_of [] x) req = Inr (Allowed m)" and "req_Operation req = Create"
  shows "store_reach st obj_of dec V env_of [obj_of (req_Object req)]"
  using store_reach.create [where S = "[]" and env_of = env_of, OF store_reach.start assms(2,1)] by simp

locale guarded_store =
  fixes V :: "('g, 'e) Validator" and env_of :: "'g k8s_object list \<Rightarrow> 'x \<Rightarrow> 'e" and inv :: "'g k8s_object list \<Rightarrow> bool"
  assumes kind: "v_RuntimeObject V \<noteq> None"
    and inv_start: "inv []"
    and inv_create: "inv S \<Longrightarrow> ValidateCreate V (env_of S x) obj = None \<Longrightarrow> inv (S @ [obj])"
    and inv_update: "inv S \<Longrightarrow> i < length S \<Longrightarrow> kind_of obj = kind_of (S ! i) \<Longrightarrow> map_option nn_of_meta (obj_meta obj) = map_option nn_of_meta (obj_meta (S ! i)) \<Longrightarrow>
      ValidateUpdate V (env_of S x) (S ! i) obj = None \<Longrightarrow> inv (S[i := obj])"
    and inv_delete: "inv S \<Longrightarrow> i < length S \<Longrightarrow> inv (take i S @ drop (Suc i) S)"
begin

lemma stored_objects_inv:
  assumes dec: "decodes obj_of dec" and reach: "store_reach st obj_of dec V env_of S"
  shows "inv S"
  using reach
proof (induction rule: store_reach.induct)
  case start
  show ?case
    by (rule inv_start)
next
  case (create S req x m)
  from kind obtain zero where zero: "v_RuntimeObject V = Some zero"
    by auto
  obtain o1 obj where run: "Decode dec req o1 = Inr obj" "ValidateCreate V (env_of S x) obj = None"
    using create(3) unfolding create_allowed_iff [OF zero create(2)] by blast
  then have "obj = obj_of (req_Object req)"
    using dec by (auto simp: decodes_def)
  with inv_create [OF create.IH] run(2) show ?case
    by simp
next
  case (update S req i x m)
  from kind obtain zero where zero: "v_RuntimeObject V = Some zero"
    by auto
  obtain o1 new old where run: "DecodeRaw dec (req_Object req) o1 = Inr new" "DecodeRaw dec (req_OldObject req) o1 = Inr old"
      "ValidateUpdate V (env_of S x) old new = None"
    using update(6) unfolding update_allowed_iff [OF zero update(2)] by blast
  then have "new = obj_of (req_Object req)" "old = S ! i" "kind_of new = kind_of old"
    using dec update(4) by (auto simp: decodes_def)
  with inv_update [OF update.IH update(3), of new] update(5) run(3) show ?case
    by simp
next
  case (delete S i)
  show ?case
    by (rule inv_delete [OF delete.IH delete(2)])
qed

end

subsection \<open>Clusters\<close>

fun in_cluster_object :: "'g k8s_object \<Rightarrow> bool" where
  "in_cluster_object (OCluster c) \<longleftrightarrow> cls_IsInCluster (cl_Spec c)"
| "in_cluster_object _ \<longleftrightarrow> False"

definition clusters_of :: "'g k8s_object list \<Rightarrow> Cluster list" where
  "clusters_of S = concat (map (\<lambda>obj. case obj of OCluster c \<Rightarrow> [c] | _ \<Rightarrow> []) S)"

text \<open>The validator of Clusters sees the stored ones, and a name service that may answer differently each time.\<close>

definition cluster_env :: "'g webhook_env \<Rightarrow> 'g k8s_object list \<Rightarrow> (string \<Rightarrow> ip result) \<Rightarrow> 'g webhook_env" where
  "cluster_env base S res =
     base\<lparr>we_listClusters := Inr (clusters_of S), we_dns := (we_dns base)\<lparr>ResolveIPAddr := res\<rparr>\<rparr>"

text \<open>A Cluster the webhook lets through, without what depends on the name service.\<close>

definition good_cluster :: "'g webhook_env \<Rightarrow> Cluster \<Rightarrow> bool" where
  "good_cluster base c \<longleftrightarrow>
     gstr (gm_entries (meta_Labels (cl_Meta c))) MultiClustersConnectorMode =
       (if cls_IsInCluster (cl_Spec c) then ''local'' else ''remote'') \<and>
     (cls_IsInCluster (cl_Spec c) \<or>
      cls_GatewayHost (cl_Spec c) \<noteq> [] \<and> cls_Kubeconfig (cl_Spec c) \<noteq> [] \<and>
      we_IsValidPortNum base (cls_GatewayPort (cl_Spec c)) = [] \<and>
      (if IsValidIPv4Address (we_dns base) (cls_GatewayHost (cl_Spec c)) = []
       then \<exists>gw. Option.bind (ParseIP (cls_GatewayHost (cl_Spec c))) To4 = Some gw \<and> \<not> IsLoopback gw \<and> \<not> IsUnspecified gw
       else dns_IsDNS1123Subdomain (we_dns base) (cls_GatewayHost (cl_Spec c)) = []))"

definition cluster_inv :: "'g webhook_env \<Rightarrow> 'g k8s_object list \<Rightarrow> bool" where
  "cluster_inv base S \<longleftrightarrow> length (filter in_cluster_object S) \<le> 1 \<and> (\<forall>c. OCluster c \<in> set S \<longrightarrow> good_cluster base c)"

lemma gateway_check_good:
  "gateway_check (cluster_env base S res) c = None \<Longrightarrow>
     we_IsValidPortNum base (cls_GatewayPort (cl_Spec c)) = [] \<and>
     (if IsValidIPv4Address (we_dns base) (cls_GatewayHost (cl_Spec c)) = []
      then \<exists>gw. Option.bind (ParseIP (cls_GatewayHost (cl_Spec c))) To4 = Some gw \<and> \<not> IsLoopback gw \<and> \<not> IsUnspecified gw
      else dns_IsDNS1123Subdomain (we_dns base) (cls_GatewayHost (cl_Spec c)) = [])"
  by (auto simp: gateway_check_def cluster_env_def Let_def split: sum.splits option.splits if_splits)

lemma cluster_doValidation_good:
  assumes "cluster_doValidation (cluster_env base S res) (OCluster c) = None"
  shows "good_cluster base c"
  using assms gateway_check_good [of base S res c]
  by (auto simp: cluster_doValidation_def good_cluster_def Let_def split: if_splits)

lemma clusters_of_in_cluster:
  "length (filter (\<lambda>c. cls_IsInCluster (cl_Spec c)) (clusters_of S)) = length (filter in_cluster_object S)"
  by (induction S) (auto simp: clusters_of_def split: k8s_object.splits)

lemma filter_update_same: "i < length S \<Longrightarrow> P obj = P (S ! i) \<Longrightarrow> length (filter P (S[i := obj])) = length (filter P S)"
  by (induction S arbitrary: i) (auto split: nat.splits)

lemma set_remove_subset: "set (take i S @ drop (Suc i) S) \<subseteq> set S"
  by (auto dest: in_set_takeD in_set_dropD)

lemma filter_remove_le: "i < length S \<Longrightarrow> length (filter P (take i S @ drop (Suc i) S)) \<le> length (filter P S)"
  using arg_cong [OF id_take_nth_drop [of i S], of "\<lambda>xs. length (filter P xs)"] by simp

interpretation cl: guarded_store "hook_Validator z HCluster" "cluster_env base" "cluster_inv base" for z base
proof (unfold_locales, goal_cases)
  case (3 S x obj)
  show ?case
  proof (cases obj)
    case (OCluster c)
    with 3(2) have "cluster_doValidation (cluster_env base S x) obj = None"
      "cls_IsInCluster (cl_Spec c) \<longrightarrow> filter in_cluster_object S = []"
      using clusters_of_in_cluster [of S]
      by (auto simp: cluster_ValidateCreate_def cluster_env_def Let_def not_less_eq_eq split: if_splits)
    with 3(1) OCluster cluster_doValidation_good [of base S x c] show ?thesis
      by (cases "cls_IsInCluster (cl_Spec c)") (auto simp: cluster_inv_def)
  qed (use 3(1) in \<open>auto simp: cluster_inv_def\<close>)
next
  case (4 S i obj x)
  show ?case
  proof (cases "S ! i")
    case (OCluster old)
    with 4(3) obtain c where c: "obj = OCluster c"
      by (cases obj) auto
    with 4(5) OCluster have "cluster_doValidation (cluster_env base S x) obj = None" "in_cluster_object obj = in_cluster_object (S ! i)"
      by (auto simp: cluster_ValidateUpdate_def split: if_splits)
    then show ?thesis
      using 4(1,2) c cluster_doValidation_good [of base S x c] set_update_subset_insert [of S i obj]
      by (auto simp: cluster_inv_def filter_update_same)
  qed (use 4 in \<open>cases obj; auto simp: cluster_inv_def filter_update_same dest!: set_update_subset_insert [THEN subsetD]\<close>)+
next
  case (5 S i)
  then show ?case
    using filter_remove_le [of i S in_cluster_object] set_remove_subset [of i S] by (auto simp: cluster_inv_def)
qed (simp_all add: cluster_inv_def)

text \<open>C21. As long as requests are handled one after the other, the webhook protects the set of Clusters: at
  most one of them is the local cluster, the label of each names its mode, and every other Cluster has a kubeconfig and a
  gateway with a host and a port between 1 and 65535, where a host that is an address is neither a loopback
  nor the unspecified address.\<close>

theorem admitted_clusters:
  assumes "decodes obj_of dec" and "\<And>p. we_IsValidPortNum base p = [] \<longleftrightarrow> 1 \<le> p \<and> p \<le> 65535"
    and "store_reach st obj_of dec (hook_Validator z HCluster) (cluster_env base) S" and "OCluster c \<in> set S"
  shows "length (filter in_cluster_object S) \<le> 1 \<and> good_cluster base c \<and>
         (cls_IsInCluster (cl_Spec c) \<or> 1 \<le> cls_GatewayPort (cl_Spec c) \<and> cls_GatewayPort (cl_Spec c) \<le> 65535)"
  using cl.stored_objects_inv [OF assms(1,3)] assms(2,4) by (auto simp: cluster_inv_def good_cluster_def)

definition demo_remote :: Cluster where
  "demo_remote = \<lparr>cl_Meta = (named_meta [] ''east'')\<lparr>meta_Labels := Some [(MultiClustersConnectorMode, ''remote'')]\<rparr>, cl_Generation = 1,
     cl_Spec = \<lparr>cls_IsInCluster = False, cls_Region = ''r'', cls_Zone = ''z'', cls_Group = ''g'', cls_GatewayHost = ''gw.east'',
                cls_GatewayPort = 8080, cls_Kubeconfig = ''k''\<rparr>, cl_Conditions = []\<rparr>"

definition kind_decoder :: "'g k8s_object \<Rightarrow> 'g decoder" where
  "kind_decoder obj =
     \<lparr>Decode = (\<lambda>req zero. if req_Object req = ''x'' \<and> kind_of zero = kind_of obj then Inr obj else Inl (Errorf ''unknown'')),
      DecodeRaw = (\<lambda>raw zero. if raw = ''x'' \<and> kind_of zero = kind_of obj then Inr obj else Inl (Errorf ''unknown''))\<rparr>"

lemma kind_decoder_decodes: "decodes (\<lambda>_. obj) (kind_decoder obj)"
  by (simp add: decodes_def kind_decoder_def)

lemma demo_remote_valid: "cluster_ValidateCreate (cluster_env demo_webhook_env [] (ResolveIPAddr (we_dns demo_webhook_env))) (OCluster demo_remote) = None"
  by (simp add: cluster_ValidateCreate_def cluster_doValidation_def gateway_check_def cluster_env_def demo_remote_def
      demo_webhook_env_def gm_entries_def gstr_def To4_def IsLoopback_def IsUnspecified_def Let_def)
    (auto dest: arg_cong [of _ _ length])

theorem admitted_clusters_witness:
  "\<exists>S. OCluster demo_remote \<in> set S \<and>
     store_reach (\<lambda>_. False) (\<lambda>_. OCluster demo_remote) (kind_decoder (OCluster demo_remote)) (hook_Validator () HCluster)
       (cluster_env demo_webhook_env) S \<and>
     length (filter in_cluster_object S) \<le> 1 \<and> good_cluster demo_webhook_env demo_remote \<and>
     (cls_IsInCluster (cl_Spec demo_remote) \<or> 1 \<le> cls_GatewayPort (cl_Spec demo_remote) \<and> cls_GatewayPort (cl_Spec demo_remote) \<le> 65535)"
proof -
  let ?req = "\<lparr>req_Operation = Create, req_Object = ''x'', req_OldObject = []\<rparr>"
  let ?reach = "store_reach (\<lambda>_. False) (\<lambda>_. OCluster demo_remote) (kind_decoder (OCluster demo_remote)) (hook_Validator () HCluster)
       (cluster_env demo_webhook_env)"
  have "validating_Handle (\<lambda>_. False) (kind_decoder (OCluster demo_remote)) (Some (hook_Validator () HCluster))
      (cluster_env demo_webhook_env [] (ResolveIPAddr (we_dns demo_webhook_env))) ?req = Inr (Allowed [])"
    using demo_remote_valid by (simp add: validating_Handle_def kind_decoder_def)
  then have reach: "?reach [OCluster demo_remote]"
    by (intro first_object [where obj_of = "\<lambda>_. OCluster demo_remote" and req = ?req
          and x = "ResolveIPAddr (we_dns demo_webhook_env)"]) simp_all
  have "\<And>p. we_IsValidPortNum demo_webhook_env p = [] \<longleftrightarrow> 1 \<le> p \<and> p \<le> 65535"
    by (simp add: demo_webhook_env_def)
  from admitted_clusters [OF kind_decoder_decodes this reach, of demo_remote] reach show ?thesis
    by (intro exI [of _ "[OCluster demo_remote]"]) simp
qed

text \<open>Two requests that are checked against the same list are both admitted, so concurrent requests can leave two
  local clusters behind.\<close>

lemma concurrent_local_clusters:
  assumes "cls_IsInCluster (cl_Spec a)" and "gstr (gm_entries (meta_Labels (cl_Meta a))) MultiClustersConnectorMode = ''local''"
    and "cls_IsInCluster (cl_Spec b)" and "gstr (gm_entries (meta_Labels (cl_Meta b))) MultiClustersConnectorMode = ''local''"
    and "filter in_cluster_object S = []"
  shows "cluster_ValidateCreate (cluster_env base S res) (OCluster a) = None"
    and "cluster_ValidateCreate (cluster_env base S res') (OCluster b) = None"
    and "\<not> cluster_inv base (S @ [OCluster a, OCluster b])"
  using assms clusters_of_in_cluster [of S]
  by (simp_all add: cluster_ValidateCreate_def cluster_doValidation_def cluster_env_def cluster_inv_def Let_def)

subsection \<open>Namespaced ingresses\<close>

definition nsigs_of :: "'g k8s_object list \<Rightarrow> NamespacedIngress list" where
  "nsigs_of S = concat (map (\<lambda>obj. case obj of ONamespacedIngress n \<Rightarrow> [n] | _ \<Rightarrow> []) S)"

definition nsig_env :: "'g k8s_object list \<Rightarrow> 'g webhook_env \<Rightarrow> 'g webhook_env" where
  "nsig_env S base =
     base\<lparr>we_listNamespacedIngresses := (\<lambda>ns. Inr (filter (\<lambda>n. meta_Namespace (nsig_Meta n) = ns) (nsigs_of S)))\<rparr>"

definition nsig_inv :: "'g k8s_object list \<Rightarrow> bool" where
  "nsig_inv S \<longleftrightarrow> distinct (map (\<lambda>n. meta_Namespace (nsig_Meta n)) (nsigs_of S))"

lemma nsigs_of_append: "nsigs_of (S @ T) = nsigs_of S @ nsigs_of T"
  by (simp add: nsigs_of_def)

lemma nsigs_of_split: "i < length S \<Longrightarrow> nsigs_of S = nsigs_of (take i S) @ nsigs_of [S ! i] @ nsigs_of (drop (Suc i) S)"
  using arg_cong [OF id_take_nth_drop [of i S], of nsigs_of] by (simp add: nsigs_of_def)

interpretation ns: guarded_store "hook_Validator z HNamespacedIngress" nsig_env nsig_inv for z
proof (unfold_locales, goal_cases)
  case (3 S x obj)
  show ?case
  proof (cases obj)
    case (ONamespacedIngress n)
    with 3(2) have "meta_Namespace (nsig_Meta n) \<notin> (\<lambda>n. meta_Namespace (nsig_Meta n)) ` set (nsigs_of S)"
      by (auto simp: nsig_ValidateCreate_def nsig_env_def filter_empty_conv split: if_splits)
    with 3(1) ONamespacedIngress show ?thesis
      by (simp add: nsig_inv_def nsigs_of_append) (simp add: nsigs_of_def)
  qed (use 3(1) in \<open>simp_all add: nsig_inv_def nsigs_of_def\<close>)
next
  case (4 S i obj x)
  have "map (\<lambda>n. meta_Namespace (nsig_Meta n)) (nsigs_of [obj]) = map (\<lambda>n. meta_Namespace (nsig_Meta n)) (nsigs_of [S ! i])"
    using 4(3,4) by (cases obj; cases "S ! i") (auto simp: nsigs_of_def nn_of_meta_def)
  then have "map (\<lambda>n. meta_Namespace (nsig_Meta n)) (nsigs_of (S[i := obj])) = map (\<lambda>n. meta_Namespace (nsig_Meta n)) (nsigs_of S)"
    using nsigs_of_split [OF 4(2)] nsigs_of_split [of i "S[i := obj]"] 4(2) by simp
  with 4(1) show ?case
    by (simp add: nsig_inv_def)
next
  case (5 S i)
  then show ?case
    using nsigs_of_split [OF 5(2)] by (auto simp: nsig_inv_def nsigs_of_append)
qed (simp_all add: nsig_inv_def nsigs_of_def)

subsection \<open>The mesh configuration\<close>

definition config_env :: "mesh_lib \<Rightarrow> 'g k8s_object list \<Rightarrow> 'g webhook_env \<Rightarrow> 'g webhook_env" where
  "config_env lib S base = base\<lparr>we_lib := lib\<rparr>"

definition config_inv :: "mesh_lib \<Rightarrow> 'g k8s_object list \<Rightarrow> bool" where
  "config_inv lib S \<longleftrightarrow>
     (\<forall>cm. OConfigMap cm \<in> set S \<and> nn_of_meta (cm_Meta cm) = nn (ErieCanalNamespace lib) MeshConfigName \<longrightarrow>
        (\<exists>cfg. ParseMeshConfig lib cm = Inr cfg \<and>
           (ingc_Enabled (mc_Ingress cfg) \<longrightarrow> http_Enabled (ingc_HTTP (mc_Ingress cfg)) \<or> tlsc_Enabled (ingc_TLS (mc_Ingress cfg)))))"

lemma cm_doValidation_inv:
  assumes "config_inv lib S" and "cm_doValidation (config_env lib S' x) obj = None" and "set S' \<subseteq> insert obj (set S)"
  shows "config_inv lib S'"
  unfolding config_inv_def
proof (intro allI impI)
  fix cm
  assume cm: "OConfigMap cm \<in> set S' \<and> nn_of_meta (cm_Meta cm) = nn (ErieCanalNamespace lib) MeshConfigName"
  with assms(3) consider "OConfigMap cm \<in> set S" | "obj = OConfigMap cm"
    by auto
  then show "\<exists>cfg. ParseMeshConfig lib cm = Inr cfg \<and>
           (ingc_Enabled (mc_Ingress cfg) \<longrightarrow> http_Enabled (ingc_HTTP (mc_Ingress cfg)) \<or> tlsc_Enabled (ingc_TLS (mc_Ingress cfg)))"
  proof cases
    case 1
    with assms(1) cm show ?thesis
      by (simp add: config_inv_def)
  next
    case 2
    with assms(2) cm show ?thesis
      by (auto simp: cm_doValidation_def config_env_def isNotWatchedConfigmap_def nn_of_meta_def split: sum.splits if_splits)
  qed
qed

interpretation mesh: guarded_store "hook_Validator z HConfigMap" "config_env lib" "config_inv lib" for z lib
proof (unfold_locales, goal_cases)
  case (3 S x obj)
  then show ?case
    by (intro cm_doValidation_inv [OF 3(1), of _ x obj]) (auto simp: uniform_Validator_def config_env_def)
next
  case (4 S i obj x)
  then show ?case
    using set_update_subset_insert [of S i obj]
    by (intro cm_doValidation_inv [OF 4(1), of _ x obj]) (auto simp: uniform_Validator_def config_env_def)
next
  case (5 S i)
  then show ?case
    using set_remove_subset [of i S] by (auto simp: config_inv_def)
qed (simp_all add: config_inv_def uniform_Validator_def)

text \<open>C39. A mesh configuration that went through the webhook can be read: \<open>GetConfig\<close>, which panics on an
  invalid configuration, returns it, and if the ingress is enabled at least one of HTTP and TLS is.\<close>

theorem admitted_config_readable:
  assumes "decodes obj_of dec" and "store_reach st obj_of dec (hook_Validator z HConfigMap) (config_env lib) S"
    and "OConfigMap cm \<in> set S" and "nn_of_meta (cm_Meta cm) = nn (ErieCanalNamespace lib) MeshConfigName"
    and "cfg_cache s = Inr cm"
  shows "\<exists>cfg. GetConfig lib api s = (Inr cfg, s) \<and>
           (ingc_Enabled (mc_Ingress cfg) \<longrightarrow> http_Enabled (ingc_HTTP (mc_Ingress cfg)) \<or> tlsc_Enabled (ingc_TLS (mc_Ingress cfg)))"
  using mesh.stored_objects_inv [OF assms(1,2)] assms(3-5)
  by (auto simp: config_inv_def GetConfig_def getConfigMap_def)

theorem admitted_config_readable_witness:
  "\<exists>S. OConfigMap (demo_cm ''cfg'') \<in> set S \<and>
     store_reach (\<lambda>_. False) (\<lambda>_. OConfigMap (demo_cm ''cfg'')) (kind_decoder (OConfigMap (demo_cm ''cfg''))) (hook_Validator () HConfigMap)
       (config_env demo_mesh_lib) S \<and>
     (\<exists>cfg. GetConfig demo_mesh_lib \<lparr>api_getConfigMap = (\<lambda>_ w. (Inl NotFound, w)), api_updateConfigMap = (\<lambda>cm w. (Inr cm, w))\<rparr>
              \<lparr>cfg_cache = Inr (demo_cm ''cfg''), cfg_world = ()\<rparr> = (Inr cfg, \<lparr>cfg_cache = Inr (demo_cm ''cfg''), cfg_world = ()\<rparr>) \<and>
            (ingc_Enabled (mc_Ingress cfg) \<longrightarrow> http_Enabled (ingc_HTTP (mc_Ingress cfg)) \<or> tlsc_Enabled (ingc_TLS (mc_Ingress cfg))))"
proof -
  let ?obj = "OConfigMap (demo_cm ''cfg'') :: unit k8s_object"
  have "validating_Handle (\<lambda>_. False) (kind_decoder ?obj) (Some (hook_Validator () HConfigMap))
      (config_env demo_mesh_lib [] demo_webhook_env) \<lparr>req_Operation = Create, req_Object = ''x'', req_OldObject = []\<rparr> = Inr (Allowed [])"
    by (simp add: validating_Handle_def kind_decoder_def uniform_Validator_def cm_doValidation_def config_env_def
        isNotWatchedConfigmap_def ParseMeshConfig_def demo_cm_def demo_mesh_lib_def demo_cfg_def gm_look_def)
  then have reach: "store_reach (\<lambda>_. False) (\<lambda>_. ?obj) (kind_decoder ?obj) (hook_Validator () HConfigMap) (config_env demo_mesh_lib) [?obj]"
    by (rule first_object [where obj_of = "\<lambda>_. ?obj" and x = demo_webhook_env]) simp
  with admitted_config_readable [OF kind_decoder_decodes reach, of "demo_cm ''cfg''"
      "\<lparr>cfg_cache = Inr (demo_cm ''cfg''), cfg_world = ()\<rparr>"
      "\<lparr>api_getConfigMap = (\<lambda>_ w. (Inl NotFound, w)), api_updateConfigMap = (\<lambda>cm w. (Inr cm, w))\<rparr>"] show ?thesis
    by (intro exI [of _ "[?obj]"]) (simp add: demo_cm_def demo_mesh_lib_def nn_of_meta_def)
qed

end
