(* ===== verification/Namespaced_Ingress.thy ===== *)
theory Namespaced_Ingress
  imports Webhooks
begin

text \<open>
  \<open>pkg/helm/helm.go\<close> and \<open>controllers/namespacedingress/v1alpha1/namespacedingress_controller.go\<close>: an
  ingress controller per namespace. The reconciler derives the codebase of the namespace, writes the TLS
  settings into it and applies the objects that a chart renders for the resource.

  The helm library (loading and rendering a chart), the YAML reader and decoder, the encoding of the
  values and the function that sets a controller reference are the fields of \<open>helm_lib\<close>. An unstructured object is
  its name, its controller and the rest of its content.
\<close>

section \<open>Merging values\<close>

type_synonym helm_values = "(string, json_value) gomap"

text \<open>The loop of \<open>MergeMaps\<close> over its second argument; a nested call first copies its first one.\<close>

function merge_range :: "helm_values \<Rightarrow> helm_values \<Rightarrow> helm_values" where
  "merge_range out [] = out"
| "merge_range out ((k, v) # rest) =
     merge_range
       (case v of
          JObject v' \<Rightarrow>
            (case gget out k of
               Some (JObject bv) \<Rightarrow> gput k (JObject (merge_range (range_put [] bv) v')) out
             | _ \<Rightarrow> gput k v out)
        | _ \<Rightarrow> gput k v out) rest"
  by pat_completeness auto
termination
  by (relation "measure (\<lambda>(out, b). size_list (size_prod (\<lambda>_. 0) size) b)") auto

definition MergeMaps :: "helm_values \<Rightarrow> helm_values \<Rightarrow> helm_values" where
  "MergeMaps a b = merge_range (range_put [] a) b"

section \<open>Rendering a chart\<close>

record Unstructured =
  un_Namespace :: string
  un_Name :: string
  un_Kind :: string
  un_Controller :: "string option"
  un_Content :: string

record helm_lib =
  LoadArchive :: "string \<Rightarrow> string result"
  install_Run :: "string \<Rightarrow> string \<Rightarrow> string \<Rightarrow> helm_values \<Rightarrow> string result"
  yaml_documents :: "string \<Rightarrow> string list \<times> go_error option"
  decUnstructured :: "string \<Rightarrow> Unstructured result"
  SetControllerReference :: "ObjectMeta \<Rightarrow> Unstructured \<Rightarrow> Unstructured result"
  yaml_Marshal :: "NamespacedIngress \<Rightarrow> string result"
  ReadValues :: "string \<Rightarrow> helm_values result"
  ParseInto :: "string \<Rightarrow> helm_values \<Rightarrow> helm_values result"

definition DecodeYamlToUnstructured :: "helm_lib \<Rightarrow> string \<Rightarrow> Unstructured result" where
  "DecodeYamlToUnstructured lib data =
     (case decUnstructured lib data of
        Inl _ \<Rightarrow> Inl (Errorf ''Decode YAML to Unstructured failed. '')
      | Inr obj \<Rightarrow> Inr obj)"

definition isValidOwner :: "ObjectMeta \<Rightarrow> Unstructured \<Rightarrow> bool" where
  "isValidOwner owner obj =
     (let ownerNs = meta_Namespace owner in
      if ownerNs \<noteq> []
      then (let objNs = un_Namespace obj in
            if objNs = [] then False else if ownerNs \<noteq> objNs then False else True)
      else True)"

text \<open>What is applied of a document: the decoded object, owned by the resource where that is allowed.\<close>

definition owned_object :: "helm_lib \<Rightarrow> ObjectMeta \<Rightarrow> string \<Rightarrow> Unstructured result" where
  "owned_object lib owner buf =
     (case DecodeYamlToUnstructured lib buf of
        Inl err \<Rightarrow> Inl err
      | Inr obj \<Rightarrow> if isValidOwner owner obj then SetControllerReference lib owner obj else Inr obj)"

text \<open>The loop over the documents of the manifest; the reader ends with EOF (\<open>None\<close>) or an error. A result
  is the number of seconds after which the request is tried again, and an error or none.\<close>

fun apply_documents ::
  "helm_lib \<Rightarrow> (Unstructured, 'w) ctrl_client \<Rightarrow> ObjectMeta \<Rightarrow> string list \<Rightarrow> go_error option \<Rightarrow> 'w \<Rightarrow>
   (nat \<times> unit result) \<times> 'w"
where
  "apply_documents lib client owner [] eof w =
     (case eof of None \<Rightarrow> ((0, Inr ()), w) | Some err \<Rightarrow> ((1, Inl err), w))"
| "apply_documents lib client owner (buf # bufs) eof w =
     (case owned_object lib owner buf of
        Inl err \<Rightarrow> ((1, Inl err), w)
      | Inr obj \<Rightarrow>
          (case CreateOrUpdate client obj w of
             ((_, Inl err), w) \<Rightarrow> ((1, Inl err), w)
           | ((_, Inr _), w) \<Rightarrow> apply_documents lib client owner bufs eof w))"

definition applyChartYAMLs ::
  "helm_lib \<Rightarrow> (Unstructured, 'w) ctrl_client \<Rightarrow> ObjectMeta \<Rightarrow> string \<Rightarrow> 'w \<Rightarrow> (nat \<times> unit result) \<times> 'w"
where
  "applyChartYAMLs lib client owner manifest w =
     (let (docs, eof) = yaml_documents lib manifest in apply_documents lib client owner docs eof w)"

definition RenderChart ::
  "helm_lib \<Rightarrow> (Unstructured, 'w) ctrl_client \<Rightarrow> string \<Rightarrow> ObjectMeta \<Rightarrow> string \<Rightarrow> helm_values result \<Rightarrow> 'w \<Rightarrow>
   (nat \<times> unit result) \<times> 'w"
where
  "RenderChart lib client releaseName object chartSource resolvedValues w =
     (case LoadArchive lib chartSource of
        Inl err \<Rightarrow> ((0, Inl (Errorf ''error loading chart for installation'')), w)
      | Inr chart \<Rightarrow>
          (case resolvedValues of
             Inl err \<Rightarrow> ((0, Inl (Errorf ''error resolve values for installation'')), w)
           | Inr values \<Rightarrow>
               (case install_Run lib releaseName (meta_Namespace object) chart values of
                  Inl err \<Rightarrow> ((0, Inl (Errorf (''error install '' @ nn_String (nn_of_meta object)))), w)
                | Inr manifest \<Rightarrow> applyChartYAMLs lib client object manifest w)))"

section \<open>The reconciler\<close>

fun parse_overrides :: "helm_lib \<Rightarrow> string list \<Rightarrow> helm_values \<Rightarrow> helm_values result" where
  "parse_overrides lib [] finalValues = Inr finalValues"
| "parse_overrides lib (ov # ovs) finalValues =
     (case ParseInto lib ov finalValues of Inl err \<Rightarrow> Inl err | Inr finalValues \<Rightarrow> parse_overrides lib ovs finalValues)"

definition resolveValues :: "helm_lib \<Rightarrow> string \<Rightarrow> NamespacedIngress \<Rightarrow> MeshConfig \<Rightarrow> helm_values result" where
  "resolveValues lib erieCanalNamespace nsig mc =
     (case yaml_Marshal lib nsig of
        Inl err \<Rightarrow> Inl (Errorf ''convert NamespacedIngress to yaml'')
      | Inr nsigBytes \<Rightarrow>
          (case ReadValues lib nsigBytes of
             Inl err \<Rightarrow> Inl err
           | Inr nsigValues \<Rightarrow>
               parse_overrides lib
                 [''ec.ingress.namespaced=true'', ''ec.image.repository='' @ img_Repository (mc_Images mc),
                  ''ec.namespace='' @ erieCanalNamespace] nsigValues))"

record 'w nsig_env_api =
  ni_http :: "(repo_content, 'w) repo_http"
  ni_sjson :: sjson_set
  ni_issue :: "'w cert_issuer"
  ni_helm :: helm_lib
  ni_client :: "(Unstructured, 'w) ctrl_client"
  ni_getNsig :: "NamespacedName \<Rightarrow> 'w \<Rightarrow> NamespacedIngress result \<times> 'w"
  ni_chartSource :: string
  ni_namespace :: string

definition nsig_deriveCodebases :: "'w nsig_env_api \<Rightarrow> NamespacedIngress \<Rightarrow> MeshConfig \<Rightarrow> 'w \<Rightarrow> (nat \<times> unit result) \<times> 'w" where
  "nsig_deriveCodebases api nsig mc w =
     (let ingressPath = NamespacedIngressCodebasePath mc (meta_Namespace (nsig_Meta nsig));
          parentPath = IngressCodebasePath mc
      in case DeriveCodebase (ni_http api) ingressPath parentPath w of
           (Inl err, w) \<Rightarrow> ((1, Inl err), w)
         | (Inr _, w) \<Rightarrow> ((0, Inr ()), w))"

definition nsig_updateConfig ::
  "'w nsig_env_api \<Rightarrow> NamespacedIngress \<Rightarrow> MeshConfig \<Rightarrow> 'w \<Rightarrow> ((nat \<times> unit result) \<times> 'w) go"
where
  "nsig_updateConfig api nsig mc w =
     (let tls = nsig_TLS nsig; basepath = NamespacedIngressCodebasePath mc (meta_Namespace (nsig_Meta nsig));
          answer = (\<lambda>rw. case rw of (Inl err, w) \<Rightarrow> ((1, Inl err), w) | (Inr _, w) \<Rightarrow> ((0, Inr ()), w))
      in if ingc_Namespaced (mc_Ingress mc) \<and> ntls_Enabled tls
         then (if sslp_Enabled (ntls_SSLPassthrough tls)
               then (case sslp_UpstreamPort (ntls_SSLPassthrough tls) of
                       None \<Rightarrow> Inl NilPointer
                     | Some port \<Rightarrow>
                         Inr (answer (UpdateSSLPassthrough (ni_http api) (ni_sjson api) basepath
                                        (sslp_Enabled (ntls_SSLPassthrough tls)) port w)))
               else Inr (answer (IssueCertForIngress (ni_http api) (ni_sjson api) (ni_issue api) basepath mc w)))
         else Inr ((0, Inr ()), w))"

definition Nsig_Reconcile :: "'w nsig_env_api \<Rightarrow> MeshConfig go \<Rightarrow> NamespacedName \<Rightarrow> 'w \<Rightarrow> ((nat \<times> unit result) \<times> 'w) go" where
  "Nsig_Reconcile api meshConfig req w =
     go_bind meshConfig (\<lambda>mc.
       if \<not> ingc_Enabled (mc_Ingress mc) \<or> \<not> ingc_Namespaced (mc_Ingress mc) then Inr ((0, Inr ()), w)
       else
         (case ni_getNsig api req w of
            (Inl err, w) \<Rightarrow> Inr ((0, if err = NotFound then Inr () else Inl err), w)
          | (Inr nsig, w) \<Rightarrow>
              (case nsig_deriveCodebases api nsig mc w of
                 ((n, Inl err), w) \<Rightarrow> Inr ((n, Inl err), w)
               | ((_, Inr _), w) \<Rightarrow>
                   go_bind (nsig_updateConfig api nsig mc w) (\<lambda>r.
                     case r of
                       ((n, Inl err), w) \<Rightarrow> Inr ((n, Inl err), w)
                     | ((_, Inr _), w) \<Rightarrow>
                         (case RenderChart (ni_helm api) (ni_client api) (''namespaced-ingress-'' @ meta_Namespace (nsig_Meta nsig))
                                 (nsig_Meta nsig) (ni_chartSource api) (resolveValues (ni_helm api) (ni_namespace api) nsig mc) w of
                            ((n, Inl err), w) \<Rightarrow> Inr ((n, Inl err), w)
                          | ((_, Inr _), w) \<Rightarrow> Inr ((0, Inr ()), w))))))"

section \<open>Merged values\<close>

lemma gget_merge_range:
  assumes "gm_wf b"
  shows "gget (merge_range out b) k =
     (case gget b k of
        None \<Rightarrow> gget out k
      | Some (JObject v) \<Rightarrow>
          (case gget out k of Some (JObject bv) \<Rightarrow> Some (JObject (MergeMaps bv v)) | _ \<Rightarrow> Some (JObject v))
      | Some v \<Rightarrow> Some v)"
  using assms
proof (induction b arbitrary: out)
  case (Cons kv rest)
  obtain k' v where kv: "kv = (k', v)"
    by force
  with Cons.prems have rest: "gm_wf rest" and fresh: "gget rest k' = None"
    by (auto simp: gm_wf_def map_of_eq_None_iff)
  define out' where "out' = (case v of
      JObject v' \<Rightarrow> (case gget out k' of
           Some (JObject bv) \<Rightarrow> gput k' (JObject (merge_range (range_put [] bv) v')) out
         | _ \<Rightarrow> gput k' v out)
    | _ \<Rightarrow> gput k' v out)"
  have step: "merge_range out (kv # rest) = merge_range out' rest"
    by (simp add: kv out'_def)
  show ?case
  proof (cases "k = k'")
    case True
    then show ?thesis
      unfolding step Cons.IH [OF rest] using fresh kv
      by (simp add: out'_def MergeMaps_def split: json_value.splits option.splits)
  next
    case False
    then have same: "gget out' k = gget out k"
      by (simp add: out'_def split: json_value.splits option.splits)
    show ?thesis
      unfolding step Cons.IH [OF rest] same using False kv by simp
  qed
qed simp

text \<open>\<open>MergeMaps\<close> gives the second map priority and descends where both maps have a map: the value of a key is the
  merge of the two values if both are maps, else the one of the second map if it has the key, else
  the one of the first. The recursion always ends, and the order in which Go visits the maps does not matter.\<close>

theorem MergeMaps_lookup:
  assumes "gm_wf a" and "gm_wf b"
  shows "gget (MergeMaps a b) k =
     (case gget b k of
        None \<Rightarrow> gget a k
      | Some (JObject v) \<Rightarrow>
          (case gget a k of Some (JObject bv) \<Rightarrow> Some (JObject (MergeMaps bv v)) | _ \<Rightarrow> Some (JObject v))
      | Some v \<Rightarrow> Some v)"
proof -
  have copy: "gget (range_put [] a) k = gget a k"
    using gget_range_put [OF assms(1), of "[]"] by (simp split: option.splits)
  show ?thesis
    unfolding MergeMaps_def [of a b] gget_merge_range [OF assms(2)] copy by simp
qed

theorem MergeMaps_lookup_witness:
  "gget (MergeMaps [(''a'', JInt 1), (''o'', JObject [(''x'', JInt 2)])] [(''o'', JObject [(''y'', JInt 3)])]) ''o'' =
     Some (JObject (MergeMaps [(''x'', JInt 2)] [(''y'', JInt 3)]))"
  by (subst MergeMaps_lookup) (simp_all add: gm_wf_def)

section \<open>Applied charts\<close>

definition object_key :: "Unstructured \<Rightarrow> string \<times> string \<times> string" where
  "object_key obj = (un_Kind obj, un_Namespace obj, un_Name obj)"

text \<open>What the API server promises: a found object is the stored one; a creation stores the object, a merge patch made
  of an object leaves a stored object that has everything the object asks for (\<open>covers\<close>); a call that fails changes
  nothing.\<close>

definition object_server ::
  "('w \<Rightarrow> string \<times> string \<times> string \<Rightarrow> Unstructured option) \<Rightarrow> (Unstructured \<Rightarrow> Unstructured \<Rightarrow> bool) \<Rightarrow>
   (Unstructured, 'w) ctrl_client \<Rightarrow> bool"
where
  "object_server look covers c \<longleftrightarrow>
     (\<forall>obj. covers obj obj) \<and>
     (\<forall>obj w r w'. cl_Get c obj w = (r, w') \<longrightarrow> look w' = look w \<and> (\<forall>found. r = Inr found \<longrightarrow> look w (object_key obj) = Some found)) \<and>
     (\<forall>obj w w'. cl_Create c obj w = (Inr (), w') \<longrightarrow> look w' = (look w)(object_key obj \<mapsto> obj)) \<and>
     (\<forall>obj w w' err. cl_Create c obj w = (Inl err, w') \<longrightarrow> look w' = look w) \<and>
     (\<forall>obj found data w w'. cl_MergeData c obj = Inr data \<longrightarrow> look w (object_key obj) = Some found \<longrightarrow>
        cl_Patch c found data w = (Inr (), w') \<longrightarrow> (\<exists>obj'. covers obj' obj \<and> look w' = (look w)(object_key obj \<mapsto> obj'))) \<and>
     (\<forall>found data w w' err. cl_Patch c found data w = (Inl err, w') \<longrightarrow> look w' = look w)"

lemma object_serverD:
  assumes "object_server look covers c"
  shows "covers obj obj"
    and "cl_Get c obj w = (r, w') \<Longrightarrow> look w' = look w"
    and "cl_Get c obj w = (Inr found, w') \<Longrightarrow> look w (object_key obj) = Some found"
    and "cl_Create c obj w = (Inr (), w') \<Longrightarrow> look w' = (look w)(object_key obj \<mapsto> obj)"
    and "cl_Create c obj w = (Inl err, w') \<Longrightarrow> look w' = look w"
    and "cl_MergeData c obj = Inr data \<Longrightarrow> look w (object_key obj) = Some found \<Longrightarrow> cl_Patch c found data w = (Inr (), w') \<Longrightarrow>
      \<exists>obj'. covers obj' obj \<and> look w' = (look w)(object_key obj \<mapsto> obj')"
    and "cl_Patch c found data w = (Inl err, w') \<Longrightarrow> look w' = look w"
  using assms unfolding object_server_def by metis+

lemma CreateOrUpdate_ok:
  assumes srv: "object_server look covers c" and run: "CreateOrUpdate c obj w = ((res, Inr ()), w')"
  shows "\<exists>obj'. covers obj' obj \<and> look w' = (look w)(object_key obj \<mapsto> obj')"
proof -
  obtain r w1 where get: "cl_Get c obj w = (r, w1)"
    by force
  note same = object_serverD(2) [OF srv get]
  show ?thesis
  proof (cases r)
    case (Inl err)
    with get run have "cl_Create c obj w1 = (Inr (), w')"
      by (auto simp: CreateOrUpdate_def split: if_splits prod.splits sum.splits)
    from object_serverD(4) [OF srv this] object_serverD(1) [OF srv] same show ?thesis
      by auto
  next
    case (Inr found)
    with get have stored: "look w (object_key obj) = Some found"
      using object_serverD(3) [OF srv] by blast
    show ?thesis
    proof (cases "found = obj")
      case True
      with get Inr run have "w' = w1"
        by (simp add: CreateOrUpdate_def)
      with stored True same have "look w' = (look w)(object_key obj \<mapsto> obj)"
        by auto
      with object_serverD(1) [OF srv] show ?thesis
        by blast
    next
      case False
      with get Inr run obtain data where "cl_MergeData c obj = Inr data" "cl_Patch c found data w1 = (Inr (), w')"
        by (auto simp: CreateOrUpdate_def split: prod.splits sum.splits)
      with object_serverD(6) [OF srv, of obj data w1 found w'] stored same show ?thesis
        by simp
    qed
  qed
qed

lemma CreateOrUpdate_failed:
  assumes srv: "object_server look covers c" and "CreateOrUpdate c obj w = ((res, Inl err), w')"
  shows "look w' = look w"
proof -
  obtain r w1 where get: "cl_Get c obj w = (r, w1)"
    by force
  have "w' = w1 \<or> (\<exists>err. cl_Create c obj w1 = (Inl err, w')) \<or> (\<exists>found data err. cl_Patch c found data w1 = (Inl err, w'))"
    using assms(2) get by (auto simp: CreateOrUpdate_def split: if_splits prod.splits sum.splits)
  with object_serverD(2) [OF srv get] object_serverD(5,7) [OF srv] show ?thesis
    by force
qed

lemma apply_documents_prefix:
  assumes srv: "object_server look covers c" and docs: "list_all2 (\<lambda>buf obj. owned_object lib owner buf = Inr obj) bufs objs"
    and "distinct (map object_key objs)" and "apply_documents lib c owner bufs None w = ((n, r), w')"
  shows "\<exists>j \<le> length objs. (\<forall>i<j. \<exists>obj'. look w' (object_key (objs ! i)) = Some obj' \<and> covers obj' (objs ! i)) \<and>
           (\<forall>k. k \<notin> object_key ` set (take j objs) \<longrightarrow> look w' k = look w k) \<and>
           (if j = length objs then n = 0 \<and> r = Inr () else n = 1 \<and> (\<exists>err. r = Inl err))"
  using docs assms(3,4)
proof (induction bufs objs arbitrary: w rule: list_all2_induct)
  case (Cons buf bufs obj objs)
  obtain res s w1 where cu: "CreateOrUpdate c obj w = ((res, s), w1)"
    by (metis surj_pair)
  show ?case
  proof (cases s)
    case (Inl err)
    with Cons.prems(2) Cons.hyps(1) cu have "n = 1 \<and> r = Inl err \<and> w' = w1"
      by auto
    with CreateOrUpdate_failed [OF srv cu [unfolded Inl]] show ?thesis
      by (intro exI [of _ 0]) simp
  next
    case (Inr u)
    then have "s = Inr ()"
      by simp
    from CreateOrUpdate_ok [OF srv cu [unfolded this]] obtain obj'
      where obj': "covers obj' obj" "look w1 = (look w)(object_key obj \<mapsto> obj')"
      by blast
    from Cons.prems Cons.hyps(1) cu Inr have "apply_documents lib c owner bufs None w1 = ((n, r), w')"
      and d: "distinct (map object_key objs)" "object_key obj \<notin> object_key ` set objs"
      by auto
    from Cons.IH [OF d(1) this(1)] obtain j where j: "j \<le> length objs"
      "\<forall>i<j. \<exists>obj'. look w' (object_key (objs ! i)) = Some obj' \<and> covers obj' (objs ! i)"
      "\<forall>k. k \<notin> object_key ` set (take j objs) \<longrightarrow> look w' k = look w1 k"
      "if j = length objs then n = 0 \<and> r = Inr () else n = 1 \<and> (\<exists>err. r = Inl err)"
      by blast
    have "object_key obj \<notin> object_key ` set (take j objs)"
      using d(2) by (meson image_mono set_take_subset subsetD)
    with j(3) have "look w' (object_key obj) = look w1 (object_key obj)"
      by blast
    with obj'(2) have first: "look w' (object_key obj) = Some obj'"
      by simp
    show ?thesis
    proof (intro exI [of _ "Suc j"] conjI)
      show "\<forall>i<Suc j. \<exists>obj'. look w' (object_key ((obj # objs) ! i)) = Some obj' \<and> covers obj' ((obj # objs) ! i)"
        using j(2) first obj'(1) by (auto simp: nth_Cons split: nat.splits)
    qed (use j obj'(2) in auto)
  qed
qed simp


text \<open>A server that keeps objects in a map and refuses patches, and a library for charts of two documents.\<close>

definition demo_object :: "string \<Rightarrow> Unstructured" where
  "demo_object nm = \<lparr>un_Namespace = ''ns'', un_Name = nm, un_Kind = ''Service'', un_Controller = None, un_Content = ''c''\<rparr>"

definition demo_client :: "(Unstructured, string \<times> string \<times> string \<rightharpoonup> Unstructured) ctrl_client" where
  "demo_client =
     \<lparr>cl_Get = (\<lambda>obj w. (case w (object_key obj) of None \<Rightarrow> Inl NotFound | Some found \<Rightarrow> Inr found, w)),
      cl_Create = (\<lambda>obj w. (Inr (), w(object_key obj \<mapsto> obj))),
      cl_MergeData = (\<lambda>_. Inl (Errorf ''no patch'')), cl_Patch = (\<lambda>_ _ w. (Inl (Errorf ''no patch''), w))\<rparr>"

definition demo_helm :: helm_lib where
  "demo_helm =
     \<lparr>LoadArchive = Inr, install_Run = (\<lambda>_ _ _ _. Inr ''manifest''), yaml_documents = (\<lambda>_. ([''a'', ''b''], None)),
      decUnstructured = (\<lambda>buf. Inr (demo_object buf)),
      SetControllerReference = (\<lambda>owner obj. Inr (obj\<lparr>un_Controller := Some (meta_UID owner)\<rparr>)),
      yaml_Marshal = (\<lambda>_. Inr ''yaml''), ReadValues = (\<lambda>_. Inr []), ParseInto = (\<lambda>_ v. Inr v)\<rparr>"

lemma demo_object_server: "object_server id (=) demo_client"
  by (auto simp: object_server_def demo_client_def split: option.splits)


text \<open>An object is owned by the resource only where Kubernetes allows it.\<close>

lemma owner_in_namespace:
  assumes "isValidOwner owner obj" and "meta_Namespace owner \<noteq> []"
  shows "un_Namespace obj = meta_Namespace owner"
  using assms by (simp add: isValidOwner_def Let_def split: if_splits)

section \<open>The reconciler and the webhook\<close>

text \<open>The reconciler relies on the defaulting webhook. It panics exactly when SSL passthrough is on and no upstream port
  is set, and an object that has gone through the webhook always has one.\<close>

theorem nsig_panics_iff_no_port:
  assumes "ni_getNsig api req w = (Inr nsig, w1)" and "nsig_deriveCodebases api nsig mc w1 = ((n, Inr ()), w2)"
  shows "(Nsig_Reconcile api (Inr mc) req w = Inl p \<longleftrightarrow>
            p = NilPointer \<and> ingc_Enabled (mc_Ingress mc) \<and> ingc_Namespaced (mc_Ingress mc) \<and> ntls_Enabled (nsig_TLS nsig) \<and>
            sslp_Enabled (ntls_SSLPassthrough (nsig_TLS nsig)) \<and> sslp_UpstreamPort (ntls_SSLPassthrough (nsig_TLS nsig)) = None) \<and>
         (nsig_SetDefaults env (ONamespacedIngress nsig0 :: 'g k8s_object) = Inr (ONamespacedIngress nsig) \<longrightarrow>
            Nsig_Reconcile api (Inr mc) req w \<noteq> Inl p)"
proof -
  have iff: "Nsig_Reconcile api (Inr mc) req w = Inl p \<longleftrightarrow>
            p = NilPointer \<and> ingc_Enabled (mc_Ingress mc) \<and> ingc_Namespaced (mc_Ingress mc) \<and> ntls_Enabled (nsig_TLS nsig) \<and>
            sslp_Enabled (ntls_SSLPassthrough (nsig_TLS nsig)) \<and> sslp_UpstreamPort (ntls_SSLPassthrough (nsig_TLS nsig)) = None"
    using assms
    by (auto simp: Nsig_Reconcile_def nsig_updateConfig_def Let_def go_bind_def
        split: prod.splits sum.splits option.splits if_splits)
  have port: "sslp_UpstreamPort (ntls_SSLPassthrough (nsig_TLS nsig)) \<noteq> None"
    if "nsig_SetDefaults env (ONamespacedIngress nsig0 :: 'g k8s_object) = Inr (ONamespacedIngress nsig)"
  proof -
    have "nsig = nsig_defaults nsig0"
      using that by (auto simp: nsig_SetDefaults_def go_bind_Inr_iff)
    then show ?thesis
      by (cases "sslp_UpstreamPort (ntls_SSLPassthrough (nsig_TLS nsig0))") (simp_all add: nsig_defaults_def Let_def)
  qed
  from iff port show ?thesis
    by blast
qed

definition demo_nsig :: NamespacedIngress where
  "demo_nsig = \<lparr>nsig_Meta = named_meta ''ns'' ''i'', nsig_ServiceAccountName = [], nsig_LogLevel = None, nsig_Replicas = None,
     nsig_TLS = \<lparr>ntls_Enabled = True, ntls_SSLPassthrough = \<lparr>sslp_Enabled = True, sslp_UpstreamPort = None\<rparr>\<rparr>,
     nsig_PodSecurityContext = None, nsig_SecurityContext = None\<rparr>"

definition demo_nsig_api :: "NamespacedIngress \<Rightarrow> (string \<times> string \<times> string \<rightharpoonup> Unstructured) nsig_env_api" where
  "demo_nsig_api nsig =
     \<lparr>ni_http = (\<lambda>_ w. (Inr \<lparr>rsp_StatusCode = 200, rsp_Status = ''OK'', rsp_IsSuccess = True, rsp_IsError = False,
                             rsp_Result = mk_Codebase 1 [], rsp_Body = ''{}''\<rparr>, w)),
      ni_sjson = (\<lambda>json _ _. Inr json), ni_issue = (\<lambda>_ _ w. (Inl NotFound, w)), ni_helm = demo_helm, ni_client = demo_client,
      ni_getNsig = (\<lambda>_ w. (Inr nsig, w)), ni_chartSource = [], ni_namespace = ''erie-canal''\<rparr>"

definition demo_nsig_cfg :: MeshConfig where
  "demo_nsig_cfg = demo_cfg\<lparr>mc_Ingress := (mc_Ingress demo_cfg)\<lparr>ingc_Namespaced := True\<rparr>\<rparr>"

lemma demo_nsig_derive: "nsig_deriveCodebases (demo_nsig_api nsig) n mc w = ((0, Inr ()), w)"
  by (simp add: nsig_deriveCodebases_def demo_nsig_api_def DeriveCodebase_def isCodebaseExists_def Let_def)

theorem nsig_panics_iff_no_port_witness:
  "Nsig_Reconcile (demo_nsig_api demo_nsig) (Inr demo_nsig_cfg) (nn ''ns'' ''i'') Map.empty = Inl NilPointer \<and>
   Nsig_Reconcile (demo_nsig_api (nsig_defaults demo_nsig)) (Inr demo_nsig_cfg) (nn ''ns'' ''i'') Map.empty \<noteq> Inl NilPointer"
proof -
  have get: "ni_getNsig (demo_nsig_api nsig) req w = (Inr nsig, w)" for nsig req w
    by (simp add: demo_nsig_api_def)
  have defaulted: "nsig_SetDefaults demo_webhook_env (ONamespacedIngress demo_nsig) = Inr (ONamespacedIngress (nsig_defaults demo_nsig))"
    by (simp add: nsig_SetDefaults_def demo_webhook_env_def go_bind_def)
  have "Nsig_Reconcile (demo_nsig_api demo_nsig) (Inr demo_nsig_cfg) (nn ''ns'' ''i'') Map.empty = Inl NilPointer"
    unfolding nsig_panics_iff_no_port [OF get demo_nsig_derive, THEN conjunct1]
    by (simp add: demo_nsig_def demo_nsig_cfg_def demo_cfg_def zero_MeshConfig_def)
  moreover have "Nsig_Reconcile (demo_nsig_api (nsig_defaults demo_nsig)) (Inr demo_nsig_cfg) (nn ''ns'' ''i'') Map.empty \<noteq> Inl NilPointer"
    by (rule nsig_panics_iff_no_port [OF get demo_nsig_derive, THEN conjunct2, THEN mp, OF defaulted])
  ultimately show ?thesis
    by (rule conjI)
qed

end
