(* ===== verification/Pipy.thy ===== *)
theory Pipy
  imports Startup Namespaced_Ingress
begin

text \<open>
  \<open>cmd/ingress-pipy/main.go\<close>: the process in the pods of the ingress controller. It works out which codebase of the repository
  Pipy has to run and with how many threads, starts Pipy and then serves the probes.

  The codebase it runs is made elsewhere: the manager uploads the base codebase, the connector of the own cluster derives the codebase
  of the ingress from it and the reconciler of a NamespacedIngress derives the one of a namespace. The properties follow
  this chain.
\<close>

section \<open>The program\<close>

text \<open>Of a container, its name and what \<open>Resources.Limits.Cpu().Value()\<close> returns, which is 0 without a limit.\<close>

record PodContainer =
  pc_Name :: string
  pc_CpuValue :: int

record Pod =
  pod_Name :: string
  pod_Containers :: "PodContainer list"

record 'c ingress_env =
  ie_NewAPI :: "unit result"
  ie_kubeconfig :: "unit result"
  ie_version :: version_lib
  ie_GitVersion :: "string result"
  ie_mesh :: mesh_lib
  ie_config :: "'c cfg_api"
  ie_PodNamespace :: string
  ie_PodName :: string
  ie_getPod :: "string \<Rightarrow> string \<Rightarrow> 'c \<Rightarrow> Pod result \<times> 'c"
  ie_Start :: "string \<Rightarrow> string list \<Rightarrow> 'c \<Rightarrow> unit result \<times> 'c"
  ie_serve :: "'c \<Rightarrow> unit result \<times> 'c"

definition on_world :: "('c \<Rightarrow> 'a \<times> 'c) \<Rightarrow> 'c cfg_state \<Rightarrow> 'a \<times> 'c cfg_state" where
  "on_world f s = (case f (cfg_world s) of (a, w) \<Rightarrow> (a, s\<lparr>cfg_world := w\<rparr>))"

definition ingressCodebase :: "MeshConfig \<Rightarrow> string \<Rightarrow> string" where
  "ingressCodebase mc podNamespace =
     (if ingc_Namespaced (mc_Ingress mc)
      then RepoBaseURL mc @ NamespacedIngressCodebasePath mc podNamespace @ ''/''
      else RepoBaseURL mc @ IngressCodebasePath mc @ ''/'')"

definition getIngressPod :: "'c ingress_env \<Rightarrow> 'c \<Rightarrow> Pod result \<times> 'c" where
  "getIngressPod env = ie_getPod env (ie_PodNamespace env) (ie_PodName env)"

definition getIngressCpuLimitsQuota :: "'c ingress_env \<Rightarrow> 'c \<Rightarrow> int result \<times> 'c" where
  "getIngressCpuLimitsQuota env w =
     (case getIngressPod env w of
        (Inl err, w) \<Rightarrow> (Inl err, w)
      | (Inr pod, w) \<Rightarrow>
          (case find (\<lambda>c. pc_Name c = ''ingress'') (pod_Containers pod) of
             Some c \<Rightarrow> (Inr (pc_CpuValue c), w)
           | None \<Rightarrow> (Inl (Errorf (''No container named 'ingress' in POD '' @ pod_Name pod)), w)))"

definition calcPipySpawn :: "'c ingress_env \<Rightarrow> (int, 'c cfg_state) step_of" where
  "calcPipySpawn env =
     andThen (or_fatal (on_world (getIngressCpuLimitsQuota env))) (\<lambda>cpuLimits s. (Inr (if cpuLimits > 0 then cpuLimits else 1), s))"

definition pipy_args :: "int \<Rightarrow> string \<Rightarrow> string list" where
  "pipy_args spawn ingressRepoUrl =
     (if spawn > 1 then [''--reuse-port'', ''--threads='' @ itoa spawn] else []) @ [ingressRepoUrl]"

definition startPipy :: "'c ingress_env \<Rightarrow> int \<Rightarrow> string \<Rightarrow> (unit, 'c cfg_state) step_of" where
  "startPipy env spawn ingressRepoUrl = or_fatal (on_world (ie_Start env ''pipy'' (pipy_args spawn ingressRepoUrl)))"

definition pipy_version_ok :: "'c ingress_env \<Rightarrow> unit go" where
  "pipy_version_ok env =
     (if isl (ie_kubeconfig env) \<or> isl (ie_NewAPI env) then os_Exit
      else go_bind (IsSupportedK8sVersion (ie_version env) (ie_GitVersion env) zeroVersion) (\<lambda>(supported, _).
             if supported then Inr () else os_Exit))"

definition ingress_main :: "'c ingress_env \<Rightarrow> (unit, 'c cfg_state) step_of" where
  "ingress_main env =
     andThen (\<lambda>s. (pipy_version_ok env, s)) (\<lambda>_.
     andThen (GetConfig (ie_mesh env) (ie_config env)) (\<lambda>mc.
     let ingressRepoUrl = ingressCodebase mc (ie_PodNamespace env) in
     andThen (calcPipySpawn env) (\<lambda>spawn.
     andThen (startPipy env spawn ingressRepoUrl) (\<lambda>_.
     or_exit (on_world (ie_serve env))))))"

section \<open>Codebases and their bases\<close>

text \<open>
  The codebases in the repository, \<open>cbs w\<close> in the world \<open>w\<close>, each with the codebase it is derived from (empty for none). A
  request that creates one stores its base, a codebase that is found is there, and no other request changes them.
\<close>

definition codebase_server :: "('d, 'w) repo_http \<Rightarrow> ('w \<Rightarrow> string \<rightharpoonup> string) \<Rightarrow> bool" where
  "codebase_server http cbs \<longleftrightarrow>
     (\<forall>p cb w resp w'. http (RepoPost (fullRepoApiPath p) cb) w = (Inr resp, w') \<longrightarrow>
        rsp_StatusCode resp \<in> {200, 201} \<longrightarrow> cbs w' = (cbs w)(p \<mapsto> cb_Base cb)) \<and>
     (\<forall>p w resp w'. http (RepoGet (fullRepoApiPath p)) w = (Inr resp, w') \<longrightarrow> (rsp_StatusCode resp = 200) = (cbs w p \<noteq> None)) \<and>
     (\<forall>p w. cbs (snd (http (RepoGet p) w)) = cbs w) \<and>
     (\<forall>p cb w. cbs (snd (http (RepoPatch p cb) w)) = cbs w)"

lemma codebase_serverD:
  assumes "codebase_server http cbs"
  shows "http (RepoPost (fullRepoApiPath p) cb) w = (Inr resp, w') \<Longrightarrow> rsp_StatusCode resp = 200 \<or> rsp_StatusCode resp = 201 \<Longrightarrow>
      cbs w' = (cbs w)(p \<mapsto> cb_Base cb)"
    and "http (RepoGet (fullRepoApiPath p)) w = (Inr resp, w') \<Longrightarrow> (rsp_StatusCode resp = 200) = (cbs w p \<noteq> None)"
    and "http (RepoGet q) w = (r, w') \<Longrightarrow> cbs w' = cbs w"
    and "http (RepoPatch q cb) w = (r, w') \<Longrightarrow> cbs w' = cbs w"
  using assms unfolding codebase_server_def by (metis insert_iff snd_conv)+

text \<open>The derivation succeeds only if the codebase is there afterwards, and it is made from a base that is there.\<close>

lemma isCodebaseExists_ok:
  assumes "codebase_server http cbs" and "isCodebaseExists http path w = ((ex, cb), w')"
  shows "cbs w' = cbs w" and "ex \<Longrightarrow> cbs w path \<noteq> None"
  using assms(2) codebase_serverD(2,3) [OF assms(1)]
  by (auto simp: isCodebaseExists_def split: prod.splits sum.splits if_splits)

lemma deriveCodebase_post_ok:
  assumes srv: "codebase_server http cbs" and run: "deriveCodebase_post http path base w = (Inr cb, w')"
  shows "cbs w base \<noteq> None \<and> cbs w' = (cbs w)(path \<mapsto> base)"
proof -
  from run obtain x w1 resp w2 where found: "isCodebaseExists http base w = ((True, x), w1)"
    and post: "http (RepoPost (fullRepoApiPath path) (mk_Codebase 1 base)) w1 = (Inr resp, w2)"
      "rsp_StatusCode resp = 200 \<or> rsp_StatusCode resp = 201" and get: "repo_get http path w2 = (Inr cb, w')"
    by (auto simp: deriveCodebase_post_def split: prod.splits sum.splits if_splits)
  have "cbs w' = cbs w2" using get codebase_serverD(3) [OF srv] by (auto simp: repo_get_def split: prod.splits sum.splits)
  then show ?thesis
    using isCodebaseExists_ok [OF srv found] codebase_serverD(1) [OF srv post] by (simp add: mk_Codebase_def)
qed

lemma DeriveCodebase_ok:
  assumes srv: "codebase_server http cbs" and run: "DeriveCodebase http path base w = (Inr u, w')"
  shows "cbs w path \<noteq> None \<and> cbs w' = cbs w \<or> cbs w base \<noteq> None \<and> cbs w' = (cbs w)(path \<mapsto> base)"
proof -
  obtain ex x w1 where found: "isCodebaseExists http path w = ((ex, x), w1)" by (metis surj_pair)
  show ?thesis
  proof (cases ex)
    case True
    with run found isCodebaseExists_ok [OF srv found] show ?thesis by (auto simp: DeriveCodebase_def)
  next
    case False
    with run found obtain cb w2 where "deriveCodebase_post http path base w1 = (Inr cb, w2)"
      and "repo_commit http path (cb_Version cb) w2 = (Inr u, w')"
      by (auto simp: DeriveCodebase_def split: prod.splits sum.splits)
    moreover then have "cbs w' = cbs w2"
      using codebase_serverD(4) [OF srv] by (auto simp: repo_commit_def split: prod.splits sum.splits if_splits)
    ultimately show ?thesis
      using deriveCodebase_post_ok [OF srv] isCodebaseExists_ok(1) [OF srv found] by metis
  qed
qed

text \<open>Every codebase of the program is derived from the one it should be derived from.\<close>

definition base_of :: "string \<Rightarrow> string option" where
  "base_of p =
     (if p = ''/local/ingress'' then Some DefaultIngressBasePath
      else if p = ''/local/services'' then Some DefaultServiceBasePath
      else if prefix ''/local/nsig/'' p then Some ''/local/ingress''
      else None)"

definition lineage :: "(string \<rightharpoonup> string) \<Rightarrow> bool" where
  "lineage m \<longleftrightarrow> (\<forall>p b. base_of p = Some b \<longrightarrow> m p \<noteq> None \<longrightarrow> m p = Some b \<and> m b \<noteq> None)"

lemma base_of_simps [simp]:
  "base_of (GetDefaultIngressPath mc) = Some DefaultIngressBasePath"
  "base_of (GetDefaultServicesPath mc) = Some DefaultServiceBasePath"
  "base_of (NamespacedIngressCodebasePath mc ns) = Some (IngressCodebasePath mc)"
  by (simp_all add: base_of_def GetDefaultIngressPath_def GetDefaultServicesPath_def NamespacedIngressCodebasePath_def
      IngressCodebasePath_def)

lemma lineageD: "lineage m \<Longrightarrow> base_of p = Some b \<Longrightarrow> m p \<noteq> None \<Longrightarrow> m p = Some b \<and> m b \<noteq> None"
  by (simp add: lineage_def)

lemma lineage_derive: "lineage m \<Longrightarrow> base_of p = Some b \<Longrightarrow> m b \<noteq> None \<Longrightarrow> lineage (m(p \<mapsto> b))"
  unfolding lineage_def by (metis fun_upd_apply option.distinct(1) option.inject)

lemma DeriveCodebase_lineage:
  assumes "codebase_server http cbs" and "DeriveCodebase http path base w = (Inr u, w')" and "base_of path = Some base"
    and "lineage (cbs w)"
  shows "lineage (cbs w') \<and> cbs w' path = Some base \<and> cbs w' base \<noteq> None \<and> (\<forall>q. cbs w q \<noteq> None \<longrightarrow> cbs w' q \<noteq> None)"
  using DeriveCodebase_ok [OF assms(1,2)]
proof
  assume "cbs w path \<noteq> None \<and> cbs w' = cbs w"
  with assms(4) lineageD [OF assms(4,3)] show ?thesis by simp
next
  assume "cbs w base \<noteq> None \<and> cbs w' = (cbs w)(path \<mapsto> base)"
  with lineage_derive [OF assms(4,3)] show ?thesis by simp
qed

text \<open>The codebases from which a codebase is derived, itself included.\<close>

inductive descends :: "(string \<rightharpoonup> string) \<Rightarrow> string \<Rightarrow> string \<Rightarrow> bool" for m where
  descends_refl: "m p \<noteq> None \<Longrightarrow> descends m p p"
| descends_step: "m p = Some b \<Longrightarrow> descends m b q \<Longrightarrow> descends m p q"

lemma local_codebases:
  assumes "codebase_server http cbs" and "lineage (cbs w)" and "ensureCodebaseDerivatives http mc w = (Inr u, w')"
  shows "lineage (cbs w') \<and> cbs w' (IngressCodebasePath mc) = Some DefaultIngressBasePath \<and> cbs w' DefaultIngressBasePath \<noteq> None"
proof -
  from assms(3) obtain v where svc: "DeriveCodebase http (GetDefaultServicesPath mc) DefaultServiceBasePath w = (Inr (), v)"
    and ing: "DeriveCodebase http (GetDefaultIngressPath mc) DefaultIngressBasePath v = (Inr u, w')"
    by (auto simp: ensureCodebaseDerivatives_def split: prod.splits sum.splits)
  from DeriveCodebase_lineage [OF assms(1) svc _ assms(2)] have "lineage (cbs v)" by simp
  from DeriveCodebase_lineage [OF assms(1) ing _ this] show ?thesis by (simp add: IngressCodebasePath_def)
qed

lemma spawn_of_limit:
  assumes "calcPipySpawn env s = (Inr spawn, s')"
  shows "\<exists>pod c. (\<exists>v v'. getIngressPod env v = (Inr pod, v')) \<and> c \<in> set (pod_Containers pod) \<and> pc_Name c = ''ingress'' \<and>
    spawn = max 1 (pc_CpuValue c)"
proof -
  from assms obtain cpu v' where "getIngressCpuLimitsQuota env (cfg_world s) = (Inr cpu, v')" "spawn = max 1 cpu"
    by (auto simp: calcPipySpawn_def on_world_def max_def split: prod.splits)
  moreover then obtain pod c where "getIngressPod env (cfg_world s) = (Inr pod, v')"
    "find (\<lambda>c. pc_Name c = ''ingress'') (pod_Containers pod) = Some c" "cpu = pc_CpuValue c"
    by (auto simp: getIngressCpuLimitsQuota_def split: prod.splits sum.splits option.splits)
  moreover then have "c \<in> set (pod_Containers pod)" "pc_Name c = ''ingress''" by (auto simp: find_Some_iff)
  ultimately show ?thesis by blast
qed

text \<open>C12. The URL that an ingress controller pod gives to Pipy is the one of a codebase that exists and descends from the base codebase of the
  ingress: the codebase of the pod's namespace if ingresses are namespaced, else the one of the cluster.
  This holds once the connector of the own cluster has made its codebases and, with namespaced ingresses, the reconciler has made the
  one of the pod's namespace. Pipy runs with one thread for each CPU of the limit and with one at least.\<close>

theorem pipy_runs_derived_codebase:
  assumes srv: "codebase_server http cbs" and lin: "lineage (cbs w)"
    and local: "ensureCodebaseDerivatives http mc w = (Inr u, w1)"
    and nsig: "if ingc_Namespaced (mc_Ingress mc)
       then ni_http api = http \<and> meta_Namespace (nsig_Meta nsig) = ie_PodNamespace env \<and>
            nsig_deriveCodebases api nsig mc w1 = ((n, Inr u'), w2)
       else w2 = w1"
    and cfg: "fst (GetConfig (ie_mesh env) (ie_config env) s) = Inr mc" and run: "ingress_main env s = (Inr u'', s')"
  shows "\<exists>path spawn v pod c. fst (ie_Start env ''pipy'' (pipy_args spawn (RepoBaseURL mc @ path @ ''/'')) v) = Inr () \<and>
     (if ingc_Namespaced (mc_Ingress mc) then path = ''/local/nsig/'' @ ie_PodNamespace env else path = ''/local/ingress'') \<and>
     descends (cbs w2) path DefaultIngressBasePath \<and>
     (\<exists>v v'. getIngressPod env v = (Inr pod, v')) \<and> c \<in> set (pod_Containers pod) \<and> pc_Name c = ''ingress'' \<and>
     spawn = max 1 (pc_CpuValue c)"
proof -
  let ?path = "if ingc_Namespaced (mc_Ingress mc) then NamespacedIngressCodebasePath mc (ie_PodNamespace env) else IngressCodebasePath mc"
  note made = local_codebases [OF srv lin local]
  have url: "ingressCodebase mc (ie_PodNamespace env) = RepoBaseURL mc @ ?path @ ''/''" by (simp add: ingressCodebase_def)
  from run cfg obtain spawn s1 s2 where "calcPipySpawn env s1 = (Inr spawn, s2)"
    and "\<exists>s3. startPipy env spawn (ingressCodebase mc (ie_PodNamespace env)) s2 = (Inr (), s3)"
    by (auto simp: ingress_main_def Let_def)
  then have start: "\<exists>s3. startPipy env spawn (RepoBaseURL mc @ ?path @ ''/'') s2 = (Inr (), s3)" unfolding url by simp
  from start have "fst (ie_Start env ''pipy'' (pipy_args spawn (RepoBaseURL mc @ ?path @ ''/'')) (cfg_world s2)) = Inr ()"
    by (auto simp: startPipy_def on_world_def split: prod.splits)
  moreover have "descends (cbs w2) ?path DefaultIngressBasePath"
  proof (cases "ingc_Namespaced (mc_Ingress mc)")
    case True
    with nsig have "DeriveCodebase http ?path (IngressCodebasePath mc) w1 = (Inr (), w2)"
      by (auto simp: nsig_deriveCodebases_def Let_def split: prod.splits sum.splits)
    from DeriveCodebase_lineage [OF srv this] True made
    have "lineage (cbs w2)" "cbs w2 ?path = Some (IngressCodebasePath mc)" "cbs w2 (IngressCodebasePath mc) \<noteq> None" by auto
    moreover then have "cbs w2 (IngressCodebasePath mc) = Some DefaultIngressBasePath" "cbs w2 DefaultIngressBasePath \<noteq> None"
      using lineageD [of "cbs w2" "IngressCodebasePath mc" DefaultIngressBasePath] by (simp_all add: IngressCodebasePath_def)
    ultimately show ?thesis by (meson descends_refl descends_step)
  next
    case False
    with nsig made show ?thesis by (auto intro!: descends_step [of _ _ DefaultIngressBasePath] descends_refl)
  qed
  moreover have "if ingc_Namespaced (mc_Ingress mc) then ?path = ''/local/nsig/'' @ ie_PodNamespace env else ?path = ''/local/ingress''"
    by (simp add: NamespacedIngressCodebasePath_def IngressCodebasePath_def GetDefaultIngressPath_def)
  ultimately show ?thesis using spawn_of_limit [OF \<open>calcPipySpawn env s1 = (Inr spawn, s2)\<close>] by blast
qed

text \<open>A repository that keeps the bases in a map, a namespaced ingress in \<open>ns\<close> and a pod there whose container may use three CPUs.\<close>

definition demo_codebases :: "(repo_content, string \<rightharpoonup> string) repo_http" where
  "demo_codebases req m =
     (case req of
        RepoPost p cb \<Rightarrow> (Inr (ok_response []), m(drop 12 p \<mapsto> cb_Base cb))
      | RepoGet p \<Rightarrow> (Inr ((ok_response [])\<lparr>rsp_StatusCode := if m (drop 12 p) = None then 404 else 200\<rparr>), m)
      | _ \<Rightarrow> (Inr (ok_response []), m))"

lemma demo_codebase_server: "codebase_server demo_codebases id"
  by (auto simp: codebase_server_def demo_codebases_def fullRepoApiPath_def ok_response_def)

definition demo_bases :: "string \<rightharpoonup> string" where
  "demo_bases = [DefaultIngressBasePath \<mapsto> [], DefaultServiceBasePath \<mapsto> []]"

definition demo_pipy_api :: "(string \<rightharpoonup> string) nsig_env_api" where
  "demo_pipy_api =
     \<lparr>ni_http = demo_codebases, ni_sjson = (\<lambda>json path _. Inr (json @ path)), ni_issue = (\<lambda>_ _. Pair (Inl NotFound)), ni_helm = demo_helm,
      ni_client = \<lparr>cl_Get = (\<lambda>_. Pair (Inl NotFound)), cl_Create = (\<lambda>_. Pair (Inr ())), cl_MergeData = (\<lambda>_. Inl NotFound),
        cl_Patch = (\<lambda>_ _. Pair (Inr ()))\<rparr>,
      ni_getNsig = (\<lambda>_. Pair (Inr demo_nsig)), ni_chartSource = [], ni_namespace = ''ec''\<rparr>"

definition demo_pod_env :: "unit ingress_env" where
  "demo_pod_env =
     \<lparr>ie_NewAPI = Inr (), ie_kubeconfig = Inr (), ie_version = \<lparr>semver_MustParse = Inr, semver_GTE = (\<lambda>_ _. True)\<rparr>, ie_GitVersion = Inr ''v1.21.0'',
      ie_mesh = \<lparr>Unmarshal = (\<lambda>_. Inr demo_nsig_cfg), MarshalIndent = (\<lambda>_. Inr []), validate_Struct = (\<lambda>_. None), ErieCanalNamespace = ''ec''\<rparr>,
      ie_config = \<lparr>api_getConfigMap = (\<lambda>_. Pair (Inl NotFound)), api_updateConfigMap = (\<lambda>cm. Pair (Inr cm))\<rparr>,
      ie_PodNamespace = ''ns'', ie_PodName = ''p'',
      ie_getPod = (\<lambda>_ _. Pair (Inr \<lparr>pod_Name = ''p'', pod_Containers = [\<lparr>pc_Name = ''ingress'', pc_CpuValue = 3\<rparr>]\<rparr>)),
      ie_Start = (\<lambda>_ args. Pair (if args = [''--reuse-port'', ''--threads=3'', ''http://repo:6060/repo/local/nsig/ns/'']
                               then Inr () else Inl NotFound)),
      ie_serve = Pair (Inr ())\<rparr>"

theorem pipy_runs_derived_codebase_witness:
  "let (_, w1) = ensureCodebaseDerivatives demo_codebases demo_nsig_cfg demo_bases;
       (_, w2) = nsig_deriveCodebases demo_pipy_api demo_nsig demo_nsig_cfg w1
   in fst (ingress_main demo_pod_env \<lparr>cfg_cache = Inr (demo_cm []), cfg_world = ()\<rparr>) = Inr () \<and>
      descends w2 ''/local/nsig/ns'' DefaultIngressBasePath"
proof -
  let ?s = "\<lparr>cfg_cache = Inr (demo_cm []), cfg_world = ()\<rparr>"
  obtain w1 where w1: "ensureCodebaseDerivatives demo_codebases demo_nsig_cfg demo_bases = (Inr (), w1)"
    "w1 = demo_bases(''/local/services'' \<mapsto> DefaultServiceBasePath, ''/local/ingress'' \<mapsto> DefaultIngressBasePath)"
    by (simp add: ensureCodebaseDerivatives_def DeriveCodebase_def deriveCodebase_post_def isCodebaseExists_def repo_get_def repo_commit_def
        demo_codebases_def ok_response_def fullRepoApiPath_def GetDefaultServicesPath_def GetDefaultIngressPath_def demo_bases_def mk_Codebase_def)
  obtain w2 where w2: "nsig_deriveCodebases demo_pipy_api demo_nsig demo_nsig_cfg w1 = ((0, Inr ()), w2)"
    by (simp add: w1(2) nsig_deriveCodebases_def demo_pipy_api_def demo_nsig_def DeriveCodebase_def deriveCodebase_post_def
        isCodebaseExists_def repo_get_def repo_commit_def demo_codebases_def ok_response_def fullRepoApiPath_def
        NamespacedIngressCodebasePath_def IngressCodebasePath_def GetDefaultIngressPath_def demo_bases_def mk_Codebase_def)
  have cfg: "GetConfig (ie_mesh demo_pod_env) (ie_config demo_pod_env) ?s = (Inr demo_nsig_cfg, ?s)"
    by (simp add: GetConfig_def getConfigMap_def ParseMeshConfig_def demo_pod_env_def demo_cm_def)
  have version: "pipy_version_ok demo_pod_env = Inr ()"
    by (simp add: pipy_version_ok_def demo_pod_env_def IsSupportedK8sVersion_def detectServerVersion_def getServerVersion_def)
  have spawn: "calcPipySpawn demo_pod_env ?s = (Inr 3, ?s)"
    by (simp add: calcPipySpawn_def andThen_def or_fatal_def on_world_def getIngressCpuLimitsQuota_def getIngressPod_def demo_pod_env_def
        del: andThen_iff step_simps)
  have start: "startPipy demo_pod_env 3 (ingressCodebase demo_nsig_cfg (ie_PodNamespace demo_pod_env)) ?s = (Inr (), ?s)"
    by (simp add: startPipy_def on_world_def demo_pod_env_def ingressCodebase_def demo_nsig_cfg_def RepoBaseURL_def demo_cfg_def
        NamespacedIngressCodebasePath_def pipy_args_def) (code_simp)
  have "or_exit (on_world (ie_serve demo_pod_env)) ?s = (Inr (), ?s)" by (simp add: on_world_def demo_pod_env_def)
  with cfg version spawn start have run: "ingress_main demo_pod_env ?s = (Inr (), ?s)"
    by (simp add: ingress_main_def andThen_def Let_def del: andThen_iff step_simps)
  have "\<exists>path spawn v pod c. fst (ie_Start demo_pod_env ''pipy'' (pipy_args spawn (RepoBaseURL demo_nsig_cfg @ path @ ''/'')) v) = Inr () \<and>
     (if ingc_Namespaced (mc_Ingress demo_nsig_cfg) then path = ''/local/nsig/'' @ ie_PodNamespace demo_pod_env else path = ''/local/ingress'') \<and>
     descends (id w2) path DefaultIngressBasePath \<and>
     (\<exists>v v'. getIngressPod demo_pod_env v = (Inr pod, v')) \<and> c \<in> set (pod_Containers pod) \<and> pc_Name c = ''ingress'' \<and>
     spawn = max 1 (pc_CpuValue c)"
    by (rule pipy_runs_derived_codebase [OF demo_codebase_server _ w1(1) _ _ run, where api = demo_pipy_api and nsig = demo_nsig])
       (use cfg w2 in \<open>auto simp: lineage_def base_of_def demo_bases_def demo_nsig_cfg_def demo_pipy_api_def demo_nsig_def demo_pod_env_def
          split: if_splits\<close>)
  then obtain path spawn where "descends w2 path DefaultIngressBasePath"
    "pipy_args spawn (RepoBaseURL demo_nsig_cfg @ path @ ''/'') = [''--reuse-port'', ''--threads=3'', ''http://repo:6060/repo/local/nsig/ns/'']"
    by (auto simp: demo_pod_env_def split: if_splits)
  moreover then have "path = ''/local/nsig/ns''"
    by (auto simp: pipy_args_def RepoBaseURL_def demo_nsig_cfg_def demo_cfg_def append_eq_Cons_conv split: if_splits)
  ultimately show ?thesis using w1(1) w2 run by simp
qed

end
