(* ===== verification/Cli.thy ===== *)
theory Cli
  imports Namespaced_Ingress
begin

text \<open>
  \<open>cli/cmd/install.go\<close> and \<open>cli/cmd/uninstall.go\<close>: the commands that install and remove the control plane with Helm. Helm and the
  API server are parameters; the standard input is the string that can still be read from it, and what is written to the
  standard output is returned as a list of texts.
\<close>

section \<open>Asking for confirmation\<close>

abbreviation newline :: char where "newline \<equiv> CHR 0x0A"

text \<open>\<open>Reader.ReadString\<close> returns the text up to the newline and with it, or an error if there is no newline any more.\<close>

definition ReadString :: "string \<Rightarrow> (string \<times> string) option" where
  "ReadString input =
     (case dropWhile (\<lambda>c. c \<noteq> newline) input of
        [] \<Rightarrow> None
      | c # rest \<Rightarrow> Some (takeWhile (\<lambda>c. c \<noteq> newline) input @ [c], rest))"

text \<open>\<open>strings.TrimSpace\<close>, for the white space of ASCII.\<close>

definition TrimSpace :: "string \<Rightarrow> string" where
  "TrimSpace s =
     (let space = (\<lambda>c. c \<in> {CHR 0x09, CHR 0x0A, CHR 0x0B, CHR 0x0C, CHR 0x0D, CHR '' ''})
      in rev (dropWhile space (rev (dropWhile space s))))"

fun confirm :: "string \<Rightarrow> string \<Rightarrow> nat \<Rightarrow> (bool \<times> go_error option) \<times> string list" where
  "confirm stdin s 0 = ((False, None), [])"
| "confirm stdin s (Suc tries) =
     apsnd ((#) (s @ '' [y/n]: ''))
       (case ReadString stdin of
          None \<Rightarrow> ((False, Some (Errorf ''EOF'')), [])
        | Some (res, rest) \<Rightarrow>
            if length res < 2 then confirm rest s tries
            else if to_lower (TrimSpace res) = ''y'' then ((True, None), [])
            else if to_lower (TrimSpace res) = ''n'' then ((False, None), [])
            else apsnd ((#) (''Invalid input.'' @ [newline])) (confirm rest s tries))"

section \<open>The commands\<close>

definition uninstall_run ::
  "(string \<Rightarrow> 'w \<Rightarrow> unit result \<times> 'w) \<Rightarrow> string \<Rightarrow> string \<Rightarrow> string \<Rightarrow> 'w \<Rightarrow> unit result \<times> string list \<times> 'w"
where
  "uninstall_run helm_Run meshName namespace stdin w =
     (case confirm stdin ([newline] @ ''Uninstall ErieCanal [mesh name: '' @ meshName @ ''] in namespace ['' @ namespace @
             ''] and/or ErieCanal resources ?'') 3 of
        ((confirmed, err), out) \<Rightarrow>
          if \<not> confirmed \<or> err \<noteq> None then ((case err of None \<Rightarrow> Inr () | Some e \<Rightarrow> Inl e), out, w)
          else (case helm_Run meshName w of
                  (Inl e, w) \<Rightarrow> (Inl e, out, w)
                | (Inr _, w) \<Rightarrow>
                    (Inr (), out @ [''ErieCanal [mesh name: '' @ meshName @ ''] in namespace ['' @ namespace @ ''] uninstalled'' @ [newline]], w)))"

text \<open>The fields \<open>version\<close> and \<open>atomic\<close> are never set.\<close>

record installCmd =
  inst_meshName :: string
  inst_namespace :: string
  inst_timeout :: int
  inst_setOptions :: "string list"

record 'w install_env =
  in_helm :: helm_lib
  in_chartSource :: string
  in_Run :: "installCmd \<Rightarrow> string \<Rightarrow> helm_values \<Rightarrow> 'w \<Rightarrow> unit result \<times> 'w"
  in_listPods :: "string \<Rightarrow> 'w \<Rightarrow> (string \<times> string \<times> string) list \<times> 'w"

definition install_loadChart :: "'w install_env \<Rightarrow> string result" where
  "install_loadChart env =
     (case LoadArchive (in_helm env) (in_chartSource env) of
        Inl _ \<Rightarrow> Inl (Errorf ''error loading chart for installation'')
      | Inr chart \<Rightarrow> Inr chart)"

definition install_resolveValues :: "'w install_env \<Rightarrow> installCmd \<Rightarrow> helm_values result" where
  "install_resolveValues env i =
     (case parse_overrides (in_helm env) (inst_setOptions i) [] of
        Inl _ \<Rightarrow> Inl (Errorf ''invalid format for --set'')
      | Inr finalValues \<Rightarrow> Inr finalValues)"

definition install_run :: "'w install_env \<Rightarrow> installCmd \<Rightarrow> 'w \<Rightarrow> unit result \<times> string list \<times> 'w" where
  "install_run env i w =
     (case install_loadChart env of
        Inl err \<Rightarrow> (Inl err, [], w)
      | Inr chart \<Rightarrow>
          (case install_resolveValues env i of
             Inl err \<Rightarrow> (Inl err, [], w)
           | Inr values \<Rightarrow>
               (case in_Run env i chart values w of
                  (Inl err, w) \<Rightarrow>
                    (case in_listPods env (inst_namespace i) w of
                       (pods, w) \<Rightarrow>
                         (Inl err, map (\<lambda>(name, ns, status). ''Status for pod '' @ name @ '' in namespace '' @ ns @ '':'' @ [newline] @ '' '' @
                                     status @ [newline, newline]) pods, w))
                | (Inr _, w) \<Rightarrow>
                    (Inr (), [''ErieCanal installed successfully in namespace ['' @ inst_namespace i @ ''] with mesh name ['' @
                              inst_meshName i @ '']'' @ [newline]], w))))"

section \<open>Properties\<close>

text \<open>The complete lines of an input and what a line answers.\<close>

function lines_of :: "string \<Rightarrow> string list" where
  "lines_of input = (case ReadString input of None \<Rightarrow> [] | Some (line, rest) \<Rightarrow> line # lines_of rest)"
  by auto

lemma ReadString_rest: "ReadString input = Some (line, rest) \<Longrightarrow> input = line @ rest \<and> line \<noteq> []"
  by (auto simp: ReadString_def split: list.splits) (metis takeWhile_dropWhile_id)

termination lines_of
  by (relation "measure length") (auto dest: ReadString_rest)

declare lines_of.simps [simp del]

definition answer :: "string \<Rightarrow> bool option" where
  "answer line =
     (if to_lower (TrimSpace line) = ''y'' then Some True else if to_lower (TrimSpace line) = ''n'' then Some False else None)"

definition decision :: "nat \<Rightarrow> string \<Rightarrow> bool option" where
  "decision tries input = Option.bind (find (\<lambda>a. a \<noteq> None) (map answer (take tries (lines_of input)))) id"

lemma answer_short: "ReadString input = Some (line, rest) \<Longrightarrow> length line < 2 \<Longrightarrow> answer line = None"
  by (auto simp: ReadString_def answer_def TrimSpace_def to_lower_def hd_dropWhile split: list.splits dest!: dropWhile_eq_Cons_conv [THEN iffD1])

lemma confirm_decision:
  "fst (confirm stdin s tries) =
     (case decision tries stdin of
        Some b \<Rightarrow> (b, None)
      | None \<Rightarrow> (False, if length (lines_of stdin) < tries then Some (Errorf ''EOF'') else None))"
proof (induction tries arbitrary: stdin)
  case (Suc tries)
  show ?case
  proof (cases "ReadString stdin")
    case None
    then show ?thesis by (simp add: decision_def lines_of.simps [of stdin])
  next
    case (Some lr)
    obtain line rest where lr: "lr = (line, rest)" by force
    have "decision (Suc tries) stdin = (case answer line of None \<Rightarrow> decision tries rest | Some b \<Rightarrow> Some b)"
      using Some lr by (simp add: decision_def lines_of.simps [of stdin] split: option.splits)
    moreover have "length (lines_of stdin) = Suc (length (lines_of rest))"
      using Some lr by (simp add: lines_of.simps [of stdin])
    ultimately show ?thesis
      using Some lr Suc.IH [of rest] answer_short [of stdin line rest] by (auto simp: answer_def)
  qed
qed (simp add: decision_def)

text \<open>An installation succeeds only with the chart of the binary and the values of all the \<open>--set\<close> options, applied in order to
  an empty map; otherwise Helm is not called or has failed.\<close>

lemma install_run_ok:
  "fst (install_run env i w) = Inr () \<longleftrightarrow>
   (\<exists>chart values. LoadArchive (in_helm env) (in_chartSource env) = Inr chart \<and>
      parse_overrides (in_helm env) (inst_setOptions i) [] = Inr values \<and> fst (in_Run env i chart values w) = Inr ())"
  by (auto simp: install_run_def install_loadChart_def install_resolveValues_def split: sum.splits prod.splits)


end
