(* ===== verification/Connector_Run.thy ===== *)
theory Connector_Run
  imports Cluster_Connector
begin

text \<open>
  \<open>LocalConnector.Run\<close> (\<open>pkg/cluster/local.go\<close>) and \<open>RemoteConnector.Run\<close> (\<open>pkg/cluster/remote.go\<close>): the order in which a connector
  starts its controllers, its informers and its loops.

  A run is a list of instructions, one for each statement with an effect, which one goroutine executes; meanwhile an informer that is
  running may finish its first synchronisation and the stop channel may be closed, at any time. \<open>WaitForCacheSync\<close> blocks until the
  informers it names are synchronised or the channel is closed; its result is only logged. The last instruction receives from a
  channel that is made at the start.
\<close>

section \<open>The programs\<close>

datatype kind = KService | KEndpoints | KSecret | KIngressClass | KServiceImport | KIngress | KServiceExport

datatype instr =
    StartRecordingToSink
  | RunController kind
  | RunInformer kind
  | WaitForCacheSync "kind list"
  | Sleep
  | GoProcessEvent
  | GoSyncLoop
  | ReceiveError

definition local_program :: "bool \<Rightarrow> instr list" where
  "local_program events =
     (if events then [StartRecordingToSink] else []) @
     [RunController KService, RunController KEndpoints, RunController KIngressClass, RunController KIngress,
      RunController KServiceImport, RunController KSecret,
      RunInformer KService, RunInformer KEndpoints, RunInformer KSecret, RunInformer KIngressClass,
      WaitForCacheSync [KEndpoints, KService, KSecret], WaitForCacheSync [KIngressClass],
      RunInformer KServiceImport, WaitForCacheSync [KServiceImport],
      Sleep, RunInformer KIngress, WaitForCacheSync [KIngress], GoSyncLoop, ReceiveError]"

definition remote_program :: "bool \<Rightarrow> bool \<Rightarrow> instr list" where
  "remote_program events isManaged =
     (if events then [StartRecordingToSink] else []) @
     [RunController KServiceExport, RunInformer KServiceExport, WaitForCacheSync [KServiceExport], Sleep] @
     (if isManaged then [GoProcessEvent] else []) @ [GoSyncLoop, ReceiveError]"

record run_state =
  rs_todo :: "instr list"
  rs_controllers :: "kind set"
  rs_started :: "kind set"
  rs_synced :: "kind set"
  rs_loops :: "instr set"
  rs_errCh :: "go_error list"
  rs_stopped :: bool
  rs_result :: "unit result option"

definition start_run :: "unit result \<Rightarrow> instr list \<Rightarrow> run_state" where
  "start_run early program =
     \<lparr>rs_todo = (if isl early then [] else program), rs_controllers = {}, rs_started = {}, rs_synced = {}, rs_loops = {}, rs_errCh = [],
      rs_stopped = False, rs_result = (if isl early then Some early else None)\<rparr>"

definition LocalConnector_Run :: "('d, 'w) repo_http \<Rightarrow> MeshConfig \<Rightarrow> bool \<Rightarrow> 'w \<Rightarrow> run_state \<times> 'w" where
  "LocalConnector_Run http mc events w =
     (case ensureCodebaseDerivatives http mc w of (err, w) \<Rightarrow> (start_run err (local_program events), w))"

text \<open>The field \<open>IsManaged\<close> is read from the configuration while \<open>Run\<close> is under way; it is an argument here. That read panics if
  there is no valid configuration any more, which ends the process.\<close>

definition RemoteConnector_Run ::
  "mesh_lib \<Rightarrow> 'w cfg_api \<Rightarrow> ConnectorConfig \<Rightarrow> bool \<Rightarrow> bool \<Rightarrow> 'w cfg_state \<Rightarrow> run_state go \<times> 'w cfg_state"
where
  "RemoteConnector_Run lib api con events isManaged s =
     (case updateConfigsOfManagedCluster lib api con s of
        (Inl p, s) \<Rightarrow> (Inl p, s)
      | (Inr err, s) \<Rightarrow> (Inr (start_run err (remote_program events isManaged)), s))"

section \<open>Execution\<close>

text \<open>An instruction that blocks has no next state.\<close>

fun exec_instr :: "instr \<Rightarrow> run_state \<Rightarrow> run_state option" where
  "exec_instr StartRecordingToSink s = Some s"
| "exec_instr (RunController k) s = Some (s\<lparr>rs_controllers := insert k (rs_controllers s)\<rparr>)"
| "exec_instr (RunInformer k) s = Some (s\<lparr>rs_started := insert k (rs_started s)\<rparr>)"
| "exec_instr (WaitForCacheSync ks) s = (if rs_stopped s \<or> (\<forall>k \<in> set ks. k \<in> rs_synced s) then Some s else None)"
| "exec_instr Sleep s = Some s"
| "exec_instr GoProcessEvent s = Some (s\<lparr>rs_loops := insert GoProcessEvent (rs_loops s)\<rparr>)"
| "exec_instr GoSyncLoop s = Some (s\<lparr>rs_loops := insert GoSyncLoop (rs_loops s)\<rparr>)"
| "exec_instr ReceiveError s =
     (case rs_errCh s of [] \<Rightarrow> None | e # es \<Rightarrow> Some (s\<lparr>rs_errCh := es, rs_result := Some (Inl e)\<rparr>))"

inductive run_step :: "run_state \<Rightarrow> run_state \<Rightarrow> bool" where
  step_instr: "rs_todo s = i # is \<Longrightarrow> exec_instr i s = Some s' \<Longrightarrow> run_step s (s'\<lparr>rs_todo := is\<rparr>)"
| step_sync: "k \<in> rs_started s \<Longrightarrow> \<not> rs_stopped s \<Longrightarrow> run_step s (s\<lparr>rs_synced := insert k (rs_synced s)\<rparr>)"
| step_stop: "run_step s (s\<lparr>rs_stopped := True\<rparr>)"

inductive_cases run_stepE: "run_step s s'"

section \<open>Invariants\<close>

text \<open>What the goroutine has done up to now: the informers it has started, and those whose synchronisation it has seen or missed.\<close>

fun waited :: "instr list \<Rightarrow> kind set" where
  "waited [] = {}"
| "waited (WaitForCacheSync ks # is) = set ks \<union> waited is"
| "waited (i # is) = waited is"

lemma waited_append [simp]: "waited (xs @ ys) = waited xs \<union> waited ys"
  by (induction xs rule: waited.induct) auto

definition run_inv :: "instr list \<Rightarrow> run_state \<Rightarrow> bool" where
  "run_inv program s \<longleftrightarrow>
     (\<exists>done. program = done @ rs_todo s \<and> rs_started s = {k. RunInformer k \<in> set done} \<and>
        rs_controllers s = {k. RunController k \<in> set done} \<and> rs_loops s = {l \<in> {GoProcessEvent, GoSyncLoop}. l \<in> set done} \<and>
        (rs_stopped s \<or> waited done \<subseteq> rs_synced s) \<and>
        ReceiveError \<notin> set done \<and> rs_errCh s = [] \<and> rs_result s = None)"

lemma start_run_inv: "\<not> isl early \<Longrightarrow> run_inv program (start_run early program)"
  by (simp add: run_inv_def start_run_def)

lemma run_step_inv:
  assumes "run_step s s'" and "run_inv program s"
  shows "run_inv program s'"
proof -
  from assms(2) obtain xs where "program = xs @ rs_todo s" and inv: "rs_started s = {k. RunInformer k \<in> set xs}"
      "rs_controllers s = {k. RunController k \<in> set xs}" "rs_loops s = {l \<in> {GoProcessEvent, GoSyncLoop}. l \<in> set xs}"
      "rs_stopped s \<or> waited xs \<subseteq> rs_synced s"
      "ReceiveError \<notin> set xs" "rs_errCh s = []" "rs_result s = None"
    unfolding run_inv_def by blast
  from assms(1) show ?thesis
  proof (cases rule: run_step.cases)
    case (step_instr i "is" s1)
    then show ?thesis unfolding run_inv_def
      using inv \<open>program = xs @ rs_todo s\<close> by (intro exI [of _ "xs @ [i]"]) (cases i; auto split: if_splits)
  next
    case (step_sync k)
    then show ?thesis unfolding run_inv_def using inv \<open>program = xs @ rs_todo s\<close> by (intro exI [of _ xs]) auto
  next
    case step_stop
    then show ?thesis unfolding run_inv_def using inv \<open>program = xs @ rs_todo s\<close> by (intro exI [of _ xs]) auto
  qed
qed

lemma run_steps_inv: "run_step\<^sup>*\<^sup>* s s' \<Longrightarrow> run_inv program s \<Longrightarrow> run_inv program s'"
  by (induction rule: rtranclp_induct) (auto intro: run_step_inv)

lemma executed_before:
  assumes "done @ todo = before @ i # after" and "i \<in> set done" and "i \<notin> set before"
  shows "\<exists>rest. done = before @ i # rest"
proof -
  from assms(1) obtain us where "done = before @ us \<and> us @ todo = i # after \<or> before = done @ us \<and> todo = us @ i # after"
    by (auto simp: append_eq_append_conv2)
  with assms(2,3) show ?thesis by (cases us) auto
qed

lemma inv_waited:
  assumes "run_inv (before @ i # after) s" and "i \<notin> set before"
    and "(case i of RunInformer k \<Rightarrow> k \<in> rs_started s | GoProcessEvent \<Rightarrow> i \<in> rs_loops s | GoSyncLoop \<Rightarrow> i \<in> rs_loops s | _ \<Rightarrow> False)"
  shows "rs_stopped s \<or> waited before \<subseteq> rs_synced s"
proof -
  from assms(1) obtain xs where eq: "before @ i # after = xs @ rs_todo s" and st: "rs_started s = {k. RunInformer k \<in> set xs}"
      "rs_loops s = {l \<in> {GoProcessEvent, GoSyncLoop}. l \<in> set xs}" "rs_stopped s \<or> waited xs \<subseteq> rs_synced s"
    unfolding run_inv_def by blast
  from assms(3) st have "i \<in> set xs" by (auto split: instr.splits)
  from executed_before [OF eq [symmetric] this assms(2)] st(3) show ?thesis by auto
qed

abbreviation until :: "instr \<Rightarrow> instr list \<Rightarrow> instr list" where
  "until i program \<equiv> takeWhile (\<lambda>j. j \<noteq> i) program"

lemma split_until: "i \<in> set program \<Longrightarrow> \<exists>after. program = until i program @ i # after"
  by (induction program) auto

lemma informer_waits:
  assumes "run_inv program s" and "RunInformer k \<in> set program" and "k \<in> rs_started s" and "\<not> rs_stopped s"
  shows "waited (until (RunInformer k) program) \<subseteq> rs_synced s"
proof -
  obtain rest where eq: "program = until (RunInformer k) program @ RunInformer k # rest" using split_until [OF assms(2)] by blast
  have "RunInformer k \<notin> set (until (RunInformer k) program)" by (auto dest: set_takeWhileD)
  moreover have "run_inv (until (RunInformer k) program @ RunInformer k # rest) s" by (simp only: eq [symmetric] assms(1))
  ultimately show ?thesis using inv_waited assms(3,4) by fastforce
qed

lemma loop_waits:
  assumes "run_inv program s" and "l \<in> set program" and "l \<in> rs_loops s" and "\<not> rs_stopped s"
  shows "waited (until l program) \<subseteq> rs_synced s"
proof -
  obtain rest where eq: "program = until l program @ l # rest" using split_until [OF assms(2)] by blast
  have "l \<notin> set (until l program)" by (auto dest: set_takeWhileD)
  moreover have "l = GoProcessEvent \<or> l = GoSyncLoop" using assms(1,3) by (auto simp: run_inv_def)
  moreover have "run_inv (until l program @ l # rest) s" by (simp only: eq [symmetric] assms(1))
  ultimately show ?thesis using inv_waited [of "until l program" l rest s] assms(3,4) by auto
qed

section \<open>Progress\<close>

text \<open>A program that waits only for informers it has started.\<close>

fun waits_ok :: "kind set \<Rightarrow> instr list \<Rightarrow> bool" where
  "waits_ok S [] \<longleftrightarrow> True"
| "waits_ok S (RunInformer k # is) \<longleftrightarrow> waits_ok (insert k S) is"
| "waits_ok S (WaitForCacheSync ks # is) \<longleftrightarrow> set ks \<subseteq> S \<and> waits_ok S is"
| "waits_ok S (i # is) \<longleftrightarrow> waits_ok S is"

lemma waits_ok_append: "waits_ok S (xs @ ys) \<Longrightarrow> waits_ok (S \<union> {k. RunInformer k \<in> set xs}) ys"
  by (induction S xs rule: waits_ok.induct) (auto simp: Collect_disj_eq insert_commute Un_commute elim: rev_iffD1)

lemma sync_all:
  assumes "set ks \<subseteq> rs_started s" and "\<not> rs_stopped s"
  shows "run_step\<^sup>*\<^sup>* s (s\<lparr>rs_synced := set ks \<union> rs_synced s\<rparr>)"
  using assms
proof (induction ks)
  case (Cons k ks)
  let ?s = "s\<lparr>rs_synced := set ks \<union> rs_synced s\<rparr>"
  have "run_step ?s (?s\<lparr>rs_synced := insert k (rs_synced ?s)\<rparr>)" by (rule step_sync) (use Cons.prems in auto)
  with Cons show ?case by (simp add: rtranclp.rtrancl_into_rtrancl)
qed simp

lemma instr_progress:
  assumes "rs_todo s = i # is" and "waits_ok (rs_started s) (i # is)" and "i \<noteq> ReceiveError"
  shows "\<exists>s'. run_step\<^sup>*\<^sup>* s s' \<and> rs_todo s' = is \<and> waits_ok (rs_started s') is"
proof (cases "\<exists>ks. i = WaitForCacheSync ks \<and> \<not> rs_stopped s")
  case True
  then obtain ks where i: "i = WaitForCacheSync ks" "\<not> rs_stopped s" by blast
  let ?s = "s\<lparr>rs_synced := set ks \<union> rs_synced s\<rparr>"
  have "run_step\<^sup>*\<^sup>* s ?s" using sync_all i assms(2) by simp
  moreover have "run_step ?s (?s\<lparr>rs_todo := is\<rparr>)" by (rule step_instr [where i = i]) (use i assms(1) in auto)
  ultimately show ?thesis using assms(2) i by (intro exI [of _ "?s\<lparr>rs_todo := is\<rparr>"]) auto
next
  case False
  then obtain s1 where "exec_instr i s = Some s1" "waits_ok (rs_started s1) is" using assms by (cases i) auto
  with step_instr [OF assms(1)] show ?thesis by (intro exI [of _ "s1\<lparr>rs_todo := is\<rparr>"]) auto
qed

lemma run_progress:
  assumes "rs_todo s = is @ [ReceiveError]" and "waits_ok (rs_started s) (rs_todo s)" and "ReceiveError \<notin> set is"
  shows "\<exists>s'. run_step\<^sup>*\<^sup>* s s' \<and> rs_todo s' = [ReceiveError]"
  using assms
proof (induction "is" arbitrary: s)
  case (Cons i "is")
  then obtain s1 where "run_step\<^sup>*\<^sup>* s s1" "rs_todo s1 = is @ [ReceiveError]" "waits_ok (rs_started s1) (is @ [ReceiveError])"
    using instr_progress [of s i "is @ [ReceiveError]"] by auto
  with Cons.IH [of s1] Cons.prems(3) show ?case by (auto intro: rtranclp_trans)
qed auto

lemma failed_run:
  assumes "run_step\<^sup>*\<^sup>* (start_run early program) s" and "isl early"
  shows "rs_result s = Some early \<and> rs_todo s = [] \<and> rs_started s = {} \<and> rs_loops s = {}"
  using assms(1)
proof (induction rule: rtranclp_induct)
  case base
  then show ?case using assms(2) by (simp add: start_run_def)
next
  case (step s1 s2)
  then show ?case by (auto elim!: run_stepE)
qed

lemma run_outcome:
  assumes "run_step\<^sup>*\<^sup>* (start_run early program) s" and "program = is @ [ReceiveError]" and "ReceiveError \<notin> set is"
    and "GoSyncLoop \<in> set is" and "waits_ok {} program"
  shows "if isl early then rs_result s = Some early \<and> rs_loops s = {}
    else rs_result s = None \<and> (\<exists>s'. run_step\<^sup>*\<^sup>* s s' \<and> rs_todo s' = [ReceiveError] \<and> GoSyncLoop \<in> rs_loops s')"
proof (cases "isl early")
  case False
  then have inv: "run_inv program s" using run_steps_inv [OF assms(1)] start_run_inv by blast
  then obtain xs where xs: "program = xs @ rs_todo s" "rs_started s = {k. RunInformer k \<in> set xs}" "ReceiveError \<notin> set xs"
    and none: "rs_result s = None"
    unfolding run_inv_def by blast
  have "\<exists>rest. rs_todo s = rest @ [ReceiveError] \<and> is = xs @ rest"
    using xs(1,3) assms(2) by (cases "rs_todo s" rule: rev_cases) auto
  then obtain rest where "rs_todo s = rest @ [ReceiveError]" "is = xs @ rest" by blast
  moreover have "waits_ok (rs_started s) (rs_todo s)" using waits_ok_append [of "{}" xs] assms(5) xs by simp
  ultimately obtain s' where s': "run_step\<^sup>*\<^sup>* s s'" "rs_todo s' = [ReceiveError]" using run_progress assms(3) by auto
  have "run_inv program s'" using run_steps_inv [OF s'(1) inv] .
  then have "GoSyncLoop \<in> rs_loops s'" using s'(2) assms(2,4) by (auto simp: run_inv_def)
  with s' none False show ?thesis by auto
qed (use failed_run [OF assms(1)] in simp)

section \<open>Properties\<close>

text \<open>C10. The informer for Ingresses is started only when the Services, Endpoints, Secrets, IngressClasses and ServiceImports it depends on
  have been synchronised, and the loop that builds the routes runs only when the Ingresses have been synchronised too, unless the
  connector has been stopped meanwhile. This holds however the synchronisations and the stop are interleaved with the start.\<close>

theorem ingress_informer_last:
  assumes "run_step\<^sup>*\<^sup>* (fst (LocalConnector_Run http mc events w)) s" and "\<not> rs_stopped s"
  shows "(KIngress \<in> rs_started s \<longrightarrow> {KService, KEndpoints, KSecret, KIngressClass, KServiceImport} \<subseteq> rs_synced s) \<and>
    (GoSyncLoop \<in> rs_loops s \<longrightarrow> {KService, KEndpoints, KSecret, KIngressClass, KServiceImport, KIngress} \<subseteq> rs_synced s)"
proof -
  obtain early w' where "ensureCodebaseDerivatives http mc w = (early, w')" by force
  with assms(1) have run: "run_step\<^sup>*\<^sup>* (start_run early (local_program events)) s" by (simp add: LocalConnector_Run_def)
  show ?thesis
  proof (cases "isl early")
    case True
    with failed_run [OF run] show ?thesis by simp
  next
    case False
    then have inv: "run_inv (local_program events) s" using run_steps_inv [OF run] start_run_inv by blast
    show ?thesis
      using informer_waits [OF inv, of KIngress] loop_waits [OF inv, of GoSyncLoop] assms(2)
      by (cases events) (auto simp: local_program_def)
  qed
qed

text \<open>A repository where every codebase exists, and a run up to the start of the last informer.\<close>

definition demo_run_repo :: "(unit, unit) repo_http" where
  "demo_run_repo req w =
     (Inr \<lparr>rsp_StatusCode = 200, rsp_Status = ''200 OK'', rsp_IsSuccess = True, rsp_IsError = False, rsp_Result = mk_Codebase 1 [],
           rsp_Body = []\<rparr>, w)"

lemma demo_LocalConnector_Run: "LocalConnector_Run demo_run_repo mc events () = (start_run (Inr ()) (local_program events), ())"
  by (simp add: LocalConnector_Run_def ensureCodebaseDerivatives_def DeriveCodebase_def isCodebaseExists_def demo_run_repo_def)

text \<open>Executing instructions while every informer that is waited for is synchronised in time.\<close>

definition synced_for :: "instr \<Rightarrow> run_state \<Rightarrow> run_state" where
  "synced_for i s = (case i of WaitForCacheSync ks \<Rightarrow> s\<lparr>rs_synced := set ks \<union> rs_synced s\<rparr> | _ \<Rightarrow> s)"

fun exec_all :: "instr list \<Rightarrow> run_state \<Rightarrow> run_state" where
  "exec_all [] s = s"
| "exec_all (i # is) s =
     (case exec_instr i (synced_for i s) of None \<Rightarrow> s | Some s' \<Rightarrow> exec_all is (s'\<lparr>rs_todo := is\<rparr>))"

lemma synced_for_runs:
  assumes "waits_ok (rs_started s) (i # is)" and "\<not> rs_stopped s"
  shows "run_step\<^sup>*\<^sup>* s (synced_for i s)"
  using assms by (cases i) (auto simp: synced_for_def intro: sync_all)

lemma synced_for_simps [simp]: "rs_todo (synced_for i s) = rs_todo s" "rs_started (synced_for i s) = rs_started s"
  "rs_stopped (synced_for i s) = rs_stopped s" "rs_errCh (synced_for i s) = rs_errCh s"
  by (auto simp: synced_for_def split: instr.splits)

lemma exec_all_runs:
  assumes "rs_todo s = is" and "waits_ok (rs_started s) is" and "\<not> rs_stopped s"
  shows "run_step\<^sup>*\<^sup>* s (exec_all is s)"
  using assms
proof (induction "is" arbitrary: s)
  case (Cons i "is")
  show ?case
  proof (cases "exec_instr i (synced_for i s)")
    case (Some s1)
    then have "run_step (synced_for i s) (s1\<lparr>rs_todo := is\<rparr>)" using Cons.prems by (intro step_instr) simp_all
    moreover have "waits_ok (rs_started s1) is" "\<not> rs_stopped s1"
      using Some Cons.prems by (cases i; auto split: list.splits if_splits)+
    ultimately show ?thesis
      using Cons.IH [of "s1\<lparr>rs_todo := is\<rparr>"] synced_for_runs [OF Cons.prems(2,3)] Some by (auto intro: rtranclp_trans)
  qed simp
qed simp

abbreviation demo_synced :: run_state where
  "demo_synced \<equiv> exec_all (local_program False) (start_run (Inr ()) (local_program False))"

theorem ingress_informer_last_witness:
  "KIngress \<in> rs_started demo_synced \<and> GoSyncLoop \<in> rs_loops demo_synced \<and> \<not> rs_stopped demo_synced \<and>
   {KService, KEndpoints, KSecret, KIngressClass, KServiceImport, KIngress} \<subseteq> rs_synced demo_synced"
proof -
  have "run_step\<^sup>*\<^sup>* (start_run (Inr ()) (local_program False)) demo_synced"
    by (rule exec_all_runs) (simp_all add: start_run_def local_program_def)
  moreover have "\<not> rs_stopped demo_synced" "KIngress \<in> rs_started demo_synced" "GoSyncLoop \<in> rs_loops demo_synced"
    by (simp_all add: start_run_def local_program_def synced_for_def)
  ultimately show ?thesis
    using ingress_informer_last [of demo_run_repo demo_cfg False "()" demo_synced] by (simp add: demo_LocalConnector_Run)
qed

text \<open>What a state of a run shows, by the error that \<open>Run\<close> met at its start: with an error, \<open>Run\<close> has returned it and nothing is running; without
  one, \<open>Run\<close> has not returned, and it can still come to the point where everything runs and only the receive is left.\<close>

definition run_shows :: "unit result \<Rightarrow> run_state \<Rightarrow> bool" where
  "run_shows early s \<longleftrightarrow>
     (if isl early then rs_result s = Some early \<and> rs_started s = {} \<and> rs_loops s = {}
      else rs_result s = None \<and> (\<exists>s'. run_step\<^sup>*\<^sup>* s s' \<and> rs_todo s' = [ReceiveError] \<and> GoSyncLoop \<in> rs_loops s'))"

text \<open>C19. \<open>Run\<close> of a connector returns only the error it meets before anything is started. Otherwise it never returns, not even after the stop
  channel has been closed, because nothing is ever sent on its error channel; but from every state it can go on until the loop
  that builds the routes is running: it never waits for an informer that has not been started, and a stop ends every wait.\<close>

theorem run_returns_only_early_error:
  "(run_step\<^sup>*\<^sup>* (fst (LocalConnector_Run http mc events w)) s \<longrightarrow> run_shows (fst (ensureCodebaseDerivatives http mc w)) s) \<and>
   (\<forall>r. fst (RemoteConnector_Run lib api con events isManaged st) = Inr r \<and> run_step\<^sup>*\<^sup>* r s \<longrightarrow>
      (\<exists>early. fst (updateConfigsOfManagedCluster lib api con st) = Inr early \<and> run_shows early s))"
proof -
  have outcome: "run_shows early s" if "run_step\<^sup>*\<^sup>* (start_run early (is @ [ReceiveError])) s" "ReceiveError \<notin> set is"
      "GoSyncLoop \<in> set is" "waits_ok {} (is @ [ReceiveError])" for early "is"
    using run_outcome [OF that(1) refl that(2-4)] failed_run [OF that(1)] by (simp add: run_shows_def split: if_splits)
  have "run_shows early s" if "run_step\<^sup>*\<^sup>* (start_run early (local_program events)) s" for early
    using outcome [of early "butlast (local_program events)"] that by (cases events) (simp_all add: local_program_def)
  moreover have "run_shows early s" if "run_step\<^sup>*\<^sup>* (start_run early (remote_program events isManaged)) s" for early
    using outcome [of early "butlast (remote_program events isManaged)"] that
    by (cases events; cases isManaged) (simp_all add: remote_program_def)
  ultimately show ?thesis
    by (auto simp: LocalConnector_Run_def RemoteConnector_Run_def split: prod.splits sum.splits)
qed

theorem run_returns_only_early_error_witness:
  "rs_result demo_synced = None \<and> (\<exists>s'. run_step\<^sup>*\<^sup>* demo_synced s' \<and> rs_todo s' = [ReceiveError] \<and> GoSyncLoop \<in> rs_loops s')"
proof -
  have "run_step\<^sup>*\<^sup>* (start_run (Inr ()) (local_program False)) demo_synced"
    by (rule exec_all_runs) (simp_all add: start_run_def local_program_def)
  moreover have "fst (ensureCodebaseDerivatives demo_run_repo demo_cfg ()) = Inr ()"
    by (simp add: ensureCodebaseDerivatives_def DeriveCodebase_def isCodebaseExists_def demo_run_repo_def)
  ultimately show ?thesis
    using run_returns_only_early_error [THEN conjunct1, of demo_run_repo demo_cfg False "()" demo_synced]
    by (simp add: demo_LocalConnector_Run run_shows_def del: exec_all.simps)
qed

end
