(* ===== verification/Spec2Isabelle.thy ===== *)
theory Spec2Isabelle
  imports Local_Run Federation Worker_Pool Service_LB Service_Export Informers Pipy Cli Connector_Run
begin

text \<open>
  \<^bold>\<open>ErieCanal: a verification library.\<close> ErieCanal is a multi-cluster ingress and service controller for Kubernetes, written
  in Go. This library models its code under \<open>src/\<close> and proves what makes the parts and their combination correct.

  \<^bold>\<open>The program and how its parts interact.\<close> In every cluster a local cache (\<open>pkg/cache\<close>) follows Services, Endpoints,
  Ingresses, IngressClasses and ServiceImports through informers (\<open>pkg/controller\<close>), turns them into routes and uploads these to
  a Pipy repository (\<open>pkg/repo\<close>), from which the proxies read them. One cluster is the control plane. Its cluster controller
  (\<open>controllers/cluster\<close>) runs a connector (\<open>pkg/cluster\<close>) for each Cluster resource. A connector to a remote cluster watches
  ServiceExports, which the export controller of that cluster (\<open>controllers/serviceexport\<close>) has checked and published through an
  Ingress; the messages go through a broker (\<open>pkg/event\<close>), the controller accepts or rejects the export, and each connector
  brings the ServiceImports of its cluster up to date, which the local cache there turns into routes. Around this are the mesh
  configuration (\<open>pkg/config\<close>), the admission webhooks (\<open>pkg/admission\<close>, \<open>pkg/webhooks\<close>), the certificate managers
  (\<open>pkg/certificate\<close>), a built-in load balancer (\<open>controllers/servicelb\<close>), ingress controllers per namespace
  (\<open>controllers/namespacedingress\<close>, \<open>pkg/helm\<close>) and a worker pool (\<open>pkg/workqueue\<close>). The manager (\<open>cmd/manager\<close>) fills the repository
  with its base codebases and starts all of this; the pods of the ingress controllers (\<open>cmd/ingress-pipy\<close>) run Pipy on a
  codebase derived from them; a command line tool (\<open>cli\<close>) installs and removes the control plane.

  \<^bold>\<open>Conventions.\<close> A definition has the name of the Go function or type it models, with the receiver or package in front where
  two have the same name. A struct is a record, an interface with several implementations a datatype. An error is a value of
  \<open>go_error + 'a\<close>, a panic (nil dereference, index, type assertion, double close) one of \<open>panic + 'a\<close>. A Go map is an
  association list with distinct keys whose order is the order of a range, and the lemmas hold for every order. A nil map or
  pointer is \<open>None\<close>. Code outside the repository (client-go, helm, sjson, the API servers, HTTP, cryptography) is a record of
  functions that take and return a world of any type; what is relied on is a named predicate over that record, and a witness
  instantiates it. Integers are words where the code depends on their width (versions of codebases, counters of the
  worker pool, hashes) and \<open>int\<close> where they are copied and compared. The text of an error is its constant part where the
  code adds details. Logging is left out.

  \<^bold>\<open>Foundations.\<close>
  \<^item> \<open>Go_Prelude\<close>: panics, errors, maps and the functions of \<open>strings\<close>, \<open>strconv\<close> and \<open>fmt\<close>. \<open>Net_Addr\<close>: the package \<open>net\<close>.
    \<open>K8s_Types\<close> and \<open>Api_Types\<close>: the Kubernetes objects and the custom resources of \<open>apis/\<close>.
    \<open>Go_Util\<close>: \<open>pkg/util\<close>.
  \<^item> \<open>Change_Tracking\<close>: the locales \<open>change_tracker\<close> and \<open>synced_map\<close>, the contract of a tracker and of the map it feeds, with
    the informer events that drive them. The four trackers interpret them.

  \<^bold>\<open>The local cache.\<close>
  \<^item> \<open>Cache_Types\<close>, \<open>Service_Cache\<close>, \<open>Endpoints_Cache\<close>, \<open>ServiceImport_Cache\<close> (\<open>service.go\<close>, \<open>endpoints.go\<close>,
    \<open>serviceimport.go\<close>): \<open>Update\<close>, the conversions, \<open>merge\<close>, \<open>unmerge\<close> and \<open>apply\<close>. After any valid run of events a
    synchronisation makes the map agree with the informer store.
  \<^item> \<open>Route_Types\<close>, \<open>Ingress_Cache\<close>, \<open>Ingress_Routes\<close> (\<open>ingress.go\<close>, \<open>pkg/route\<close>, \<open>pkg/ingress\<close>): from Ingresses to routes. The
    map stays consistent, independent changes commute, and the inputs on which the conversion panics are exactly known.
  \<^item> \<open>Local_Cache\<close>, \<open>Local_Routes\<close>, \<open>Local_Run\<close> (\<open>local_cache.go\<close> and the event handlers): \<open>syncRoutes\<close>, the built routes and
    batches, and the relation \<open>lc_reach\<close>, in which events, first synchronisations, synchronisations and ends of uploads interleave
    freely. What is uploaded reflects the stores, the cache is initialised when all five informers are, and a
    synchronisation after successful uploads changes nothing.
  \<^item> \<open>Informers\<close> (\<open>pkg/controller\<close>): the adapters with their type assertions and tombstones, through the locale
    \<open>typed_objects\<close>; the relation \<open>informed\<close> runs the cache behind them, and the registry still reflects the stores.
  \<^item> \<open>Repo_Client\<close> (\<open>pkg/repo/client.go\<close>): over a log of the requests, commits come after all uploads, and a batch without an
    error has committed every codebase.

  \<^bold>\<open>The set of clusters.\<close>
  \<^item> \<open>Mesh_Config\<close> (\<open>pkg/config\<close>): the configuration in its ConfigMap, its listeners and the configuration of a connector; what is
    written is read back.
  \<^item> \<open>Event_Broker\<close> (\<open>pkg/event\<close>, the remote cache), \<open>Cluster_Connector\<close> (\<open>remote.go\<close>, \<open>local.go\<close>): the imports of a cluster have
    one endpoint per port and exporting cluster, with retries and withdrawals in any number.
  \<^item> \<open>Connector_Run\<close>: \<open>Run\<close> of both connectors as a program that one goroutine executes while informers synchronise and the stop channel
    may be closed. Ingresses are read only after everything they depend on, and \<open>Run\<close> returns only the error it meets at its start.
  \<^item> \<open>Cluster_Controller\<close>: the life cycle of the connectors as a reachability relation, and the decision on exports.
  \<^item> \<open>Federation\<close>: cache, broker, controller and connectors together; admissible exports reach every cluster.
  \<^item> \<open>Service_Export\<close>: the condition \<open>Valid\<close> is true exactly for Services that can be exported.

  \<^bold>\<open>Admission, certificates and the other controllers.\<close>
  \<^item> \<open>Admission\<close> (\<open>pkg/admission\<close>, \<open>validator.go\<close>, \<open>defaulter.go\<close>, \<open>cmd/manager/webhooks.go\<close>): every announced webhook is served by the
    handler of its kind, and the configurations at the API server are the current ones.
  \<^item> \<open>Webhooks\<close> (\<open>pkg/webhooks\<close>): all defaulters and validators, through the locales \<open>stable_defaulter\<close> and \<open>guarded_store\<close>.
    Defaulting is stable, and what is admitted keeps the invariants the controllers rely on.
  \<^item> \<open>Certificates\<close> (\<open>pkg/certificate\<close>): Archon, cert-manager and the choice between them, through the locale \<open>cert_manager\<close>. Replicas
    share one root CA under interference, issued certificates verify and are found again, and a request is deleted exactly if
    its certificate is issued.
  \<^item> \<open>Namespaced_Ingress\<close>: the reconciler and the application of a chart, complete or tried again.
  \<^item> \<open>Service_LB\<close>: both reconcilers; the status of a Service has the addresses of the nodes that run a ready pod for it.
  \<^item> \<open>Worker_Pool\<close>: jobs run once and in order, queues drain, and the 64-bit index of a worker is in range.

  \<^bold>\<open>The commands.\<close>
  \<^item> \<open>Repo_Init\<close> (\<open>cmd/manager/repo.go\<close>, \<open>http.go\<close>, \<open>tls.go\<close>): directories are uploaded as they are, over a tree of files with
    \<open>filepath.Walk\<close>, and the configuration file of the ingress codebase is edited.
  \<^item> \<open>Startup\<close> (\<open>cmd/manager/main.go\<close>, \<open>reconcilers.go\<close>, \<open>eventhandlers.go\<close>): the steps of \<open>main\<close> in their order, each of which may end the
    process. When they have succeeded, the repository has the scripts and the settings of the stored configuration.
  \<^item> \<open>Pipy\<close> (\<open>cmd/ingress-pipy/main.go\<close>): the codebase and the threads of Pipy; the codebase descends from the one the manager has uploaded.
  \<^item> \<open>Cli\<close> (\<open>cli/cmd\<close>): installation and removal; nothing is removed without a confirmation.

  Some lemmas prove behaviour that the sources do not intend, such as panics on nil pointers, entries that stay after a change of
  type, or requests that are left behind; their text says so.

  \<^bold>\<open>Loops and bounds.\<close> Loops over slices and maps are structural recursions or folds, so they end. Retries of a connector
  (\<open>attempts\<close>) and polls of cert-manager and of the repository (\<open>PollImmediate\<close>) take their number as an argument, because it depends on a
  timer; the theorems hold for every number, and with the intervals and timeouts of the code it is at most sixty-one for the polls.
  Endless loops (\<open>SyncLoop\<close>, the processors of the broker, the workers) are step relations: a property holds in every
  reachable state, and \<open>workers_drain_queues\<close> counts the steps to an empty queue. Goroutines are separate steps, so that
  interleavings are sequences of steps; a step is atomic, which the mutexes of the code provide where it has them.

  \<^bold>\<open>Not modelled.\<close> The parsing of flags and environment variables, the probe server of \<open>cmd/ingress-pipy\<close> beyond the call that starts it, and
  \<open>cmd/proxy-init\<close>, whose \<open>main\<close> only parses flags and leaves the rest commented out. The construction of API clients and informers, the registration of
  watches with controller-runtime and signal handlers: they only call libraries. The reconcilers of ServiceImports and of the gateway API, which change nothing, and the informer
  controllers for ConfigMaps and the gateway API, which nothing constructs. \<open>pkg/util/tls/repo.go\<close>, which nothing calls.
  Generated clients and deep copies. Time enters only as a value that is read, so delays and timeouts are not
  measured, and memory is not shared except where the code depends on it (the cached ConfigMap of \<open>UpdateConfig\<close>).
\<close>

end
